(* ===== verification/Prelude.thy ===== *)
theory Prelude
  imports Main "HOL-Library.Word" "HOL-Library.Multiset"
begin

unbundle bit_operations_syntax

text \<open>
  Shared vocabulary of the DART tasking model: how a C abort (a failed
  \<open>DART_ASSERT\<close> or a NULL dereference) is represented, optional values standing
  for nullable C pointers, list helpers used by the queue and free-list models,
  facts on rounding machine words up to a power of two,
  and the collections of rewrite rules the component theories extend.
\<close>

named_theorems model_simps "unfolding rules of the model's helper operations"
named_theorems frame_simps "rules saying that a heap update outside a structure leaves it unchanged"

section \<open>Aborts\<close>

text \<open>
  The runtime treats a violated internal invariant as fatal: \<open>DART_ASSERT\<close> and
  \<open>DART_ASSERT_MSG\<close> print a diagnostic and abort the process, and a NULL
  dereference crashes it; a dereference of a pointer that does not point to a live
  object (freed, never allocated, uninitialised) is undefined behaviour and is treated as
  an abort too. A C function that can abort is modelled with the result type
  \<open>abort + 'a\<close>; \<open>Inl\<close> is the abort.
\<close>

datatype abort = Assertion_failure | Null_dereference | Invalid_pointer

type_synonym 'a res = "abort + 'a"

text \<open>\<open>size_t\<close> and pointers on the 64-bit targets the runtime is built for.\<close>

type_synonym size_t = "64 word"

text \<open>The error codes of \<open>dart_ret_t\<close> the runtime returns (\<open>dart_types.h\<close>).\<close>

datatype dart_ret_t = DART_OK | DART_ERR_INVAL | DART_ERR_AGAIN | DART_ERR_OTHER

definition sbind :: "'a res \<Rightarrow> ('a \<Rightarrow> 'b res) \<Rightarrow> 'b res" where
  "sbind m f = (case m of Inl e \<Rightarrow> Inl e | Inr x \<Rightarrow> f x)"

definition dart_assert :: "bool \<Rightarrow> unit res" where
  "dart_assert b = (if b then Inr () else Inl Assertion_failure)"

text \<open>
  A C pointer that may be NULL is a \<open>'t option\<close>; NULL is \<open>None\<close>. The first and
  last element of a list, as nullable pointers:
\<close>

definition hd_opt :: "'a list \<Rightarrow> 'a option" where
  "hd_opt xs = (case xs of [] \<Rightarrow> None | x # _ \<Rightarrow> Some x)"

definition last_opt :: "'a list \<Rightarrow> 'a option" where
  "last_opt xs = (if xs = [] then None else Some (last xs))"

text \<open>The address held by a nullable pointer to memory; NULL is address 0.\<close>

definition ptr_val :: "nat option \<Rightarrow> nat" where
  "ptr_val p = (case p of None \<Rightarrow> 0 | Some a \<Rightarrow> a)"

text \<open>Insertion of an element behind the first \<open>n\<close> elements of a list.\<close>

definition insert_at :: "nat \<Rightarrow> 'a \<Rightarrow> 'a list \<Rightarrow> 'a list" where
  "insert_at n x xs = take n xs @ x # drop n xs"

section \<open>Lemmas on aborts\<close>

lemma sbind_Inr [simp]: "sbind (Inr x) f = f x"
  by (simp add: sbind_def)

lemma sbind_Inl [simp]: "sbind (Inl e) f = Inl e"
  by (simp add: sbind_def)

lemma sbind_eq_Inr [simp]:
  "sbind m f = Inr y \<longleftrightarrow> (\<exists>x. m = Inr x \<and> f x = Inr y)"
  by (cases m) (simp_all add: sbind_def)

lemma dart_assert_simps [simp]:
  "dart_assert True = Inr ()" "dart_assert False = Inl Assertion_failure"
  by (simp_all add: dart_assert_def)

section \<open>Lemmas on nullable pointers and lists\<close>

lemma hd_opt_simps [simp]: "hd_opt [] = None" "hd_opt (x # xs) = Some x"
  by (simp_all add: hd_opt_def)

lemma last_opt_simps [simp]:
  "last_opt [] = None" "last_opt (xs @ [x]) = Some x" "last_opt [x] = Some x"
  "last_opt (x # y # ys) = last_opt (y # ys)"
  by (simp_all add: last_opt_def)

lemma hd_opt_ex_Some [simp]: "(\<exists>y. hd_opt xs = Some y) \<longleftrightarrow> xs \<noteq> []"
  by (cases xs) simp_all

lemma last_opt_ex_Some [simp]: "(\<exists>y. last_opt xs = Some y) \<longleftrightarrow> xs \<noteq> []"
  by (simp add: last_opt_def)

lemma hd_opt_None [simp]: "hd_opt xs = None \<longleftrightarrow> xs = []"
  by (cases xs) simp_all

lemma last_opt_None [simp]: "last_opt xs = None \<longleftrightarrow> xs = []"
  by (simp add: last_opt_def)

lemma hd_opt_append [simp]: "hd_opt (xs @ ys) = (if xs = [] then hd_opt ys else hd_opt xs)"
  by (cases xs) simp_all

lemma last_opt_append [simp]: "last_opt (xs @ ys) = (if ys = [] then last_opt xs else last_opt ys)"
  by (simp add: last_opt_def)

lemma last_opt_Some_in: "last_opt xs = Some x \<Longrightarrow> x \<in> set xs"
  by (auto simp: last_opt_def split: if_splits)

lemma hd_opt_Some_in: "hd_opt xs = Some x \<Longrightarrow> x \<in> set xs"
  by (cases xs) auto

lemma insert_at_0 [simp]: "insert_at 0 x xs = x # xs"
  by (simp add: insert_at_def)

lemma insert_at_beyond [simp]: "length xs \<le> n \<Longrightarrow> insert_at n x xs = xs @ [x]"
  by (simp add: insert_at_def)

lemma insert_at_Cons_Suc [simp]: "insert_at (Suc n) x (y # ys) = y # insert_at n x ys"
  by (simp add: insert_at_def)

lemma set_take_drop: "set (take n xs) \<union> set (drop n xs) = set xs"
  by (metis append_take_drop_id set_append)

lemma mset_take_drop: "mset (take n xs) + mset (drop n xs) = mset xs"
  by (metis append_take_drop_id mset_append)

lemma set_insert_at [simp]: "set (insert_at n x xs) = insert x (set xs)"
  using set_take_drop [of n xs] by (auto simp: insert_at_def)

lemma mset_insert_at [simp]: "mset (insert_at n x xs) = add_mset x (mset xs)"
  using mset_take_drop [of n xs] by (simp add: insert_at_def)

lemma length_insert_at [simp]: "length (insert_at n x xs) = Suc (length xs)"
  by (simp add: insert_at_def)

lemma distinct_insert_at [simp]:
  "distinct (insert_at n x xs) \<longleftrightarrow> x \<notin> set xs \<and> distinct xs"
  using mset_eq_imp_distinct_iff [of "insert_at n x xs" "x # xs"] by simp

section \<open>Rounding words up to a power of two\<close>

text \<open>
  \<open>(w + mask) AND NOT mask\<close> with \<open>mask = 2^k - 1\<close> is the C idiom for rounding up to a
  multiple of \<open>2^k\<close>: exact when the addition does not wrap, and 0 when it does.
\<close>

lemma and_not_mask_eq: "(w::'a::len word) AND NOT (mask n) = w - take_bit n w"
proof -
  have "w AND NOT (mask n) = push_bit n (drop_bit n w)"
    by (rule bit_word_eqI) (auto simp: bit_simps)
  then show ?thesis using bits_ident [of n w] by (simp add: eq_diff_eq)
qed
lemma unat_take_bit: "unat (take_bit n (w::'a::len word)) = unat w mod 2 ^ n"
  by (metis take_bit_eq_mod unsigned_take_bit_eq)
lemma unat_and_not_mask: "unat ((w::'a::len word) AND NOT (mask n)) = unat w - unat w mod 2 ^ n"
  by (metis and_not_mask_eq take_bit_eq_mask unat_sub unat_take_bit word_and_le2)
lemma unat_mask_min: "unat (mask n :: 'a::len word) = mask (min LENGTH('a) n)"
  by (simp add: unat_eq_nat_uint uint_mask_eq nat_mask_eq) 
lemma unat_mask_less: "n < LENGTH('a) \<Longrightarrow> unat (mask n :: 'a::len word) = 2 ^ n - 1"
  by (simp only: unat_mask_min min_absorb2 less_imp_le mask_nat_def)

lemma round_up_mask_unat:
  assumes "k < LENGTH('a)" "unat (w::'a::len word) + 2 ^ k \<le> 2 ^ LENGTH('a)"
  shows "unat ((w + mask k) AND NOT (mask k)) = (unat w + (2 ^ k - 1)) div 2 ^ k * 2 ^ k"
proof -
  have "(0::nat) < 2 ^ k" by simp
  then have "unat w + unat (mask k :: 'a word) < 2 ^ LENGTH('a)"
    using assms(2) unat_mask_less [OF assms(1)] by linarith
  then have "unat (w + mask k) = unat w + (2 ^ k - 1)"
    using unat_mask_less [OF assms(1)] by (simp add: unat_plus_if')
  then show ?thesis
    by (simp add: unat_and_not_mask minus_mod_eq_div_mult)
qed

lemma round_up_mask_wraps:
  assumes "k < LENGTH('a)" "2 ^ LENGTH('a) < unat (w::'a::len word) + 2 ^ k"
  shows "(w + mask k) AND NOT (mask k) = 0"
proof -
  have "\<not> unat w + unat (mask k :: 'a word) < 2 ^ LENGTH('a)"
    using assms(2) unat_mask_less [OF assms(1)] by linarith
  then have "unat (w + mask k) = unat w + (2 ^ k - 1) - 2 ^ LENGTH('a)"
    using unat_mask_less [OF assms(1)] by (simp add: unat_plus_if')
  moreover have "unat w < 2 ^ LENGTH('a)" by simp
  moreover have "(0::nat) < 2 ^ k" by simp
  ultimately have "unat (w + mask k) < 2 ^ k" by arith
  then show ?thesis
    by (simp add: unat_and_not_mask flip: unat_eq_zero)
qed

lemma round_up_div_bounds:
  assumes "0 < (p::nat)"
  shows "p dvd (n + (p - 1)) div p * p \<and> n \<le> (n + (p - 1)) div p * p \<and> (n + (p - 1)) div p * p < n + p"
proof -
  have "(n + (p - 1)) mod p < p" using assms by simp
  moreover have "(n + (p - 1)) div p * p + (n + (p - 1)) mod p = n + (p - 1)"
    by (rule div_mult_mod_eq)
  ultimately show ?thesis using assms by (intro conjI) (simp, linarith, linarith)
qed

lemma unat_2p_less: "k < LENGTH('a) \<Longrightarrow> unat (2 ^ k :: 'a::len word) = 2 ^ k"
  by (simp add: of_nat_inverse)

lemma unat_add_exact: "unat (a::'a::len word) + unat b < 2 ^ LENGTH('a) \<Longrightarrow> unat (a + b) = unat a + unat b"
  by (simp add: unat_plus_if')

section \<open>Truncating a \<open>size_t\<close> to \<open>int32_t\<close> and back\<close>

text \<open>
  Passing a 64-bit size through an \<open>int32_t\<close> keeps its low 32 bits; storing the
  \<open>int32_t\<close> back into a \<open>size_t\<close> sign-extends it.
\<close>

lemma mod_shift_upper:
  assumes "2 ^ 31 \<le> (u::int)" "u < 2 ^ 32"
  shows "(u + 2 ^ 31) mod 2 ^ 32 = u - 2 ^ 31"
proof -
  have "(u + 2 ^ 31) mod 2 ^ 32 = ((u - 2 ^ 31) + 2 ^ 32) mod 2 ^ 32" by (simp add: algebra_simps)
  also have "\<dots> = (u - 2 ^ 31) mod 2 ^ 32" by (rule mod_add_self2)
  also have "\<dots> = u - 2 ^ 31" using assms by (simp add: mod_pos_pos_trivial)
  finally show ?thesis .
qed

lemma uint_ucast_32: "uint (ucast (w :: 64 word) :: 32 word) = int (unat w mod 2 ^ 32)"
proof -
  have "uint (ucast w :: 32 word) = uint w mod 2 ^ 32" by (simp add: unsigned_ucast_eq take_bit_eq_mod)
  moreover have "uint w = int (unat w)" by simp
  moreover have "int (unat w mod 2 ^ 32) = int (unat w) mod int (2 ^ 32)" by (rule of_nat_mod)
  moreover have "int (2 ^ 32 :: nat) = 2 ^ 32" by simp
  ultimately show ?thesis by (simp only:)
qed

lemma mod_neg_shift:
  assumes "- m \<le> (x::int)" "x < 0"
  shows "x mod m = x + m"
proof -
  have "x mod m = (x + m) mod m" by simp
  also have "\<dots> = x + m" by (rule mod_pos_pos_trivial) (use assms in linarith)+
  finally show ?thesis .
qed

lemma scast_32_64: "(scast (x::32 word) :: 64 word) = word_of_int (sint x)"
  by simp

lemma sint_ucast_32:
  fixes w :: "64 word"
  defines "u \<equiv> int (unat w mod 2 ^ 32)"
  shows "sint (ucast w :: 32 word) = (if u < 2 ^ 31 then u else u - 2 ^ 32)"
proof -
  have u: "uint (ucast w :: 32 word) = u" by (simp only: u_def uint_ucast_32)
  have r: "0 \<le> u" "u < 2 ^ 32" by (simp_all add: u_def)
  have "sint (ucast w :: 32 word) = (u + 2 ^ 31) mod 2 ^ 32 - 2 ^ 31"
    using sint_uint [of "ucast w :: 32 word"] u by (simp add: signed_take_bit_eq_take_bit_shift take_bit_eq_mod)
  moreover have "(u + 2 ^ 31) mod 2 ^ 32 = (if u < 2 ^ 31 then u + 2 ^ 31 else u - 2 ^ 31)"
    using r mod_shift_upper [of u] by (simp add: mod_pos_pos_trivial)
  ultimately show ?thesis by simp
qed

lemma unat_sext_32_64:
  fixes w :: "64 word"
  shows "unat (scast (ucast w :: 32 word) :: 64 word) =
     (if unat w mod 2 ^ 32 < 2 ^ 31 then unat w mod 2 ^ 32 else unat w mod 2 ^ 32 + (2 ^ 64 - 2 ^ 32))"
proof -
  define u where "u = int (unat w mod 2 ^ 32)"
  have r: "0 \<le> u" "u < 2 ^ 32" by (simp_all add: u_def)
  have "uint (scast (ucast w :: 32 word) :: 64 word) = (if u < 2 ^ 31 then u else u - 2 ^ 32) mod 2 ^ 64"
    unfolding scast_32_64 uint_word_of_int sint_ucast_32 [of w] u_def by simp
  also have "\<dots> = (if u < 2 ^ 31 then u else u + (2 ^ 64 - 2 ^ 32))"
    using r mod_neg_shift [of "2 ^ 64" "u - 2 ^ 32"] by (simp add: mod_pos_pos_trivial)
  finally have "nat (uint (scast (ucast w :: 32 word) :: 64 word)) = nat (if u < 2 ^ 31 then u else u + (2 ^ 64 - 2 ^ 32))"
    by simp
  then have "unat (scast (ucast w :: 32 word) :: 64 word) = nat (if u < 2 ^ 31 then u else u + (2 ^ 64 - 2 ^ 32))"
    by (simp only: unat_eq_nat_uint)
  then show ?thesis using r by (simp add: u_def nat_add_distrib)
qed

lemma sext_ucast_small: "unat (w :: 64 word) < 2 ^ 31 \<Longrightarrow> (scast (ucast w :: 32 word) :: 64 word) = w"
  by (rule word_unat_eq_iff [THEN iffD2]) (simp add: unat_sext_32_64)

end
