(* ===== verification/TaskQueue.thy ===== *)
theory TaskQueue
  imports Prelude
begin

text \<open>
  The task queues of \<open>dart_tasking_taskqueue.c\<close>: a \<open>struct task_deque\<close> is a
  doubly linked list threaded through the \<open>next\<close>/\<open>prev\<close> fields of the tasks, with
  \<open>head\<close> and \<open>tail\<close> pointers; a \<open>dart_taskqueue_t\<close> holds a high- and a
  low-priority deque. The link fields of all tasks form one heap (\<open>links\<close>), shared by
  every deque, so that an operation on one deque can be checked not to disturb another.
  Each deque operation is proved to implement a list operation on the abstract content
  (\<open>deque_inv\<close>), and not to abort under that invariant.
\<close>

section \<open>Data\<close>

text \<open>
  Task priorities are the \<open>int\<close> field \<open>task->prio\<close>; the values of the enum
  \<open>dart_task_prio_t\<close> come from the public header \<open>dart_tasking.h\<close>.
\<close>

definition DART_PRIO_PARENT :: int where "DART_PRIO_PARENT = -2"
definition DART_PRIO_INLINE :: int where "DART_PRIO_INLINE = -1"
definition DART_PRIO_LOW :: int where "DART_PRIO_LOW = 0"
definition DART_PRIO_DEFAULT :: int where "DART_PRIO_DEFAULT = 1"
definition DART_PRIO_HIGH :: int where "DART_PRIO_HIGH = 2"

text \<open>The link fields \<open>task->next\<close> and \<open>task->prev\<close> of every task.\<close>

record 't links =
  tnext :: "'t \<Rightarrow> 't option"
  tprev :: "'t \<Rightarrow> 't option"

record 't task_deque =
  head :: "'t option"
  tail :: "'t option"

record 't dart_taskqueue =
  lowprio :: "'t task_deque"
  highprio :: "'t task_deque"

definition empty_deque :: "'t task_deque" where
  "empty_deque = \<lparr>head = None, tail = None\<rparr>"

definition set_next :: "'t links \<Rightarrow> 't \<Rightarrow> 't option \<Rightarrow> 't links" where
  "set_next L t v = L\<lparr>tnext := (tnext L)(t := v)\<rparr>"

definition set_prev :: "'t links \<Rightarrow> 't \<Rightarrow> 't option \<Rightarrow> 't links" where
  "set_prev L t v = L\<lparr>tprev := (tprev L)(t := v)\<rparr>"

text \<open>\<open>task->prev = NULL; task->next = NULL;\<close>\<close>

definition unlink :: "'t links \<Rightarrow> 't \<Rightarrow> 't links" where
  "unlink L t = set_next (set_prev L t None) t None"

text \<open>The post-condition assertion shared by the deque operations.\<close>

definition deque_assert :: "'t task_deque \<Rightarrow> bool" where
  "deque_assert d \<longleftrightarrow> (head d \<noteq> None \<and> tail d \<noteq> None) \<or> (head d = None \<and> tail d = None)"

section \<open>Deque operations\<close>

text \<open>\<open>task_deque_push\<close>: prepend; the caller has cleared the task's links.\<close>

definition task_deque_push :: "'t links \<Rightarrow> 't task_deque \<Rightarrow> 't \<Rightarrow> ('t links \<times> 't task_deque) res" where
  "task_deque_push L d t =
     (let (L', d') =
        (case head d of
           None \<Rightarrow> (L, \<lparr>head = Some t, tail = Some t\<rparr>)
         | Some h \<Rightarrow> (set_prev (set_next L t (Some h)) h (Some t), d\<lparr>head := Some t\<rparr>))
      in sbind (dart_assert (head d' \<noteq> None \<and> tail d' \<noteq> None)) (\<lambda>_. Inr (L', d')))"

text \<open>\<open>task_deque_pushback\<close>: append; \<open>deque->tail->next\<close> dereferences the tail.\<close>

definition task_deque_pushback :: "'t links \<Rightarrow> 't task_deque \<Rightarrow> 't \<Rightarrow> ('t links \<times> 't task_deque) res" where
  "task_deque_pushback L d t =
     sbind
       (case head d of
          None \<Rightarrow> Inr (L, \<lparr>head = Some t, tail = Some t\<rparr>)
        | Some _ \<Rightarrow>
            (case tail d of
               None \<Rightarrow> Inl Null_dereference
             | Some tt \<Rightarrow> Inr (set_next (set_prev L t (Some tt)) tt (Some t), d\<lparr>tail := Some t\<rparr>)))
       (\<lambda>(L', d'). sbind (dart_assert (head d' \<noteq> None \<and> tail d' \<noteq> None)) (\<lambda>_. Inr (L', d')))"

text \<open>\<open>task_deque_pop\<close>: take the head; \<open>deque->head->prev\<close> dereferences the new head.\<close>

definition task_deque_pop :: "'t links \<Rightarrow> 't task_deque \<Rightarrow> ('t links \<times> 't task_deque \<times> 't option) res" where
  "task_deque_pop L d =
     sbind
       (case head d of
          None \<Rightarrow> Inr (L, d, None)
        | Some t \<Rightarrow>
            sbind (dart_assert (tail d \<noteq> None))
              (\<lambda>_. if head d = tail d then Inr (unlink L t, \<lparr>head = None, tail = None\<rparr>, Some t)
                   else (case tnext L t of
                           None \<Rightarrow> Inl Null_dereference
                         | Some h \<Rightarrow> Inr (unlink (set_prev L h None) t, d\<lparr>head := Some h\<rparr>, Some t))))
       (\<lambda>(L', d', r). sbind (dart_assert (deque_assert d')) (\<lambda>_. Inr (L', d', r)))"

text \<open>\<open>task_deque_popback\<close>: take the tail (used by stealing threads).\<close>

definition task_deque_popback :: "'t links \<Rightarrow> 't task_deque \<Rightarrow> ('t links \<times> 't task_deque \<times> 't option) res" where
  "task_deque_popback L d =
     (case tail d of
        None \<Rightarrow> Inr (L, d, None)
      | Some t \<Rightarrow>
          sbind (dart_assert (head d \<noteq> None))
            (\<lambda>_. case tprev L t of
                   None \<Rightarrow> Inr (unlink L t, \<lparr>head = None, tail = None\<rparr>, Some t)
                 | Some p \<Rightarrow> Inr (unlink (set_next L p None) t, d\<lparr>tail := Some p\<rparr>, Some t)))"

text \<open>
  \<open>task_deque_insert\<close> first walks \<open>pos\<close> links from the head
  (\<open>while (tmp != NULL && count++ < pos) tmp = tmp->next;\<close>); the walk is
  bounded by \<open>pos - count\<close>. The counters are \<open>unsigned int\<close> in C; since
  \<open>count \<le> pos\<close> throughout, they are modelled as \<open>nat\<close>.
\<close>

function task_deque_insert_walk :: "'t links \<Rightarrow> 't option \<Rightarrow> nat \<Rightarrow> nat \<Rightarrow> 't option" where
  "task_deque_insert_walk L tmp cnt pos =
     (case tmp of
        None \<Rightarrow> None
      | Some x \<Rightarrow> if cnt < pos then task_deque_insert_walk L (tnext L x) (Suc cnt) pos else Some x)"
  by pat_completeness auto
termination
  by (relation "measure (\<lambda>(L, tmp, cnt, pos). pos - cnt)") auto

definition task_deque_insert ::
  "'t links \<Rightarrow> 't task_deque \<Rightarrow> 't \<Rightarrow> nat \<Rightarrow> ('t links \<times> 't task_deque) res" where
  "task_deque_insert L d t pos =
     (if pos = 0 \<or> head d = None then task_deque_push L d t
      else
        (case task_deque_insert_walk L (head d) 0 pos of
           None \<Rightarrow> task_deque_pushback L d t
         | Some tmp \<Rightarrow>
             (case tnext L tmp of
                None \<Rightarrow> task_deque_pushback L d t
              | Some n \<Rightarrow>
                  (let L1 = set_next (unlink L t) t (Some n);
                       L2 = set_prev L1 n (Some t);
                       L3 = set_prev L2 t (Some tmp);
                       L4 = set_next L3 tmp (Some t)
                   in sbind (dart_assert (head d \<noteq> None \<and> tail d \<noteq> None)) (\<lambda>_. Inr (L4, d))))))"

text \<open>\<open>task_deque_move\<close>: splice the whole of \<open>src\<close> in front of \<open>dst\<close>.\<close>

definition task_deque_move ::
  "'t links \<Rightarrow> 't task_deque \<Rightarrow> 't task_deque \<Rightarrow> 't links \<times> 't task_deque \<times> 't task_deque" where
  "task_deque_move L dst src =
     (case (head src, tail src) of
        (Some sh, Some st) \<Rightarrow>
          (case head dst of
             Some dh \<Rightarrow> (set_prev (set_next L st (Some dh)) dh (Some st), dst\<lparr>head := Some sh\<rparr>, empty_deque)
           | None \<Rightarrow> (L, \<lparr>head = Some sh, tail = Some st\<rparr>, empty_deque))
      | _ \<Rightarrow> (L, dst, src))"

text \<open>
  \<open>task_deque_filter_runnable\<close> (defined in the source but never called). Its first
  loop never advances \<open>task\<close>: the loop variable stays the old head, so once the head
  is not runnable the loop cannot stop. Both loops are partial functions; \<open>None\<close> is
  non-termination.
\<close>

partial_function (option) filter_runnable_head_loop ::
  "('t \<Rightarrow> bool) \<Rightarrow> 't links \<Rightarrow> 't task_deque \<Rightarrow> 't option \<Rightarrow> ('t links \<times> 't task_deque) option" where
  "filter_runnable_head_loop runnable L d task =
     (case task of
        None \<Rightarrow> Some (L, d)
      | Some x \<Rightarrow>
          if runnable x then Some (L, d)
          else
            (let d' = d\<lparr>head := tnext L x\<rparr>;
                 L' = (case tnext L x of None \<Rightarrow> L | Some n \<Rightarrow> set_prev L n None);
                 L'' = set_next L' x None
             in filter_runnable_head_loop runnable L'' d' task))"

partial_function (option) filter_runnable_rest_loop ::
  "('t \<Rightarrow> bool) \<Rightarrow> 't links \<Rightarrow> 't option \<Rightarrow> 't links option" where
  "filter_runnable_rest_loop runnable L task =
     (case task of
        None \<Rightarrow> Some L
      | Some x \<Rightarrow>
          (let next = tnext L x;
               L1 = (if runnable x then L
                     else (let La = (case tprev L x of None \<Rightarrow> L | Some p \<Rightarrow> set_next L p (tnext L x))
                           in (case tnext La x of None \<Rightarrow> La | Some n \<Rightarrow> set_prev La n (tprev La x))))
           in filter_runnable_rest_loop runnable (unlink L1 x) next))"

definition task_deque_filter_runnable ::
  "('t \<Rightarrow> bool) \<Rightarrow> 't links \<Rightarrow> 't task_deque \<Rightarrow> ('t links \<times> 't task_deque) option" where
  "task_deque_filter_runnable runnable L d =
     (case filter_runnable_head_loop runnable L d (head d) of
        None \<Rightarrow> None
      | Some (L1, d1) \<Rightarrow> map_option (\<lambda>L2. (L2, d1)) (filter_runnable_rest_loop runnable L1 (head d1)))"

section \<open>Queue operations\<close>

text \<open>
  The public operations lock \<open>tq->mutex\<close> around their \<open>_unsafe\<close> variant; in this
  sequential model the lock is invisible and one definition covers both. A task goes to
  the high-priority deque iff \<open>task->prio == DART_PRIO_HIGH\<close>.
\<close>

definition dart_tasking_taskqueue_init :: "'t dart_taskqueue" where
  "dart_tasking_taskqueue_init = \<lparr>lowprio = empty_deque, highprio = empty_deque\<rparr>"

definition dart_tasking_taskqueue_push ::
  "('t \<Rightarrow> int) \<Rightarrow> 't links \<Rightarrow> 't dart_taskqueue \<Rightarrow> 't \<Rightarrow> ('t links \<times> 't dart_taskqueue) res" where
  "dart_tasking_taskqueue_push prio L tq t =
     sbind (dart_assert (Some t \<noteq> head (highprio tq) \<and> Some t \<noteq> head (lowprio tq)))
       (\<lambda>_. if prio t = DART_PRIO_HIGH
            then sbind (task_deque_push (unlink L t) (highprio tq) t) (\<lambda>(L', d'). Inr (L', tq\<lparr>highprio := d'\<rparr>))
            else sbind (task_deque_push (unlink L t) (lowprio tq) t) (\<lambda>(L', d'). Inr (L', tq\<lparr>lowprio := d'\<rparr>)))"

definition dart_tasking_taskqueue_pushback ::
  "('t \<Rightarrow> int) \<Rightarrow> 't links \<Rightarrow> 't dart_taskqueue \<Rightarrow> 't \<Rightarrow> ('t links \<times> 't dart_taskqueue) res" where
  "dart_tasking_taskqueue_pushback prio L tq t =
     (if prio t = DART_PRIO_HIGH
      then sbind (task_deque_pushback (unlink L t) (highprio tq) t) (\<lambda>(L', d'). Inr (L', tq\<lparr>highprio := d'\<rparr>))
      else sbind (task_deque_pushback (unlink L t) (lowprio tq) t) (\<lambda>(L', d'). Inr (L', tq\<lparr>lowprio := d'\<rparr>)))"

definition dart_tasking_taskqueue_insert ::
  "('t \<Rightarrow> int) \<Rightarrow> 't links \<Rightarrow> 't dart_taskqueue \<Rightarrow> 't \<Rightarrow> nat \<Rightarrow> ('t links \<times> 't dart_taskqueue) res" where
  "dart_tasking_taskqueue_insert prio L tq t pos =
     (if prio t = DART_PRIO_HIGH
      then sbind (task_deque_insert (unlink L t) (highprio tq) t pos) (\<lambda>(L', d'). Inr (L', tq\<lparr>highprio := d'\<rparr>))
      else sbind (task_deque_insert (unlink L t) (lowprio tq) t pos) (\<lambda>(L', d'). Inr (L', tq\<lparr>lowprio := d'\<rparr>)))"

definition dart_tasking_taskqueue_pop ::
  "'t links \<Rightarrow> 't dart_taskqueue \<Rightarrow> ('t links \<times> 't dart_taskqueue \<times> 't option) res" where
  "dart_tasking_taskqueue_pop L tq =
     sbind (task_deque_pop L (highprio tq))
       (\<lambda>(L1, dh, r). case r of
           Some x \<Rightarrow> Inr (L1, tq\<lparr>highprio := dh\<rparr>, Some x)
         | None \<Rightarrow> sbind (task_deque_pop L1 (lowprio tq))
                     (\<lambda>(L2, dl, r'). Inr (L2, tq\<lparr>highprio := dh, lowprio := dl\<rparr>, r')))"

definition dart_tasking_taskqueue_popback ::
  "'t links \<Rightarrow> 't dart_taskqueue \<Rightarrow> ('t links \<times> 't dart_taskqueue \<times> 't option) res" where
  "dart_tasking_taskqueue_popback L tq =
     sbind (task_deque_popback L (highprio tq))
       (\<lambda>(L1, dh, r). case r of
           Some x \<Rightarrow> Inr (L1, tq\<lparr>highprio := dh\<rparr>, Some x)
         | None \<Rightarrow> sbind (task_deque_popback L1 (lowprio tq))
                     (\<lambda>(L2, dl, r'). Inr (L2, tq\<lparr>highprio := dh, lowprio := dl\<rparr>, r')))"

text \<open>
  \<open>dart_tasking_taskqueue_remove\<close>: unlink a task from its neighbours
  (\<open>task_unlink_neighbours\<close>), then fix the head and tail of whichever deque
  it headed or ended.
\<close>

definition task_unlink_neighbours :: "'t links \<Rightarrow> 't \<Rightarrow> 't links" where
  "task_unlink_neighbours L t =
     (let p = tprev L t; n = tnext L t;
          L1 = (case p of None \<Rightarrow> L | Some pp \<Rightarrow> set_next L pp n);
          L2 = (case n of None \<Rightarrow> L1 | Some nn \<Rightarrow> set_prev L1 nn p)
      in unlink L2 t)"

definition dart_tasking_taskqueue_remove ::
  "'t links \<Rightarrow> 't dart_taskqueue \<Rightarrow> 't \<Rightarrow> 't links \<times> 't dart_taskqueue" where
  "dart_tasking_taskqueue_remove L tq t =
     (let p = tprev L t; n = tnext L t;
          tq1 = (if Some t = head (highprio tq) then tq\<lparr>highprio := (highprio tq)\<lparr>head := n\<rparr>\<rparr>
                 else if Some t = head (lowprio tq) then tq\<lparr>lowprio := (lowprio tq)\<lparr>head := n\<rparr>\<rparr>
                 else tq);
          tq2 = (if Some t = tail (highprio tq1) then tq1\<lparr>highprio := (highprio tq1)\<lparr>tail := p\<rparr>\<rparr>
                 else if Some t = tail (lowprio tq1) then tq1\<lparr>lowprio := (lowprio tq1)\<lparr>tail := p\<rparr>\<rparr>
                 else tq1)
      in (task_unlink_neighbours L t, tq2))"

definition dart_tasking_taskqueue_move ::
  "'t links \<Rightarrow> 't dart_taskqueue \<Rightarrow> 't dart_taskqueue \<Rightarrow> 't links \<times> 't dart_taskqueue \<times> 't dart_taskqueue" where
  "dart_tasking_taskqueue_move L dst src =
     (let (L1, dh, sh) = task_deque_move L (highprio dst) (highprio src);
          (L2, dl, sl) = task_deque_move L1 (lowprio dst) (lowprio src)
      in (L2, \<lparr>lowprio = dl, highprio = dh\<rparr>, \<lparr>lowprio = sl, highprio = sh\<rparr>))"

section \<open>The list abstraction\<close>

text \<open>
  \<open>dseg L p xs n\<close>: the tasks \<open>xs\<close> form a doubly linked segment whose first element
  points back to \<open>p\<close> and whose last element points forward to \<open>n\<close>.
\<close>

definition first_or :: "'t list \<Rightarrow> 't option \<Rightarrow> 't option" where
  "first_or xs n = (case xs of [] \<Rightarrow> n | y # _ \<Rightarrow> Some y)"

definition last_or :: "'t list \<Rightarrow> 't option \<Rightarrow> 't option" where
  "last_or xs p = (if xs = [] then p else Some (last xs))"

fun dseg :: "'t links \<Rightarrow> 't option \<Rightarrow> 't list \<Rightarrow> 't option \<Rightarrow> bool" where
  "dseg L p [] n = True"
| "dseg L p (x # xs) n = (tprev L x = p \<and> tnext L x = first_or xs n \<and> dseg L (Some x) xs n)"

definition deque_inv :: "'t links \<Rightarrow> 't task_deque \<Rightarrow> 't list \<Rightarrow> bool" where
  "deque_inv L d xs \<longleftrightarrow>
     distinct xs \<and> head d = hd_opt xs \<and> tail d = last_opt xs \<and> dseg L None xs None"

definition tq_inv :: "'t links \<Rightarrow> 't dart_taskqueue \<Rightarrow> 't list \<times> 't list \<Rightarrow> bool" where
  "tq_inv L tq q \<longleftrightarrow>
     deque_inv L (highprio tq) (fst q) \<and> deque_inv L (lowprio tq) (snd q) \<and> set (fst q) \<inter> set (snd q) = {}"

text \<open>
  The abstract queue: the high- and the low-priority content as lists, head first, and
  what each public operation does to it.
\<close>

definition tq_push_spec :: "('t \<Rightarrow> int) \<Rightarrow> 't \<Rightarrow> 't list \<times> 't list \<Rightarrow> 't list \<times> 't list" where
  "tq_push_spec prio t q = (if prio t = DART_PRIO_HIGH then (t # fst q, snd q) else (fst q, t # snd q))"

definition tq_pushback_spec :: "('t \<Rightarrow> int) \<Rightarrow> 't \<Rightarrow> 't list \<times> 't list \<Rightarrow> 't list \<times> 't list" where
  "tq_pushback_spec prio t q = (if prio t = DART_PRIO_HIGH then (fst q @ [t], snd q) else (fst q, snd q @ [t]))"

definition deque_insert_spec :: "nat \<Rightarrow> 't \<Rightarrow> 't list \<Rightarrow> 't list" where
  "deque_insert_spec pos t xs = (if pos = 0 then t # xs else insert_at (Suc pos) t xs)"

definition tq_insert_spec :: "('t \<Rightarrow> int) \<Rightarrow> 't \<Rightarrow> nat \<Rightarrow> 't list \<times> 't list \<Rightarrow> 't list \<times> 't list" where
  "tq_insert_spec prio t pos q =
     (if prio t = DART_PRIO_HIGH then (deque_insert_spec pos t (fst q), snd q)
      else (fst q, deque_insert_spec pos t (snd q)))"

definition tq_pop_spec :: "'t list \<times> 't list \<Rightarrow> 't option \<times> ('t list \<times> 't list)" where
  "tq_pop_spec q = (case fst q of x # hs \<Rightarrow> (Some x, (hs, snd q)) | [] \<Rightarrow> (hd_opt (snd q), ([], tl (snd q))))"

definition tq_popback_spec :: "'t list \<times> 't list \<Rightarrow> 't option \<times> ('t list \<times> 't list)" where
  "tq_popback_spec q =
     (if fst q \<noteq> [] then (last_opt (fst q), (butlast (fst q), snd q))
      else (last_opt (snd q), ([], butlast (snd q))))"

section \<open>Basic lemmas\<close>

declare task_deque_insert_walk.simps [simp del]

lemmas prio_defs = DART_PRIO_PARENT_def DART_PRIO_INLINE_def DART_PRIO_LOW_def
  DART_PRIO_DEFAULT_def DART_PRIO_HIGH_def

lemma links_upd_simps [simp, model_simps]:
  "tnext (set_next L t v) = (tnext L)(t := v)" "tprev (set_next L t v) = tprev L"
  "tnext (set_prev L t v) = tnext L" "tprev (set_prev L t v) = (tprev L)(t := v)"
  "tnext (unlink L t) = (tnext L)(t := None)" "tprev (unlink L t) = (tprev L)(t := None)"
  by (simp_all add: set_next_def set_prev_def unlink_def)

lemma empty_deque_simps [simp]: "head empty_deque = None" "tail empty_deque = None"
  by (simp_all add: empty_deque_def)

lemma first_or_simps [simp]:
  "first_or [] n = n" "first_or (y # ys) n = Some y" "first_or (xs @ ys) n = first_or xs (first_or ys n)"
  by (simp_all add: first_or_def split: list.splits)

lemma last_or_simps [simp]:
  "last_or [] p = p" "last_or (xs @ [y]) p = Some y" "last_or (x # xs) p = last_or xs (Some x)"
  by (simp_all add: last_or_def)

lemma dseg_append [simp]:
  "dseg L p (xs @ ys) n \<longleftrightarrow> dseg L p xs (first_or ys n) \<and> dseg L (last_or xs p) ys n"
  by (induction xs arbitrary: p) auto

text \<open>Two link heaps that agree outside a set of tasks.\<close>

definition same_outside :: "'t links \<Rightarrow> 't links \<Rightarrow> 't set \<Rightarrow> bool" where
  "same_outside L L' A \<longleftrightarrow> (\<forall>u. u \<notin> A \<longrightarrow> tnext L' u = tnext L u \<and> tprev L' u = tprev L u)"

lemma dseg_same_outside [frame_simps]:
  "same_outside L L' A \<Longrightarrow> set xs \<inter> A = {} \<Longrightarrow> dseg L' p xs n = dseg L p xs n"
  by (induction xs arbitrary: p) (auto simp: same_outside_def)

lemma dseg_set_next [simp, frame_simps]: "u \<notin> set xs \<Longrightarrow> dseg (set_next L u v) p xs n = dseg L p xs n"
  by (induction xs arbitrary: p) auto

lemma dseg_set_prev [simp, frame_simps]: "u \<notin> set xs \<Longrightarrow> dseg (set_prev L u v) p xs n = dseg L p xs n"
  by (induction xs arbitrary: p) auto

lemma dseg_unlink [simp, frame_simps]: "u \<notin> set xs \<Longrightarrow> dseg (unlink L u) p xs n = dseg L p xs n"
  by (simp add: unlink_def)

lemma same_outside_refl [simp]: "same_outside L L A"
  by (simp add: same_outside_def)

lemma same_outside_upd [simp]:
  "t \<in> A \<Longrightarrow> same_outside L L' A \<Longrightarrow> same_outside L (set_next L' t v) A"
  "t \<in> A \<Longrightarrow> same_outside L L' A \<Longrightarrow> same_outside L (set_prev L' t v) A"
  "t \<in> A \<Longrightarrow> same_outside L L' A \<Longrightarrow> same_outside L (unlink L' t) A"
  by (auto simp: same_outside_def)

lemma dseg_Cons_next: "dseg L p (x # xs) n \<Longrightarrow> tnext L x = first_or xs n"
  by simp

section \<open>Refinement of the deque operations\<close>

lemma distinct_hd_neq_last: "distinct (x # y # ys) \<Longrightarrow> x \<noteq> last (y # ys)"
  by (metis distinct.simps(2) last_in_set list.distinct(1))

lemma task_deque_push_refine:
  assumes "deque_inv L d xs" "t \<notin> set xs" "tnext L t = None" "tprev L t = None"
  shows "\<exists>L' d'. task_deque_push L d t = Inr (L', d') \<and> deque_inv L' d' (t # xs)
                \<and> same_outside L L' (insert t (set xs))"
  using assms by (cases xs) (auto simp: task_deque_push_def deque_inv_def last_opt_def)

lemma task_deque_pushback_refine:
  assumes "deque_inv L d xs" "t \<notin> set xs" "tnext L t = None" "tprev L t = None"
  shows "\<exists>L' d'. task_deque_pushback L d t = Inr (L', d') \<and> deque_inv L' d' (xs @ [t])
                \<and> same_outside L L' (insert t (set xs))"
proof (cases xs rule: rev_cases)
  case Nil
  with assms show ?thesis by (auto simp: task_deque_pushback_def deque_inv_def last_opt_def)
next
  case (snoc ys x)
  with assms show ?thesis
    by (cases ys) (auto simp: task_deque_pushback_def deque_inv_def last_opt_def)
qed

lemma task_deque_pop_refine:
  assumes "deque_inv L d xs"
  shows "\<exists>L' d'. task_deque_pop L d = Inr (L', d', hd_opt xs) \<and> deque_inv L' d' (tl xs)
                \<and> same_outside L L' (set xs)"
proof (cases xs)
  case Nil
  with assms show ?thesis by (auto simp: task_deque_pop_def deque_inv_def deque_assert_def last_opt_def)
next
  case (Cons t ys)
  show ?thesis
  proof (cases ys)
    case Nil
    with Cons assms show ?thesis by (auto simp: task_deque_pop_def deque_inv_def deque_assert_def last_opt_def)
  next
    case (Cons y zs)
    with \<open>xs = t # ys\<close> assms distinct_hd_neq_last [of t y zs] show ?thesis
      by (auto simp: task_deque_pop_def deque_inv_def deque_assert_def last_opt_def)
  qed
qed

lemma task_deque_popback_refine:
  assumes "deque_inv L d xs"
  shows "\<exists>L' d'. task_deque_popback L d = Inr (L', d', last_opt xs) \<and> deque_inv L' d' (butlast xs)
                \<and> same_outside L L' (set xs)"
proof (cases xs rule: rev_cases)
  case Nil
  with assms show ?thesis by (auto simp: task_deque_popback_def deque_inv_def butlast_append last_opt_def)
next
  case (snoc ys x)
  with assms show ?thesis
    by (cases ys rule: rev_cases) (auto simp: task_deque_popback_def deque_inv_def butlast_append last_opt_def)
qed

section \<open>Refinement of the queue operations\<close>

lemma insert_walk_dseg:
  "dseg L p xs None \<Longrightarrow> c \<le> pos \<Longrightarrow>
   task_deque_insert_walk L (hd_opt xs) c pos = (if pos - c < length xs then Some (xs ! (pos - c)) else None)"
proof (induction xs arbitrary: p c)
  case Nil
  then show ?case by (simp add: task_deque_insert_walk.simps)
next
  case (Cons x xs)
  show ?case
  proof (cases "c < pos")
    case True
    with Cons.prems have "task_deque_insert_walk L (hd_opt xs) (Suc c) pos =
        (if pos - Suc c < length xs then Some (xs ! (pos - Suc c)) else None)"
      by (intro Cons.IH [of "Some x"]) simp_all
    moreover from Cons.prems have "tnext L x = hd_opt xs" by (cases xs) simp_all
    moreover from True have "pos - c = Suc (pos - Suc c)" by simp
    ultimately show ?thesis using True
      by (simp add: task_deque_insert_walk.simps [of L "Some x"])
  next
    case False
    with Cons.prems show ?thesis by (simp add: task_deque_insert_walk.simps [of L "Some x"])
  qed
qed

lemma dseg_nth_next:
  "dseg L p xs n \<Longrightarrow> i < length xs \<Longrightarrow> tnext L (xs ! i) = (if Suc i < length xs then Some (xs ! Suc i) else n)"
proof (induction xs arbitrary: p i)
  case Nil
  then show ?case by simp
next
  case (Cons x xs)
  then show ?case by (cases i) (auto simp: first_or_def split: list.splits)
qed

lemma split_at_two: "Suc i < length xs \<Longrightarrow> xs = take i xs @ xs ! i # xs ! Suc i # drop (Suc (Suc i)) xs"
  by (metis Cons_nth_drop_Suc Suc_lessD append_take_drop_id)

lemma task_deque_insert_middle:
  assumes inv: "deque_inv L d xs" and t: "t \<notin> set xs" "tnext L t = None" "tprev L t = None"
    and pos: "0 < pos" "Suc pos < length xs"
  shows "\<exists>L'. task_deque_insert L d t pos = Inr (L', d) \<and> deque_inv L' d (insert_at (Suc pos) t xs)
              \<and> same_outside L L' (insert t (set xs))"
proof -
  define a where "a = take pos xs"
  define tmp where "tmp = xs ! pos"
  define n where "n = xs ! Suc pos"
  define b where "b = drop (Suc (Suc pos)) xs"
  have xs: "xs = a @ tmp # n # b"
    unfolding a_def tmp_def n_def b_def using pos(2) by (rule split_at_two)
  have la: "length a = pos" using pos(2) by (simp add: a_def)
  have ins: "insert_at (Suc pos) t (a @ tmp # n # b) = a @ tmp # t # n # b"
    using la by (simp add: insert_at_def)
  from inv have dseg: "dseg L None xs None" and dist: "distinct xs"
    by (simp_all add: deque_inv_def)
  from inv pos have hd: "head d = hd_opt xs" "tail d \<noteq> None"
    by (auto simp: deque_inv_def last_opt_def)
  have walk: "task_deque_insert_walk L (head d) 0 pos = Some tmp"
    using insert_walk_dseg [OF dseg, of 0 pos] pos(2) hd by (simp add: tmp_def)
  have nxt: "tnext L tmp = Some n"
    using dseg_nth_next [OF dseg, of pos] pos(2) by (simp add: tmp_def n_def)
  have hd_ne: "head d \<noteq> None" using hd pos(2) by (cases xs) auto
  from dist t(1) have notin: "tmp \<notin> set a" "n \<notin> set a" "t \<notin> set a" "tmp \<notin> set b" "n \<notin> set b"
    "t \<notin> set b" "tmp \<noteq> n" "t \<noteq> tmp" "t \<noteq> n"
    by (auto simp: xs)
  show ?thesis
    using inv t walk nxt hd_ne pos notin
    by (auto simp: task_deque_insert_def deque_inv_def xs ins same_outside_def last_opt_def)
qed

lemma task_deque_insert_refine:
  assumes inv: "deque_inv L d xs" and t: "t \<notin> set xs" "tnext L t = None" "tprev L t = None"
  shows "\<exists>L' d'. task_deque_insert L d t pos = Inr (L', d') \<and> deque_inv L' d' (deque_insert_spec pos t xs)
                \<and> same_outside L L' (insert t (set xs))"
proof (cases "pos = 0 \<or> xs = []")
  case True
  then have "task_deque_insert L d t pos = task_deque_push L d t"
    using inv by (auto simp: task_deque_insert_def deque_inv_def)
  with True task_deque_push_refine [OF inv t] show ?thesis
    by (auto simp: deque_insert_spec_def)
next
  case False
  then have pos: "0 < pos" and ne: "xs \<noteq> []" by auto
  from inv have dseg: "dseg L None xs None" and hd: "head d = hd_opt xs"
    by (simp_all add: deque_inv_def)
  have walk: "task_deque_insert_walk L (head d) 0 pos = (if pos < length xs then Some (xs ! pos) else None)"
    using insert_walk_dseg [OF dseg, of 0 pos] hd by simp
  show ?thesis
  proof (cases "Suc pos < length xs")
    case True
    with task_deque_insert_middle [OF inv t pos] pos show ?thesis
      by (auto simp: deque_insert_spec_def)
  next
    case False
    have push: "task_deque_insert L d t pos = task_deque_pushback L d t"
    proof (cases "pos < length xs")
      case True
      with False have "tnext L (xs ! pos) = None"
        using dseg_nth_next [OF dseg, of pos] by simp
      with True pos ne hd walk show ?thesis by (auto simp: task_deque_insert_def)
    next
      case False
      with pos ne hd walk show ?thesis by (auto simp: task_deque_insert_def)
    qed
    from False have "deque_insert_spec pos t xs = xs @ [t]"
      using pos by (simp add: deque_insert_spec_def)
    with push task_deque_pushback_refine [OF inv t] show ?thesis by simp
  qed
qed

lemma task_deque_move_refine:
  assumes dst: "deque_inv L dst ds" and src: "deque_inv L src ss" and disj: "set ds \<inter> set ss = {}"
  shows "\<exists>L' dst' src'. task_deque_move L dst src = (L', dst', src') \<and> deque_inv L' dst' (ss @ ds)
            \<and> deque_inv L' src' [] \<and> same_outside L L' (set ds \<union> set ss)"
proof (cases ss rule: rev_cases)
  case Nil
  with dst src show ?thesis by (auto simp: task_deque_move_def deque_inv_def)
next
  case (snoc ys st)
  show ?thesis
  proof (cases ds)
    case Nil
    with snoc dst src show ?thesis
      by (cases ys) (auto simp: task_deque_move_def deque_inv_def last_opt_def)
  next
    case (Cons dh ds')
    with snoc dst src disj show ?thesis
      by (cases ys) (auto simp: task_deque_move_def deque_inv_def last_opt_def same_outside_def)
  qed
qed

lemma deque_inv_same_outside:
  "same_outside L L' A \<Longrightarrow> set xs \<inter> A = {} \<Longrightarrow> deque_inv L' d xs = deque_inv L d xs"
  by (simp add: deque_inv_def dseg_same_outside)

lemma deque_inv_unlink [simp]: "t \<notin> set xs \<Longrightarrow> deque_inv (unlink L t) d xs = deque_inv L d xs"
  by (simp add: deque_inv_def)

lemma deque_inv_Nil [simp]: "deque_inv L d [] \<longleftrightarrow> head d = None \<and> tail d = None"
  by (simp add: deque_inv_def)

lemma deque_inv_head_notin: "deque_inv L d xs \<Longrightarrow> t \<notin> set xs \<Longrightarrow> Some t \<noteq> head d"
  by (cases xs) (auto simp: deque_inv_def)

lemma same_outside_trans:
  "same_outside L1 L2 A \<Longrightarrow> same_outside L2 L3 A \<Longrightarrow> same_outside L1 L3 A"
  by (simp add: same_outside_def)

lemma same_outside_mono: "same_outside L L' A \<Longrightarrow> A \<subseteq> B \<Longrightarrow> same_outside L L' B"
  by (auto simp: same_outside_def)

lemma same_outside_unlink_ins: "same_outside L (unlink L t) (insert t A)"
  by (simp add: same_outside_def)

lemma tq_inv_set_high:
  "deque_inv L (lowprio tq) ls \<Longrightarrow> deque_inv L' d' hs' \<Longrightarrow> same_outside L L' A \<Longrightarrow>
   set ls \<inter> A = {} \<Longrightarrow> set hs' \<inter> set ls = {} \<Longrightarrow> tq_inv L' (tq\<lparr>highprio := d'\<rparr>) (hs', ls)"
  by (simp add: tq_inv_def deque_inv_same_outside)

lemma tq_inv_set_low:
  "deque_inv L (highprio tq) hs \<Longrightarrow> deque_inv L' d' ls' \<Longrightarrow> same_outside L L' A \<Longrightarrow>
   set hs \<inter> A = {} \<Longrightarrow> set hs \<inter> set ls' = {} \<Longrightarrow> tq_inv L' (tq\<lparr>lowprio := d'\<rparr>) (hs, ls')"
  by (simp add: tq_inv_def deque_inv_same_outside)

lemma tq_inv_parts:
  assumes "tq_inv L tq (hs, ls)" "t \<notin> set hs \<union> set ls"
  shows "deque_inv (unlink L t) (highprio tq) hs" "deque_inv (unlink L t) (lowprio tq) ls"
    "deque_inv L (highprio tq) hs" "deque_inv L (lowprio tq) ls"
    "set hs \<inter> set ls = {}" "t \<notin> set hs" "t \<notin> set ls"
    "tnext (unlink L t) t = None" "tprev (unlink L t) t = None"
  using assms by (simp_all add: tq_inv_def)

lemma same_outside_unlink_comp:
  "same_outside (unlink L t) L' (insert t A) \<Longrightarrow> same_outside L L' (insert t A)"
  by (auto simp: same_outside_def)

text \<open>
  One deque operation that adds \<open>t\<close> to the list \<open>xs\<close> of a deque, run on the links
  with \<open>t\<close> unlinked, lifts to the queue: the other deque is not touched.
\<close>

lemma tq_add_high:
  assumes inv: "tq_inv L tq (hs, ls)" "t \<notin> set hs \<union> set ls"
    and op: "\<exists>L' d'. r = Inr (L', d') \<and> deque_inv L' d' hs' \<and> same_outside (unlink L t) L' (insert t (set hs))"
    and set: "set hs' = insert t (set hs)"
  shows "\<exists>L' tq'. sbind r (\<lambda>(L', d'). Inr (L', tq\<lparr>highprio := d'\<rparr>)) = Inr (L', tq') \<and> tq_inv L' tq' (hs', ls)
                 \<and> same_outside L L' (insert t (set hs \<union> set ls))"
proof -
  from op obtain L' d' where r: "r = Inr (L', d')" and i: "deque_inv L' d' hs'"
    and so: "same_outside (unlink L t) L' (insert t (set hs))" by blast
  note p = tq_inv_parts [OF inv]
  have "set ls \<inter> insert t (set hs) = {}" "set hs' \<inter> set ls = {}"
    using p(5,7) set by auto
  then have "tq_inv L' (tq\<lparr>highprio := d'\<rparr>) (hs', ls)"
    by (rule tq_inv_set_high [OF p(4) i same_outside_unlink_comp [OF so]])
  moreover have "same_outside L L' (insert t (set hs \<union> set ls))"
    using same_outside_unlink_comp [OF so] by (rule same_outside_mono) auto
  ultimately show ?thesis using r by simp
qed

lemma tq_add_low:
  assumes inv: "tq_inv L tq (hs, ls)" "t \<notin> set hs \<union> set ls"
    and op: "\<exists>L' d'. r = Inr (L', d') \<and> deque_inv L' d' ls' \<and> same_outside (unlink L t) L' (insert t (set ls))"
    and set: "set ls' = insert t (set ls)"
  shows "\<exists>L' tq'. sbind r (\<lambda>(L', d'). Inr (L', tq\<lparr>lowprio := d'\<rparr>)) = Inr (L', tq') \<and> tq_inv L' tq' (hs, ls')
                 \<and> same_outside L L' (insert t (set hs \<union> set ls))"
proof -
  from op obtain L' d' where r: "r = Inr (L', d')" and i: "deque_inv L' d' ls'"
    and so: "same_outside (unlink L t) L' (insert t (set ls))" by blast
  note p = tq_inv_parts [OF inv]
  have "set hs \<inter> insert t (set ls) = {}" "set hs \<inter> set ls' = {}"
    using p(5,6) set by auto
  then have "tq_inv L' (tq\<lparr>lowprio := d'\<rparr>) (hs, ls')"
    by (rule tq_inv_set_low [OF p(3) i same_outside_unlink_comp [OF so]])
  moreover have "same_outside L L' (insert t (set hs \<union> set ls))"
    using same_outside_unlink_comp [OF so] by (rule same_outside_mono) auto
  ultimately show ?thesis using r by simp
qed

lemma set_deque_insert_spec [simp]: "set (deque_insert_spec pos t xs) = insert t (set xs)"
  by (simp add: deque_insert_spec_def)

text \<open>
  The three adding operations with their frame: the links change only at the task and
  at the members of the queue. The scheduler's multi-queue invariant rests on these.
\<close>

lemma taskqueue_push_frame:
  assumes "tq_inv L tq (hs, ls)" "t \<notin> set hs \<union> set ls"
  shows "\<exists>L' tq'. dart_tasking_taskqueue_push prio L tq t = Inr (L', tq') \<and> tq_inv L' tq' (tq_push_spec prio t (hs, ls))
                 \<and> same_outside L L' (insert t (set hs \<union> set ls))"
proof -
  note p = tq_inv_parts [OF assms]
  have heads: "Some t \<noteq> head (highprio tq)" "Some t \<noteq> head (lowprio tq)"
    using p by (auto dest: deque_inv_head_notin)
  show ?thesis
    using tq_add_high [OF assms task_deque_push_refine [OF p(1) p(6) p(8) p(9)]]
      tq_add_low [OF assms task_deque_push_refine [OF p(2) p(7) p(8) p(9)]] heads
    by (simp add: dart_tasking_taskqueue_push_def tq_push_spec_def)
qed

lemma taskqueue_pushback_frame:
  assumes "tq_inv L tq (hs, ls)" "t \<notin> set hs \<union> set ls"
  shows "\<exists>L' tq'. dart_tasking_taskqueue_pushback prio L tq t = Inr (L', tq') \<and> tq_inv L' tq' (tq_pushback_spec prio t (hs, ls))
                 \<and> same_outside L L' (insert t (set hs \<union> set ls))"
proof -
  note p = tq_inv_parts [OF assms]
  show ?thesis
    using tq_add_high [OF assms task_deque_pushback_refine [OF p(1) p(6) p(8) p(9)]]
      tq_add_low [OF assms task_deque_pushback_refine [OF p(2) p(7) p(8) p(9)]]
    by (simp add: dart_tasking_taskqueue_pushback_def tq_pushback_spec_def)
qed

lemma taskqueue_insert_frame:
  assumes "tq_inv L tq (hs, ls)" "t \<notin> set hs \<union> set ls"
  shows "\<exists>L' tq'. dart_tasking_taskqueue_insert prio L tq t pos = Inr (L', tq') \<and> tq_inv L' tq' (tq_insert_spec prio t pos (hs, ls))
                 \<and> same_outside L L' (insert t (set hs \<union> set ls))"
proof -
  note p = tq_inv_parts [OF assms]
  show ?thesis
    using tq_add_high [OF assms task_deque_insert_refine [OF p(1) p(6) p(8) p(9)]]
      tq_add_low [OF assms task_deque_insert_refine [OF p(2) p(7) p(8) p(9)]]
    by (simp add: dart_tasking_taskqueue_insert_def tq_insert_spec_def)
qed

text \<open>C1: Pushing a task that is in neither deque onto a task queue (dart_tasking_taskqueue_push) never aborts, and prepends the task to the high-priority deque when its priority is DART_PRIO_HIGH and to the low-priority deque otherwise; the other deque and the linked-list invariant of both are preserved.\<close>

theorem dart_tasking_taskqueue_push_refine:
  assumes "tq_inv L tq (hs, ls)" "t \<notin> set hs \<union> set ls"
  shows "\<exists>L' tq'. dart_tasking_taskqueue_push prio L tq t = Inr (L', tq') \<and> tq_inv L' tq' (tq_push_spec prio t (hs, ls))"
  using taskqueue_push_frame [OF assms] by blast

theorem dart_tasking_taskqueue_push_witness:
  "tq_inv \<lparr>tnext = [(1::nat) \<mapsto> 2], tprev = [2 \<mapsto> 1]\<rparr>
     \<lparr>lowprio = \<lparr>head = Some 1, tail = Some 2\<rparr>, highprio = \<lparr>head = None, tail = None\<rparr>\<rparr> ([], [1, 2::nat])
   \<and> (3::nat) \<notin> set [] \<union> set [1, 2]
   \<and> (\<exists>L' tq'. dart_tasking_taskqueue_push (\<lambda>t. if t = 3 then DART_PRIO_HIGH else DART_PRIO_LOW)
          \<lparr>tnext = [(1::nat) \<mapsto> 2], tprev = [2 \<mapsto> 1]\<rparr>
          \<lparr>lowprio = \<lparr>head = Some 1, tail = Some 2\<rparr>, highprio = \<lparr>head = None, tail = None\<rparr>\<rparr> 3
        = Inr (L', tq') \<and> tq_inv L' tq' ([3], [1, 2]))"
proof -
  have i: "tq_inv \<lparr>tnext = [(1::nat) \<mapsto> 2], tprev = [2 \<mapsto> 1]\<rparr>
     \<lparr>lowprio = \<lparr>head = Some 1, tail = Some 2\<rparr>, highprio = \<lparr>head = None, tail = None\<rparr>\<rparr> ([], [1, 2::nat])"
    by (simp add: tq_inv_def deque_inv_def)
  have n: "(3::nat) \<notin> set [] \<union> set [1, 2]" by simp
  show ?thesis
    using dart_tasking_taskqueue_push_refine [OF i n, where prio = "\<lambda>t. if t = 3 then DART_PRIO_HIGH else DART_PRIO_LOW"] i n
    by (simp add: tq_push_spec_def)
qed

text \<open>C4: Appending a task (dart_tasking_taskqueue_pushback) never aborts and puts the task at the tail of the deque selected by its priority, preserving the other deque.\<close>

theorem dart_tasking_taskqueue_pushback_refine:
  assumes "tq_inv L tq (hs, ls)" "t \<notin> set hs \<union> set ls"
  shows "\<exists>L' tq'. dart_tasking_taskqueue_pushback prio L tq t = Inr (L', tq') \<and> tq_inv L' tq' (tq_pushback_spec prio t (hs, ls))"
  using taskqueue_pushback_frame [OF assms] by blast

theorem dart_tasking_taskqueue_pushback_witness:
  "tq_inv \<lparr>tnext = [(1::nat) \<mapsto> 2], tprev = [2 \<mapsto> 1]\<rparr>
     \<lparr>lowprio = \<lparr>head = Some 1, tail = Some 2\<rparr>, highprio = \<lparr>head = None, tail = None\<rparr>\<rparr> ([], [1, 2::nat])
   \<and> (3::nat) \<notin> set [] \<union> set [1, 2]
   \<and> (\<exists>L' tq'. dart_tasking_taskqueue_pushback (\<lambda>t. DART_PRIO_DEFAULT)
          \<lparr>tnext = [(1::nat) \<mapsto> 2], tprev = [2 \<mapsto> 1]\<rparr>
          \<lparr>lowprio = \<lparr>head = Some 1, tail = Some 2\<rparr>, highprio = \<lparr>head = None, tail = None\<rparr>\<rparr> 3
        = Inr (L', tq') \<and> tq_inv L' tq' ([], [1, 2, 3]))"
proof -
  have i: "tq_inv \<lparr>tnext = [(1::nat) \<mapsto> 2], tprev = [2 \<mapsto> 1]\<rparr>
     \<lparr>lowprio = \<lparr>head = Some 1, tail = Some 2\<rparr>, highprio = \<lparr>head = None, tail = None\<rparr>\<rparr> ([], [1, 2::nat])"
    by (simp add: tq_inv_def deque_inv_def)
  have n: "(3::nat) \<notin> set [] \<union> set [1, 2]" by simp
  show ?thesis
    using dart_tasking_taskqueue_pushback_refine [OF i n, where prio = "\<lambda>t. DART_PRIO_DEFAULT"] i n
    by (simp add: tq_pushback_spec_def prio_defs)
qed

text \<open>C3: Inserting a task at position pos (dart_tasking_taskqueue_insert, used by requeue_task for a positive yield delay) never aborts and puts the task at the head for pos = 0 and otherwise behind the first pos + 1 tasks of its deque (at the tail if the deque is shorter): position pos + 1, not pos.\<close>

theorem dart_tasking_taskqueue_insert_refine:
  assumes "tq_inv L tq (hs, ls)" "t \<notin> set hs \<union> set ls"
  shows "\<exists>L' tq'. dart_tasking_taskqueue_insert prio L tq t pos = Inr (L', tq') \<and> tq_inv L' tq' (tq_insert_spec prio t pos (hs, ls))"
  using taskqueue_insert_frame [OF assms] by blast

theorem dart_tasking_taskqueue_insert_witness:
  "tq_inv \<lparr>tnext = [(1::nat) \<mapsto> 2, 2 \<mapsto> 3], tprev = [2 \<mapsto> 1, 3 \<mapsto> 2]\<rparr>
     \<lparr>lowprio = \<lparr>head = Some 1, tail = Some 3\<rparr>, highprio = \<lparr>head = None, tail = None\<rparr>\<rparr> ([], [1, 2, 3::nat])
   \<and> (4::nat) \<notin> set [] \<union> set [1, 2, 3]
   \<and> (\<exists>L' tq'. dart_tasking_taskqueue_insert (\<lambda>t. DART_PRIO_LOW)
          \<lparr>tnext = [(1::nat) \<mapsto> 2, 2 \<mapsto> 3], tprev = [2 \<mapsto> 1, 3 \<mapsto> 2]\<rparr>
          \<lparr>lowprio = \<lparr>head = Some 1, tail = Some 3\<rparr>, highprio = \<lparr>head = None, tail = None\<rparr>\<rparr> 4 1
        = Inr (L', tq') \<and> tq_inv L' tq' ([], [1, 2, 4, 3]))"
proof -
  have i: "tq_inv \<lparr>tnext = [(1::nat) \<mapsto> 2, 2 \<mapsto> 3], tprev = [2 \<mapsto> 1, 3 \<mapsto> 2]\<rparr>
     \<lparr>lowprio = \<lparr>head = Some 1, tail = Some 3\<rparr>, highprio = \<lparr>head = None, tail = None\<rparr>\<rparr> ([], [1, 2, 3::nat])"
    by (simp add: tq_inv_def deque_inv_def)
  have n: "(4::nat) \<notin> set [] \<union> set [1, 2, 3]" by simp
  show ?thesis
    using dart_tasking_taskqueue_insert_refine [OF i n, where prio = "\<lambda>t. DART_PRIO_LOW" and pos = 1] i n
    by (simp add: tq_insert_spec_def deque_insert_spec_def insert_at_def prio_defs)
qed

text \<open>Popping from a task queue (dart_tasking_taskqueue_pop) never aborts on a well-formed queue and returns the head of the high-priority deque if it is non-empty, and the head of the low-priority deque only when the high-priority deque is empty; the queue afterwards holds exactly the remaining tasks.\<close>

theorem dart_tasking_taskqueue_pop_refine:
  assumes inv: "tq_inv L tq q"
  shows "\<exists>L' tq'. dart_tasking_taskqueue_pop L tq = Inr (L', tq', fst (tq_pop_spec q)) \<and> tq_inv L' tq' (snd (tq_pop_spec q))"
proof -
  obtain hs ls where q: "q = (hs, ls)" by (cases q)
  from inv q have h: "deque_inv L (highprio tq) hs" and l: "deque_inv L (lowprio tq) ls"
    and disj: "set hs \<inter> set ls = {}" by (auto simp: tq_inv_def)
  obtain L1 dh where r1: "task_deque_pop L (highprio tq) = Inr (L1, dh, hd_opt hs)"
    and i1: "deque_inv L1 dh (tl hs)" and so1: "same_outside L L1 (set hs)"
    using task_deque_pop_refine [OF h] by blast
  show ?thesis
  proof (cases hs)
    case (Cons x hs')
    have "tq_inv L1 (tq\<lparr>highprio := dh\<rparr>) (hs', ls)"
      using tq_inv_set_high [OF l i1 so1] disj Cons by auto
    with r1 Cons show ?thesis by (simp add: dart_tasking_taskqueue_pop_def tq_pop_spec_def q)
  next
    case Nil
    have l1: "deque_inv L1 (lowprio tq) ls" using deque_inv_same_outside [OF so1] l Nil by simp
    obtain L2 dl where r2: "task_deque_pop L1 (lowprio tq) = Inr (L2, dl, hd_opt ls)"
      and i2: "deque_inv L2 dl (tl ls)" and so2: "same_outside L1 L2 (set ls)"
      using task_deque_pop_refine [OF l1] by blast
    have "tq_inv L2 (tq\<lparr>highprio := dh, lowprio := dl\<rparr>) ([], tl ls)"
      using i1 i2 Nil by (simp add: tq_inv_def)
    with r1 r2 Nil show ?thesis by (simp add: dart_tasking_taskqueue_pop_def tq_pop_spec_def q)
  qed
qed

theorem dart_tasking_taskqueue_pop_witness:
  "tq_inv \<lparr>tnext = [(1::nat) \<mapsto> 2], tprev = [2 \<mapsto> 1]\<rparr>
     \<lparr>lowprio = \<lparr>head = Some 1, tail = Some 2\<rparr>, highprio = \<lparr>head = Some 5, tail = Some 5\<rparr>\<rparr> ([5], [1, 2::nat])
   \<and> (\<exists>L' tq'. dart_tasking_taskqueue_pop \<lparr>tnext = [(1::nat) \<mapsto> 2], tprev = [2 \<mapsto> 1]\<rparr>
          \<lparr>lowprio = \<lparr>head = Some 1, tail = Some 2\<rparr>, highprio = \<lparr>head = Some 5, tail = Some 5\<rparr>\<rparr>
        = Inr (L', tq', Some 5) \<and> tq_inv L' tq' ([], [1, 2]))"
proof -
  have i: "tq_inv \<lparr>tnext = [(1::nat) \<mapsto> 2], tprev = [2 \<mapsto> 1]\<rparr>
     \<lparr>lowprio = \<lparr>head = Some 1, tail = Some 2\<rparr>, highprio = \<lparr>head = Some 5, tail = Some 5\<rparr>\<rparr> ([5], [1, 2::nat])"
    by (simp add: tq_inv_def deque_inv_def)
  show ?thesis
    using dart_tasking_taskqueue_pop_refine [OF i] i by (simp add: tq_pop_spec_def)
qed

text \<open>Taking from the back of a task queue (dart_tasking_taskqueue_popback, used for stealing) never aborts and returns the tail of the high-priority deque if it is non-empty and otherwise the tail of the low-priority deque.\<close>

theorem dart_tasking_taskqueue_popback_refine:
  assumes inv: "tq_inv L tq q"
  shows "\<exists>L' tq'. dart_tasking_taskqueue_popback L tq = Inr (L', tq', fst (tq_popback_spec q)) \<and> tq_inv L' tq' (snd (tq_popback_spec q))"
proof -
  obtain hs ls where q: "q = (hs, ls)" by (cases q)
  from inv q have h: "deque_inv L (highprio tq) hs" and l: "deque_inv L (lowprio tq) ls"
    and disj: "set hs \<inter> set ls = {}" by (auto simp: tq_inv_def)
  obtain L1 dh where r1: "task_deque_popback L (highprio tq) = Inr (L1, dh, last_opt hs)"
    and i1: "deque_inv L1 dh (butlast hs)" and so1: "same_outside L L1 (set hs)"
    using task_deque_popback_refine [OF h] by blast
  show ?thesis
  proof (cases "hs = []")
    case False
    have "tq_inv L1 (tq\<lparr>highprio := dh\<rparr>) (butlast hs, ls)"
      using tq_inv_set_high [OF l i1 so1] disj by (auto dest: in_set_butlastD)
    with r1 False show ?thesis
      by (simp add: dart_tasking_taskqueue_popback_def tq_popback_spec_def q last_opt_def)
  next
    case True
    have l1: "deque_inv L1 (lowprio tq) ls" using deque_inv_same_outside [OF so1] l True by simp
    obtain L2 dl where r2: "task_deque_popback L1 (lowprio tq) = Inr (L2, dl, last_opt ls)"
      and i2: "deque_inv L2 dl (butlast ls)" and so2: "same_outside L1 L2 (set ls)"
      using task_deque_popback_refine [OF l1] by blast
    have "tq_inv L2 (tq\<lparr>highprio := dh, lowprio := dl\<rparr>) ([], butlast ls)"
      using i1 i2 True by (simp add: tq_inv_def)
    with r1 r2 True show ?thesis by (simp add: dart_tasking_taskqueue_popback_def tq_popback_spec_def q)
  qed
qed

theorem dart_tasking_taskqueue_popback_witness:
  "tq_inv \<lparr>tnext = [(1::nat) \<mapsto> 2], tprev = [2 \<mapsto> 1]\<rparr>
     \<lparr>lowprio = \<lparr>head = Some 1, tail = Some 2\<rparr>, highprio = \<lparr>head = None, tail = None\<rparr>\<rparr> ([], [1, 2::nat])
   \<and> (\<exists>L' tq'. dart_tasking_taskqueue_popback \<lparr>tnext = [(1::nat) \<mapsto> 2], tprev = [2 \<mapsto> 1]\<rparr>
          \<lparr>lowprio = \<lparr>head = Some 1, tail = Some 2\<rparr>, highprio = \<lparr>head = None, tail = None\<rparr>\<rparr>
        = Inr (L', tq', Some 2) \<and> tq_inv L' tq' ([], [1]))"
proof -
  have i: "tq_inv \<lparr>tnext = [(1::nat) \<mapsto> 2], tprev = [2 \<mapsto> 1]\<rparr>
     \<lparr>lowprio = \<lparr>head = Some 1, tail = Some 2\<rparr>, highprio = \<lparr>head = None, tail = None\<rparr>\<rparr> ([], [1, 2::nat])"
    by (simp add: tq_inv_def deque_inv_def)
  show ?thesis
    using dart_tasking_taskqueue_popback_refine [OF i] i by (simp add: tq_popback_spec_def)
qed

lemma task_unlink_neighbours_simps [simp]:
  "tnext (task_unlink_neighbours L t) u = (if u = t then None else if tprev L t = Some u then tnext L t else tnext L u)"
  "tprev (task_unlink_neighbours L t) u = (if u = t then None else if tnext L t = Some u then tprev L t else tprev L u)"
  by (auto simp: task_unlink_neighbours_def Let_def split: option.splits)

lemma dseg_unlink_neighbours_frame:
  "\<forall>u \<in> set xs. u \<noteq> t \<and> tprev L t \<noteq> Some u \<and> tnext L t \<noteq> Some u \<Longrightarrow>
   dseg (task_unlink_neighbours L t) p xs n = dseg L p xs n"
  by (induction xs arbitrary: p) auto

lemma task_unlink_neighbours_dseg:
  assumes d: "dseg L None (a @ t # b) None" and dist: "distinct (a @ t # b)"
  shows "dseg (task_unlink_neighbours L t) None (a @ b) None"
    "same_outside L (task_unlink_neighbours L t) (set (a @ t # b))"
    "tprev L t = last_or a None" "tnext L t = first_or b None"
proof -
  show pt: "tprev L t = last_or a None" and nt: "tnext L t = first_or b None"
    using d by simp_all
  show "same_outside L (task_unlink_neighbours L t) (set (a @ t # b))"
    using pt nt by (auto simp: same_outside_def last_or_def first_or_def split: if_splits list.splits)
  show "dseg (task_unlink_neighbours L t) None (a @ b) None"
  proof (cases a rule: rev_cases)
    case Nil
    then show ?thesis
    proof (cases b)
      case (Cons nb b')
      have fr: "dseg (task_unlink_neighbours L t) (Some nb) b' None = dseg L (Some nb) b' None"
        using dist pt nt Nil Cons by (intro dseg_unlink_neighbours_frame) auto
      show ?thesis using d dist pt nt Nil Cons fr by auto
    qed simp
  next
    case (snoc a' pa)
    have fra: "dseg (task_unlink_neighbours L t) None a' (Some pa) = dseg L None a' (Some pa)"
      using dist pt nt snoc by (intro dseg_unlink_neighbours_frame) (auto simp: first_or_def split: list.splits)
    show ?thesis
    proof (cases b)
      case Nil
      show ?thesis using d dist pt nt snoc Nil fra by simp
    next
      case (Cons nb b')
      have fr: "dseg (task_unlink_neighbours L t) (Some nb) b' None = dseg L (Some nb) b' None"
        using dist pt nt snoc Cons by (intro dseg_unlink_neighbours_frame) auto
      show ?thesis using d dist pt nt snoc Cons fr fra by auto
    qed
  qed
qed

lemma remove_head_tail:
  assumes "deque_inv L d (a @ t # b)"
  shows "(if Some t = head d then tnext L t else head d) = hd_opt (a @ b)"
    "(if Some t = tail d then tprev L t else tail d) = last_opt (a @ b)"
proof -
  from assms have hd: "head d = hd_opt (a @ t # b)" and tl: "tail d = last_opt (a @ t # b)"
    and dist: "distinct (a @ t # b)" and dseg: "dseg L None (a @ t # b) None"
    by (simp_all add: deque_inv_def)
  from dseg have pt: "tprev L t = last_or a None" and nt: "tnext L t = first_or b None"
    by simp_all
  show "(if Some t = head d then tnext L t else head d) = hd_opt (a @ b)"
  proof (cases a)
    case Nil
    then show ?thesis using hd nt by (cases b) simp_all
  next
    case (Cons x a')
    with dist have "x \<noteq> t" by auto
    with Cons hd show ?thesis by simp
  qed
  show "(if Some t = tail d then tprev L t else tail d) = last_opt (a @ b)"
  proof (cases b rule: rev_cases)
    case Nil
    then show ?thesis using tl pt by (simp add: last_opt_def last_or_def)
  next
    case (snoc b' y)
    with dist have "y \<noteq> t" by auto
    with snoc tl show ?thesis by (simp add: last_opt_def)
  qed
qed

lemma deque_inv_remove:
  assumes inv: "deque_inv L d (a @ t # b)"
  shows "deque_inv (task_unlink_neighbours L t)
           (d\<lparr>head := if Some t = head d then tnext L t else head d,
               tail := if Some t = tail d then tprev L t else tail d\<rparr>) (a @ b)"
    "same_outside L (task_unlink_neighbours L t) (set (a @ t # b))"
proof -
  from inv have d: "dseg L None (a @ t # b) None" "distinct (a @ t # b)"
    by (simp_all add: deque_inv_def)
  show "same_outside L (task_unlink_neighbours L t) (set (a @ t # b))"
    by (rule task_unlink_neighbours_dseg(2) [OF d])
  show "deque_inv (task_unlink_neighbours L t)
           (d\<lparr>head := if Some t = head d then tnext L t else head d,
               tail := if Some t = tail d then tprev L t else tail d\<rparr>) (a @ b)"
    using task_unlink_neighbours_dseg(1) [OF d] remove_head_tail [OF inv] d(2)
    by (simp add: deque_inv_def)
qed

lemma deque_inv_notin_head_tail:
  "deque_inv L d xs \<Longrightarrow> t \<notin> set xs \<Longrightarrow> Some t \<noteq> head d \<and> Some t \<noteq> tail d"
  by (auto simp: deque_inv_def hd_opt_def last_opt_def split: list.splits)

lemma dart_tasking_taskqueue_remove_high:
  assumes "Some t \<noteq> head (lowprio tq)" "Some t \<noteq> tail (lowprio tq)"
  shows "dart_tasking_taskqueue_remove L tq t =
    (task_unlink_neighbours L t,
     tq\<lparr>highprio := (highprio tq)\<lparr>head := if Some t = head (highprio tq) then tnext L t else head (highprio tq),
                                   tail := if Some t = tail (highprio tq) then tprev L t else tail (highprio tq)\<rparr>\<rparr>)"
  using assms
  by (cases "Some t = head (highprio tq)"; cases "Some t = tail (highprio tq)")
     (simp_all add: dart_tasking_taskqueue_remove_def Let_def)

lemma dart_tasking_taskqueue_remove_low:
  assumes "Some t \<noteq> head (highprio tq)" "Some t \<noteq> tail (highprio tq)"
  shows "dart_tasking_taskqueue_remove L tq t =
    (task_unlink_neighbours L t,
     tq\<lparr>lowprio := (lowprio tq)\<lparr>head := if Some t = head (lowprio tq) then tnext L t else head (lowprio tq),
                                 tail := if Some t = tail (lowprio tq) then tprev L t else tail (lowprio tq)\<rparr>\<rparr>)"
  using assms
  by (cases "Some t = head (lowprio tq)"; cases "Some t = tail (lowprio tq)")
     (simp_all add: dart_tasking_taskqueue_remove_def Let_def)

text \<open>C6: Removing a task that is in one of the deques of a queue (dart_tasking_taskqueue_remove) unlinks exactly that task, keeps head and tail pointers of both deques consistent, and leaves a well-formed queue.\<close>

theorem dart_tasking_taskqueue_remove_refine:
  assumes inv: "tq_inv L tq (hs, ls)" and t: "t \<in> set hs \<union> set ls"
  shows "tq_inv (fst (dart_tasking_taskqueue_remove L tq t)) (snd (dart_tasking_taskqueue_remove L tq t))
           (remove1 t hs, remove1 t ls)"
proof -
  from inv have h: "deque_inv L (highprio tq) hs" and l: "deque_inv L (lowprio tq) ls"
    and disj: "set hs \<inter> set ls = {}" by (simp_all add: tq_inv_def)
  show ?thesis
  proof (cases "t \<in> set hs")
    case True
    then obtain a b where hs: "hs = a @ t # b" by (meson split_list)
    from True disj have tl: "t \<notin> set ls" by auto
    have dist: "distinct (a @ t # b)" using h by (simp add: deque_inv_def hs)
    note r = deque_inv_remove [OF h [unfolded hs]]
    have lo: "deque_inv (task_unlink_neighbours L t) (lowprio tq) ls"
      using deque_inv_same_outside [OF r(2), of ls] l disj hs by auto
    have rm: "remove1 t hs = a @ b" "remove1 t ls = ls"
      using dist tl by (simp_all add: hs remove1_append remove1_idem)
    show ?thesis
      using dart_tasking_taskqueue_remove_high [OF deque_inv_notin_head_tail [OF l tl, THEN conjunct1]
          deque_inv_notin_head_tail [OF l tl, THEN conjunct2]] r(1) lo rm disj hs
      by (auto simp: tq_inv_def)
  next
    case False
    with t obtain a b where ls: "ls = a @ t # b" by (meson UnE split_list)
    have dist: "distinct (a @ t # b)" using l by (simp add: deque_inv_def ls)
    note r = deque_inv_remove [OF l [unfolded ls]]
    have hi: "deque_inv (task_unlink_neighbours L t) (highprio tq) hs"
      using deque_inv_same_outside [OF r(2), of hs] h disj ls by auto
    have rm: "remove1 t ls = a @ b" "remove1 t hs = hs"
      using dist False by (simp_all add: ls remove1_append remove1_idem)
    show ?thesis
      using dart_tasking_taskqueue_remove_low [OF deque_inv_notin_head_tail [OF h False, THEN conjunct1]
          deque_inv_notin_head_tail [OF h False, THEN conjunct2]] r(1) hi rm disj ls
      by (auto simp: tq_inv_def)
  qed
qed

theorem dart_tasking_taskqueue_remove_witness:
  "tq_inv \<lparr>tnext = [(1::nat) \<mapsto> 2, 2 \<mapsto> 3], tprev = [2 \<mapsto> 1, 3 \<mapsto> 2]\<rparr>
     \<lparr>lowprio = \<lparr>head = Some 1, tail = Some 3\<rparr>, highprio = \<lparr>head = None, tail = None\<rparr>\<rparr> ([], [1, 2, 3::nat])
   \<and> (2::nat) \<in> set [] \<union> set [1, 2, 3]
   \<and> tq_inv (fst (dart_tasking_taskqueue_remove \<lparr>tnext = [(1::nat) \<mapsto> 2, 2 \<mapsto> 3], tprev = [2 \<mapsto> 1, 3 \<mapsto> 2]\<rparr>
                 \<lparr>lowprio = \<lparr>head = Some 1, tail = Some 3\<rparr>, highprio = \<lparr>head = None, tail = None\<rparr>\<rparr> 2))
            (snd (dart_tasking_taskqueue_remove \<lparr>tnext = [(1::nat) \<mapsto> 2, 2 \<mapsto> 3], tprev = [2 \<mapsto> 1, 3 \<mapsto> 2]\<rparr>
                 \<lparr>lowprio = \<lparr>head = Some 1, tail = Some 3\<rparr>, highprio = \<lparr>head = None, tail = None\<rparr>\<rparr> 2))
            ([], [1, 3])"
proof -
  have i: "tq_inv \<lparr>tnext = [(1::nat) \<mapsto> 2, 2 \<mapsto> 3], tprev = [2 \<mapsto> 1, 3 \<mapsto> 2]\<rparr>
     \<lparr>lowprio = \<lparr>head = Some 1, tail = Some 3\<rparr>, highprio = \<lparr>head = None, tail = None\<rparr>\<rparr> ([], [1, 2, 3::nat])"
    by (simp add: tq_inv_def deque_inv_def)
  have n: "(2::nat) \<in> set [] \<union> set [1, 2, 3]" by simp
  show ?thesis
    using dart_tasking_taskqueue_remove_refine [OF i n] i n by simp
qed

lemma filter_runnable_head_loop_diverges:
  assumes "\<not> runnable x"
  shows "filter_runnable_head_loop runnable L d (Some x) = None"
proof (rule ccontr)
  assume "filter_runnable_head_loop runnable L d (Some x) \<noteq> None"
  then obtain y where r: "filter_runnable_head_loop runnable L d (Some x) = Some y" by auto
  have "\<forall>x'. Some x = Some x' \<longrightarrow> runnable x'"
  proof (rule filter_runnable_head_loop.raw_induct
          [where P = "\<lambda>runnable L d task y. \<forall>x. task = Some x \<longrightarrow> runnable x", OF _ r])
    fix f :: "('a \<Rightarrow> bool) \<Rightarrow> 'a links \<Rightarrow> 'a task_deque \<Rightarrow> 'a option \<Rightarrow> ('a links \<times> 'a task_deque) option"
    fix rn L d task y
    assume IH: "\<And>rn L d task y. f rn L d task = Some y \<Longrightarrow> \<forall>x. task = Some x \<longrightarrow> rn x"
      and eq: "(case task of None \<Rightarrow> Some (L, d)
         | Some x \<Rightarrow> if rn x then Some (L, d)
             else let d' = d\<lparr>head := tnext L x\<rparr>;
                      L' = case tnext L x of None \<Rightarrow> L | Some n \<Rightarrow> set_prev L n None;
                      L'' = set_next L' x None
                  in f rn L'' d' task) = Some y"
    show "\<forall>x. task = Some x \<longrightarrow> rn x"
    proof (intro allI impI)
      fix x assume tx: "task = Some x"
      show "rn x"
      proof (rule ccontr)
        assume nr: "\<not> rn x"
        with eq tx obtain L'' d' where "f rn L'' d' task = Some y"
          by (auto simp: Let_def)
        with IH tx nr show False by blast
      qed
    qed
  qed
  with assms show False by simp
qed

text \<open>C8: task_deque_filter_runnable does not terminate whenever the head of the deque is not runnable: its first loop never advances its loop variable.\<close>

theorem task_deque_filter_runnable_diverges:
  "head d = Some x \<Longrightarrow> \<not> runnable x \<Longrightarrow> task_deque_filter_runnable runnable L d = None"
  by (simp add: task_deque_filter_runnable_def filter_runnable_head_loop_diverges)

theorem task_deque_filter_runnable_witness:
  "head \<lparr>head = Some (1::nat), tail = Some 2\<rparr> = Some 1 \<and> \<not> (\<lambda>_::nat. False) 1
   \<and> task_deque_filter_runnable (\<lambda>_. False) \<lparr>tnext = [(1::nat) \<mapsto> 2], tprev = [2 \<mapsto> 1]\<rparr>
       \<lparr>head = Some (1::nat), tail = Some 2\<rparr> = None"
  using task_deque_filter_runnable_diverges [of "\<lparr>head = Some (1::nat), tail = Some 2\<rparr>" 1 "\<lambda>_. False"] by simp

text \<open>C7: Moving one queue into another (dart_tasking_taskqueue_move) splices the source high- and low-priority deques in front of the corresponding destination deques and leaves the source empty; both queues stay well formed.\<close>

theorem dart_tasking_taskqueue_move_refine:
  assumes dst: "tq_inv L dst (dh, dl)" and src: "tq_inv L src (sh, sl)"
    and disj: "set dh \<inter> set sh = {}" "set dh \<inter> set sl = {}" "set dl \<inter> set sh = {}" "set dl \<inter> set sl = {}"
  shows "\<exists>L' dst' src'. dart_tasking_taskqueue_move L dst src = (L', dst', src')
           \<and> tq_inv L' dst' (sh @ dh, sl @ dl) \<and> tq_inv L' src' ([], [])"
proof -
  from dst src have i: "deque_inv L (highprio dst) dh" "deque_inv L (lowprio dst) dl"
    "deque_inv L (highprio src) sh" "deque_inv L (lowprio src) sl"
    "set dh \<inter> set dl = {}" "set sh \<inter> set sl = {}"
    by (simp_all add: tq_inv_def)
  obtain L1 dh' sh' where m1: "task_deque_move L (highprio dst) (highprio src) = (L1, dh', sh')"
    and h1: "deque_inv L1 dh' (sh @ dh)" "deque_inv L1 sh' []" and so1: "same_outside L L1 (set dh \<union> set sh)"
    using task_deque_move_refine [OF i(1) i(3) disj(1)] by blast
  have "set dl \<inter> (set dh \<union> set sh) = {}" "set sl \<inter> (set dh \<union> set sh) = {}"
    using i(5,6) disj by auto
  then have l1: "deque_inv L1 (lowprio dst) dl" and l1': "deque_inv L1 (lowprio src) sl"
    using deque_inv_same_outside [OF so1] i(2,4) by simp_all
  obtain L2 dl' sl' where m2: "task_deque_move L1 (lowprio dst) (lowprio src) = (L2, dl', sl')"
    and h2: "deque_inv L2 dl' (sl @ dl)" "deque_inv L2 sl' []" and so2: "same_outside L1 L2 (set dl \<union> set sl)"
    using task_deque_move_refine [OF l1 l1' disj(4)] by blast
  have "set (sh @ dh) \<inter> (set dl \<union> set sl) = {}"
    using i(5,6) disj by auto
  then have h3: "deque_inv L2 dh' (sh @ dh)"
    using deque_inv_same_outside [OF so2] h1(1) by simp
  have h4: "deque_inv L2 sh' []"
    using h1 by simp
  show ?thesis
    using m1 m2 h2 h3 h4 i disj by (auto simp: dart_tasking_taskqueue_move_def tq_inv_def)
qed

theorem dart_tasking_taskqueue_move_witness:
  "tq_inv \<lparr>tnext = (Map.empty :: nat \<Rightarrow> nat option), tprev = Map.empty\<rparr>
     \<lparr>lowprio = \<lparr>head = Some 1, tail = Some 1\<rparr>, highprio = \<lparr>head = None, tail = None\<rparr>\<rparr> ([], [1::nat])
   \<and> tq_inv \<lparr>tnext = (Map.empty :: nat \<Rightarrow> nat option), tprev = Map.empty\<rparr>
     \<lparr>lowprio = \<lparr>head = Some 3, tail = Some 3\<rparr>, highprio = \<lparr>head = Some 2, tail = Some 2\<rparr>\<rparr> ([2], [3])
   \<and> set [] \<inter> set [2::nat] = {} \<and> set [] \<inter> set [3::nat] = {} \<and> set [1::nat] \<inter> set [2] = {} \<and> set [1::nat] \<inter> set [3] = {}
   \<and> (\<exists>L' dst' src'. dart_tasking_taskqueue_move \<lparr>tnext = (Map.empty :: nat \<Rightarrow> nat option), tprev = Map.empty\<rparr>
          \<lparr>lowprio = \<lparr>head = Some 1, tail = Some 1\<rparr>, highprio = \<lparr>head = None, tail = None\<rparr>\<rparr>
          \<lparr>lowprio = \<lparr>head = Some 3, tail = Some 3\<rparr>, highprio = \<lparr>head = Some 2, tail = Some 2\<rparr>\<rparr>
        = (L', dst', src') \<and> tq_inv L' dst' ([2], [3, 1]) \<and> tq_inv L' src' ([], []))"
proof -
  have d: "tq_inv \<lparr>tnext = (Map.empty :: nat \<Rightarrow> nat option), tprev = Map.empty\<rparr>
     \<lparr>lowprio = \<lparr>head = Some 1, tail = Some 1\<rparr>, highprio = \<lparr>head = None, tail = None\<rparr>\<rparr> ([], [1::nat])"
    by (simp add: tq_inv_def deque_inv_def)
  have s: "tq_inv \<lparr>tnext = (Map.empty :: nat \<Rightarrow> nat option), tprev = Map.empty\<rparr>
     \<lparr>lowprio = \<lparr>head = Some 3, tail = Some 3\<rparr>, highprio = \<lparr>head = Some 2, tail = Some 2\<rparr>\<rparr> ([2], [3::nat])"
    by (simp add: tq_inv_def deque_inv_def)
  have j: "set [] \<inter> set [2::nat] = {}" "set [] \<inter> set [3::nat] = {}" "set [1::nat] \<inter> set [2] = {}" "set [1::nat] \<inter> set [3] = {}"
    by simp_all
  show ?thesis
    using dart_tasking_taskqueue_move_refine [OF d s j] d s j by simp
qed

end
