(* ===== verification/Context.thy ===== *)
theory Context
  imports Prelude
begin

unbundle bit_operations_syntax

text \<open>
  The context and stack manager of \<open>dart_tasking_context.c\<close>, in the configuration
  the file is compiled in by default (\<open>USE_UCONTEXT\<close>, no \<open>USE_MMAP\<close>;
  \<open>USE_MPROTECT\<close> and \<open>DART_DEBUG\<close> are parameters). A context is identified by
  the address of its \<open>context_list_t\<close>, modelled as a \<open>nat\<close> handed out by the
  allocator; each thread keeps a LIFO free list (\<open>thread->ctxlist\<close>). Sizes are
  \<open>size_t\<close> words, so the page rounding is checked with its wrap-around.
\<close>

section \<open>Sizes and layout\<close>

definition DEFAULT_TASK_STACK_SIZE :: size_t where
  "DEFAULT_TASK_STACK_SIZE = 2 ^ 21"

definition STACK_CANARY :: "64 word" where
  "STACK_CANARY = 0xDEADBEEF"

text \<open>\<open>(size + mask) & ~mask\<close> with \<open>mask = page_size - 1\<close>.\<close>

definition dart__tasking__context_adjust_size :: "size_t \<Rightarrow> size_t \<Rightarrow> size_t" where
  "dart__tasking__context_adjust_size page_size sz =
     (let mask = page_size - 1 in (sz + mask) AND NOT mask)"

text \<open>
  \<open>dart__tasking__context_init\<close>: the stack size from \<open>DART_TASKSTACKSIZE\<close>
  (the \<open>ssize_t\<close> value \<open>env_stack_size\<close>, \<open>-1\<close> when unset), raised to one page
  when smaller. The result is the new value of \<open>task_stack_size\<close>.
\<close>

definition dart__tasking__context_init :: "size_t \<Rightarrow> int \<Rightarrow> size_t" where
  "dart__tasking__context_init page_size env_stack_size =
     (let task_stack_size = (if env_stack_size > -1 then word_of_int env_stack_size
                             else DEFAULT_TASK_STACK_SIZE)
      in if task_stack_size < page_size then page_size else task_stack_size)"

text \<open>
  The layout \<open>dart__tasking__context_allocate\<close> requests: the page-rounded metadata,
  the page-rounded stack and, with \<open>USE_MPROTECT\<close>, one guard page below and one above
  the stack. Offsets are from the start of the block: \<open>stack_offset\<close> is
  \<open>ctxlist->stack - (char*)ctxlist\<close>, and \<open>guards\<close> the offsets of \<open>lb_guard\<close> and
  \<open>ub_guard\<close> passed to \<open>mprotect\<close>. The upper guard is placed at
  \<open>stack + task_stack_size\<close>, the unrounded stack size.
\<close>

record ctx_layout =
  alloc_size :: size_t
  stack_offset :: size_t
  guards :: "(size_t \<times> size_t) option"

definition dart__tasking__context_layout :: "bool \<Rightarrow> size_t \<Rightarrow> size_t \<Rightarrow> size_t \<Rightarrow> ctx_layout" where
  "dart__tasking__context_layout use_mprotect page_size meta task_stack_size =
     (let meta_size = dart__tasking__context_adjust_size page_size meta;
          stack_size = dart__tasking__context_adjust_size page_size task_stack_size
      in if use_mprotect
         then \<lparr>alloc_size = meta_size + stack_size + 2 * page_size,
               stack_offset = meta_size + page_size,
               guards = Some (meta_size + page_size - page_size, meta_size + page_size + task_stack_size)\<rparr>
         else \<lparr>alloc_size = meta_size + stack_size, stack_offset = meta_size, guards = None\<rparr>)"

section \<open>The context pool\<close>

text \<open>
  \<open>ctx_owner c\<close> is \<open>ctxlist->owner\<close> of an allocated context (\<open>None\<close>: not
  allocated, or freed), \<open>ctx_entry c\<close> the pair \<open>(fn, arg)\<close> while \<open>ctx->fn\<close>
  is set, \<open>ctx_canary c\<close> the words at the low and the high end of its stack, and
  \<open>ctx_to_enter\<close> the per-thread field read by the entry trampoline.
\<close>

record ('th, 'f) ctx_state =
  ctxlist :: "'th \<Rightarrow> nat list"
  ctx_owner :: "nat \<Rightarrow> 'th option"
  ctx_entry :: "nat \<Rightarrow> 'f option"
  ctx_canary :: "nat \<Rightarrow> 64 word \<times> 64 word"
  ctx_to_enter :: "'th \<Rightarrow> nat option"
  next_ctx :: nat

definition dart__tasking__context_allocate :: "'th \<Rightarrow> ('th, 'f) ctx_state \<Rightarrow> nat \<times> ('th, 'f) ctx_state" where
  "dart__tasking__context_allocate th s =
     (next_ctx s, s\<lparr>ctx_owner := (ctx_owner s)(next_ctx s := Some th), next_ctx := Suc (next_ctx s)\<rparr>)"

text \<open>
  \<open>dart__tasking__context_create\<close> on thread \<open>th\<close>: reuse the top of the thread's
  own free list, or allocate; write the canaries (debug builds) and store \<open>(fn, arg)\<close>.
\<close>

definition dart__tasking__context_create ::
  "bool \<Rightarrow> 'th \<Rightarrow> 'f \<Rightarrow> ('th, 'f) ctx_state \<Rightarrow> nat \<times> ('th, 'f) ctx_state" where
  "dart__tasking__context_create debug th f s =
     (let (c, s1) = (case ctxlist s th of
                       c # cs \<Rightarrow> (c, s\<lparr>ctxlist := (ctxlist s)(th := cs)\<rparr>)
                     | [] \<Rightarrow> dart__tasking__context_allocate th s);
          s2 = (if debug then s1\<lparr>ctx_canary := (ctx_canary s1)(c := (STACK_CANARY, STACK_CANARY))\<rparr> else s1)
      in (c, s2\<lparr>ctx_entry := (ctx_entry s2)(c := Some f)\<rparr>))"

text \<open>The debug check of \<open>dart__tasking__context_release\<close>, as written (with \<open>&&\<close>).\<close>

definition stack_overflow_warning :: "64 word \<times> 64 word \<Rightarrow> bool" where
  "stack_overflow_warning cw \<longleftrightarrow> fst cw \<noteq> STACK_CANARY \<and> snd cw \<noteq> STACK_CANARY"

text \<open>
  \<open>dart__tasking__context_release\<close>: push the context onto the free list of the
  thread that allocated it (\<open>ctxlist->owner\<close>), whatever thread releases it. The
  result flag is whether the overflow warning is printed. A context that is not
  allocated has no owner to read.
\<close>

definition dart__tasking__context_release ::
  "bool \<Rightarrow> nat \<Rightarrow> ('th, 'f) ctx_state \<Rightarrow> (bool \<times> ('th, 'f) ctx_state) res" where
  "dart__tasking__context_release debug c s =
     (case ctx_owner s c of
        None \<Rightarrow> Inl Invalid_pointer
      | Some th \<Rightarrow> Inr (debug \<and> stack_overflow_warning (ctx_canary s c),
                        s\<lparr>ctxlist := (ctxlist s)(th := c # ctxlist s th)\<rparr>))"

text \<open>
  \<open>dart__tasking__context_invoke\<close> and \<open>dart__tasking__context_swap\<close> record a
  context entered for the first time (\<open>ctx->fn\<close> set) in \<open>ctx_to_enter\<close>; swap
  clears \<open>fn\<close> of the context it leaves. The jump itself is not modelled;
  \<open>swap_ok\<close> is the outcome of \<open>swapcontext\<close>.
\<close>

definition dart__tasking__context_invoke :: "'th \<Rightarrow> nat \<Rightarrow> ('th, 'f) ctx_state \<Rightarrow> ('th, 'f) ctx_state" where
  "dart__tasking__context_invoke th c s =
     (if ctx_entry s c \<noteq> None then s\<lparr>ctx_to_enter := (ctx_to_enter s)(th := Some c)\<rparr> else s)"

definition dart__tasking__context_swap ::
  "'th \<Rightarrow> nat \<Rightarrow> nat \<Rightarrow> bool \<Rightarrow> ('th, 'f) ctx_state \<Rightarrow> dart_ret_t \<times> ('th, 'f) ctx_state" where
  "dart__tasking__context_swap th old new swap_ok s =
     (let s1 = (if ctx_entry s new \<noteq> None then s\<lparr>ctx_to_enter := (ctx_to_enter s)(th := Some new)\<rparr> else s);
          s2 = (if ctx_entry s1 old \<noteq> None then s1\<lparr>ctx_entry := (ctx_entry s1)(old := None)\<rparr> else s1)
      in (if swap_ok then DART_OK else DART_ERR_OTHER, s2))"

text \<open>
  The trampoline \<open>dart__tasking__context_entry\<close>: take \<open>ctx_to_enter\<close>, clear it,
  take and clear \<open>(fn, arg)\<close>; the result is the function it then calls.
\<close>

definition dart__tasking__context_entry :: "'th \<Rightarrow> ('th, 'f) ctx_state \<Rightarrow> ('f \<times> ('th, 'f) ctx_state) res" where
  "dart__tasking__context_entry th s =
     (case ctx_to_enter s th of
        None \<Rightarrow> Inl Assertion_failure
      | Some c \<Rightarrow>
          (case ctx_entry s c of
             None \<Rightarrow> Inl Null_dereference
           | Some f \<Rightarrow> Inr (f, s\<lparr>ctx_to_enter := (ctx_to_enter s)(th := None),
                                   ctx_entry := (ctx_entry s)(c := None)\<rparr>)))"

text \<open>\<open>dart__tasking__context_cleanup\<close>: pop and free every context of the thread's list.\<close>

function dart__tasking__context_cleanup :: "'th \<Rightarrow> ('th, 'f) ctx_state \<Rightarrow> ('th, 'f) ctx_state" where
  "dart__tasking__context_cleanup th s =
     (case ctxlist s th of
        [] \<Rightarrow> s
      | c # cs \<Rightarrow> dart__tasking__context_cleanup th
                    (s\<lparr>ctxlist := (ctxlist s)(th := cs), ctx_owner := (ctx_owner s)(c := None)\<rparr>))"
  by pat_completeness auto
termination
  by (relation "measure (\<lambda>(th, s). length (ctxlist s th))") auto

section \<open>Invariant\<close>

text \<open>
  \<open>ctx_inv s U\<close>, for the set \<open>U\<close> of contexts currently attached to tasks: the
  free lists hold no context twice, a free context sits on its owner's list only, no
  context is both free and in use, every free or used context is allocated, and
  allocated addresses lie below the allocator's next address.
\<close>

definition ctx_inv :: "('th, 'f) ctx_state \<Rightarrow> nat set \<Rightarrow> bool" where
  "ctx_inv s U \<longleftrightarrow>
     (\<forall>th. distinct (ctxlist s th)) \<and>
     (\<forall>th. \<forall>c \<in> set (ctxlist s th). ctx_owner s c = Some th) \<and>
     (\<forall>th. set (ctxlist s th) \<inter> U = {}) \<and>
     (\<forall>c \<in> U. ctx_owner s c \<noteq> None) \<and>
     (\<forall>c. ctx_owner s c \<noteq> None \<longrightarrow> c < next_ctx s)"

section \<open>Lemmas on sizes and layout\<close>

lemma multiple_step:
  assumes "(p::nat) dvd m" "p dvd r" "m < r"
  shows "m + p \<le> r"
proof -
  obtain a b where "m = p * a" "r = p * b" using assms(1,2) by (auto elim!: dvdE)
  moreover have "a < b" using assms(3) calculation by (simp add: mult_less_cancel1)
  ultimately show ?thesis by (metis Suc_leI add.commute mult.commute mult_Suc mult_le_mono1)
qed

lemma adjust_size_mask: "dart__tasking__context_adjust_size (2 ^ k) sz = (sz + mask k) AND NOT (mask k)"
  by (simp add: dart__tasking__context_adjust_size_def mask_eq_decr_exp Let_def)

lemma adjust_size_unat:
  assumes "k < 64" "unat sz + 2 ^ k \<le> 2 ^ 64"
  shows "unat (dart__tasking__context_adjust_size (2 ^ k) sz) = (unat sz + (2 ^ k - 1)) div 2 ^ k * 2 ^ k"
  using round_up_mask_unat [of k sz] assms by (simp add: adjust_size_mask)

lemma adjust_size_bounds:
  assumes "k < 64" "unat sz + 2 ^ k \<le> 2 ^ 64"
  shows "2 ^ k dvd unat (dart__tasking__context_adjust_size (2 ^ k) sz) \<and>
         unat sz \<le> unat (dart__tasking__context_adjust_size (2 ^ k) sz) \<and>
         unat (dart__tasking__context_adjust_size (2 ^ k) sz) < unat sz + 2 ^ k"
  unfolding adjust_size_unat [OF assms] using round_up_div_bounds [of "2 ^ k" "unat sz"] by simp

text \<open>
  With guard pages and a power-of-two page size, for sizes far enough from the
  top of the address space, the stack lies inside the block, the lower guard page lies
  between the metadata and the stack, the upper guard page starts at
  \<open>stack + task_stack_size\<close> and lies inside the block, and its offset is
  page-aligned exactly when \<open>task_stack_size\<close> is a multiple of the page size.
\<close>

theorem dart__tasking__context_layout_guards:
  assumes k: "k < 64" and small: "unat meta + unat tss + 4 * 2 ^ k \<le> 2 ^ 64"
  defines "L \<equiv> dart__tasking__context_layout True (2 ^ k) meta tss"
  shows "unat (stack_offset L) + unat tss \<le> unat (alloc_size L) \<and>
         (\<exists>lb ub. guards L = Some (lb, ub) \<and>
            unat meta \<le> unat lb \<and> unat lb + 2 ^ k = unat (stack_offset L) \<and>
            unat ub = unat (stack_offset L) + unat tss \<and> unat ub + 2 ^ k \<le> unat (alloc_size L) \<and>
            (2 ^ k dvd unat ub \<longleftrightarrow> 2 ^ k dvd unat tss))"
proof -
  define P :: nat where "P = 2 ^ k"
  define M where "M = dart__tasking__context_adjust_size (2 ^ k) meta"
  define S where "S = dart__tasking__context_adjust_size (2 ^ k) tss"
  have P: "unat (2 ^ k :: size_t) = P" "0 < P" using k by (simp_all add: P_def unat_2p_less)
  have bM: "P dvd unat M" "unat meta \<le> unat M" "unat M < unat meta + P"
    using adjust_size_bounds [OF k, of meta] small by (simp_all add: M_def P_def)
  have bS: "unat tss \<le> unat S" "unat S < unat tss + P"
    using adjust_size_bounds [OF k, of tss] small by (simp_all add: S_def P_def)
  have lim: "unat M + unat S + 2 * P + 1 < 2 ^ 64" using bM bS small by (simp add: P_def)
  have so: "unat (M + 2 ^ k) = unat M + P" using lim P by (subst unat_add_exact) simp_all
  have ub: "unat (M + 2 ^ k + tss) = unat M + P + unat tss" using lim so bS by (subst unat_add_exact) simp_all
  have lb: "M + 2 ^ k - 2 ^ k = M" by simp
  have two: "unat (2 * 2 ^ k :: size_t) = 2 * P" using lim P by (simp add: unat_word_ariths)
  have ms: "unat (M + S) = unat M + unat S" using lim by (subst unat_add_exact) simp_all
  have al: "unat (M + S + 2 * 2 ^ k) = unat M + unat S + 2 * P" using lim ms two by (subst unat_add_exact) simp_all
  have L: "L = \<lparr>alloc_size = M + S + 2 * 2 ^ k, stack_offset = M + 2 ^ k, guards = Some (M + 2 ^ k - 2 ^ k, M + 2 ^ k + tss)\<rparr>"
    by (simp add: L_def dart__tasking__context_layout_def M_def S_def Let_def)
  have dv: "P dvd unat M + P + unat tss \<longleftrightarrow> P dvd unat tss" using bM(1)
    by (simp add: add.assoc dvd_add_right_iff)
  show ?thesis unfolding L using so ub al bM bS dv by (simp add: lb P_def)
qed

section \<open>Lemmas on the context pool\<close>

lemma ctx_invI:
  assumes "\<And>t. distinct (ctxlist s t)"
    and "\<And>t c. c \<in> set (ctxlist s t) \<Longrightarrow> ctx_owner s c = Some t"
    and "\<And>t c. c \<in> set (ctxlist s t) \<Longrightarrow> c \<notin> U"
    and "\<And>c. c \<in> U \<Longrightarrow> ctx_owner s c \<noteq> None"
    and "\<And>c. ctx_owner s c \<noteq> None \<Longrightarrow> c < next_ctx s"
  shows "ctx_inv s U"
  using assms unfolding ctx_inv_def by blast

lemma ctx_invD:
  assumes "ctx_inv s U"
  shows "distinct (ctxlist s t)"
    and "c \<in> set (ctxlist s t) \<Longrightarrow> ctx_owner s c = Some t"
    and "c \<in> set (ctxlist s t) \<Longrightarrow> c \<notin> U"
    and "c \<in> U \<Longrightarrow> ctx_owner s c \<noteq> None"
    and "ctx_owner s c \<noteq> None \<Longrightarrow> c < next_ctx s"
  using assms unfolding ctx_inv_def by blast+

lemma ctx_inv_freeD:
  "ctx_inv s U \<Longrightarrow> c \<in> set (ctxlist s th) \<Longrightarrow> ctx_owner s c = Some th \<and> c \<notin> U"
  by (auto simp: ctx_inv_def)

lemma ctx_inv_fresh:
  "ctx_inv s U \<Longrightarrow> ctx_owner s (next_ctx s) = None"
  by (auto simp: ctx_inv_def)

lemma ctx_inv_entry_canary [simp]:
  "ctx_inv (s\<lparr>ctx_entry := e\<rparr>) U = ctx_inv s U"
  "ctx_inv (s\<lparr>ctx_canary := cw\<rparr>) U = ctx_inv s U"
  "ctx_inv (s\<lparr>ctx_to_enter := te\<rparr>) U = ctx_inv s U"
  by (simp_all add: ctx_inv_def)

lemma create_pop:
  assumes "ctx_inv s U" "ctxlist s th = c # cs"
  shows "ctx_inv (s\<lparr>ctxlist := (ctxlist s)(th := cs)\<rparr>) (insert c U) \<and> ctx_owner s c = Some th \<and> c \<notin> U"
proof -
  note D = ctx_invD [OF assms(1)]
  have own: "ctx_owner s c = Some th" using D(2) [of c th] assms(2) by simp
  have dc: "distinct (c # cs)" using D(1) [of th] assms(2) by simp
  have "ctx_inv (s\<lparr>ctxlist := (ctxlist s)(th := cs)\<rparr>) (insert c U)"
    apply (rule ctx_invI)
    subgoal for t using D(1) [of t] dc by simp
    subgoal for t d using D(2) [of d t] assms(2) by (auto split: if_splits)
    subgoal for t d using D(2) [of d t] D(3) [of d t] own dc assms(2) by (auto split: if_splits)
    subgoal for d using D(4) [of d] own by auto
    subgoal for d using D(5) [of d] by simp
    done
  then show ?thesis using own D(3) [of c th] assms(2) by simp
qed

lemma ctx_inv_free:
  assumes "ctx_inv s (insert c U)" "c \<notin> U"
  shows "ctx_inv (s\<lparr>ctx_owner := (ctx_owner s)(c := None)\<rparr>) U"
proof -
  note D = ctx_invD [OF assms(1)]
  show ?thesis
    apply (rule ctx_invI)
    subgoal for t using D(1) [of t] by simp
    subgoal for t d using D(2) [of d t] D(3) [of d t] by auto
    subgoal for t d using D(3) [of d t] by auto
    subgoal for d using D(4) [of d] assms(2) by auto
    subgoal for d using D(5) [of d] by (auto split: if_splits)
    done
qed

lemma create_alloc:
  assumes "ctx_inv s U"
  shows "ctx_inv (snd (dart__tasking__context_allocate th s)) (insert (next_ctx s) U) \<and>
         ctx_owner (snd (dart__tasking__context_allocate th s)) (next_ctx s) = Some th \<and> next_ctx s \<notin> U"
proof -
  note D = ctx_invD [OF assms(1)]
  let ?n = "next_ctx s"
  have fresh: "ctx_owner s ?n = None" using D(5) [of ?n] by (metis less_irrefl)
  have notfree: "?n \<notin> set (ctxlist s t)" for t using D(2) [of ?n t] fresh by auto
  have "ctx_inv (s\<lparr>ctx_owner := (ctx_owner s)(?n := Some th), next_ctx := Suc ?n\<rparr>) (insert ?n U)"
    apply (rule ctx_invI)
    subgoal for t using D(1) [of t] by simp
    subgoal for t d using D(2) [of d t] notfree [of t] by auto
    subgoal for t d using D(3) [of d t] notfree [of t] by auto
    subgoal for d using D(4) [of d] by auto
    subgoal for d using D(5) [of d] by (cases "d = ?n") auto
    done
  moreover have "?n \<notin> U" using D(4) [of ?n] fresh by auto
  ultimately show ?thesis by (simp add: dart__tasking__context_allocate_def)
qed

text \<open>
  C9: \<open>dart__tasking__context_create\<close> on thread \<open>th\<close> returns a context that is not in
  use, is owned by \<open>th\<close> and holds the entry function, and preserves the pool invariant
  with the context added to the set in use.
\<close>

theorem dart__tasking__context_create_correct:
  assumes "ctx_inv s U" "dart__tasking__context_create debug th f s = (c, s')"
  shows "c \<notin> U \<and> ctx_owner s' c = Some th \<and> ctx_entry s' c = Some f \<and> ctx_inv s' (insert c U)"
proof (cases "ctxlist s th")
  case Nil
  then show ?thesis using assms create_alloc [OF assms(1), of th]
    by (auto simp: dart__tasking__context_create_def dart__tasking__context_allocate_def Let_def)
next
  case (Cons c0 cs)
  then show ?thesis using assms create_pop [OF assms(1) Cons]
    by (auto simp: dart__tasking__context_create_def Let_def)
qed

text \<open>
  C10: \<open>dart__tasking__context_release\<close> of a context in use does not abort, pushes the
  context onto the free list of its owner (and of no other thread, whichever thread
  releases it), and preserves the invariant with the context no longer in use.
\<close>

theorem dart__tasking__context_release_owner:
  assumes "ctx_inv s U" "c \<in> U" "ctx_owner s c = Some ow"
  shows "\<exists>w s'. dart__tasking__context_release debug c s = Inr (w, s') \<and>
           ctxlist s' = (ctxlist s)(ow := c # ctxlist s ow) \<and> ctx_inv s' (U - {c})"
  using assms unfolding dart__tasking__context_release_def ctx_inv_def by auto

text \<open>
  C16: in a debug build, release reports a possible stack overflow exactly when both
  canary words differ from \<open>0xDEADBEEF\<close>; a stack that overran only its low end
  (where a downward-growing stack overflows) is not reported.
\<close>

theorem dart__tasking__context_release_warning:
  "ctx_owner s c = Some ow \<Longrightarrow>
   (\<exists>s'. dart__tasking__context_release True c s = Inr (True, s')) \<longleftrightarrow>
   fst (ctx_canary s c) \<noteq> STACK_CANARY \<and> snd (ctx_canary s c) \<noteq> STACK_CANARY"
  by (simp add: dart__tasking__context_release_def stack_overflow_warning_def)

text \<open>
  A context holding \<open>(fn, arg)\<close> that is invoked enters the trampoline, which
  returns \<open>fn\<close> and clears both \<open>ctx_to_enter\<close> and the entry; a later swap back into
  the context does not schedule the trampoline again, so \<open>fn\<close> runs once.
\<close>

theorem dart__tasking__context_entry_once:
  assumes "ctx_entry s c = Some f"
  shows "\<exists>s2. dart__tasking__context_entry th (dart__tasking__context_invoke th c s) = Inr (f, s2) \<and>
              ctx_entry s2 c = None \<and> ctx_to_enter s2 th = None \<and>
              ctx_to_enter (snd (dart__tasking__context_swap th' old c ok s2)) = ctx_to_enter s2"
  using assms
  by (simp add: dart__tasking__context_entry_def dart__tasking__context_invoke_def dart__tasking__context_swap_def Let_def)

text \<open>
  \<open>dart__tasking__context_cleanup\<close> empties the calling thread's free list, frees
  exactly the contexts that were on it, leaves every other list alone and preserves the
  invariant (contexts in use are not freed).
\<close>

theorem dart__tasking__context_cleanup_correct:
  "ctx_inv s U \<Longrightarrow>
   ctxlist (dart__tasking__context_cleanup th s) = (ctxlist s)(th := []) \<and>
   (\<forall>c. ctx_owner (dart__tasking__context_cleanup th s) c =
          (if c \<in> set (ctxlist s th) then None else ctx_owner s c)) \<and>
   ctx_inv (dart__tasking__context_cleanup th s) U"
proof (induction th s rule: dart__tasking__context_cleanup.induct)
  case (1 th s)
  show ?case
  proof (cases "ctxlist s th")
    case Nil
    then show ?thesis using "1.prems" by (simp add: fun_upd_idem)
  next
    case (Cons c cs)
    let ?s1 = "s\<lparr>ctxlist := (ctxlist s)(th := cs), ctx_owner := (ctx_owner s)(c := None)\<rparr>"
    have inv1: "ctx_inv ?s1 U"
      using create_pop [OF "1.prems" Cons] ctx_inv_free [of "s\<lparr>ctxlist := (ctxlist s)(th := cs)\<rparr>" c U]
      by simp
    have ih: "ctxlist (dart__tasking__context_cleanup th ?s1) = (ctxlist ?s1)(th := []) \<and>
       (\<forall>d. ctx_owner (dart__tasking__context_cleanup th ?s1) d =
          (if d \<in> set (ctxlist ?s1 th) then None else ctx_owner ?s1 d)) \<and>
       ctx_inv (dart__tasking__context_cleanup th ?s1) U"
      using "1.IH" [OF Cons inv1] .
    have eq: "dart__tasking__context_cleanup th s = dart__tasking__context_cleanup th ?s1"
      using Cons by simp
    show ?thesis unfolding eq using ih Cons by auto
  qed
qed

text \<open>
  C13: for a power-of-two page size and a size whose rounding does not wrap,
  \<open>dart__tasking__context_adjust_size\<close> returns the least multiple of the page size that
  is not below the size.
\<close>

theorem dart__tasking__context_adjust_size_least:
  assumes "k < 64" "unat sz + 2 ^ k \<le> 2 ^ 64"
  shows "2 ^ k dvd unat (dart__tasking__context_adjust_size (2 ^ k) sz) \<and>
         unat sz \<le> unat (dart__tasking__context_adjust_size (2 ^ k) sz) \<and>
         (\<forall>m. 2 ^ k dvd m \<and> unat sz \<le> m \<longrightarrow> unat (dart__tasking__context_adjust_size (2 ^ k) sz) \<le> m)"
proof -
  let ?r = "unat (dart__tasking__context_adjust_size (2 ^ k) sz)"
  have b: "2 ^ k dvd ?r" "unat sz \<le> ?r" "?r < unat sz + 2 ^ k"
    using adjust_size_bounds [OF assms] by simp_all
  have "?r \<le> m" if "2 ^ k dvd m" "unat sz \<le> m" for m
  proof (rule ccontr)
    assume "\<not> ?r \<le> m"
    then have "m + 2 ^ k \<le> ?r" using multiple_step [OF that(1) b(1)] by simp
    then show False using b(3) that(2) by simp
  qed
  then show ?thesis using b by blast
qed

text \<open>
  C14: when the rounding overflows (the size is within one page of \<open>2^64\<close>),
  \<open>dart__tasking__context_adjust_size\<close> wraps around and returns 0.
\<close>

theorem dart__tasking__context_adjust_size_wraps:
  assumes "k < 64" "2 ^ 64 < unat sz + 2 ^ k"
  shows "dart__tasking__context_adjust_size (2 ^ k) sz = 0"
  using round_up_mask_wraps [of k sz] assms by (simp add: adjust_size_mask)

text \<open>
  \<open>dart__tasking__context_init\<close> takes a \<open>DART_TASKSTACKSIZE\<close> of at least one page
  as it is, without rounding it to a multiple of the page size, and never yields less
  than one page.
\<close>

theorem dart__tasking__context_init_unrounded:
  assumes "0 \<le> env" "page_size \<le> word_of_int env"
  shows "dart__tasking__context_init page_size env = word_of_int env \<and>
         page_size \<le> dart__tasking__context_init page_size env' "
  using assms by (auto simp: dart__tasking__context_init_def Let_def)

section \<open>The properties at concrete states\<close>

theorem dart__tasking__context_create_witness:
  "dart__tasking__context_create True (0::nat) (7::nat)
     \<lparr>ctxlist = (\<lambda>_. [])(0 := [3]), ctx_owner = [3 \<mapsto> (0::nat), 2 \<mapsto> 5], ctx_entry = (Map.empty :: nat \<Rightarrow> nat option),
      ctx_canary = (\<lambda>_. (0, 0)), ctx_to_enter = Map.empty, next_ctx = 4\<rparr> =
   (3, \<lparr>ctxlist = (\<lambda>_. []), ctx_owner = [3 \<mapsto> (0::nat), 2 \<mapsto> 5], ctx_entry = [3 \<mapsto> (7::nat)],
        ctx_canary = (\<lambda>_. (0, 0))(3 := (STACK_CANARY, STACK_CANARY)), ctx_to_enter = Map.empty,
        next_ctx = 4\<rparr>) \<and>
   ctx_inv \<lparr>ctxlist = (\<lambda>_. []), ctx_owner = [3 \<mapsto> (0::nat), 2 \<mapsto> 5], ctx_entry = [3 \<mapsto> (7::nat)],
        ctx_canary = (\<lambda>_. (0, 0))(3 := (STACK_CANARY, STACK_CANARY)), ctx_to_enter = Map.empty,
        next_ctx = 4\<rparr> {3, 2}"
proof -
  have inv: "ctx_inv \<lparr>ctxlist = (\<lambda>_. [])(0 := [3]), ctx_owner = [3 \<mapsto> (0::nat), 2 \<mapsto> 5], ctx_entry = (Map.empty :: nat \<Rightarrow> nat option),
      ctx_canary = (\<lambda>_. (0, 0)), ctx_to_enter = Map.empty, next_ctx = 4\<rparr> {2::nat}"
    by (simp add: ctx_inv_def)
  have eq: "dart__tasking__context_create True (0::nat) (7::nat)
     \<lparr>ctxlist = (\<lambda>_. [])(0 := [3]), ctx_owner = [3 \<mapsto> (0::nat), 2 \<mapsto> 5], ctx_entry = (Map.empty :: nat \<Rightarrow> nat option),
      ctx_canary = (\<lambda>_. (0, 0)), ctx_to_enter = Map.empty, next_ctx = 4\<rparr> =
   (3, \<lparr>ctxlist = (\<lambda>_. []), ctx_owner = [3 \<mapsto> (0::nat), 2 \<mapsto> 5], ctx_entry = [3 \<mapsto> (7::nat)],
        ctx_canary = (\<lambda>_. (0, 0))(3 := (STACK_CANARY, STACK_CANARY)), ctx_to_enter = Map.empty,
        next_ctx = 4\<rparr>)"
    by (simp add: dart__tasking__context_create_def fun_eq_iff)
  show ?thesis using dart__tasking__context_create_correct [OF inv eq] eq by simp
qed

theorem dart__tasking__context_release_owner_witness:
  "dart__tasking__context_release False (3::nat)
     \<lparr>ctxlist = (\<lambda>_. []), ctx_owner = [3 \<mapsto> (0::nat), 2 \<mapsto> 5], ctx_entry = (Map.empty :: nat \<Rightarrow> nat option),
      ctx_canary = (\<lambda>_. (0, 0)), ctx_to_enter = Map.empty, next_ctx = 4\<rparr> =
   Inr (False, \<lparr>ctxlist = (\<lambda>_. [])(0 := [3]), ctx_owner = [3 \<mapsto> (0::nat), 2 \<mapsto> 5], ctx_entry = (Map.empty :: nat \<Rightarrow> nat option),
      ctx_canary = (\<lambda>_. (0, 0)), ctx_to_enter = Map.empty, next_ctx = 4\<rparr>) \<and>
   ctx_inv \<lparr>ctxlist = (\<lambda>_. [])(0 := [3]), ctx_owner = [3 \<mapsto> (0::nat), 2 \<mapsto> 5], ctx_entry = (Map.empty :: nat \<Rightarrow> nat option),
      ctx_canary = (\<lambda>_. (0, 0)), ctx_to_enter = Map.empty, next_ctx = 4\<rparr> {2}"
proof -
  have inv: "ctx_inv \<lparr>ctxlist = (\<lambda>_. []), ctx_owner = [3 \<mapsto> (0::nat), 2 \<mapsto> 5], ctx_entry = (Map.empty :: nat \<Rightarrow> nat option),
      ctx_canary = (\<lambda>_. (0, 0)), ctx_to_enter = Map.empty, next_ctx = 4\<rparr> {3, 2}"
    by (simp add: ctx_inv_def)
  show ?thesis
    using dart__tasking__context_release_owner [OF inv, of 3 0 False]
    by (auto simp: dart__tasking__context_release_def insert_Diff_if)
qed

theorem dart__tasking__context_release_warning_witness:
  "\<not> (\<exists>s'. dart__tasking__context_release True (3::nat)
     \<lparr>ctxlist = (\<lambda>_. []), ctx_owner = [3 \<mapsto> (0::nat)], ctx_entry = (Map.empty :: nat \<Rightarrow> nat option),
      ctx_canary = (\<lambda>_. (0, 0))(3 := (0, STACK_CANARY)), ctx_to_enter = Map.empty, next_ctx = 4\<rparr> = Inr (True, s'))"
  using dart__tasking__context_release_warning [of
     "\<lparr>ctxlist = (\<lambda>_. []), ctx_owner = [3 \<mapsto> (0::nat)], ctx_entry = (Map.empty :: nat \<Rightarrow> nat option),
      ctx_canary = (\<lambda>_. (0, 0))(3 := (0, STACK_CANARY)), ctx_to_enter = Map.empty, next_ctx = 4\<rparr>" 3 0]
  by (simp add: STACK_CANARY_def)

theorem dart__tasking__context_entry_once_witness:
  "dart__tasking__context_entry (0::nat) (dart__tasking__context_invoke 0 3
     \<lparr>ctxlist = (\<lambda>_. []), ctx_owner = [3 \<mapsto> (0::nat)], ctx_entry = [3 \<mapsto> (7::nat)],
      ctx_canary = (\<lambda>_. (0, 0)), ctx_to_enter = Map.empty, next_ctx = 4\<rparr>) =
   Inr (7, \<lparr>ctxlist = (\<lambda>_. []), ctx_owner = [3 \<mapsto> (0::nat)], ctx_entry = (Map.empty :: nat \<Rightarrow> nat option),
      ctx_canary = (\<lambda>_. (0, 0)), ctx_to_enter = Map.empty, next_ctx = 4\<rparr>) \<and>
   ctx_to_enter (snd (dart__tasking__context_swap 1 2 3 True
     \<lparr>ctxlist = (\<lambda>_. []), ctx_owner = [3 \<mapsto> (0::nat)], ctx_entry = (Map.empty :: nat \<Rightarrow> nat option),
      ctx_canary = (\<lambda>_. (0, 0)), ctx_to_enter = Map.empty, next_ctx = 4\<rparr>)) = Map.empty"
  using dart__tasking__context_entry_once [of
     "\<lparr>ctxlist = (\<lambda>_. []), ctx_owner = [3 \<mapsto> (0::nat)], ctx_entry = [3 \<mapsto> (7::nat)],
      ctx_canary = (\<lambda>_. (0, 0)), ctx_to_enter = Map.empty, next_ctx = 4\<rparr>" 3 7 0 1 2 True]
  by (auto simp: dart__tasking__context_entry_def dart__tasking__context_invoke_def fun_eq_iff)

theorem dart__tasking__context_cleanup_witness:
  "dart__tasking__context_cleanup (0::nat)
     \<lparr>ctxlist = (\<lambda>_. [])(0 := [3, 2]), ctx_owner = [3 \<mapsto> (0::nat), 2 \<mapsto> 0, 1 \<mapsto> 0], ctx_entry = (Map.empty :: nat \<Rightarrow> nat option),
      ctx_canary = (\<lambda>_. (0, 0)), ctx_to_enter = Map.empty, next_ctx = 4\<rparr> =
   \<lparr>ctxlist = (\<lambda>_. []), ctx_owner = [1 \<mapsto> (0::nat)], ctx_entry = (Map.empty :: nat \<Rightarrow> nat option),
      ctx_canary = (\<lambda>_. (0, 0)), ctx_to_enter = Map.empty, next_ctx = 4\<rparr>"
proof -
  have inv: "ctx_inv \<lparr>ctxlist = (\<lambda>_. [])(0 := [3, 2]), ctx_owner = [3 \<mapsto> (0::nat), 2 \<mapsto> 0, 1 \<mapsto> 0], ctx_entry = (Map.empty :: nat \<Rightarrow> nat option),
      ctx_canary = (\<lambda>_. (0, 0)), ctx_to_enter = Map.empty, next_ctx = 4\<rparr> {1}"
    by (simp add: ctx_inv_def)
  show ?thesis
    using dart__tasking__context_cleanup_correct [OF inv, of 0]
    by (simp add: fun_eq_iff)
qed

theorem dart__tasking__context_adjust_size_least_witness:
  "dart__tasking__context_adjust_size 4096 5000 = 8192 \<and>
   \<not> (\<exists>m::nat. 4096 dvd m \<and> 5000 \<le> m \<and> m < 8192)"
proof -
  have v: "dart__tasking__context_adjust_size 4096 5000 = 8192"
    by (simp add: dart__tasking__context_adjust_size_def)
  have "\<forall>m::nat. 4096 dvd m \<and> 5000 \<le> m \<longrightarrow> 8192 \<le> m"
    using dart__tasking__context_adjust_size_least [of 12 5000] by (simp add: v)
  then show ?thesis using v by (meson not_less)
qed

theorem dart__tasking__context_adjust_size_wraps_witness:
  "dart__tasking__context_adjust_size (2 ^ 12) 0xFFFFFFFFFFFFF001 = 0"
  using dart__tasking__context_adjust_size_wraps [of 12 "0xFFFFFFFFFFFFF001"] by simp

theorem dart__tasking__context_layout_guards_witness:
  "\<exists>lb ub. guards (dart__tasking__context_layout True (2 ^ 12) 64 5000) = Some (lb, ub) \<and>
     unat lb = 4096 \<and> \<not> 2 ^ 12 dvd unat ub"
  using dart__tasking__context_layout_guards [of 12 64 5000]
  by (simp add: dart__tasking__context_layout_def dart__tasking__context_adjust_size_def Let_def)

theorem dart__tasking__context_init_unrounded_witness:
  "dart__tasking__context_init 4096 5000 = 5000 \<and> \<not> 4096 dvd unat (5000 :: size_t)"
  using dart__tasking__context_init_unrounded [of 5000 4096 "-1"] by simp

end
