(* ===== verification/CopyIn.thy ===== *)
theory CopyIn
  imports TaskQueue
begin

text \<open>
  The copy-in engine of \<open>dart_tasking_copyin.c\<close> (lines 1--548 of the file): the
  buffer pools keyed by size (\<open>mem_pool_t\<close>, \<open>allocate_from_mempool\<close>,
  \<open>return_to_mempool\<close>), the creation of copy-in tasks for the GET and the SENDRECV
  implementation, the deferred send tasks, the task bodies and \<open>dart__tasking__copyin_info\<close>.
  What a function asks of the scheduler (create a task, flag it, free its reference,
  send a request, post a transfer) is returned as a list of \<open>copyin_event\<close>s in program
  order. Pools and pool elements are identified by the addresses
  \<open>malloc\<close> hands out, modelled as fresh numbers; a buffer \<open>elem->mem\<close> is
  identified with its element.
\<close>

section \<open>Buffer pools\<close>

definition MEMPOOL_MAGIC_NUM :: "64 word" where
  "MEMPOOL_MAGIC_NUM = 0xDEADBEEF"

text \<open>
  \<open>mem_pool\<close> is the global list of pools (pushed at the front), \<open>pool_size\<close> and
  \<open>pool_elems\<close> the fields \<open>size\<close> and \<open>elems\<close> of a pool, \<open>elem_magic\<close> and
  \<open>elem_mpool\<close> the header fields \<open>magic\<close> and \<open>mpool\<close> in front of a buffer
  (\<open>None\<close>: the memory there is not an element header).
\<close>

record mem_pool_state =
  mem_pool :: "nat list"
  pool_size :: "nat \<Rightarrow> size_t"
  pool_elems :: "nat \<Rightarrow> nat list"
  elem_magic :: "nat \<Rightarrow> 64 word"
  elem_mpool :: "nat \<Rightarrow> nat option"
  next_pool :: nat
  next_elem :: nat

text \<open>The loop of \<open>find_mem_pool\<close>: the first pool of the list with the size.\<close>

fun find_mem_pool_walk :: "(nat \<Rightarrow> size_t) \<Rightarrow> size_t \<Rightarrow> nat list \<Rightarrow> nat option" where
  "find_mem_pool_walk psz sz [] = None"
| "find_mem_pool_walk psz sz (p # ps) = (if sz = psz p then Some p else find_mem_pool_walk psz sz ps)"

definition find_mem_pool :: "size_t \<Rightarrow> mem_pool_state \<Rightarrow> nat option" where
  "find_mem_pool sz s = find_mem_pool_walk (pool_size s) sz (mem_pool s)"

definition new_mem_pool :: "size_t \<Rightarrow> mem_pool_state \<Rightarrow> nat \<times> mem_pool_state" where
  "new_mem_pool sz s =
     (let p = next_pool s
      in (p, s\<lparr>pool_size := (pool_size s)(p := sz), pool_elems := (pool_elems s)(p := []),
               mem_pool := p # mem_pool s, next_pool := Suc p\<rparr>))"

text \<open>
  \<open>allocate_from_mempool\<close>: find the pool of the size (again under the lock, and
  create it if still missing), then pop an element or allocate a new one.
\<close>

definition allocate_from_mempool :: "size_t \<Rightarrow> mem_pool_state \<Rightarrow> nat \<times> mem_pool_state" where
  "allocate_from_mempool sz s =
     (let (p, s1) = (case find_mem_pool sz s of
                       Some p \<Rightarrow> (p, s)
                     | None \<Rightarrow> (case find_mem_pool sz s of
                                  Some p \<Rightarrow> (p, s)
                                | None \<Rightarrow> new_mem_pool sz s))
      in case pool_elems s1 p of
           e # es \<Rightarrow> (e, s1\<lparr>pool_elems := (pool_elems s1)(p := es)\<rparr>)
         | [] \<Rightarrow> (let e = next_elem s1
                  in (e, s1\<lparr>elem_magic := (elem_magic s1)(e := MEMPOOL_MAGIC_NUM),
                            elem_mpool := (elem_mpool s1)(e := Some p), next_elem := Suc e\<rparr>)))"

text \<open>
  \<open>return_to_mempool\<close>: check the magic number in the header, then push the element
  onto the pool its header points back to.
\<close>

definition return_to_mempool :: "nat \<Rightarrow> mem_pool_state \<Rightarrow> mem_pool_state res" where
  "return_to_mempool e s =
     sbind (dart_assert (elem_magic s e = MEMPOOL_MAGIC_NUM))
       (\<lambda>_. case elem_mpool s e of
               None \<Rightarrow> Inl Invalid_pointer
             | Some p \<Rightarrow> Inr (s\<lparr>pool_elems := (pool_elems s)(p := e # pool_elems s p)\<rparr>))"

text \<open>
  \<open>mp_inv s U\<close>, for the set \<open>U\<close> of buffers handed out: the pools are distinct,
  one per size, and allocated; a free list holds elements of its own pool, each once
  and none handed out; every element has the magic number and belongs to a listed
  pool.
\<close>

definition mp_inv :: "mem_pool_state \<Rightarrow> nat set \<Rightarrow> bool" where
  "mp_inv s U \<longleftrightarrow>
     distinct (mem_pool s) \<and>
     (\<forall>p \<in> set (mem_pool s). \<forall>q \<in> set (mem_pool s). pool_size s p = pool_size s q \<longrightarrow> p = q) \<and>
     (\<forall>p \<in> set (mem_pool s). p < next_pool s) \<and>
     (\<forall>p. p \<notin> set (mem_pool s) \<longrightarrow> pool_elems s p = []) \<and>
     (\<forall>p. distinct (pool_elems s p)) \<and>
     (\<forall>p. \<forall>e \<in> set (pool_elems s p). elem_mpool s e = Some p \<and> e \<notin> U) \<and>
     (\<forall>e \<in> U. elem_mpool s e \<noteq> None) \<and>
     (\<forall>e p. elem_mpool s e = Some p \<longrightarrow>
        p \<in> set (mem_pool s) \<and> elem_magic s e = MEMPOOL_MAGIC_NUM \<and> e < next_elem s)"

section \<open>Dependencies and copy-in tasks\<close>

text \<open>
  The dependency types of \<open>dart_task_deptype_t\<close> and a dependency \<open>dart_task_dep_t\<close>:
  its global pointer (shared by \<open>gptr\<close> and \<open>copyin.gptr\<close>, which overlay each other),
  the copy-in size and destination buffer (\<open>None\<close>: NULL), type and phase.
\<close>

datatype dart_task_deptype = DART_DEP_IN | DART_DEP_OUT | DART_DEP_INOUT | DART_DEP_COPYIN
  | DART_DEP_COPYIN_R | DART_DEP_COPYIN_OUT | DART_DEP_DELAYED_IN | DART_DEP_DIRECT

record dart_gptr =
  gptr_unitid :: int
  gptr_teamid :: int
  gptr_segid :: int
  gptr_addr :: nat

record dart_task_dep =
  dep_type :: dart_task_deptype
  dep_phase :: int
  dep_gptr :: dart_gptr
  copyin_size :: size_t
  copyin_dest :: "nat option"

definition DART_TEAM_ALL :: int where "DART_TEAM_ALL = 0"

definition DART_SEGMENT_LOCAL :: int where "DART_SEGMENT_LOCAL = 0"

text \<open>\<open>COPYIN_TASK_PRIO\<close> is \<open>INT_MAX - 1\<close>.\<close>

definition COPYIN_TASK_PRIO :: int where
  "COPYIN_TASK_PRIO = 2147483647 - 1"

datatype dart_copyin_t = COPYIN_IMPL_UNDEFINED | COPYIN_IMPL_GET | COPYIN_IMPL_SENDRECV

datatype dart_copyin_wait_t = COPYIN_WAIT_UNDEFINED | COPYIN_WAIT_BLOCK | COPYIN_WAIT_DETACH
  | COPYIN_WAIT_DETACH_INLINE | COPYIN_WAIT_YIELD

text \<open>\<open>struct copyin_taskdata\<close>; a \<open>src\<close> of \<open>None\<close> is \<open>DART_GPTR_NULL\<close>.\<close>

record copyin_taskdata =
  td_src :: "dart_gptr option"
  td_num_bytes :: size_t
  td_unit :: int
  td_tag :: int

datatype copyin_taskfn = dart_tasking_copyin_recv_taskfn | dart_tasking_copyin_send_taskfn
  | dart_tasking_copyin_get_taskfn

text \<open>The arguments of one call of \<open>dart__tasking__create_task\<close>.\<close>

record copyin_create =
  cr_fn :: copyin_taskfn
  cr_arg :: copyin_taskdata
  cr_deps :: "dart_task_dep list"
  cr_prio :: int
  cr_noyield :: bool
  cr_descr :: string
  cr_ref :: bool

text \<open>
  \<open>Set_commtask\<close> and \<open>Taskref_free\<close> act on the task returned by the preceding
  \<open>Create_task\<close>; \<open>Send_request unit gptr size tag phase\<close> is
  \<open>dart_tasking_remote_sendrequest\<close>. The task bodies post \<open>dart_send_handle\<close>,
  \<open>dart_recv_handle\<close> (buffer, bytes, tag, unit), \<open>dart_get_handle\<close> (buffer, source,
  bytes) or a \<open>memcpy\<close> (destination, source, bytes), and wait: block on the handle,
  detach from it, or lower the priority and test and yield until it completes.
\<close>

datatype copyin_event = Create_task copyin_create | Set_commtask | Taskref_free
  | Send_request int dart_gptr size_t int int
  | Send_handle nat size_t int int | Recv_handle nat size_t int int | Get_handle nat dart_gptr size_t
  | Memcpy nat nat size_t | Wait_handle | Detach_handle | Set_prio int | Test_local | Yield int

text \<open>
  The output dependency on a caller-provided buffer: only its type and pointer are
  written; the rest of the array slot keeps the indeterminate content \<open>garbage\<close>.
\<close>

definition dest_out_dep :: "dart_task_dep \<Rightarrow> int \<Rightarrow> nat \<Rightarrow> dart_task_dep" where
  "dest_out_dep garbage myid d =
     garbage\<lparr>dep_type := DART_DEP_OUT,
             dep_gptr := \<lparr>gptr_unitid = myid, gptr_teamid = DART_TEAM_ALL,
                          gptr_segid = DART_SEGMENT_LOCAL, gptr_addr = d\<rparr>\<rparr>"

definition dest_out_deps :: "dart_task_dep \<Rightarrow> int \<Rightarrow> dart_task_dep \<Rightarrow> dart_task_dep list" where
  "dest_out_deps garbage myid dep =
     (case copyin_dest dep of None \<Rightarrow> [] | Some d \<Rightarrow> [dest_out_dep garbage myid d])"

text \<open>
  \<open>dart_tasking_copyin_create_task_get\<close>: an \<open>IN\<close> dependency on the source, the
  copy-in dependency as \<open>COPYIN_OUT\<close>, and the buffer dependency; \<open>garbage\<close> is the
  indeterminate content of the array \<open>deps\<close>.
\<close>

definition dart_tasking_copyin_create_task_get ::
  "dart_copyin_wait_t \<Rightarrow> (nat \<Rightarrow> dart_task_dep) \<Rightarrow> int \<Rightarrow> dart_task_dep \<Rightarrow> copyin_event list" where
  "dart_tasking_copyin_create_task_get wait_type garbage myid dep =
     (let deps = [garbage 0\<lparr>dep_type := DART_DEP_IN, dep_phase := dep_phase dep, dep_gptr := dep_gptr dep\<rparr>,
                  dep\<lparr>dep_type := DART_DEP_COPYIN_OUT\<rparr>] @ dest_out_deps (garbage 2) myid dep;
          arg = \<lparr>td_src = Some (dep_gptr dep), td_num_bytes = copyin_size dep, td_unit = 0, td_tag = 0\<rparr>
      in [Create_task \<lparr>cr_fn = dart_tasking_copyin_get_taskfn, cr_arg = arg, cr_deps = deps,
                       cr_prio = COPYIN_TASK_PRIO, cr_noyield = (wait_type = COPYIN_WAIT_DETACH_INLINE),
                       cr_descr = ''COPYIN (GET)'', cr_ref = True\<rparr>,
          Set_commtask, Taskref_free])"

text \<open>
  \<open>dart_tasking_copyin_create_task_sendrecv\<close>: a remote source gets a send request
  with the next tag of the static \<open>global_tag_counter\<close> (a C \<open>int\<close>); a local one
  is copied from the localized pointer. \<open>send_unit\<close> is the global id of the
  dependency's unit and \<open>localize\<close> stands for \<open>dart_tasking_datadeps_localize_gptr\<close>.
\<close>

definition dart_tasking_copyin_create_task_sendrecv ::
  "dart_copyin_wait_t \<Rightarrow> (nat \<Rightarrow> dart_task_dep) \<Rightarrow> (dart_gptr \<Rightarrow> dart_gptr) \<Rightarrow> int \<Rightarrow> int \<Rightarrow>
   dart_task_dep \<Rightarrow> 32 word \<Rightarrow> copyin_event list \<times> 32 word" where
  "dart_tasking_copyin_create_task_sendrecv wait_type garbage localize myid send_unit dep counter =
     (let (tag, counter', req, src) =
            (if myid \<noteq> send_unit
             then (sint counter, counter + 1,
                   [Send_request send_unit (dep_gptr dep) (copyin_size dep) (sint counter) (dep_phase dep)], None)
             else (0, counter, [], Some (localize (dep_gptr dep))));
          arg = \<lparr>td_src = src, td_num_bytes = copyin_size dep, td_unit = send_unit, td_tag = tag\<rparr>;
          deps = dep\<lparr>dep_type := DART_DEP_COPYIN_OUT\<rparr> # dest_out_deps (garbage 1) myid dep
      in (req @ [Create_task \<lparr>cr_fn = dart_tasking_copyin_recv_taskfn, cr_arg = arg, cr_deps = deps,
                              cr_prio = COPYIN_TASK_PRIO, cr_noyield = (wait_type = COPYIN_WAIT_DETACH_INLINE),
                              cr_descr = ''COPYIN (RECV)'', cr_ref = True\<rparr>,
                 Set_commtask, Taskref_free], counter'))"

text \<open>
  \<open>dart_tasking_copyin_create_task\<close>: the implementation is read from the environment
  (\<open>env_impl\<close>, default GET) on first use and kept in a static variable.
\<close>

record copyin_state =
  impl :: dart_copyin_t
  wait_type :: dart_copyin_wait_t
  global_tag_counter :: "32 word"

text \<open>\<open>dart_tasking_copyin_init\<close>: the wait strategy from \<open>DART_COPYIN_WAIT\<close> (\<open>env_wait\<close>,
  \<open>COPYIN_WAIT_DETACH_INLINE\<close> when unset).\<close>

definition dart_tasking_copyin_init :: "dart_copyin_wait_t \<Rightarrow> copyin_state \<Rightarrow> copyin_state" where
  "dart_tasking_copyin_init env_wait s = s\<lparr>wait_type := env_wait\<rparr>"

definition dart_tasking_copyin_create_task ::
  "dart_copyin_t \<Rightarrow> (nat \<Rightarrow> dart_task_dep) \<Rightarrow> (dart_gptr \<Rightarrow> dart_gptr) \<Rightarrow> int \<Rightarrow> int \<Rightarrow>
   dart_task_dep \<Rightarrow> copyin_state \<Rightarrow> (dart_ret_t \<times> copyin_event list \<times> copyin_state) res" where
  "dart_tasking_copyin_create_task env_impl garbage localize myid send_unit dep s =
     (let s1 = (if impl s = COPYIN_IMPL_UNDEFINED then s\<lparr>impl := env_impl\<rparr> else s)
      in if impl s1 = COPYIN_IMPL_SENDRECV
         then (let (evs, c) = dart_tasking_copyin_create_task_sendrecv (wait_type s1) garbage localize myid
                                send_unit dep (global_tag_counter s1)
               in Inr (DART_OK, evs, s1\<lparr>global_tag_counter := c\<rparr>))
         else if impl s1 = COPYIN_IMPL_GET
         then Inr (DART_OK, dart_tasking_copyin_create_task_get (wait_type s1) garbage myid dep, s1)
         else sbind (dart_assert (impl s1 = COPYIN_IMPL_GET \<or> impl s1 = COPYIN_IMPL_SENDRECV))
                (\<lambda>_. Inr (DART_ERR_INVAL, [], s1)))"

section \<open>Deferred send tasks\<close>

text \<open>\<open>struct copyin_task\<close>, kept on the static LIFO list \<open>delayed_tasks\<close>.\<close>

record copyin_task =
  ct_in_dep :: dart_task_dep
  ct_arg :: copyin_taskdata

text \<open>
  \<open>dart_tasking_copyin_sendrequest\<close> on the owner of the data: record a send task for
  later. \<open>num_bytes\<close> is an \<open>int32_t\<close> and is converted to the \<open>size_t\<close> field
  by sign extension; the fields of \<open>in_dep\<close> not written keep the content
  \<open>garbage\<close> of the fresh allocation.
\<close>

definition dart_tasking_copyin_sendrequest ::
  "dart_task_dep \<Rightarrow> (dart_gptr \<Rightarrow> dart_gptr) \<Rightarrow> dart_gptr \<Rightarrow> 32 word \<Rightarrow> int \<Rightarrow> int \<Rightarrow> int \<Rightarrow>
   copyin_task list \<Rightarrow> copyin_task list" where
  "dart_tasking_copyin_sendrequest garbage localize src_gptr num_bytes phase tag unit delayed_tasks =
     \<lparr>ct_in_dep = garbage\<lparr>dep_type := DART_DEP_DELAYED_IN, dep_phase := phase, dep_gptr := src_gptr\<rparr>,
      ct_arg = \<lparr>td_src = Some (localize src_gptr), td_num_bytes = scast num_bytes, td_unit = unit,
                td_tag = tag\<rparr>\<rparr> # delayed_tasks"

text \<open>The loop of \<open>dart_tasking_copyin_create_delayed_tasks\<close>: pop and create until empty.\<close>

fun create_delayed_loop :: "dart_copyin_wait_t \<Rightarrow> copyin_task list \<Rightarrow> copyin_event list" where
  "create_delayed_loop w [] = []"
| "create_delayed_loop w (ct # cts) =
     Create_task \<lparr>cr_fn = dart_tasking_copyin_send_taskfn, cr_arg = ct_arg ct, cr_deps = [ct_in_dep ct],
                  cr_prio = COPYIN_TASK_PRIO, cr_noyield = (w = COPYIN_WAIT_DETACH_INLINE),
                  cr_descr = ''COPYIN (SEND)'', cr_ref = False\<rparr> # create_delayed_loop w cts"

definition dart_tasking_copyin_create_delayed_tasks ::
  "dart_copyin_wait_t \<Rightarrow> copyin_task list \<Rightarrow> copyin_event list \<times> copyin_task list" where
  "dart_tasking_copyin_create_delayed_tasks w delayed_tasks = (create_delayed_loop w delayed_tasks, [])"

section \<open>Task bodies\<close>

text \<open>
  The test-yield loop of \<open>wait_for_handle\<close>, driven by the successive results of
  \<open>dart_test_local\<close>; \<open>None\<close> when the results given end before the handle
  completes.
\<close>

fun test_yield_loop :: "bool list \<Rightarrow> copyin_event list option" where
  "test_yield_loop [] = None"
| "test_yield_loop (flag # flags) =
     (if flag then Some [Test_local]
      else map_option (\<lambda>evs. Test_local # Yield (-1) # evs) (test_yield_loop flags))"

definition wait_for_handle :: "dart_copyin_wait_t \<Rightarrow> bool list \<Rightarrow> copyin_event list option" where
  "wait_for_handle w flags =
     (if w = COPYIN_WAIT_BLOCK then Some [Wait_handle]
      else if w = COPYIN_WAIT_DETACH \<or> w = COPYIN_WAIT_DETACH_INLINE then Some [Detach_handle]
      else map_option (\<lambda>evs. Set_prio DART_PRIO_LOW # evs @ [Set_prio COPYIN_TASK_PRIO]) (test_yield_loop flags))"

definition gptr_addr_or_null :: "dart_gptr option \<Rightarrow> nat" where
  "gptr_addr_or_null g = (case g of None \<Rightarrow> 0 | Some p \<Rightarrow> gptr_addr p)"

definition dart_tasking_copyin_send_taskfn_body ::
  "dart_copyin_wait_t \<Rightarrow> bool list \<Rightarrow> copyin_taskdata \<Rightarrow> copyin_event list option" where
  "dart_tasking_copyin_send_taskfn_body w flags td =
     map_option (\<lambda>evs. Send_handle (gptr_addr_or_null (td_src td)) (td_num_bytes td) (td_tag td) (td_unit td) # evs)
       (wait_for_handle w flags)"

text \<open>
  A dephash element of the running task's \<open>deps_owned\<close> list: its dependency,
  whether its destructor is \<open>dart_tasking_copyin_release_mem\<close>, and the dependency
  of the element \<open>dep_list\<close> points to (\<open>None\<close>: NULL).
\<close>

record dephash_elem =
  de_dep :: dart_task_dep
  de_dtor :: bool
  de_out :: "dart_task_dep option"

fun prepare_dep_walk :: "dephash_elem list \<Rightarrow> nat \<Rightarrow> nat option" where
  "prepare_dep_walk [] i = None"
| "prepare_dep_walk (e # es) i =
     (if dep_type (de_dep e) = DART_DEP_COPYIN_OUT then Some i else prepare_dep_walk es (Suc i))"

text \<open>
  \<open>dart_tasking_copyin_prepare_dep\<close>: find the \<open>COPYIN_OUT\<close> dependency of the
  running task and give it a pool buffer of its size unless the caller provided one;
  the result is the updated list, pool state and the index of the dependency.
\<close>

definition dart_tasking_copyin_prepare_dep ::
  "dephash_elem list \<Rightarrow> mem_pool_state \<Rightarrow> (dephash_elem list \<times> mem_pool_state \<times> nat) res" where
  "dart_tasking_copyin_prepare_dep elems mp =
     (case prepare_dep_walk elems 0 of
        None \<Rightarrow> Inl Assertion_failure
      | Some i \<Rightarrow>
          (let dep = de_dep (elems ! i)
           in if copyin_dest dep = None
              then (let (b, mp') = allocate_from_mempool (copyin_size dep) mp
                    in Inr (elems[i := (elems ! i)\<lparr>de_dep := dep\<lparr>copyin_dest := Some b\<rparr>, de_dtor := True\<rparr>], mp', i))
              else Inr (elems, mp, i)))"

text \<open>\<open>dart_tasking_copyin_release_mem\<close>, the destructor of the dependency.\<close>

definition dart_tasking_copyin_release_mem ::
  "dephash_elem \<Rightarrow> mem_pool_state \<Rightarrow> (dephash_elem \<times> mem_pool_state) res" where
  "dart_tasking_copyin_release_mem elem mp =
     (case copyin_dest (de_dep elem) of
        None \<Rightarrow> Inl Assertion_failure
      | Some b \<Rightarrow> sbind (return_to_mempool b mp)
                    (\<lambda>mp'. Inr (elem\<lparr>de_dep := (de_dep elem)\<lparr>copyin_dest := None\<rparr>\<rparr>, mp')))"

definition dart_tasking_copyin_recv_taskfn_body ::
  "dart_copyin_wait_t \<Rightarrow> bool list \<Rightarrow> copyin_taskdata \<Rightarrow> dephash_elem list \<Rightarrow> mem_pool_state \<Rightarrow>
   (copyin_event list option \<times> dephash_elem list \<times> mem_pool_state) res" where
  "dart_tasking_copyin_recv_taskfn_body w flags td elems mp =
     sbind (dart_tasking_copyin_prepare_dep elems mp)
       (\<lambda>(elems', mp', i).
          let dest = ptr_val (copyin_dest (de_dep (elems' ! i)))
          in Inr (case td_src td of
                    None \<Rightarrow> map_option (\<lambda>evs. Recv_handle dest (td_num_bytes td) (td_tag td) (td_unit td) # evs)
                              (wait_for_handle w flags)
                  | Some src \<Rightarrow> Some [Memcpy dest (gptr_addr src) (td_num_bytes td)], elems', mp'))"

definition dart_tasking_copyin_get_taskfn_body ::
  "dart_copyin_wait_t \<Rightarrow> bool list \<Rightarrow> dephash_elem list \<Rightarrow> mem_pool_state \<Rightarrow>
   (copyin_event list option \<times> dephash_elem list \<times> mem_pool_state) res" where
  "dart_tasking_copyin_get_taskfn_body w flags elems mp =
     sbind (dart_tasking_copyin_prepare_dep elems mp)
       (\<lambda>(elems', mp', i).
          let dep = de_dep (elems' ! i)
          in Inr (map_option (\<lambda>evs. Get_handle (ptr_val (copyin_dest dep)) (dep_gptr dep) (copyin_size dep) # evs)
                    (wait_for_handle w flags), elems', mp'))"

section \<open>Looking up a copy-in buffer\<close>

definition is_copyin_dep :: "dephash_elem \<Rightarrow> bool" where
  "is_copyin_dep e \<longleftrightarrow> dep_type (de_dep e) = DART_DEP_COPYIN \<or> dep_type (de_dep e) = DART_DEP_COPYIN_R"

text \<open>The loop of \<open>dart__tasking__copyin_info\<close>: the \<open>depnum\<close>-th copy-in dependency.\<close>

fun copyin_info_walk :: "dephash_elem list \<Rightarrow> int \<Rightarrow> int \<Rightarrow> dephash_elem option" where
  "copyin_info_walk [] i depnum = None"
| "copyin_info_walk (e # es) i depnum =
     (if is_copyin_dep e then (if i = depnum then Some e else copyin_info_walk es (i + 1) depnum)
      else copyin_info_walk es i depnum)"

text \<open>
  \<open>dart__tasking__copyin_info\<close>: the buffer the \<open>depnum\<close>-th copy-in dependency of a
  task reads from, found through the output dependency it is attached to.
\<close>

definition dart__tasking__copyin_info :: "dephash_elem list \<Rightarrow> int \<Rightarrow> nat option res" where
  "dart__tasking__copyin_info elems depnum =
     (case copyin_info_walk elems 0 depnum of
        None \<Rightarrow> Inl Assertion_failure
      | Some e \<Rightarrow> (case de_out e of
                     None \<Rightarrow> Inl Null_dereference
                   | Some out \<Rightarrow> Inr (if dep_type out = DART_DEP_COPYIN_OUT then copyin_dest out
                                     else Some (gptr_addr (dep_gptr out)))))"

text \<open>
  The reference behaviour of \<open>dart__tasking__copyin_info\<close>: the \<open>depnum\<close>-th element
  of the list of copy-in dependencies, read through its output dependency.
\<close>

definition copyin_info_spec :: "dephash_elem list \<Rightarrow> int \<Rightarrow> nat option res" where
  "copyin_info_spec elems depnum =
     (let cs = filter is_copyin_dep elems
      in if 0 \<le> depnum \<and> nat depnum < length cs
         then (case de_out (cs ! nat depnum) of
                 None \<Rightarrow> Inl Null_dereference
               | Some out \<Rightarrow> Inr (if dep_type out = DART_DEP_COPYIN_OUT then copyin_dest out
                                 else Some (gptr_addr (dep_gptr out))))
         else Inl Assertion_failure)"

section \<open>Delivery of a send request\<close>

text \<open>
  The owner's side of \<open>dart_tasking_remote_sendrequest\<close> (in \<open>dart_tasking_remote.c\<close>,
  not part of the sources): the request arrives and \<open>dart_tasking_copyin_sendrequest\<close>
  is called with the requesting unit and the size converted to its \<open>int32_t\<close>
  parameter.
\<close>

definition deliver_sendrequest ::
  "dart_task_dep \<Rightarrow> (dart_gptr \<Rightarrow> dart_gptr) \<Rightarrow> int \<Rightarrow> copyin_event \<Rightarrow> copyin_task list \<Rightarrow> copyin_task list" where
  "deliver_sendrequest garbage localize requester ev delayed_tasks =
     (case ev of
        Send_request unit gptr sz tag phase \<Rightarrow>
          dart_tasking_copyin_sendrequest garbage localize gptr (ucast sz) phase tag requester delayed_tasks
      | _ \<Rightarrow> delayed_tasks)"

section \<open>Lemmas on the buffer pools\<close>

lemma mp_invI:
  assumes "distinct (mem_pool s)"
    and "\<And>p q. p \<in> set (mem_pool s) \<Longrightarrow> q \<in> set (mem_pool s) \<Longrightarrow> pool_size s p = pool_size s q \<Longrightarrow> p = q"
    and "\<And>p. p \<in> set (mem_pool s) \<Longrightarrow> p < next_pool s"
    and "\<And>p. p \<notin> set (mem_pool s) \<Longrightarrow> pool_elems s p = []"
    and "\<And>p. distinct (pool_elems s p)"
    and "\<And>p e. e \<in> set (pool_elems s p) \<Longrightarrow> elem_mpool s e = Some p"
    and "\<And>p e. e \<in> set (pool_elems s p) \<Longrightarrow> e \<notin> U"
    and "\<And>e. e \<in> U \<Longrightarrow> elem_mpool s e \<noteq> None"
    and "\<And>e p. elem_mpool s e = Some p \<Longrightarrow> p \<in> set (mem_pool s)"
    and "\<And>e p. elem_mpool s e = Some p \<Longrightarrow> elem_magic s e = MEMPOOL_MAGIC_NUM"
    and "\<And>e p. elem_mpool s e = Some p \<Longrightarrow> e < next_elem s"
  shows "mp_inv s U"
  using assms unfolding mp_inv_def by blast

lemma mp_invD:
  assumes "mp_inv s U"
  shows "distinct (mem_pool s)"
    and "p \<in> set (mem_pool s) \<Longrightarrow> q \<in> set (mem_pool s) \<Longrightarrow> pool_size s p = pool_size s q \<Longrightarrow> p = q"
    and "p \<in> set (mem_pool s) \<Longrightarrow> p < next_pool s"
    and "p \<notin> set (mem_pool s) \<Longrightarrow> pool_elems s p = []"
    and "distinct (pool_elems s p)"
    and "e \<in> set (pool_elems s p) \<Longrightarrow> elem_mpool s e = Some p"
    and "e \<in> set (pool_elems s p) \<Longrightarrow> e \<notin> U"
    and "e \<in> U \<Longrightarrow> elem_mpool s e \<noteq> None"
    and "elem_mpool s e = Some p \<Longrightarrow> p \<in> set (mem_pool s)"
    and "elem_mpool s e = Some p \<Longrightarrow> elem_magic s e = MEMPOOL_MAGIC_NUM"
    and "elem_mpool s e = Some p \<Longrightarrow> e < next_elem s"
  using assms unfolding mp_inv_def by blast+

lemma find_mem_pool_walk_Some:
  "find_mem_pool_walk psz sz ps = Some p \<Longrightarrow> p \<in> set ps \<and> psz p = sz"
  by (induction ps) (auto split: if_splits)

lemma find_mem_pool_walk_None:
  "find_mem_pool_walk psz sz ps = None \<longleftrightarrow> (\<forall>p \<in> set ps. psz p \<noteq> sz)"
  by (induction ps) auto

lemma find_mem_pool_inv:
  assumes "mp_inv s U"
  shows "find_mem_pool sz s = Some p \<longleftrightarrow> p \<in> set (mem_pool s) \<and> pool_size s p = sz"
proof
  assume "find_mem_pool sz s = Some p"
  then show "p \<in> set (mem_pool s) \<and> pool_size s p = sz"
    using find_mem_pool_walk_Some by (fastforce simp: find_mem_pool_def)
next
  assume p: "p \<in> set (mem_pool s) \<and> pool_size s p = sz"
  then obtain q where q: "find_mem_pool sz s = Some q"
    using find_mem_pool_walk_None [of "pool_size s" sz "mem_pool s"] by (cases "find_mem_pool sz s") (auto simp: find_mem_pool_def)
  then have "q \<in> set (mem_pool s) \<and> pool_size s q = sz"
    using find_mem_pool_walk_Some by (fastforce simp: find_mem_pool_def)
  then show "find_mem_pool sz s = Some p" using q p mp_invD(2) [OF assms, of p q] by simp
qed

lemma new_mem_pool_inv:
  assumes inv: "mp_inv s U" and none: "find_mem_pool sz s = None"
  shows "mp_inv (snd (new_mem_pool sz s)) U \<and> fst (new_mem_pool sz s) \<in> set (mem_pool (snd (new_mem_pool sz s))) \<and>
         pool_size (snd (new_mem_pool sz s)) (fst (new_mem_pool sz s)) = sz \<and>
         pool_elems (snd (new_mem_pool sz s)) (fst (new_mem_pool sz s)) = [] \<and>
         elem_mpool (snd (new_mem_pool sz s)) = elem_mpool s"
proof -
  note D = mp_invD [OF inv]
  let ?n = "next_pool s"
  have fresh: "?n \<notin> set (mem_pool s)" using D(3) [of ?n] by auto
  have nosz: "\<forall>p \<in> set (mem_pool s). pool_size s p \<noteq> sz"
    using none find_mem_pool_walk_None by (simp add: find_mem_pool_def)
  have "mp_inv (s\<lparr>pool_size := (pool_size s)(?n := sz), pool_elems := (pool_elems s)(?n := []),
               mem_pool := ?n # mem_pool s, next_pool := Suc ?n\<rparr>) U"
    apply (rule mp_invI)
    subgoal using D(1) fresh by simp
    subgoal for p q using D(2) [of p q] nosz fresh by (auto split: if_splits)
    subgoal for p using D(3) [of p] by auto
    subgoal for p using D(4) [of p] by auto
    subgoal for p using D(5) [of p] by auto
    subgoal for p e using D(6) [of e p] by (auto split: if_splits)
    subgoal for p e using D(7) [of e p] by (auto split: if_splits)
    subgoal for e using D(8) [of e] by auto
    subgoal for e p using D(9) [of e p] by auto
    subgoal for e p using D(10) [of e p] by auto
    subgoal for e p using D(11) [of e p] by auto
    done
  then show ?thesis by (simp add: new_mem_pool_def Let_def)
qed

lemma alloc_pool_step:
  assumes inv: "mp_inv s U"
    and eq: "(case find_mem_pool sz s of Some p \<Rightarrow> (p, s)
              | None \<Rightarrow> (case find_mem_pool sz s of Some p \<Rightarrow> (p, s) | None \<Rightarrow> new_mem_pool sz s)) = (p, s1)"
  shows "mp_inv s1 U \<and> p \<in> set (mem_pool s1) \<and> pool_size s1 p = sz \<and>
         elem_mpool s1 = elem_mpool s \<and> elem_magic s1 = elem_magic s \<and> next_elem s1 = next_elem s"
proof (cases "find_mem_pool sz s")
  case None
  then show ?thesis using eq new_mem_pool_inv [OF inv None]
    by (auto simp: new_mem_pool_def Let_def)
next
  case (Some q)
  then have "p = q" "s1 = s" using eq by simp_all
  then show ?thesis using Some find_mem_pool_inv [OF inv, of sz q] inv by simp
qed

lemma alloc_elem_step:
  assumes inv: "mp_inv s U" and p: "p \<in> set (mem_pool s)"
    and eq: "(case pool_elems s p of
                e # es \<Rightarrow> (e, s\<lparr>pool_elems := (pool_elems s)(p := es)\<rparr>)
              | [] \<Rightarrow> (let e = next_elem s
                       in (e, s\<lparr>elem_magic := (elem_magic s)(e := MEMPOOL_MAGIC_NUM),
                                elem_mpool := (elem_mpool s)(e := Some p), next_elem := Suc e\<rparr>))) = (e, s')"
  shows "e \<notin> U \<and> elem_mpool s' e = Some p \<and> pool_size s' = pool_size s \<and> mp_inv s' (insert e U)"
proof (cases "pool_elems s p")
  case (Cons e0 es)
  note D = mp_invD [OF inv]
  have e: "e = e0" "s' = s\<lparr>pool_elems := (pool_elems s)(p := es)\<rparr>" using eq Cons by simp_all
  have own: "elem_mpool s e0 = Some p" "e0 \<notin> U" using D(6,7) [of e0 p] Cons by simp_all
  have dc: "distinct (e0 # es)" using D(5) [of p] Cons by simp
  have "mp_inv (s\<lparr>pool_elems := (pool_elems s)(p := es)\<rparr>) (insert e0 U)"
    apply (rule mp_invI)
    subgoal using D(1) by simp
    subgoal for p' q using D(2) [of p' q] by simp
    subgoal for p' using D(3) [of p'] by simp
    subgoal for p' using D(4) [of p'] p by auto
    subgoal for p' using D(5) [of p'] dc by simp
    subgoal for p' d using D(6) [of d p'] Cons by (auto split: if_splits)
    subgoal for p' d using D(6) [of d p'] D(7) [of d p'] Cons dc own by (auto split: if_splits)
    subgoal for d using D(8) [of d] own by auto
    subgoal for d p' using D(9) [of d p'] by simp
    subgoal for d p' using D(10) [of d p'] by simp
    subgoal for d p' using D(11) [of d p'] by simp
    done
  then show ?thesis using e own by simp
next
  case Nil
  note D = mp_invD [OF inv]
  let ?n = "next_elem s"
  have e: "e = ?n" "s' = s\<lparr>elem_magic := (elem_magic s)(?n := MEMPOOL_MAGIC_NUM),
                                elem_mpool := (elem_mpool s)(?n := Some p), next_elem := Suc ?n\<rparr>"
    using eq Nil by (auto simp: Let_def)
  have fresh: "elem_mpool s ?n = None" using D(11) [of ?n] by (cases "elem_mpool s ?n") auto
  have notfree: "?n \<notin> set (pool_elems s q)" for q using D(6) [of ?n q] fresh by auto
  have notU: "?n \<notin> U" using D(8) [of ?n] fresh by auto
  have "mp_inv (s\<lparr>elem_magic := (elem_magic s)(?n := MEMPOOL_MAGIC_NUM),
                  elem_mpool := (elem_mpool s)(?n := Some p), next_elem := Suc ?n\<rparr>) (insert ?n U)"
    apply (rule mp_invI)
    subgoal using D(1) by simp
    subgoal for p' q using D(2) [of p' q] by simp
    subgoal for p' using D(3) [of p'] by simp
    subgoal for p' using D(4) [of p'] by simp
    subgoal for p' using D(5) [of p'] by simp
    subgoal for p' d using D(6) [of d p'] notfree [of p'] by auto
    subgoal for p' d using D(7) [of d p'] notfree [of p'] by auto
    subgoal for d using D(8) [of d] by auto
    subgoal for d p' using D(9) [of d p'] p by (auto split: if_splits)
    subgoal for d p' using D(10) [of d p'] by (auto split: if_splits)
    subgoal for d p' using D(11) [of d p'] by (auto split: if_splits)
    done
  then show ?thesis using e notU by simp
qed

lemma allocate_from_mempool_inv:
  assumes inv: "mp_inv s U" and eq: "allocate_from_mempool sz s = (e, s')"
  shows "e \<notin> U \<and> (\<exists>p. elem_mpool s' e = Some p \<and> pool_size s' p = sz) \<and> mp_inv s' (insert e U)"
proof -
  obtain p s1 where ps: "(case find_mem_pool sz s of Some p \<Rightarrow> (p, s)
              | None \<Rightarrow> (case find_mem_pool sz s of Some p \<Rightarrow> (p, s) | None \<Rightarrow> new_mem_pool sz s)) = (p, s1)"
    by (metis prod.exhaust)
  note P = alloc_pool_step [OF inv ps]
  have "(case pool_elems s1 p of
                e # es \<Rightarrow> (e, s1\<lparr>pool_elems := (pool_elems s1)(p := es)\<rparr>)
              | [] \<Rightarrow> (let e = next_elem s1
                       in (e, s1\<lparr>elem_magic := (elem_magic s1)(e := MEMPOOL_MAGIC_NUM),
                                elem_mpool := (elem_mpool s1)(e := Some p), next_elem := Suc e\<rparr>))) = (e, s')"
    using eq ps by (simp add: allocate_from_mempool_def)
  from alloc_elem_step [OF conjunct1 [OF P] conjunct1 [OF conjunct2 [OF P]] this] P show ?thesis by auto
qed

lemma return_to_mempool_inv:
  assumes inv: "mp_inv s U" and e: "e \<in> U"
  shows "\<exists>p s'. elem_mpool s e = Some p \<and> return_to_mempool e s = Inr s' \<and>
           pool_elems s' = (pool_elems s)(p := e # pool_elems s p) \<and> mp_inv s' (U - {e})"
proof -
  note D = mp_invD [OF inv]
  obtain p where p: "elem_mpool s e = Some p" using D(8) [OF e] by auto
  have pin: "p \<in> set (mem_pool s)" and mg: "elem_magic s e = MEMPOOL_MAGIC_NUM" using D(9,10) [OF p] by simp_all
  have notfree: "e \<notin> set (pool_elems s q)" for q using D(7) [of e q] e by auto
  have "mp_inv (s\<lparr>pool_elems := (pool_elems s)(p := e # pool_elems s p)\<rparr>) (U - {e})"
    apply (rule mp_invI)
    subgoal using D(1) by simp
    subgoal for p' q using D(2) [of p' q] by simp
    subgoal for p' using D(3) [of p'] by simp
    subgoal for p' using D(4) [of p'] pin by auto
    subgoal for p' using D(5) [of p'] notfree [of p] by auto
    subgoal for p' d using D(6) [of d p'] p by (auto split: if_splits)
    subgoal for p' d using D(7) [of d p'] by (auto split: if_splits)
    subgoal for d using D(8) [of d] by simp
    subgoal for d p' using D(9) [of d p'] by simp
    subgoal for d p' using D(10) [of d p'] by simp
    subgoal for d p' using D(11) [of d p'] by simp
    done
  then show ?thesis using p mg by (simp add: return_to_mempool_def)
qed



lemma prepare_dep_walk_Some:
  "prepare_dep_walk es i = Some j \<Longrightarrow> i \<le> j \<and> j - i < length es \<and> dep_type (de_dep (es ! (j - i))) = DART_DEP_COPYIN_OUT"
proof (induction es i rule: prepare_dep_walk.induct)
  case (2 e es i)
  then show ?case
    by (auto split: if_splits simp: nth_Cons' Suc_diff_le)
qed simp


lemma copyin_info_walk_eq:
  "copyin_info_walk es i d =
     (if i \<le> d \<and> nat (d - i) < length (filter is_copyin_dep es)
      then Some (filter is_copyin_dep es ! nat (d - i)) else None)"
proof (induction es arbitrary: i)
  case Nil
  then show ?case by simp
next
  case (Cons e es)
  show ?case
  proof (cases "is_copyin_dep e")
    case True
    show ?thesis
    proof (cases "i = d")
      case False
      then have "i \<le> d \<longleftrightarrow> i + 1 \<le> d" by auto
      moreover have "i + 1 \<le> d \<Longrightarrow> nat (d - i) = Suc (nat (d - (i + 1)))" by simp
      ultimately show ?thesis using True False Cons.IH [of "i + 1"] by auto
    qed (use True in simp)
  next
    case False
    then show ?thesis using Cons.IH [of i] by simp
  qed
qed

lemma test_yield_loop_Some:
  "test_yield_loop flags \<noteq> None \<longleftrightarrow> True \<in> set flags"
  by (induction flags) auto

lemma alloc_top:
  assumes inv: "mp_inv s U" and p: "p \<in> set (mem_pool s)" "pool_size s p = sz" "pool_elems s p = e0 # es"
  shows "fst (allocate_from_mempool sz s) = e0"
proof -
  have "find_mem_pool sz s = Some p" using find_mem_pool_inv [OF inv] p by simp
  then show ?thesis using p by (simp add: allocate_from_mempool_def)
qed

lemma create_delayed_loop_map:
  "create_delayed_loop w ds =
     map (\<lambda>ct. Create_task \<lparr>cr_fn = dart_tasking_copyin_send_taskfn, cr_arg = ct_arg ct, cr_deps = [ct_in_dep ct],
                  cr_prio = COPYIN_TASK_PRIO, cr_noyield = (w = COPYIN_WAIT_DETACH_INLINE),
                  cr_descr = ''COPYIN (SEND)'', cr_ref = False\<rparr>) ds"
  by (induction ds) simp_all

lemma fold_sendrequest:
  "fold (\<lambda>(gp, n, ph, tg, u). dart_tasking_copyin_sendrequest g loc gp n ph tg u) reqs ds =
   rev (map (\<lambda>(gp, n, ph, tg, u). hd (dart_tasking_copyin_sendrequest g loc gp n ph tg u [])) reqs) @ ds"
  by (induction reqs arbitrary: ds) (auto simp: dart_tasking_copyin_sendrequest_def)

lemma test_yield_loop_value:
  "True \<in> set flags \<Longrightarrow>
   test_yield_loop flags = Some (concat (replicate (length (takeWhile Not flags)) [Test_local, Yield (-1)]) @ [Test_local])"
  by (induction flags) auto

section \<open>Properties of the copy-in engine\<close>

text \<open>
  C18: \<open>allocate_from_mempool\<close> hands out a buffer that is not in use and belongs to a pool of
  the requested size, the top of that pool's free list when it has one, and it preserves
  the pool invariant with the buffer added to those in use.
\<close>

theorem allocate_from_mempool_correct:
  assumes inv: "mp_inv s U" and eq: "allocate_from_mempool sz s = (e, s')"
  shows "e \<notin> U \<and> (\<exists>p. elem_mpool s' e = Some p \<and> pool_size s' p = sz) \<and> mp_inv s' (insert e U) \<and>
         (\<forall>p. p \<in> set (mem_pool s) \<and> pool_size s p = sz \<and> pool_elems s p \<noteq> [] \<longrightarrow> e = hd (pool_elems s p))"
proof -
  have "e = hd (pool_elems s p)" if "p \<in> set (mem_pool s)" "pool_size s p = sz" "pool_elems s p \<noteq> []" for p
    using alloc_top [OF inv that(1,2), of "hd (pool_elems s p)" "tl (pool_elems s p)"] that(3) eq by simp
  then show ?thesis using allocate_from_mempool_inv [OF inv eq] by blast
qed

text \<open>
  C19: \<open>return_to_mempool\<close> of a buffer in use pushes it onto the free list of its own pool
  and preserves the invariant; a pointer whose header lacks the magic number aborts.
\<close>

theorem return_to_mempool_correct:
  assumes inv: "mp_inv s U"
  shows "(e \<in> U \<longrightarrow> (\<exists>p s'. elem_mpool s e = Some p \<and> return_to_mempool e s = Inr s' \<and>
            pool_elems s' = (pool_elems s)(p := e # pool_elems s p) \<and> mp_inv s' (U - {e}))) \<and>
         (elem_magic s e \<noteq> MEMPOOL_MAGIC_NUM \<longrightarrow> return_to_mempool e s = Inl Assertion_failure)"
  using return_to_mempool_inv [OF inv, of e] by (simp add: return_to_mempool_def)

text \<open>
  C20: a copy-in dependency without a caller buffer gets a pool buffer and the destructor
  \<open>dart_tasking_copyin_release_mem\<close> in \<open>dart_tasking_copyin_prepare_dep\<close>; the destructor
  returns that buffer to the pool of the dependency's size, clears the pointer and restores
  the invariant.
\<close>

theorem dart_tasking_copyin_release_mem_roundtrip:
  assumes inv: "mp_inv mp U"
    and prep: "dart_tasking_copyin_prepare_dep elems mp = Inr (elems', mp', i)"
    and nodest: "copyin_dest (de_dep (elems ! i)) = None"
  shows "\<exists>b elem'' mp''. copyin_dest (de_dep (elems' ! i)) = Some b \<and> de_dtor (elems' ! i) \<and>
           dart_tasking_copyin_release_mem (elems' ! i) mp' = Inr (elem'', mp'') \<and>
           copyin_dest (de_dep elem'') = None \<and>
           (\<exists>p. elem_mpool mp'' b = Some p \<and> pool_size mp'' p = copyin_size (de_dep (elems ! i)) \<and>
                pool_elems mp'' p = b # pool_elems mp' p) \<and>
           mp_inv mp'' U"
proof -
  obtain j where w: "prepare_dep_walk elems 0 = Some j"
    using prep by (cases "prepare_dep_walk elems 0") (auto simp: dart_tasking_copyin_prepare_dep_def)
  have ji: "j = i" "i < length elems"
    using prep w prepare_dep_walk_Some [OF w] nodest
    by (auto simp: dart_tasking_copyin_prepare_dep_def Let_def split: prod.splits if_splits)
  obtain b mp1 where a: "allocate_from_mempool (copyin_size (de_dep (elems ! i))) mp = (b, mp1)"
    by (metis prod.exhaust)
  have res: "elems' = elems[i := (elems ! i)\<lparr>de_dep := (de_dep (elems ! i))\<lparr>copyin_dest := Some b\<rparr>, de_dtor := True\<rparr>]"
      "mp' = mp1"
    using prep w ji a nodest by (simp_all add: dart_tasking_copyin_prepare_dep_def Let_def)
  obtain p where A: "b \<notin> U" "elem_mpool mp1 b = Some p" "pool_size mp1 p = copyin_size (de_dep (elems ! i))"
      "mp_inv mp1 (insert b U)"
    using allocate_from_mempool_inv [OF inv a] by blast
  obtain q mp2 where R: "elem_mpool mp1 b = Some q" "return_to_mempool b mp1 = Inr mp2"
      "pool_elems mp2 = (pool_elems mp1)(q := b # pool_elems mp1 q)" "mp_inv mp2 (insert b U - {b})"
    using return_to_mempool_inv [OF A(4), of b] by blast
  have same: "elem_mpool mp2 = elem_mpool mp1" "pool_size mp2 = pool_size mp1"
    using R(2) by (auto simp: return_to_mempool_def dart_assert_def split: if_splits option.splits)
  have "insert b U - {b} = U" using A(1) by auto
  then show ?thesis
    using res ji A R same
    by (simp add: dart_tasking_copyin_release_mem_def)
qed

section \<open>Lemmas on copy-in tasks\<close>

text \<open>
  A returned buffer is the next one handed out for its size (LIFO reuse of the size class).
\<close>

theorem mempool_reuse:
  assumes inv: "mp_inv s U" and e: "e \<in> U" and p: "elem_mpool s e = Some p"
    and r: "return_to_mempool e s = Inr s'"
  shows "fst (allocate_from_mempool (pool_size s p) s') = e"
proof -
  obtain q s'' where "elem_mpool s e = Some q" "return_to_mempool e s = Inr s''"
      "pool_elems s'' = (pool_elems s)(q := e # pool_elems s q)" "mp_inv s'' (U - {e})"
    using return_to_mempool_inv [OF inv e] by blast
  then have s'': "s'' = s'" "q = p" "pool_elems s' p = e # pool_elems s p" "mp_inv s' (U - {e})"
    using r p by simp_all
  have same: "mem_pool s' = mem_pool s" "pool_size s' = pool_size s" using r p
    by (auto simp: return_to_mempool_def dart_assert_def split: if_splits)
  have "find_mem_pool (pool_size s p) s' = Some p"
    using find_mem_pool_inv [OF s''(4)] mp_invD(9) [OF inv p] same by simp
  then show ?thesis using s''(3) by (simp add: allocate_from_mempool_def)
qed

text \<open>
  C22: for a remote source, \<open>dart_tasking_copyin_create_task_sendrecv\<close> sends a request with
  the next tag and creates a receive task with that tag; when the owner receives the request
  and creates its deferred tasks, the single send task it creates has the same tag, sends to
  the requester, and (for sizes below \<open>2^31\<close>) the same byte count.
\<close>

theorem dart_tasking_copyin_sendrecv_match:
  assumes remote: "myid \<noteq> send_unit"
    and eq: "dart_tasking_copyin_create_task_sendrecv w g loc myid send_unit dep c = (evs, c')"
    and small: "unat (copyin_size dep) < 2 ^ 31"
  shows "c' = c + 1 \<and>
         (\<exists>r rs. evs = [Send_request send_unit (dep_gptr dep) (copyin_size dep) (sint c) (dep_phase dep),
                         Create_task r, Set_commtask, Taskref_free] \<and>
                 create_delayed_loop w' (fold (deliver_sendrequest g' loc' myid) evs []) = [Create_task rs] \<and>
                 cr_fn r = dart_tasking_copyin_recv_taskfn \<and> cr_fn rs = dart_tasking_copyin_send_taskfn \<and>
                 td_tag (cr_arg rs) = td_tag (cr_arg r) \<and> td_unit (cr_arg r) = send_unit \<and>
                 td_unit (cr_arg rs) = myid \<and> td_num_bytes (cr_arg rs) = td_num_bytes (cr_arg r))"
  using remote eq sext_ucast_small [OF small]
  by (auto simp: dart_tasking_copyin_create_task_sendrecv_def deliver_sendrequest_def
                 dart_tasking_copyin_sendrequest_def Let_def)

text \<open>
  \<open>dart_tasking_copyin_sendrequest\<close> receives the size as an \<open>int32_t\<close>: the byte count of
  the deferred send task is the low 32 bits of the requested size, sign-extended to 64 bits,
  so a size of \<open>2^31\<close> or more modulo \<open>2^32\<close> becomes a count close to \<open>2^64\<close>.
\<close>

theorem dart_tasking_copyin_sendrequest_num_bytes:
  "unat (td_num_bytes (ct_arg (hd (dart_tasking_copyin_sendrequest g loc gp (ucast (sz :: size_t)) ph tg u ds)))) =
     (if unat sz mod 2 ^ 32 < 2 ^ 31 then unat sz mod 2 ^ 32 else unat sz mod 2 ^ 32 + (2 ^ 64 - 2 ^ 32))"
  using unat_sext_32_64 [of sz] by (simp add: dart_tasking_copyin_sendrequest_def)

text \<open>
  \<open>dart_tasking_copyin_create_delayed_tasks\<close> creates one send task per deferred request,
  with its tag, unit and \<open>DELAYED_IN\<close> dependency, in the reverse order of the requests, and
  leaves the list empty.
\<close>

theorem dart_tasking_copyin_create_delayed_tasks_lifo:
  "dart_tasking_copyin_create_delayed_tasks w
     (fold (\<lambda>(gp, n, ph, tg, u). dart_tasking_copyin_sendrequest g loc gp n ph tg u) reqs []) =
   (map (\<lambda>(gp, n, ph, tg, u).
          Create_task \<lparr>cr_fn = dart_tasking_copyin_send_taskfn,
                       cr_arg = \<lparr>td_src = Some (loc gp), td_num_bytes = scast n, td_unit = u, td_tag = tg\<rparr>,
                       cr_deps = [g\<lparr>dep_type := DART_DEP_DELAYED_IN, dep_phase := ph, dep_gptr := gp\<rparr>],
                       cr_prio = COPYIN_TASK_PRIO, cr_noyield = (w = COPYIN_WAIT_DETACH_INLINE),
                       cr_descr = ''COPYIN (SEND)'', cr_ref = False\<rparr>) (rev reqs), [])"
proof -
  have "fold (\<lambda>(gp, n, ph, tg, u). dart_tasking_copyin_sendrequest g loc gp n ph tg u) reqs [] =
        rev (map (\<lambda>(gp, n, ph, tg, u). hd (dart_tasking_copyin_sendrequest g loc gp n ph tg u [])) reqs)"
    using fold_sendrequest [of g loc reqs "[]"] by simp
  then show ?thesis
    by (simp add: dart_tasking_copyin_create_delayed_tasks_def create_delayed_loop_map rev_map
                  dart_tasking_copyin_sendrequest_def case_prod_beta)
qed

text \<open>
  C25: \<open>dart__tasking__copyin_info\<close> equals its reference behaviour: the \<open>depnum\<close>-th copy-in
  dependency, read through its output dependency; a missing one aborts.
\<close>

theorem dart__tasking__copyin_info_equiv:
  "dart__tasking__copyin_info elems depnum = copyin_info_spec elems depnum"
  by (simp add: dart__tasking__copyin_info_def copyin_info_spec_def copyin_info_walk_eq Let_def)

text \<open>
  C26: in the test-yield mode, \<open>wait_for_handle\<close> lowers the task priority, tests and yields
  (to the back of the queue) until the handle completes, and restores \<open>COPYIN_TASK_PRIO\<close>; it
  returns exactly when some test succeeds.
\<close>

theorem wait_for_handle_test_yield:
  assumes "w \<noteq> COPYIN_WAIT_BLOCK" "w \<noteq> COPYIN_WAIT_DETACH" "w \<noteq> COPYIN_WAIT_DETACH_INLINE"
  shows "(True \<in> set flags \<longrightarrow>
           wait_for_handle w flags = Some (Set_prio DART_PRIO_LOW #
             concat (replicate (length (takeWhile Not flags)) [Test_local, Yield (-1)]) @
             [Test_local, Set_prio COPYIN_TASK_PRIO])) \<and>
         (True \<notin> set flags \<longrightarrow> wait_for_handle w flags = None)"
  using assms test_yield_loop_value [of flags] test_yield_loop_Some [of flags]
  by (auto simp: wait_for_handle_def)

section \<open>The properties at concrete states\<close>

lemma mp_inv_example:
  "mp_inv \<lparr>mem_pool = [0], pool_size = (\<lambda>_. 0)(0 := 64), pool_elems = (\<lambda>_. [])(0 := [5]),
          elem_magic = (\<lambda>_. 0)(5 := MEMPOOL_MAGIC_NUM, 6 := MEMPOOL_MAGIC_NUM),
          elem_mpool = [5 \<mapsto> 0, 6 \<mapsto> 0], next_pool = 1, next_elem = 7\<rparr> {6}"
  by (simp add: mp_inv_def MEMPOOL_MAGIC_NUM_def)

theorem allocate_from_mempool_witness:
  "allocate_from_mempool 64
     \<lparr>mem_pool = [0], pool_size = (\<lambda>_. 0)(0 := 64), pool_elems = (\<lambda>_. [])(0 := [5]),
      elem_magic = (\<lambda>_. 0)(5 := MEMPOOL_MAGIC_NUM, 6 := MEMPOOL_MAGIC_NUM),
      elem_mpool = [5 \<mapsto> 0, 6 \<mapsto> 0], next_pool = 1, next_elem = 7\<rparr> =
   (5, \<lparr>mem_pool = [0], pool_size = (\<lambda>_. 0)(0 := 64), pool_elems = (\<lambda>_. []),
        elem_magic = (\<lambda>_. 0)(5 := MEMPOOL_MAGIC_NUM, 6 := MEMPOOL_MAGIC_NUM),
        elem_mpool = [5 \<mapsto> 0, 6 \<mapsto> 0], next_pool = 1, next_elem = 7\<rparr>) \<and>
   mp_inv \<lparr>mem_pool = [0], pool_size = (\<lambda>_. 0)(0 := 64), pool_elems = (\<lambda>_. []),
        elem_magic = (\<lambda>_. 0)(5 := MEMPOOL_MAGIC_NUM, 6 := MEMPOOL_MAGIC_NUM),
        elem_mpool = [5 \<mapsto> 0, 6 \<mapsto> 0], next_pool = 1, next_elem = 7\<rparr> {5, 6}"
proof -
  have eq: "allocate_from_mempool 64
     \<lparr>mem_pool = [0], pool_size = (\<lambda>_. 0)(0 := 64), pool_elems = (\<lambda>_. [])(0 := [5]),
      elem_magic = (\<lambda>_. 0)(5 := MEMPOOL_MAGIC_NUM, 6 := MEMPOOL_MAGIC_NUM),
      elem_mpool = [5 \<mapsto> 0, 6 \<mapsto> 0], next_pool = 1, next_elem = 7\<rparr> =
   (5, \<lparr>mem_pool = [0], pool_size = (\<lambda>_. 0)(0 := 64), pool_elems = (\<lambda>_. []),
        elem_magic = (\<lambda>_. 0)(5 := MEMPOOL_MAGIC_NUM, 6 := MEMPOOL_MAGIC_NUM),
        elem_mpool = [5 \<mapsto> 0, 6 \<mapsto> 0], next_pool = 1, next_elem = 7\<rparr>)"
    by (simp add: allocate_from_mempool_def find_mem_pool_def fun_eq_iff)
  show ?thesis using allocate_from_mempool_correct [OF mp_inv_example eq] eq by simp
qed

theorem return_to_mempool_witness:
  "return_to_mempool 6
     \<lparr>mem_pool = [0], pool_size = (\<lambda>_. 0)(0 := 64), pool_elems = (\<lambda>_. [])(0 := [5]),
      elem_magic = (\<lambda>_. 0)(5 := MEMPOOL_MAGIC_NUM, 6 := MEMPOOL_MAGIC_NUM),
      elem_mpool = [5 \<mapsto> 0, 6 \<mapsto> 0], next_pool = 1, next_elem = 7\<rparr> =
   Inr \<lparr>mem_pool = [0], pool_size = (\<lambda>_. 0)(0 := 64), pool_elems = (\<lambda>_. [])(0 := [6, 5]),
      elem_magic = (\<lambda>_. 0)(5 := MEMPOOL_MAGIC_NUM, 6 := MEMPOOL_MAGIC_NUM),
      elem_mpool = [5 \<mapsto> 0, 6 \<mapsto> 0], next_pool = 1, next_elem = 7\<rparr> \<and>
   return_to_mempool 9
     \<lparr>mem_pool = [0], pool_size = (\<lambda>_. 0)(0 := 64), pool_elems = (\<lambda>_. [])(0 := [5]),
      elem_magic = (\<lambda>_. 0)(5 := MEMPOOL_MAGIC_NUM, 6 := MEMPOOL_MAGIC_NUM),
      elem_mpool = [5 \<mapsto> 0, 6 \<mapsto> 0], next_pool = 1, next_elem = 7\<rparr> = Inl Assertion_failure"
proof -
  have r: "return_to_mempool 6
     \<lparr>mem_pool = [0], pool_size = (\<lambda>_. 0)(0 := 64), pool_elems = (\<lambda>_. [])(0 := [5]),
      elem_magic = (\<lambda>_. 0)(5 := MEMPOOL_MAGIC_NUM, 6 := MEMPOOL_MAGIC_NUM),
      elem_mpool = [5 \<mapsto> 0, 6 \<mapsto> 0], next_pool = 1, next_elem = 7\<rparr> =
   Inr \<lparr>mem_pool = [0], pool_size = (\<lambda>_. 0)(0 := 64), pool_elems = (\<lambda>_. [])(0 := [6, 5]),
      elem_magic = (\<lambda>_. 0)(5 := MEMPOOL_MAGIC_NUM, 6 := MEMPOOL_MAGIC_NUM),
      elem_mpool = [5 \<mapsto> 0, 6 \<mapsto> 0], next_pool = 1, next_elem = 7\<rparr>"
    using return_to_mempool_correct [OF mp_inv_example, of 6]
    by (auto simp: return_to_mempool_def fun_eq_iff)
  then show ?thesis using return_to_mempool_correct [OF mp_inv_example, of 9]
    by (simp add: MEMPOOL_MAGIC_NUM_def)
qed

theorem mempool_reuse_witness:
  "fst (allocate_from_mempool 64
     \<lparr>mem_pool = [0], pool_size = (\<lambda>_. 0)(0 := 64), pool_elems = (\<lambda>_. [])(0 := [6, 5]),
      elem_magic = (\<lambda>_. 0)(5 := MEMPOOL_MAGIC_NUM, 6 := MEMPOOL_MAGIC_NUM),
      elem_mpool = [5 \<mapsto> 0, 6 \<mapsto> 0], next_pool = 1, next_elem = 7\<rparr>) = 6"
proof -
  have r: "return_to_mempool 6
     \<lparr>mem_pool = [0], pool_size = (\<lambda>_. 0)(0 := 64), pool_elems = (\<lambda>_. [])(0 := [5]),
      elem_magic = (\<lambda>_. 0)(5 := MEMPOOL_MAGIC_NUM, 6 := MEMPOOL_MAGIC_NUM),
      elem_mpool = [5 \<mapsto> 0, 6 \<mapsto> 0], next_pool = 1, next_elem = 7\<rparr> =
   Inr \<lparr>mem_pool = [0], pool_size = (\<lambda>_. 0)(0 := 64), pool_elems = (\<lambda>_. [])(0 := [6, 5]),
      elem_magic = (\<lambda>_. 0)(5 := MEMPOOL_MAGIC_NUM, 6 := MEMPOOL_MAGIC_NUM),
      elem_mpool = [5 \<mapsto> 0, 6 \<mapsto> 0], next_pool = 1, next_elem = 7\<rparr>"
    by (simp add: return_to_mempool_def fun_eq_iff)
  show ?thesis using mempool_reuse [OF mp_inv_example _ _ r, of 0] by simp
qed

theorem dart_tasking_copyin_release_mem_roundtrip_witness:
  "\<exists>elems' mp' elem'' mp''.
     dart_tasking_copyin_prepare_dep [\<lparr>de_dep = \<lparr>dep_type = DART_DEP_COPYIN_OUT, dep_phase = 1,
        dep_gptr = \<lparr>gptr_unitid = 1, gptr_teamid = 0, gptr_segid = 0, gptr_addr = 100\<rparr>,
        copyin_size = 64, copyin_dest = None\<rparr>, de_dtor = False, de_out = None\<rparr>] \<lparr>mem_pool = [0], pool_size = (\<lambda>_. 0)(0 := 64), pool_elems = (\<lambda>_. [])(0 := [5]),
      elem_magic = (\<lambda>_. 0)(5 := MEMPOOL_MAGIC_NUM, 6 := MEMPOOL_MAGIC_NUM),
      elem_mpool = [5 \<mapsto> 0, 6 \<mapsto> 0], next_pool = 1, next_elem = 7\<rparr> = Inr (elems', mp', 0) \<and>
     copyin_dest (de_dep (elems' ! 0)) = Some 5 \<and>
     dart_tasking_copyin_release_mem (elems' ! 0) mp' = Inr (elem'', mp'') \<and>
     mp_inv mp'' {6}"
proof -
  have p: "dart_tasking_copyin_prepare_dep [\<lparr>de_dep = \<lparr>dep_type = DART_DEP_COPYIN_OUT, dep_phase = 1,
        dep_gptr = \<lparr>gptr_unitid = 1, gptr_teamid = 0, gptr_segid = 0, gptr_addr = 100\<rparr>,
        copyin_size = 64, copyin_dest = None\<rparr>, de_dtor = False, de_out = None\<rparr>] \<lparr>mem_pool = [0], pool_size = (\<lambda>_. 0)(0 := 64), pool_elems = (\<lambda>_. [])(0 := [5]),
      elem_magic = (\<lambda>_. 0)(5 := MEMPOOL_MAGIC_NUM, 6 := MEMPOOL_MAGIC_NUM),
      elem_mpool = [5 \<mapsto> 0, 6 \<mapsto> 0], next_pool = 1, next_elem = 7\<rparr> =
           Inr ([\<lparr>de_dep = \<lparr>dep_type = DART_DEP_COPYIN_OUT, dep_phase = 1,
        dep_gptr = \<lparr>gptr_unitid = 1, gptr_teamid = 0, gptr_segid = 0, gptr_addr = 100\<rparr>,
        copyin_size = 64, copyin_dest = Some 5\<rparr>, de_dtor = True, de_out = None\<rparr>], \<lparr>mem_pool = [0], pool_size = (\<lambda>_. 0)(0 := 64), pool_elems = (\<lambda>_. []),
      elem_magic = (\<lambda>_. 0)(5 := MEMPOOL_MAGIC_NUM, 6 := MEMPOOL_MAGIC_NUM),
      elem_mpool = [5 \<mapsto> 0, 6 \<mapsto> 0], next_pool = 1, next_elem = 7\<rparr>, 0)"
    by (simp add: dart_tasking_copyin_prepare_dep_def allocate_from_mempool_def find_mem_pool_def fun_eq_iff)
  show ?thesis
    using dart_tasking_copyin_release_mem_roundtrip [OF mp_inv_example p] p by auto
qed

theorem dart_tasking_copyin_sendrecv_match_witness:
  "\<exists>evs rs. dart_tasking_copyin_create_task_sendrecv COPYIN_WAIT_BLOCK (\<lambda>_. \<lparr>dep_type = DART_DEP_COPYIN_OUT, dep_phase = 1,
        dep_gptr = \<lparr>gptr_unitid = 1, gptr_teamid = 0, gptr_segid = 0, gptr_addr = 100\<rparr>,
        copyin_size = 64, copyin_dest = None\<rparr>) id 0 1 \<lparr>dep_type = DART_DEP_COPYIN_OUT, dep_phase = 1,
        dep_gptr = \<lparr>gptr_unitid = 1, gptr_teamid = 0, gptr_segid = 0, gptr_addr = 100\<rparr>,
        copyin_size = 64, copyin_dest = None\<rparr> 5 = (evs, 6) \<and>
     create_delayed_loop COPYIN_WAIT_BLOCK (fold (deliver_sendrequest \<lparr>dep_type = DART_DEP_COPYIN_OUT, dep_phase = 1,
        dep_gptr = \<lparr>gptr_unitid = 1, gptr_teamid = 0, gptr_segid = 0, gptr_addr = 100\<rparr>,
        copyin_size = 64, copyin_dest = None\<rparr> id 0) evs []) = [Create_task rs] \<and>
     td_tag (cr_arg rs) = 5 \<and> td_unit (cr_arg rs) = 0 \<and> td_num_bytes (cr_arg rs) = 64"
proof -
  obtain evs c' where eq: "dart_tasking_copyin_create_task_sendrecv COPYIN_WAIT_BLOCK (\<lambda>_. \<lparr>dep_type = DART_DEP_COPYIN_OUT, dep_phase = 1,
        dep_gptr = \<lparr>gptr_unitid = 1, gptr_teamid = 0, gptr_segid = 0, gptr_addr = 100\<rparr>,
        copyin_size = 64, copyin_dest = None\<rparr>) id 0 1 \<lparr>dep_type = DART_DEP_COPYIN_OUT, dep_phase = 1,
        dep_gptr = \<lparr>gptr_unitid = 1, gptr_teamid = 0, gptr_segid = 0, gptr_addr = 100\<rparr>,
        copyin_size = 64, copyin_dest = None\<rparr> 5 = (evs, c')"
    by (metis prod.exhaust)
  show ?thesis
    using dart_tasking_copyin_sendrecv_match [OF _ eq, of COPYIN_WAIT_BLOCK "\<lparr>dep_type = DART_DEP_COPYIN_OUT, dep_phase = 1,
        dep_gptr = \<lparr>gptr_unitid = 1, gptr_teamid = 0, gptr_segid = 0, gptr_addr = 100\<rparr>,
        copyin_size = 64, copyin_dest = None\<rparr>" id] eq
    by (auto simp: dart_tasking_copyin_create_task_sendrecv_def)
qed

theorem dart_tasking_copyin_create_delayed_tasks_lifo_witness:
  "map (\<lambda>ev. case ev of Create_task r \<Rightarrow> td_tag (cr_arg r) | _ \<Rightarrow> 0)
     (fst (dart_tasking_copyin_create_delayed_tasks COPYIN_WAIT_BLOCK
       (fold (\<lambda>(gp, n, ph, tg, u). dart_tasking_copyin_sendrequest \<lparr>dep_type = DART_DEP_COPYIN_OUT, dep_phase = 1,
        dep_gptr = \<lparr>gptr_unitid = 1, gptr_teamid = 0, gptr_segid = 0, gptr_addr = 100\<rparr>,
        copyin_size = 64, copyin_dest = None\<rparr> id gp n ph tg u)
          [(dep_gptr \<lparr>dep_type = DART_DEP_COPYIN_OUT, dep_phase = 1,
        dep_gptr = \<lparr>gptr_unitid = 1, gptr_teamid = 0, gptr_segid = 0, gptr_addr = 100\<rparr>,
        copyin_size = 64, copyin_dest = None\<rparr>, 64, 1, 7, 2), (dep_gptr \<lparr>dep_type = DART_DEP_COPYIN_OUT, dep_phase = 1,
        dep_gptr = \<lparr>gptr_unitid = 1, gptr_teamid = 0, gptr_segid = 0, gptr_addr = 100\<rparr>,
        copyin_size = 64, copyin_dest = None\<rparr>, 32, 1, 8, 3)] []))) = [8, 7]"
  by (simp only: dart_tasking_copyin_create_delayed_tasks_lifo) simp

theorem wait_for_handle_test_yield_witness:
  "wait_for_handle COPYIN_WAIT_YIELD [False, True] =
     Some [Set_prio DART_PRIO_LOW, Test_local, Yield (-1), Test_local, Set_prio COPYIN_TASK_PRIO]"
  using wait_for_handle_test_yield [of COPYIN_WAIT_YIELD "[False, True]"] by simp

end
