(* ===== verification/Instrumentation.thy ===== *)
theory Instrumentation
  imports Prelude
begin

text \<open>
  The tool interface of \<open>dart_tasking_instrumentation.c\<close> (lines 1--344 of the file): a
  table holding, for each kind of event, the callback a tool registered and its user
  data, the \<open>dart_tool_register_*\<close> functions that fill it, and the
  \<open>dart__tasking__instrument_*\<close> hooks the runtime calls. A callback is an opaque
  function pointer \<open>'f\<close> (\<open>None\<close>: NULL), user data a pointer (\<open>None\<close>: NULL), and
  \<open>mem\<close> the \<open>int\<close> stored at an address, which the registration functions print.
  A hook returns the call it makes, if any.
\<close>

section \<open>The callback table\<close>

datatype tool_event = CB_task_create | CB_task_begin | CB_task_end | CB_task_finalize
  | CB_task_add_to_queue | CB_local_dep_raw | CB_local_dep_waw | CB_local_dep_war
  | CB_dummy_dep_create | CB_dummy_dep_capture | CB_remote_in_dep

text \<open>One \<open>struct dart_tool_*_cb\<close>: the callback and its user data.\<close>

record 'f tool_cb_data =
  cb :: "'f option"
  userdata :: "nat option"

type_synonym 'f tool_table = "tool_event \<Rightarrow> 'f tool_cb_data"

text \<open>The globals \<open>dart_tool_*_cb_data\<close> start zeroed.\<close>

definition tool_table_init :: "'f tool_table" where
  "tool_table_init = (\<lambda>_. \<lparr>cb = None, userdata = None\<rparr>)"

text \<open>
  The body shared by the registration functions: store the pair, print the \<open>int\<close> the
  user data points to, return 0. The result is the return value, the printed number
  and the new table.
\<close>

definition register_cb ::
  "tool_event \<Rightarrow> 'f option \<Rightarrow> nat option \<Rightarrow> (nat \<Rightarrow> 32 word) \<Rightarrow> 'f tool_table \<Rightarrow> (int \<times> 32 word \<times> 'f tool_table) res" where
  "register_cb ev f ud mem T =
     (let T' = T(ev := \<lparr>cb = f, userdata = ud\<rparr>)
      in case ud of None \<Rightarrow> Inl Null_dereference | Some a \<Rightarrow> Inr (0, mem a, T'))"

definition dart_tool_register_task_create where
  "dart_tool_register_task_create = register_cb CB_task_create"

definition dart_tool_register_task_begin where
  "dart_tool_register_task_begin = register_cb CB_task_begin"

definition dart_tool_register_task_end where
  "dart_tool_register_task_end = register_cb CB_task_end"

definition dart_tool_register_task_finalize where
  "dart_tool_register_task_finalize = register_cb CB_task_finalize"

definition dart_tool_register_task_add_to_queue where
  "dart_tool_register_task_add_to_queue = register_cb CB_task_add_to_queue"

definition dart_tool_register_local_dep_raw where
  "dart_tool_register_local_dep_raw = register_cb CB_local_dep_raw"

definition dart_tool_register_local_dep_waw where
  "dart_tool_register_local_dep_waw = register_cb CB_local_dep_waw"

definition dart_tool_register_local_dep_war where
  "dart_tool_register_local_dep_war = register_cb CB_local_dep_war"

definition dart_tool_register_dummy_dep_create where
  "dart_tool_register_dummy_dep_create = register_cb CB_dummy_dep_create"

definition dart_tool_register_dummy_dep_capture where
  "dart_tool_register_dummy_dep_capture = register_cb CB_dummy_dep_capture"

definition dart_tool_register_remote_in_dep where
  "dart_tool_register_remote_in_dep = register_cb CB_remote_in_dep"

section \<open>The hooks\<close>

text \<open>Arguments passed to a callback: \<open>uint64_t\<close>, \<open>int32_t\<close>, \<open>int\<close> or a string.\<close>

datatype tool_arg = A_u64 "64 word" | A_i32 "32 word" | A_int int | A_str string

text \<open>A call of callback \<open>f\<close> with arguments and the user data pointer.\<close>

datatype 'f tool_call = Tool_call 'f "tool_arg list" "nat option"

text \<open>Call the callback of the table entry \<open>ev\<close> if set, passing the user data of \<open>ud_ev\<close>.\<close>

definition invoke_cb :: "'f tool_table \<Rightarrow> tool_event \<Rightarrow> tool_event \<Rightarrow> tool_arg list \<Rightarrow> 'f tool_call option" where
  "invoke_cb T ev ud_ev args =
     (case cb (T ev) of None \<Rightarrow> None | Some f \<Rightarrow> Some (Tool_call f args (userdata (T ud_ev))))"

definition dart__tasking__instrument_task_create ::
  "'f tool_table \<Rightarrow> 64 word \<Rightarrow> int \<Rightarrow> string option \<Rightarrow> 32 word \<Rightarrow> 'f tool_call option" where
  "dart__tasking__instrument_task_create T task prio name task_unitid =
     (let name' = (case name of None \<Rightarrow> '''' | Some n \<Rightarrow> n)
      in invoke_cb T CB_task_create CB_task_create [A_u64 task, A_int prio, A_str name', A_i32 task_unitid])"

definition dart__tasking__instrument_task_begin ::
  "'f tool_table \<Rightarrow> 64 word \<Rightarrow> 64 word \<Rightarrow> 32 word \<Rightarrow> 'f tool_call option" where
  "dart__tasking__instrument_task_begin T task thread task_unitid =
     invoke_cb T CB_task_begin CB_task_begin [A_u64 task, A_u64 thread, A_i32 task_unitid]"

definition dart__tasking__instrument_task_end ::
  "'f tool_table \<Rightarrow> 64 word \<Rightarrow> 64 word \<Rightarrow> 32 word \<Rightarrow> 'f tool_call option" where
  "dart__tasking__instrument_task_end T task thread task_unitid =
     invoke_cb T CB_task_end CB_task_end [A_u64 task, A_u64 thread, A_i32 task_unitid]"

text \<open>Cancel, yield-leave and yield-resume have no table entry and do nothing.\<close>

definition dart__tasking__instrument_task_cancel :: "'f tool_table \<Rightarrow> 64 word \<Rightarrow> 64 word \<Rightarrow> 'f tool_call option" where
  "dart__tasking__instrument_task_cancel T task thread = None"

definition dart__tasking__instrument_task_yield_leave :: "'f tool_table \<Rightarrow> 64 word \<Rightarrow> 64 word \<Rightarrow> 'f tool_call option" where
  "dart__tasking__instrument_task_yield_leave T task thread = None"

definition dart__tasking__instrument_task_yield_resume :: "'f tool_table \<Rightarrow> 64 word \<Rightarrow> 64 word \<Rightarrow> 'f tool_call option" where
  "dart__tasking__instrument_task_yield_resume T task thread = None"

definition dart__tasking__instrument_task_finalize :: "'f tool_table \<Rightarrow> 'f tool_call option" where
  "dart__tasking__instrument_task_finalize T = invoke_cb T CB_task_finalize CB_task_finalize []"

definition dart__tasking__instrument_local_dep_raw ::
  "'f tool_table \<Rightarrow> 64 word \<Rightarrow> 64 word \<Rightarrow> 64 word \<Rightarrow> 64 word \<Rightarrow> 32 word \<Rightarrow> 32 word \<Rightarrow> 'f tool_call option" where
  "dart__tasking__instrument_local_dep_raw T task1 task2 memaddr orig_memaddr u1 u2 =
     invoke_cb T CB_local_dep_raw CB_local_dep_raw
       [A_u64 task1, A_u64 task2, A_u64 memaddr, A_u64 orig_memaddr, A_i32 u1, A_i32 u2]"

definition dart__tasking__instrument_local_dep_waw ::
  "'f tool_table \<Rightarrow> 64 word \<Rightarrow> 64 word \<Rightarrow> 64 word \<Rightarrow> 64 word \<Rightarrow> 32 word \<Rightarrow> 32 word \<Rightarrow> 'f tool_call option" where
  "dart__tasking__instrument_local_dep_waw T task1 task2 memaddr orig_memaddr u1 u2 =
     invoke_cb T CB_local_dep_waw CB_local_dep_waw
       [A_u64 task1, A_u64 task2, A_u64 memaddr, A_u64 orig_memaddr, A_i32 u1, A_i32 u2]"

definition dart__tasking__instrument_local_dep_war ::
  "'f tool_table \<Rightarrow> 64 word \<Rightarrow> 64 word \<Rightarrow> 64 word \<Rightarrow> 64 word \<Rightarrow> 32 word \<Rightarrow> 32 word \<Rightarrow> 'f tool_call option" where
  "dart__tasking__instrument_local_dep_war T task1 task2 memaddr orig_memaddr u1 u2 =
     invoke_cb T CB_local_dep_war CB_local_dep_war
       [A_u64 task1, A_u64 task2, A_u64 memaddr, A_u64 orig_memaddr, A_i32 u1, A_i32 u2]"

definition dart__tasking__instrument_task_add_to_queue ::
  "'f tool_table \<Rightarrow> 64 word \<Rightarrow> 64 word \<Rightarrow> 32 word \<Rightarrow> 'f tool_call option" where
  "dart__tasking__instrument_task_add_to_queue T task thread task_unitid =
     invoke_cb T CB_task_add_to_queue CB_task_add_to_queue [A_u64 task, A_u64 thread, A_i32 task_unitid]"

text \<open>The dummy-dependency hook passes only the phase of the output dependency.\<close>

definition dart__tasking__instrument_dummy_dep_create ::
  "'f tool_table \<Rightarrow> 64 word \<Rightarrow> 64 word \<Rightarrow> 64 word \<Rightarrow> int \<Rightarrow> 32 word \<Rightarrow> 'f tool_call option" where
  "dart__tasking__instrument_dummy_dep_create T task dummy_dep in_dep out_dep_phase task_unitid =
     invoke_cb T CB_dummy_dep_create CB_dummy_dep_create
       [A_u64 task, A_u64 dummy_dep, A_u64 in_dep, A_int out_dep_phase, A_i32 task_unitid]"

text \<open>The capture hook calls its own callback but with the user data of the create entry.\<close>

definition dart__tasking__instrument_dummy_dep_capture ::
  "'f tool_table \<Rightarrow> 64 word \<Rightarrow> 64 word \<Rightarrow> 64 word \<Rightarrow> 32 word \<Rightarrow> 'f tool_call option" where
  "dart__tasking__instrument_dummy_dep_capture T task dummy_dep remote_dep task_unitid =
     invoke_cb T CB_dummy_dep_capture CB_dummy_dep_create
       [A_u64 task, A_u64 dummy_dep, A_u64 remote_dep, A_i32 task_unitid]"

definition dart__tasking__instrument_remote_in_dep ::
  "'f tool_table \<Rightarrow> 64 word \<Rightarrow> 64 word \<Rightarrow> int \<Rightarrow> int \<Rightarrow> 32 word \<Rightarrow> 32 word \<Rightarrow> 'f tool_call option" where
  "dart__tasking__instrument_remote_in_dep T local_task remote_task local_dep_type remote_dep_type u1 u2 =
     invoke_cb T CB_remote_in_dep CB_remote_in_dep
       [A_u64 local_task, A_u64 remote_task, A_int local_dep_type, A_int remote_dep_type, A_i32 u1, A_i32 u2]"

section \<open>Properties of the tool interface\<close>

lemmas tool_register_defs = dart_tool_register_task_create_def dart_tool_register_task_begin_def
  dart_tool_register_task_end_def dart_tool_register_task_finalize_def dart_tool_register_task_add_to_queue_def
  dart_tool_register_local_dep_raw_def dart_tool_register_local_dep_waw_def dart_tool_register_local_dep_war_def
  dart_tool_register_dummy_dep_create_def dart_tool_register_dummy_dep_capture_def
  dart_tool_register_remote_in_dep_def

lemmas tool_hook_defs = dart__tasking__instrument_task_create_def dart__tasking__instrument_task_begin_def
  dart__tasking__instrument_task_end_def dart__tasking__instrument_task_finalize_def
  dart__tasking__instrument_local_dep_raw_def dart__tasking__instrument_local_dep_waw_def
  dart__tasking__instrument_local_dep_war_def dart__tasking__instrument_task_add_to_queue_def
  dart__tasking__instrument_dummy_dep_create_def dart__tasking__instrument_dummy_dep_capture_def
  dart__tasking__instrument_remote_in_dep_def

lemma register_cb_Inr:
  "register_cb ev f (Some a) mem T = Inr (0, mem a, T(ev := \<lparr>cb = f, userdata = Some a\<rparr>))"
  by (simp add: register_cb_def)

lemma invoke_cb_upd:
  "invoke_cb (T(ev := \<lparr>cb = Some f, userdata = u\<rparr>)) ev ev args = Some (Tool_call f args u)"
  by (simp add: invoke_cb_def)

text \<open>
  Registering a callback and user data for an event with its \<open>dart_tool_register_*\<close>
  function returns 0, and from then on the event's hook calls that callback with the hook's
  arguments and that user data (every registrable event but the dummy capture, see
  \<open>dart__tasking__instrument_dummy_dep_capture_userdata\<close>).
\<close>

theorem dart_tool_register_hook_roundtrip:
  assumes "T1 = T(ev := \<lparr>cb = Some f, userdata = Some a\<rparr>)"
  shows
   "(ev = CB_task_create \<longrightarrow> dart_tool_register_task_create (Some f) (Some a) mem T = Inr (0, mem a, T1) \<and>
       dart__tasking__instrument_task_create T1 task prio (Some name) u = Some (Tool_call f [A_u64 task, A_int prio, A_str name, A_i32 u] (Some a))) \<and>
    (ev = CB_task_begin \<longrightarrow> dart_tool_register_task_begin (Some f) (Some a) mem T = Inr (0, mem a, T1) \<and>
       dart__tasking__instrument_task_begin T1 task thread u = Some (Tool_call f [A_u64 task, A_u64 thread, A_i32 u] (Some a))) \<and>
    (ev = CB_task_end \<longrightarrow> dart_tool_register_task_end (Some f) (Some a) mem T = Inr (0, mem a, T1) \<and>
       dart__tasking__instrument_task_end T1 task thread u = Some (Tool_call f [A_u64 task, A_u64 thread, A_i32 u] (Some a))) \<and>
    (ev = CB_task_finalize \<longrightarrow> dart_tool_register_task_finalize (Some f) (Some a) mem T = Inr (0, mem a, T1) \<and>
       dart__tasking__instrument_task_finalize T1 = Some (Tool_call f [] (Some a))) \<and>
    (ev = CB_task_add_to_queue \<longrightarrow> dart_tool_register_task_add_to_queue (Some f) (Some a) mem T = Inr (0, mem a, T1) \<and>
       dart__tasking__instrument_task_add_to_queue T1 task thread u = Some (Tool_call f [A_u64 task, A_u64 thread, A_i32 u] (Some a))) \<and>
    (ev = CB_local_dep_raw \<longrightarrow> dart_tool_register_local_dep_raw (Some f) (Some a) mem T = Inr (0, mem a, T1) \<and>
       dart__tasking__instrument_local_dep_raw T1 task task2 m m' u u2 =
         Some (Tool_call f [A_u64 task, A_u64 task2, A_u64 m, A_u64 m', A_i32 u, A_i32 u2] (Some a))) \<and>
    (ev = CB_local_dep_waw \<longrightarrow> dart_tool_register_local_dep_waw (Some f) (Some a) mem T = Inr (0, mem a, T1) \<and>
       dart__tasking__instrument_local_dep_waw T1 task task2 m m' u u2 =
         Some (Tool_call f [A_u64 task, A_u64 task2, A_u64 m, A_u64 m', A_i32 u, A_i32 u2] (Some a))) \<and>
    (ev = CB_local_dep_war \<longrightarrow> dart_tool_register_local_dep_war (Some f) (Some a) mem T = Inr (0, mem a, T1) \<and>
       dart__tasking__instrument_local_dep_war T1 task task2 m m' u u2 =
         Some (Tool_call f [A_u64 task, A_u64 task2, A_u64 m, A_u64 m', A_i32 u, A_i32 u2] (Some a))) \<and>
    (ev = CB_dummy_dep_create \<longrightarrow> dart_tool_register_dummy_dep_create (Some f) (Some a) mem T = Inr (0, mem a, T1) \<and>
       dart__tasking__instrument_dummy_dep_create T1 task m m' ph u =
         Some (Tool_call f [A_u64 task, A_u64 m, A_u64 m', A_int ph, A_i32 u] (Some a))) \<and>
    (ev = CB_remote_in_dep \<longrightarrow> dart_tool_register_remote_in_dep (Some f) (Some a) mem T = Inr (0, mem a, T1) \<and>
       dart__tasking__instrument_remote_in_dep T1 m m' ph ph' u u2 =
         Some (Tool_call f [A_u64 m, A_u64 m', A_int ph, A_int ph', A_i32 u, A_i32 u2] (Some a)))"
  unfolding assms by (simp add: tool_register_defs tool_hook_defs register_cb_Inr invoke_cb_upd)

text \<open>
  \<open>dart__tasking__instrument_dummy_dep_capture\<close> calls the capture callback with the
  user data registered for the dummy-create event, not the one registered with the callback.
\<close>

theorem dart__tasking__instrument_dummy_dep_capture_userdata:
  assumes "dart_tool_register_dummy_dep_capture (Some f) (Some a) mem T = Inr (r, v, T1)"
  shows "dart__tasking__instrument_dummy_dep_capture T1 task d rd u =
           Some (Tool_call f [A_u64 task, A_u64 d, A_u64 rd, A_i32 u] (userdata (T CB_dummy_dep_create)))"
  using assms
  by (auto simp: dart_tool_register_dummy_dep_capture_def register_cb_def
                 dart__tasking__instrument_dummy_dep_capture_def invoke_cb_def)

text \<open>
  C29: every registration function dereferences its user data to print it, so registering
  with NULL user data crashes.
\<close>

theorem dart_tool_register_null_userdata:
  "dart_tool_register_task_create f None mem T = Inl Null_dereference \<and>
   dart_tool_register_task_begin f None mem T = Inl Null_dereference \<and>
   dart_tool_register_task_end f None mem T = Inl Null_dereference \<and>
   dart_tool_register_task_finalize f None mem T = Inl Null_dereference \<and>
   dart_tool_register_task_add_to_queue f None mem T = Inl Null_dereference \<and>
   dart_tool_register_local_dep_raw f None mem T = Inl Null_dereference \<and>
   dart_tool_register_local_dep_waw f None mem T = Inl Null_dereference \<and>
   dart_tool_register_local_dep_war f None mem T = Inl Null_dereference \<and>
   dart_tool_register_dummy_dep_create f None mem T = Inl Null_dereference \<and>
   dart_tool_register_dummy_dep_capture f None mem T = Inl Null_dereference \<and>
   dart_tool_register_remote_in_dep f None mem T = Inl Null_dereference"
  by (simp add: tool_register_defs register_cb_def)

section \<open>The properties at concrete tables\<close>

theorem dart_tool_register_hook_roundtrip_witness:
  "dart_tool_register_task_begin (Some (7::nat)) (Some 100) (\<lambda>_. 42) tool_table_init =
     Inr (0, 42, tool_table_init(CB_task_begin := \<lparr>cb = Some 7, userdata = Some 100\<rparr>)) \<and>
   dart__tasking__instrument_task_begin (tool_table_init(CB_task_begin := \<lparr>cb = Some (7::nat), userdata = Some 100\<rparr>)) 1 2 3 =
     Some (Tool_call 7 [A_u64 1, A_u64 2, A_i32 3] (Some 100))"
  using dart_tool_register_hook_roundtrip [where T = tool_table_init and ev = CB_task_begin and f = "7::nat"
      and a = 100 and mem = "\<lambda>_. 42" and task = 1 and thread = 2 and u = 3, OF refl] by simp

theorem dart__tasking__instrument_dummy_dep_capture_userdata_witness:
  "dart__tasking__instrument_dummy_dep_capture (tool_table_init(CB_dummy_dep_capture := \<lparr>cb = Some (7::nat), userdata = Some 100\<rparr>)) 1 2 3 4 =
     Some (Tool_call 7 [A_u64 1, A_u64 2, A_u64 3, A_i32 4] None)"
proof -
  have "dart_tool_register_dummy_dep_capture (Some (7::nat)) (Some 100) (\<lambda>_. 42) tool_table_init =
        Inr (0, 42, tool_table_init(CB_dummy_dep_capture := \<lparr>cb = Some (7::nat), userdata = Some 100\<rparr>))"
    by (simp add: dart_tool_register_dummy_dep_capture_def register_cb_def)
  from dart__tasking__instrument_dummy_dep_capture_userdata [OF this, of 1 2 3 4] show ?thesis
    by (simp add: tool_table_init_def)
qed

end
