(* ===== verification/Scheduler.thy ===== *)
theory Scheduler
  imports TaskQueue
begin

text \<open>
  The scheduler of \<open>dart_tasking.c\<close> (lines 345--2245 of \<open>dart_tasking_instrumentation.c\<close>):
  the per-thread slot arrays and the per-NUMA task queues, \<open>next_task\<close> with its
  stealing order, \<open>requeue_task\<close>, \<open>dart__tasking__enqueue_runnable\<close>, task creation,
  the choice of the thread count, remote progress and the task memory pool. Tasks
  are identified by \<open>'t\<close>; their fields live in a table \<open>tasks\<close>, their queue links
  in the heap of the \<open>TaskQueue\<close> theory. The compare-and-swap on a slot is modelled
  as succeeding: the model is one thread's view between the other threads' steps.
\<close>

section \<open>Tasks and threads\<close>

text \<open>\<open>dart_task_state_t\<close> and the task flags of \<open>dart_tasking_priv.h\<close>.\<close>

datatype dart_task_state = DART_TASK_ROOT | DART_TASK_NASCENT | DART_TASK_CREATED
  | DART_TASK_QUEUED | DART_TASK_DEFERRED | DART_TASK_RUNNING | DART_TASK_SUSPENDED
  | DART_TASK_BLOCKED | DART_TASK_DETACHED | DART_TASK_FINISHED | DART_TASK_CANCELLED
  | DART_TASK_DESTROYED | DART_TASK_DUMMY

datatype dart_task_flag = DART_TASK_HAS_REF | DART_TASK_INLINE | DART_TASK_IMMEDIATE
  | DART_TASK_IS_COMMTASK | DART_TASK_DATA_ALLOCATED

text \<open>The fields of \<open>dart_task_t\<close> the scheduler reads and writes.\<close>

record 't task_info =
  tstate :: dart_task_state
  tflags :: "dart_task_flag set"
  tprio :: int
  tparent :: "'t option"
  tphase :: int
  num_children :: int
  numa_node :: "nat option"
  tinstance :: nat
  has_wait_handle :: bool

text \<open>The fields of \<open>dart_thread_t\<close>: the slot array \<open>queue\<close>, \<open>next_task\<close>, \<open>last_steal_thread_id\<close>, \<open>numa_id\<close>, \<open>is_utility_thread\<close>, \<open>delay\<close>, \<open>last_progress_ts\<close>.\<close>

record 't thread_info =
  tqueue :: "'t option list"
  next_task_slot :: "'t option"
  last_steal :: nat
  numa_id :: nat
  is_utility :: bool
  tdelay :: int
  last_progress_ts :: int

text \<open>
  The scheduler state: the task table, the link heap of all queues, the NUMA queues
  \<open>task_queue\<close>, the queue \<open>local_deferred_tasks\<close>, the thread pool (\<open>None\<close>: a thread that
  has not published itself yet) and the sizes.
\<close>

record 't sched =
  tasks :: "'t \<Rightarrow> 't task_info"
  links :: "'t links"
  task_queue :: "nat \<Rightarrow> 't dart_taskqueue"
  deferred :: "'t dart_taskqueue"
  thread_pool :: "nat \<Rightarrow> 't thread_info option"
  num_threads :: nat
  num_numa_nodes :: nat
  current_task :: "nat \<Rightarrow> 't"
  root_task :: 't
  cancel_requested :: bool
  threads_running :: bool
  respect_numa :: bool
  num_units :: nat
  phase_cur :: int
  phase_ntasks :: "int \<Rightarrow> nat"

text \<open>
  What the scheduler asks of the collaborators outside this file: the dependency engine
  (\<open>dart_tasking_datadeps_is_runnable\<close>), the phase table
  (\<open>dart__tasking__phase_is_runnable\<close>), whether
  \<open>dart_tasking_remote_handle_comm_task\<close> took a communication task, the size of the
  inline data buffer of a task, and the value of \<open>DART_PHASE_ANY\<close>.
\<close>

record 't sched_env =
  datadeps_runnable :: "'t \<Rightarrow> bool"
  phase_is_runnable :: "int \<Rightarrow> bool"
  comm_task_enqueued :: "'t \<Rightarrow> bool"
  var_space_size :: nat
  DART_PHASE_ANY :: int

definition prio_of :: "'t sched \<Rightarrow> 't \<Rightarrow> int" where
  "prio_of s t = tprio (tasks s t)"

section \<open>Taking tasks\<close>

text \<open>The loops of \<open>next_task_thread\<close> (first occupied slot) and \<open>next_task_thread_back\<close> (last one).\<close>

fun scan_front :: "nat \<Rightarrow> 't option list \<Rightarrow> (nat \<times> 't) option" where
  "scan_front i [] = None"
| "scan_front i (x # xs) = (case x of Some t \<Rightarrow> Some (i, t) | None \<Rightarrow> scan_front (Suc i) xs)"

definition next_task_thread :: "'t option list \<Rightarrow> ('t \<times> 't option list) option" where
  "next_task_thread q = map_option (\<lambda>(i, t). (t, q[i := None])) (scan_front 0 q)"

definition scan_back :: "'t option list \<Rightarrow> (nat \<times> 't) option" where
  "scan_back q = map_option (\<lambda>(i, t). (length q - 1 - i, t)) (scan_front 0 (rev q))"

definition next_task_thread_back :: "'t option list \<Rightarrow> ('t \<times> 't option list) option" where
  "next_task_thread_back q = map_option (\<lambda>(i, t). (t, q[i := None])) (scan_back q)"

text \<open>
  The stealing loop of \<open>next_task\<close>: from \<open>target\<close> on, advance cyclically
  (\<open>target = (++target == num_threads) ? 0 : target\<close>) until \<open>target = thread_id\<close>;
  at each target that exists and passes \<open>ok\<close> (same or other NUMA node), steal
  from the back of its slots. \<open>Some None\<close>: the loop ends without a task.
\<close>

partial_function (option) steal_loop ::
  "(nat \<Rightarrow> bool) \<Rightarrow> nat \<Rightarrow> nat \<Rightarrow> nat \<Rightarrow> (nat \<Rightarrow> 't option list) \<Rightarrow> (nat \<times> 't \<times> 't option list) option option" where
  "steal_loop ok n self target Q =
     (if target = self then Some None
      else case (if ok target then next_task_thread_back (Q target) else None) of
             Some (t, q') \<Rightarrow> Some (Some (target, t, q'))
           | None \<Rightarrow> steal_loop ok n self (if Suc target = n then 0 else Suc target) Q)"

text \<open>
  The reference order of the stealing loop: the threads after \<open>self\<close>, then those
  before it, each tried once, the first that yields a task wins.
\<close>

definition steal_order :: "nat \<Rightarrow> nat \<Rightarrow> nat list" where
  "steal_order n self = [Suc self..<n] @ [0..<self]"

fun steal_first :: "(nat \<Rightarrow> bool) \<Rightarrow> (nat \<Rightarrow> 't option list) \<Rightarrow> nat list \<Rightarrow> (nat \<times> 't \<times> 't option list) option" where
  "steal_first ok Q [] = None"
| "steal_first ok Q (k # ks) =
     (case (if ok k then next_task_thread_back (Q k) else None) of
        Some (t, q') \<Rightarrow> Some (k, t, q')
      | None \<Rightarrow> steal_first ok Q ks)"

text \<open>The slot array of thread \<open>k\<close> (none if the thread has not published itself) and its update.\<close>

definition slots :: "'t sched \<Rightarrow> nat \<Rightarrow> 't option list" where
  "slots s k = (case thread_pool s k of None \<Rightarrow> [] | Some thr \<Rightarrow> tqueue thr)"

definition set_slots :: "'t sched \<Rightarrow> nat \<Rightarrow> 't option list \<Rightarrow> 't sched" where
  "set_slots s k q = s\<lparr>thread_pool := (thread_pool s)(k := map_option (\<lambda>thr. thr\<lparr>tqueue := q\<rparr>) (thread_pool s k))\<rparr>"

definition set_last_steal :: "'t sched \<Rightarrow> nat \<Rightarrow> nat \<Rightarrow> 't sched" where
  "set_last_steal s th k =
     s\<lparr>thread_pool := (thread_pool s)(th := map_option (\<lambda>thr. thr\<lparr>last_steal := k\<rparr>) (thread_pool s th))\<rparr>"

text \<open>The filters of the two stealing loops: the target exists and is on the same / another NUMA node.\<close>

definition same_numa :: "'t sched \<Rightarrow> nat \<Rightarrow> nat \<Rightarrow> bool" where
  "same_numa s th k =
     (case (thread_pool s k, thread_pool s th) of (Some tk, Some me) \<Rightarrow> numa_id tk = numa_id me | _ \<Rightarrow> False)"

definition other_numa :: "'t sched \<Rightarrow> nat \<Rightarrow> nat \<Rightarrow> bool" where
  "other_numa s th k =
     (case (thread_pool s k, thread_pool s th) of (Some tk, Some me) \<Rightarrow> numa_id tk \<noteq> numa_id me | _ \<Rightarrow> False)"

text \<open>
  The NUMA-queue loop of \<open>next_task\<close>: pop from the queues \<open>numa_id\<close>, \<open>numa_id + 1\<close>, \<dots>
  (modulo the node count) until a task is found or every node was tried; the body runs
  at least once.
\<close>

function numa_pop_loop :: "nat \<Rightarrow> nat \<Rightarrow> 't sched \<Rightarrow> ('t option \<times> 't sched) res" where
  "numa_pop_loop numa i s =
     (case dart_tasking_taskqueue_pop (links s) (task_queue s ((numa + i) mod num_numa_nodes s)) of
        Inl e \<Rightarrow> Inl e
      | Inr (L', q', r) \<Rightarrow>
          (let s' = s\<lparr>links := L', task_queue := (task_queue s)((numa + i) mod num_numa_nodes s := q')\<rparr>
           in if r = None \<and> Suc i < num_numa_nodes s then numa_pop_loop numa (Suc i) s' else Inr (r, s')))"
  by pat_completeness auto
termination
  by (relation "measure (\<lambda>(numa, i, s). num_numa_nodes s - i)") auto

declare numa_pop_loop.simps [simp del]

text \<open>
  \<open>next_task\<close> on thread \<open>th\<close>: the task handed over in \<open>next_task\<close>, else the first own
  slot; else steal from the back of the last victim, then from the threads of the same
  NUMA node in cyclic order, then pop from the NUMA queues, then (with several nodes)
  steal from the other nodes' threads. The outer \<open>option\<close> is termination of the
  stealing loops; \<open>Null_dereference\<close> is a thread pool entry read while still NULL.
\<close>

definition next_task_local :: "'t thread_info \<Rightarrow> 't option \<times> 't thread_info" where
  "next_task_local thr =
     (case next_task_slot thr of
        Some t \<Rightarrow> (Some t, thr\<lparr>next_task_slot := None\<rparr>)
      | None \<Rightarrow> (case next_task_thread (tqueue thr) of
                   Some (t, q') \<Rightarrow> (Some t, thr\<lparr>tqueue := q'\<rparr>)
                 | None \<Rightarrow> (None, thr)))"

definition steal_result :: "'t sched \<Rightarrow> nat \<Rightarrow> (nat \<times> 't \<times> 't option list) \<Rightarrow> ('t option \<times> 't sched) res" where
  "steal_result s th r = (case r of (k, t, q') \<Rightarrow> Inr (Some t, set_last_steal (set_slots s k q') th k))"

definition next_task :: "nat \<Rightarrow> 't sched \<Rightarrow> ('t option \<times> 't sched) res option" where
  "next_task th s =
     (case thread_pool s th of
        None \<Rightarrow> Some (Inl Null_dereference)
      | Some thr \<Rightarrow>
          (case next_task_local thr of
             (Some t, thr1) \<Rightarrow> Some (Inr (Some t, s\<lparr>thread_pool := (thread_pool s)(th := Some thr1)\<rparr>))
           | (None, thr1) \<Rightarrow>
               (let s1 = s\<lparr>thread_pool := (thread_pool s)(th := Some thr1)\<rparr>
                in case thread_pool s1 (last_steal thr1) of
                     None \<Rightarrow> Some (Inl Null_dereference)
                   | Some vic \<Rightarrow>
                       (case next_task_thread_back (tqueue vic) of
                          Some (t, q') \<Rightarrow> Some (Inr (Some t, set_slots s1 (last_steal thr1) q'))
                        | None \<Rightarrow>
                            Option.bind (steal_loop (same_numa s1 th) (num_threads s1) th
                                           (Suc th mod num_threads s1) (slots s1))
                              (\<lambda>r. case r of
                                     Some r' \<Rightarrow> Some (steal_result s1 th r')
                                   | None \<Rightarrow>
                                       (case numa_pop_loop (numa_id thr1) 0 s1 of
                                          Inl e \<Rightarrow> Some (Inl e)
                                        | Inr (Some t, s2) \<Rightarrow> Some (Inr (Some t, s2))
                                        | Inr (None, s2) \<Rightarrow>
                                            if 1 < num_numa_nodes s2
                                            then Option.bind (steal_loop (other_numa s2 th) (num_threads s2) th
                                                                (Suc th mod num_threads s2) (slots s2))
                                                   (\<lambda>r2. case r2 of
                                                           Some r' \<Rightarrow> Some (steal_result s2 th r')
                                                         | None \<Rightarrow> Some (Inr (None, s2)))
                                            else Some (Inr (None, s2))))))))"

section \<open>Putting tasks back\<close>

text \<open>
  \<open>requeue_task\<close>: a yielded task goes back to the queue of the thread's NUMA node, at
  the head for \<open>delay = 0\<close>, behind \<open>delay\<close> tasks for \<open>delay > 0\<close>, at the tail otherwise.
\<close>

definition requeue_task :: "nat \<Rightarrow> 't \<Rightarrow> 't sched \<Rightarrow> 't sched res" where
  "requeue_task th t s =
     (case thread_pool s th of
        None \<Rightarrow> Inl Null_dereference
      | Some thr \<Rightarrow>
          (let k = numa_id thr; q = task_queue s k; d = tdelay thr;
               r = (if d = 0 then dart_tasking_taskqueue_push (prio_of s) (links s) q t
                    else if 0 < d then dart_tasking_taskqueue_insert (prio_of s) (links s) q t (nat d)
                    else dart_tasking_taskqueue_pushback (prio_of s) (links s) q t)
           in sbind r (\<lambda>(L', q'). Inr (s\<lparr>links := L', task_queue := (task_queue s)(k := q')\<rparr>))))"

section \<open>Remote progress and the thread count\<close>

text \<open>
  \<open>remote_progress\<close>: with more than one unit, call the transport's progress when forced
  or when \<open>thread->last_progress_ts + REMOTE_PROGRESS_INTERVAL_USEC >= current_time_us()\<close>,
  and then store the time. \<open>now\<close> is the clock value (in microseconds) both calls read;
  the result says whether \<open>dart_tasking_remote_progress\<close> was called.
\<close>

definition REMOTE_PROGRESS_INTERVAL_USEC :: int where
  "REMOTE_PROGRESS_INTERVAL_USEC = 10000"

definition remote_progress :: "nat \<Rightarrow> bool \<Rightarrow> int \<Rightarrow> 't sched \<Rightarrow> (bool \<times> 't sched) res" where
  "remote_progress th force now s =
     (if num_units s = 1 then Inr (False, s)
      else case thread_pool s th of
             None \<Rightarrow> Inl Null_dereference
           | Some thr \<Rightarrow>
               if force \<or> now \<le> last_progress_ts thr + REMOTE_PROGRESS_INTERVAL_USEC
               then Inr (True, s\<lparr>thread_pool := (thread_pool s)(th := Some (thr\<lparr>last_progress_ts := now\<rparr>))\<rparr>)
               else Inr (False, s))"

text \<open>
  \<open>determine_num_threads\<close> on \<open>int\<close> (32 bit): \<open>env_val\<close> is what
  \<open>dart__base__env__number(DART_NUMTHREADS_ENVSTR, -1)\<close> returned, \<open>cores\<close> and \<open>maxthr\<close>
  the \<open>num_cores\<close> and \<open>max_threads\<close> of \<open>dart_hwinfo\<close>; the product wraps.
\<close>

definition determine_num_threads :: "32 word \<Rightarrow> 32 word \<Rightarrow> 32 word \<Rightarrow> 32 word" where
  "determine_num_threads env_val cores maxthr =
     (let n = (if env_val = -1
               then (if 0 < sint cores
                     then (let p = cores * (if 0 < sint maxthr then maxthr else 1)
                           in if sint p \<le> 0 then -1 else p)
                     else -1)
               else env_val)
      in if n = -1 then 2 else n)"

section \<open>The task memory pool\<close>

text \<open>
  \<open>allocate_task\<close>: pop the thread's free list (\<open>task_free_lists\<close>, a stack); if it is
  empty take the next task of the thread-private pool \<open>__taskpool\<close>, allocating a new
  pool of \<open>TASK_MEMPOOL_SIZE\<close> tasks when there is none or when \<open>pos == TASK_MEMPOOL_SIZE-1\<close>.
  A task is named by its pool and its index there; \<open>taskpool th\<close> is the thread's chain
  of pools with their \<open>pos\<close>, newest first.
\<close>

type_synonym task_id = "nat \<times> nat"

definition TASK_MEMPOOL_SIZE :: nat where
  "TASK_MEMPOOL_SIZE = 64"

record task_mempool =
  task_free_lists :: "nat \<Rightarrow> task_id list"
  taskpool :: "nat \<Rightarrow> (nat \<times> nat) list"
  next_pool :: nat
  task_owner :: "task_id \<Rightarrow> nat option"

definition new_taskpool :: "nat \<Rightarrow> task_mempool \<Rightarrow> task_mempool" where
  "new_taskpool th P =
     P\<lparr>next_pool := Suc (next_pool P), taskpool := (taskpool P)(th := (next_pool P, 0) # taskpool P th)\<rparr>"

definition allocate_task :: "nat \<Rightarrow> task_mempool \<Rightarrow> task_id \<times> task_mempool" where
  "allocate_task th P =
     (case task_free_lists P th of
        t # ts \<Rightarrow> (t, P\<lparr>task_free_lists := (task_free_lists P)(th := ts)\<rparr>)
      | [] \<Rightarrow>
          (let P1 = (case taskpool P th of
                       [] \<Rightarrow> new_taskpool th P
                     | (pid, pos) # _ \<Rightarrow> if pos = TASK_MEMPOOL_SIZE - 1 then new_taskpool th P else P);
               (pid, pos) = hd (taskpool P1 th)
           in ((pid, pos),
               P1\<lparr>taskpool := (taskpool P1)(th := (pid, Suc pos) # tl (taskpool P1 th)),
                  task_owner := (task_owner P1)((pid, pos) := Some th)\<rparr>)))"

text \<open>
  The pool invariant: each thread's pools have been allocated (\<open>pid < next_pool\<close>) and
  have \<open>pos \<le> TASK_MEMPOOL_SIZE - 1\<close>; a pool belongs to one thread; a task has an owner
  iff it lies below the \<open>pos\<close> of its pool; tasks on a free list have an owner.
\<close>

definition pool_inv :: "task_mempool \<Rightarrow> bool" where
  "pool_inv P \<longleftrightarrow>
     (\<forall>th pid pos. (pid, pos) \<in> set (taskpool P th) \<longrightarrow> pid < next_pool P \<and> pos \<le> TASK_MEMPOOL_SIZE - 1) \<and>
     (\<forall>th th' pid p p'. (pid, p) \<in> set (taskpool P th) \<longrightarrow> (pid, p') \<in> set (taskpool P th') \<longrightarrow> th = th' \<and> p = p') \<and>
     (\<forall>th. distinct (map fst (taskpool P th))) \<and>
     (\<forall>pid i. task_owner P (pid, i) \<noteq> None \<longleftrightarrow> (\<exists>th p. (pid, p) \<in> set (taskpool P th) \<and> i < p)) \<and>
     (\<forall>th t. t \<in> set (task_free_lists P th) \<longrightarrow> task_owner P t \<noteq> None)"

section \<open>Creating and enqueueing tasks\<close>

definition set_task :: "'t sched \<Rightarrow> 't \<Rightarrow> ('t task_info \<Rightarrow> 't task_info) \<Rightarrow> 't sched" where
  "set_task s t f = s\<lparr>tasks := (tasks s)(t := f (tasks s t))\<rparr>"

text \<open>
  \<open>create_task\<close>: initialise the fields of the allocated task \<open>t\<close> for thread \<open>th\<close>: no
  flags but \<open>DATA_ALLOCATED\<close> for a payload larger than the inline buffer, the current
  task as parent, state \<open>NASCENT\<close>, the instance counter incremented, the current phase
  (counted) for a child of the root task and \<open>DART_PHASE_ANY\<close> otherwise, and the
  priority: the parent's for \<open>DART_PRIO_PARENT\<close>, \<open>DART_PRIO_HIGH\<close> with \<open>INLINE\<close> and
  \<open>IMMEDIATE\<close> for \<open>DART_PRIO_INLINE\<close>, the given one otherwise.
\<close>

definition create_task :: "'t sched_env \<Rightarrow> nat \<Rightarrow> 't \<Rightarrow> nat \<Rightarrow> int \<Rightarrow> 't sched \<Rightarrow> 't sched" where
  "create_task E th t data_size prio s =
     (let parent = current_task s th; pi = tasks s parent; ti = tasks s t;
          root_parent = (tstate pi = DART_TASK_ROOT);
          fl0 = (if data_size \<noteq> 0 \<and> var_space_size E < data_size then {DART_TASK_DATA_ALLOCATED} else {});
          (p', fl) = (if prio = DART_PRIO_PARENT then (tprio pi, fl0)
                      else if prio = DART_PRIO_INLINE
                      then (DART_PRIO_HIGH, fl0 \<union> {DART_TASK_INLINE, DART_TASK_IMMEDIATE})
                      else (prio, fl0))
      in s\<lparr>tasks := (tasks s)(t := ti\<lparr>tstate := DART_TASK_NASCENT, tflags := fl, tprio := p',
                                     tparent := Some parent,
                                     tphase := (if root_parent then phase_cur s else DART_PHASE_ANY E),
                                     num_children := 0, numa_node := None, tinstance := Suc (tinstance ti),
                                     has_wait_handle := False\<rparr>),
           phase_ntasks := (if root_parent then (phase_ntasks s)(phase_cur s := Suc (phase_ntasks s (phase_cur s)))
                            else phase_ntasks s)\<rparr>)"

text \<open>Where \<open>dart__tasking__enqueue_runnable\<close> left the task.\<close>

datatype enqueue_outcome = Enq_cancelled | Enq_refused | Enq_deferred | Enq_comm | Enq_inline
  | Enq_slot nat | Enq_queued nat

fun first_free :: "nat \<Rightarrow> 't option list \<Rightarrow> nat option" where
  "first_free i [] = None"
| "first_free i (x # xs) = (if x = None then Some i else first_free (Suc i) xs)"

text \<open>The locked test: a \<open>CREATED\<close> task whose dependencies are met becomes \<open>QUEUED\<close>; a \<open>SUSPENDED\<close> one may be queued as it is.\<close>

definition enqueue_admit :: "'t sched_env \<Rightarrow> 't \<Rightarrow> 't sched \<Rightarrow> bool \<times> 't sched" where
  "enqueue_admit E t s =
     (case tstate (tasks s t) of
        DART_TASK_CREATED \<Rightarrow>
          if datadeps_runnable E t then (True, set_task s t (tstate_update (\<lambda>_. DART_TASK_QUEUED))) else (False, s)
      | DART_TASK_SUSPENDED \<Rightarrow> (True, s)
      | _ \<Rightarrow> (False, s))"

text \<open>A child of the root task whose phase is not runnable goes, if \<open>CREATED\<close> or \<open>QUEUED\<close>, to the back of \<open>local_deferred_tasks\<close> as \<open>DEFERRED\<close>.\<close>

definition enqueue_defer :: "'t sched_env \<Rightarrow> 't \<Rightarrow> 't sched \<Rightarrow> (bool \<times> 't sched) res" where
  "enqueue_defer E t s =
     (if tparent (tasks s t) = Some (root_task s) \<and> \<not> phase_is_runnable E (tphase (tasks s t))
      then (if tstate (tasks s t) = DART_TASK_CREATED \<or> tstate (tasks s t) = DART_TASK_QUEUED
            then sbind (dart_tasking_taskqueue_pushback (prio_of s) (links s) (deferred s) t)
                   (\<lambda>(L', q'). Inr (True, (set_task s t (tstate_update (\<lambda>_. DART_TASK_DEFERRED)))\<lparr>links := L', deferred := q'\<rparr>))
            else Inr (False, s))
      else Inr (False, s))"

text \<open>
  The first free slot of a worker on the task's NUMA node (node 0 unless \<open>respect_numa\<close>),
  else the head of that node's queue; a node outside \<open>task_queue[0..num_numa_nodes-1]\<close> is
  an invalid access.
\<close>

definition enqueue_place :: "nat \<Rightarrow> 't \<Rightarrow> 't sched \<Rightarrow> (enqueue_outcome \<times> 't sched) res" where
  "enqueue_place th t s =
     (let numa = (case numa_node (tasks s t) of Some k \<Rightarrow> if respect_numa s then k else 0 | None \<Rightarrow> 0)
      in if num_numa_nodes s \<le> numa then Inl Invalid_pointer
      else case thread_pool s th of
           None \<Rightarrow> Inl Null_dereference
         | Some thr \<Rightarrow>
             (case (if \<not> is_utility thr \<and> numa = numa_id thr then first_free 0 (tqueue thr) else None) of
                Some i \<Rightarrow> Inr (Enq_slot i, s\<lparr>thread_pool := (thread_pool s)(th := Some (thr\<lparr>tqueue := (tqueue thr)[i := Some t]\<rparr>))\<rparr>)
              | None \<Rightarrow> sbind (dart_tasking_taskqueue_push (prio_of s) (links s) (task_queue s numa) t)
                          (\<lambda>(L', q'). Inr (Enq_queued numa, s\<lparr>links := L', task_queue := (task_queue s)(numa := q')\<rparr>))))"

definition dart__tasking__enqueue_runnable :: "'t sched_env \<Rightarrow> nat \<Rightarrow> 't \<Rightarrow> 't sched \<Rightarrow> (enqueue_outcome \<times> 't sched) res" where
  "dart__tasking__enqueue_runnable E th t s =
     (if cancel_requested s then Inr (Enq_cancelled, s)
      else if tstate (tasks s t) = DART_TASK_DEFERRED then Inr (Enq_refused, s)
      else (case enqueue_admit E t s of
              (False, s1) \<Rightarrow> Inr (Enq_refused, s1)
            | (True, s1) \<Rightarrow>
                sbind (enqueue_defer E t s1)
                  (\<lambda>(enq, s2).
                     if enq then Inr (Enq_deferred, s2)
                     else if DART_TASK_IS_COMMTASK \<in> tflags (tasks s2 t) \<and> comm_task_enqueued E t then Inr (Enq_comm, s2)
                     else if DART_TASK_IMMEDIATE \<in> tflags (tasks s2 t) then Inr (Enq_inline, s2)
                     else enqueue_place th t s2)))"

text \<open>
  \<open>dart__tasking__create_task\<close>: during cancellation return \<open>DART_OK\<close> at once (\<open>*ref\<close>
  is not written: the reference result is \<open>None\<close>); otherwise start the threads, allocate
  and initialise the task, set \<open>HAS_REF\<close> and publish it when a reference is wanted, set
  \<open>INLINE\<close> for \<open>DART_TASK_NOYIELD\<close>, count it as a child of its parent, make it
  \<open>CREATED\<close> and enqueue it when its dependencies are met.
\<close>

definition dart__tasking__create_task ::
  "task_id sched_env \<Rightarrow> nat \<Rightarrow> nat \<Rightarrow> int \<Rightarrow> bool \<Rightarrow> bool \<Rightarrow> task_mempool \<times> task_id sched \<Rightarrow>
   (dart_ret_t \<times> task_id option \<times> enqueue_outcome option \<times> task_mempool \<times> task_id sched) res" where
  "dart__tasking__create_task E th data_size prio noyield want_ref Ps =
     (case Ps of (P, s) \<Rightarrow>
      if cancel_requested s then Inr (DART_OK, None, None, P, s)
      else (let s0 = s\<lparr>threads_running := True\<rparr>;
                (t, P') = allocate_task th P;
                s1 = create_task E th t data_size prio s0;
                s2 = set_task s1 t (\<lambda>ti. ti\<lparr>tflags := tflags ti \<union> (if want_ref then {DART_TASK_HAS_REF} else {})
                                                     \<union> (if noyield then {DART_TASK_INLINE} else {})\<rparr>);
                s3 = set_task s2 (current_task s th) (\<lambda>pi. pi\<lparr>num_children := num_children pi + 1\<rparr>);
                s4 = set_task s3 t (tstate_update (\<lambda>_. DART_TASK_CREATED));
                ref = (if want_ref then Some t else None)
            in if datadeps_runnable E t
               then sbind (dart__tasking__enqueue_runnable E th t s4) (\<lambda>(out, s5). Inr (DART_OK, ref, Some out, P', s5))
               else Inr (DART_OK, ref, None, P', s4)))"

section \<open>Yielding\<close>

text \<open>
  \<open>dart__tasking__yield\<close> (the \<open>USE_UCONTEXT\<close> variant): the outcome says whether the
  current task was aborted (cancellation), swapped out as blocked, left for the task
  \<open>n\<close> (which \<open>handle_task\<close> then runs, \<open>Yield_switched n\<close>), or ran \<open>n\<close> from the root task.
\<close>

datatype 't yield_outcome = Yield_none | Yield_aborted | Yield_blocked_swap | Yield_ran 't | Yield_switched 't

definition yield_to :: "nat \<Rightarrow> 't \<Rightarrow> 't \<Rightarrow> int \<Rightarrow> 't sched \<Rightarrow> (dart_ret_t \<times> 't yield_outcome \<times> 't sched) res" where
  "yield_to th cur n delay s =
     (case thread_pool s th of
        None \<Rightarrow> Inl Null_dereference
      | Some thr \<Rightarrow>
          (let s1 = s\<lparr>thread_pool := (thread_pool s)(th := Some (thr\<lparr>tdelay := delay\<rparr>))\<rparr>
           in if cur = root_task s
              then sbind (dart_assert (th = 0)) (\<lambda>_. Inr (DART_OK, Yield_ran n, s1))
              else (let s2 = set_task s1 cur (tstate_update (\<lambda>_. if has_wait_handle (tasks s1 cur)
                                                                   then DART_TASK_BLOCKED else DART_TASK_SUSPENDED))
                    in sbind (dart_assert (next_task_slot thr = None))
                         (\<lambda>_. Inr (DART_OK, Yield_switched n,
                                  s2\<lparr>thread_pool := (thread_pool s2)(th := Some (thr\<lparr>tdelay := delay, next_task_slot := Some n\<rparr>))\<rparr>)))))"

definition dart__tasking__yield :: "nat \<Rightarrow> int \<Rightarrow> int \<Rightarrow> 't sched \<Rightarrow> (dart_ret_t \<times> 't yield_outcome \<times> 't sched) res option" where
  "dart__tasking__yield th delay now s =
     (let cur = current_task s th in
      if \<not> threads_running s then Some (Inr (DART_OK, Yield_none, s))
      else if cancel_requested s then Some (Inr (DART_OK, Yield_aborted, s))
      else if DART_TASK_INLINE \<in> tflags (tasks s cur) then Some (Inr (DART_ERR_INVAL, Yield_none, s))
      else if tstate (tasks s cur) = DART_TASK_BLOCKED then Some (Inr (DART_OK, Yield_blocked_swap, s))
      else Option.bind (next_task th s)
             (\<lambda>r. case r of
                    Inl e \<Rightarrow> Some (Inl e)
                  | Inr (Some n, s1) \<Rightarrow> Some (yield_to th cur n delay s1)
                  | Inr (None, s1) \<Rightarrow>
                      (case remote_progress th True now s1 of
                         Inl e \<Rightarrow> Some (Inl e)
                       | Inr (_, s2) \<Rightarrow>
                           Option.bind (next_task th s2)
                             (\<lambda>r2. case r2 of
                                     Inl e \<Rightarrow> Some (Inl e)
                                   | Inr (None, s3) \<Rightarrow> Some (Inr (DART_OK, Yield_none, s3))
                                   | Inr (Some n, s3) \<Rightarrow> Some (yield_to th cur n delay s3)))))"

section \<open>The queue invariant of the scheduler\<close>

text \<open>
  All NUMA queues and \<open>local_deferred_tasks\<close> share one link heap. \<open>queues_inv s Q D\<close>:
  queue \<open>k\<close> holds the lists \<open>Q k\<close>, the deferred queue \<open>D\<close>, and no task is in two queues.
\<close>

definition qset :: "'t list \<times> 't list \<Rightarrow> 't set" where
  "qset q = set (fst q) \<union> set (snd q)"

definition queued :: "'t sched \<Rightarrow> (nat \<Rightarrow> 't list \<times> 't list) \<Rightarrow> 't list \<times> 't list \<Rightarrow> 't set" where
  "queued s Q D = (\<Union>k\<in>{..<num_numa_nodes s}. qset (Q k)) \<union> qset D"

definition queues_inv :: "'t sched \<Rightarrow> (nat \<Rightarrow> 't list \<times> 't list) \<Rightarrow> 't list \<times> 't list \<Rightarrow> bool" where
  "queues_inv s Q D \<longleftrightarrow>
     (\<forall>k<num_numa_nodes s. tq_inv (links s) (task_queue s k) (Q k)) \<and> tq_inv (links s) (deferred s) D \<and>
     (\<forall>k<num_numa_nodes s. \<forall>k'<num_numa_nodes s. k \<noteq> k' \<longrightarrow> qset (Q k) \<inter> qset (Q k') = {}) \<and>
     (\<forall>k<num_numa_nodes s. qset (Q k) \<inter> qset D = {})"

section \<open>The stealing loop follows the reference order\<close>

lemma steal_loop_below:
  "t \<le> self \<Longrightarrow> self < n \<Longrightarrow> steal_loop ok n self t Q = Some (steal_first ok Q [t..<self])"
proof (induction "self - t" arbitrary: t)
  case 0
  then show ?case by (simp add: steal_loop.simps)
next
  case (Suc d)
  then have t: "t < self" "Suc t \<noteq> n" "[t..<self] = t # [Suc t..<self]" by (auto simp: upt_conv_Cons)
  show ?case
    using Suc.hyps(1) [of "Suc t"] Suc.hyps(2) Suc.prems t
    by (subst steal_loop.simps) (auto split: option.splits)
qed

lemma steal_loop_above:
  "self < t \<Longrightarrow> t < n \<Longrightarrow> steal_loop ok n self t Q = Some (steal_first ok Q ([t..<n] @ [0..<self]))"
proof (induction "n - t" arbitrary: t)
  case 0
  then show ?case by simp
next
  case (Suc d)
  have u: "[t..<n] = t # [Suc t..<n]" using Suc.prems by (simp add: upt_conv_Cons)
  show ?case
  proof (cases "Suc t = n")
    case True
    then show ?thesis
      using Suc.prems steal_loop_below [of 0 self n ok Q] u
      by (subst steal_loop.simps) (auto split: option.splits)
  next
    case False
    then show ?thesis
      using Suc.hyps(1) [of "Suc t"] Suc.hyps(2) Suc.prems u
      by (subst steal_loop.simps) (auto split: option.splits)
  qed
qed

lemma steal_loop_order:
  "self < n \<Longrightarrow> steal_loop ok n self (Suc self mod n) Q = Some (steal_first ok Q (steal_order n self))"
proof (cases "Suc self < n")
  case True
  then show ?thesis
    by (simp add: steal_loop_above steal_order_def)
next
  case False
  assume "self < n"
  with False have "Suc self = n" by simp
  then show ?thesis
    using steal_loop_below [of 0 self n ok Q] by (simp add: steal_order_def)
qed

lemma steal_order_set: "self < n \<Longrightarrow> set (steal_order n self) = {..<n} - {self}"
  by (auto simp: steal_order_def)

lemma steal_order_distinct: "distinct (steal_order n self)"
  by (auto simp: steal_order_def)


section \<open>The NUMA-queue loop\<close>

lemma numa_pop_loop_step:
  assumes "dart_tasking_taskqueue_pop (links s) (task_queue s ((numa + i) mod num_numa_nodes s)) = Inr (L', q', r0)"
  shows "numa_pop_loop numa i s =
           (let s' = s\<lparr>links := L', task_queue := (task_queue s)((numa + i) mod num_numa_nodes s := q')\<rparr>
            in if r0 = None \<and> Suc i < num_numa_nodes s then numa_pop_loop numa (Suc i) s' else Inr (r0, s'))"
  by (subst numa_pop_loop.simps) (simp add: assms)

lemma numa_pop_loop_frame:
  "numa_pop_loop numa i s = Inr (r, s') \<Longrightarrow>
   num_threads s' = num_threads s \<and> thread_pool s' = thread_pool s \<and> num_numa_nodes s' = num_numa_nodes s"
proof (induction numa i s arbitrary: r s' rule: numa_pop_loop.induct)
  case (1 numa i s)
  obtain L' q' r0 where pop: "dart_tasking_taskqueue_pop (links s) (task_queue s ((numa + i) mod num_numa_nodes s)) = Inr (L', q', r0)"
    using "1.prems" by (subst (asm) numa_pop_loop.simps) (auto split: sum.splits)
  note IH = "1.IH" [OF pop refl refl refl]
  show ?case
    using "1.prems" IH unfolding numa_pop_loop_step [OF pop] Let_def
    by (auto split: if_splits)
qed


section \<open>The multi-queue invariant\<close>

text \<open>
  Updating one NUMA queue or the deferred queue with an operation whose frame is the task
  and that queue's members keeps all the other queues intact.
\<close>

lemma queues_inv_cong:
  "links s' = links s \<Longrightarrow> task_queue s' = task_queue s \<Longrightarrow> deferred s' = deferred s \<Longrightarrow>
   num_numa_nodes s' = num_numa_nodes s \<Longrightarrow> queues_inv s' Q D = queues_inv s Q D"
  by (simp add: queues_inv_def)

lemma queued_cong: "num_numa_nodes s' = num_numa_nodes s \<Longrightarrow> queued s' Q D = queued s Q D"
  by (simp add: queued_def)

lemma set_task_simps [simp]:
  "links (set_task s t f) = links s" "task_queue (set_task s t f) = task_queue s"
  "deferred (set_task s t f) = deferred s" "num_numa_nodes (set_task s t f) = num_numa_nodes s"
  "thread_pool (set_task s t f) = thread_pool s" "num_threads (set_task s t f) = num_threads s"
  "cancel_requested (set_task s t f) = cancel_requested s" "root_task (set_task s t f) = root_task s"
  "current_task (set_task s t f) = current_task s" "respect_numa (set_task s t f) = respect_numa s"
  "tasks (set_task s t f) = (tasks s)(t := f (tasks s t))"
  by (simp_all add: set_task_def)

lemma prio_of_set_task [simp]:
  "tprio (f (tasks s t)) = tprio (tasks s t) \<Longrightarrow> prio_of (set_task s t f) = prio_of s"
  by (auto simp: prio_of_def set_task_def)

lemma tq_inv_same_outside:
  "same_outside L L' A \<Longrightarrow> qset q \<inter> A = {} \<Longrightarrow> tq_inv L' tq q = tq_inv L tq q"
  by (cases q) (simp add: tq_inv_def qset_def deque_inv_same_outside Int_Un_distrib2)

lemma qset_push_spec [simp]: "qset (tq_push_spec prio t q) = insert t (qset q)"
  by (auto simp: qset_def tq_push_spec_def)

lemma qset_pushback_spec [simp]: "qset (tq_pushback_spec prio t q) = insert t (qset q)"
  by (auto simp: qset_def tq_pushback_spec_def)

lemma qset_insert_spec [simp]: "qset (tq_insert_spec prio t pos q) = insert t (qset q)"
  by (auto simp: qset_def tq_insert_spec_def)

lemma queues_inv_node_update:
  assumes inv: "queues_inv s Q D" and k: "k < num_numa_nodes s" and t: "t \<notin> queued s Q D"
    and X: "tq_inv L' q' X" "qset X = insert t (qset (Q k))"
    and so: "same_outside (links s) L' (insert t (qset (Q k)))"
  shows "queues_inv (s\<lparr>links := L', task_queue := (task_queue s)(k := q')\<rparr>) (Q(k := X)) D"
proof -
  have disj: "qset (Q k') \<inter> insert t (qset (Q k)) = {}" if "k' < num_numa_nodes s" "k' \<noteq> k" for k'
    using inv t that k by (auto simp: queues_inv_def queued_def)
  have dD: "qset D \<inter> insert t (qset (Q k)) = {}"
    using inv t k by (auto simp: queues_inv_def queued_def)
  show ?thesis
    using inv X k disj dD tq_inv_same_outside [OF so]
    unfolding queues_inv_def by (auto simp: Int_commute)
qed

lemma queues_inv_deferred_update:
  assumes inv: "queues_inv s Q D" and t: "t \<notin> queued s Q D"
    and X: "tq_inv L' q' X" "qset X = insert t (qset D)"
    and so: "same_outside (links s) L' (insert t (qset D))"
  shows "queues_inv (s\<lparr>links := L', deferred := q'\<rparr>) Q X"
proof -
  have disj: "qset (Q k) \<inter> insert t (qset D) = {}" if "k < num_numa_nodes s" for k
    using inv t that by (auto simp: queues_inv_def queued_def)
  show ?thesis
    using inv X disj tq_inv_same_outside [OF so]
    unfolding queues_inv_def by auto
qed


lemma tq_inv_pair: "tq_inv L tq q \<Longrightarrow> t \<notin> qset q \<Longrightarrow> tq_inv L tq (fst q, snd q) \<and> t \<notin> set (fst q) \<union> set (snd q)"
  by (simp add: qset_def)

lemma enqueue_defer_queues:
  assumes inv: "queues_inv s Q D" and t: "t \<notin> queued s Q D" and r: "enqueue_defer E t s = Inr (b, s')"
  shows "if b then queues_inv s' Q (tq_pushback_spec (prio_of s) t D) \<and> prio_of s' = prio_of s \<and> num_numa_nodes s' = num_numa_nodes s
         else s' = s"
proof -
  have d: "tq_inv (links s) (deferred s) (fst D, snd D)" "t \<notin> set (fst D) \<union> set (snd D)"
    using inv t by (auto simp: queues_inv_def queued_def qset_def)
  obtain L' q' where push: "dart_tasking_taskqueue_pushback (prio_of s) (links s) (deferred s) t = Inr (L', q')"
      and q': "tq_inv L' q' (tq_pushback_spec (prio_of s) t D)"
      and so: "same_outside (links s) L' (insert t (qset D))"
    using taskqueue_pushback_frame [OF d, of "prio_of s"] by (auto simp: qset_def)
  have upd: "queues_inv (s\<lparr>links := L', deferred := q'\<rparr>) Q (tq_pushback_spec (prio_of s) t D)"
    by (rule queues_inv_deferred_update [OF inv t q' qset_pushback_spec so])
  let ?s2 = "(set_task s t (tstate_update (\<lambda>_. DART_TASK_DEFERRED)))\<lparr>links := L', deferred := q'\<rparr>"
  have "queues_inv ?s2 Q (tq_pushback_spec (prio_of s) t D)"
    using upd by (subst queues_inv_cong) simp_all
  moreover have "prio_of ?s2 = prio_of s" by (simp add: prio_of_def set_task_def fun_eq_iff)
  moreover have "enqueue_defer E t s \<in> {Inr (True, ?s2), Inr (False, s)}"
    by (simp add: enqueue_defer_def push)
  ultimately show ?thesis
    using r by (auto simp: set_task_def)
qed


lemma enqueue_place_queues:
  assumes inv: "queues_inv s Q D" and t: "t \<notin> queued s Q D" and r: "enqueue_place th t s = Inr (out, s')"
  shows "case out of Enq_queued k \<Rightarrow> queues_inv s' (Q(k := tq_push_spec (prio_of s) t (Q k))) D
                    | _ \<Rightarrow> queues_inv s' Q D"
proof -
  define k where "k = (case numa_node (tasks s t) of Some k \<Rightarrow> if respect_numa s then k else 0 | None \<Rightarrow> 0)"
  have k: "k < num_numa_nodes s" and thr: "thread_pool s th \<noteq> None"
    using r by (auto simp: enqueue_place_def k_def [symmetric] split: if_splits option.splits)
  have d: "tq_inv (links s) (task_queue s k) (fst (Q k), snd (Q k))" "t \<notin> set (fst (Q k)) \<union> set (snd (Q k))"
    using inv t k by (auto simp: queues_inv_def queued_def qset_def)
  obtain L' q' where push: "dart_tasking_taskqueue_push (prio_of s) (links s) (task_queue s k) t = Inr (L', q')"
      and q': "tq_inv L' q' (tq_push_spec (prio_of s) t (Q k))"
      and so: "same_outside (links s) L' (insert t (qset (Q k)))"
    using taskqueue_push_frame [OF d, of "prio_of s"] by (auto simp: qset_def)
  have upd: "queues_inv (s\<lparr>links := L', task_queue := (task_queue s)(k := q')\<rparr>) (Q(k := tq_push_spec (prio_of s) t (Q k))) D"
    by (rule queues_inv_node_update [OF inv k t q' qset_push_spec so])
  have slot: "queues_inv (s\<lparr>thread_pool := P\<rparr>) Q D" for P
    using inv by (subst queues_inv_cong) simp_all
  show ?thesis
    using r k thr upd slot push
    by (auto simp: enqueue_place_def k_def [symmetric] split: option.splits if_splits)
qed


lemma enqueue_admit_cases:
  "enqueue_admit E t s = (b, s1) \<Longrightarrow> s1 = s \<or> s1 = set_task s t (tstate_update (\<lambda>_. DART_TASK_QUEUED))"
  unfolding enqueue_admit_def by (cases "tstate (tasks s t)") (auto split: if_splits)

lemma enqueue_admit_frame:
  assumes "enqueue_admit E t s = (b, s1)"
  shows "queues_inv s1 Q D = queues_inv s Q D \<and> queued s1 Q D = queued s Q D \<and> prio_of s1 = prio_of s"
proof -
  have "queues_inv (set_task s t f) Q D = queues_inv s Q D" for f
    by (rule queues_inv_cong) simp_all
  moreover have "queued (set_task s t f) Q D = queued s Q D" for f
    by (rule queued_cong) simp
  moreover have "prio_of (set_task s t (tstate_update g)) = prio_of s" for g
    by (simp add: prio_of_def fun_eq_iff)
  ultimately show ?thesis using enqueue_admit_cases [OF assms] by auto
qed

section \<open>The task pool\<close>

lemma new_taskpool_simps [simp]:
  "task_free_lists (new_taskpool th P) = task_free_lists P" "task_owner (new_taskpool th P) = task_owner P"
  "next_pool (new_taskpool th P) = Suc (next_pool P)"
  "taskpool (new_taskpool th P) = (taskpool P)(th := (next_pool P, 0) # taskpool P th)"
  by (simp_all add: new_taskpool_def)

lemma new_taskpool_inv: "pool_inv P \<Longrightarrow> pool_inv (new_taskpool th P)"
  unfolding pool_inv_def by (auto split: if_splits) (blast | fastforce)+


lemma pool_take_inv:
  assumes inv: "pool_inv P" and hd: "taskpool P th = (pid, pos) # rest" and pos: "pos < TASK_MEMPOOL_SIZE - 1"
  defines "P' \<equiv> P\<lparr>taskpool := (taskpool P)(th := (pid, Suc pos) # rest),
                    task_owner := (task_owner P)((pid, pos) := Some th)\<rparr>"
  shows "pool_inv P' \<and> task_owner P (pid, pos) = None"
proof -
  note I = inv [unfolded pool_inv_def]
  have I1: "(a, b) \<in> set (taskpool P x) \<Longrightarrow> a < next_pool P \<and> b \<le> TASK_MEMPOOL_SIZE - 1" for a b x
    using I by blast
  have I2: "(a, p) \<in> set (taskpool P x) \<Longrightarrow> (a, p') \<in> set (taskpool P y) \<Longrightarrow> x = y \<and> p = p'" for a p p' x y
    using I by blast
  have I4: "task_owner P (a, i) \<noteq> None \<longleftrightarrow> (\<exists>x p. (a, p) \<in> set (taskpool P x) \<and> i < p)" for a i
    using I by blast
  have hd_in: "(pid, pos) \<in> set (taskpool P th)" by (simp add: hd)
  have uniq: "(pid, p) \<in> set (taskpool P x) \<Longrightarrow> x = th \<and> p = pos" for x p
    using I2 [OF _ hd_in] by blast
  have dist: "distinct (map fst ((pid, pos) # rest))"
    using I hd by metis
  then have nopid: "(pid, b) \<notin> set rest" for b
    by (auto simp: image_iff)
  have fresh: "task_owner P (pid, pos) = None"
    using I4 uniq by blast
  have tp': "taskpool P' x = (if x = th then (pid, Suc pos) # rest else taskpool P x)" for x
    by (simp add: P'_def)
  have newpid: "(pid, b) \<in> set (taskpool P' x) \<longleftrightarrow> x = th \<and> b = Suc pos" for b x
    using uniq nopid by (auto simp: tp')
  have samepid: "a \<noteq> pid \<Longrightarrow> (a, b) \<in> set (taskpool P' x) \<longleftrightarrow> (a, b) \<in> set (taskpool P x)" for a b x
    by (simp add: tp' hd)
  have c1: "(a, b) \<in> set (taskpool P' x) \<Longrightarrow> a < next_pool P' \<and> b \<le> TASK_MEMPOOL_SIZE - 1" for a b x
    using I1 [OF hd_in] pos newpid [of b x] samepid [of a b x] I1 [of a b x]
    by (cases "a = pid") (auto simp: P'_def)
  have c2: "x = y \<and> p = p'" if "(a, p) \<in> set (taskpool P' x)" "(a, p') \<in> set (taskpool P' y)" for a p p' x y
  proof (cases "a = pid")
    case True
    then show ?thesis using that newpid [of p x] newpid [of p' y] by simp
  next
    case False
    then show ?thesis using that samepid [OF False] I2 by simp
  qed
  have c3: "distinct (map fst (taskpool P' x))" for x
    using I dist by (simp add: tp')
  have c4: "task_owner P' (a, i) \<noteq> None \<longleftrightarrow> (\<exists>x p. (a, p) \<in> set (taskpool P' x) \<and> i < p)" for a i
  proof (cases "a = pid")
    case True
    have "task_owner P (pid, i) \<noteq> None \<longleftrightarrow> i < pos"
      using I4 uniq hd_in by blast
    then show ?thesis using True newpid by (auto simp: P'_def)
  next
    case False
    then show ?thesis using samepid I4 by (simp add: P'_def)
  qed
  have c5: "task_owner P' t \<noteq> None" if "t \<in> set (task_free_lists P' x)" for t x
  proof -
    have "t \<in> set (task_free_lists P x)" using that by (simp add: P'_def)
    then have "task_owner P t \<noteq> None" using I by blast
    then show ?thesis by (simp add: P'_def)
  qed
  have "pool_inv P'"
    unfolding pool_inv_def
  proof (intro conjI)
    show "\<forall>th pid pos. (pid, pos) \<in> set (taskpool P' th) \<longrightarrow> pid < next_pool P' \<and> pos \<le> TASK_MEMPOOL_SIZE - 1"
      using c1 by blast
    show "\<forall>th th' pid p p'. (pid, p) \<in> set (taskpool P' th) \<longrightarrow> (pid, p') \<in> set (taskpool P' th') \<longrightarrow> th = th' \<and> p = p'"
      using c2 by blast
    show "\<forall>th. distinct (map fst (taskpool P' th))"
      using c3 by blast
    show "\<forall>pid i. task_owner P' (pid, i) \<noteq> None \<longleftrightarrow> (\<exists>th p. (pid, p) \<in> set (taskpool P' th) \<and> i < p)"
      using c4 by blast
    show "\<forall>th t. t \<in> set (task_free_lists P' th) \<longrightarrow> task_owner P' t \<noteq> None"
      using c5 by blast
  qed
  then show ?thesis using fresh by simp
qed


lemma pool_select:
  fixes th :: nat
  assumes inv: "pool_inv P"
  defines "P1 \<equiv> (case taskpool P th of
                    [] \<Rightarrow> new_taskpool th P
                  | (pid, pos) # _ \<Rightarrow> if pos = TASK_MEMPOOL_SIZE - 1 then new_taskpool th P else P)"
  shows "pool_inv P1 \<and> task_free_lists P1 = task_free_lists P \<and>
         (\<exists>pid pos rest. taskpool P1 th = (pid, pos) # rest \<and> pos < TASK_MEMPOOL_SIZE - 1)"
proof (cases "taskpool P th")
  case Nil
  then show ?thesis using new_taskpool_inv [OF inv] by (simp add: P1_def TASK_MEMPOOL_SIZE_def)
next
  case (Cons e rest)
  obtain pid pos where e: "e = (pid, pos)" by fastforce
  have "pos \<le> TASK_MEMPOOL_SIZE - 1"
    using inv Cons e unfolding pool_inv_def by (metis list.set_intros(1))
  then show ?thesis
    using new_taskpool_inv [OF inv] inv Cons e by (auto simp: P1_def TASK_MEMPOOL_SIZE_def)
qed

lemma allocate_task_pool:
  assumes inv: "pool_inv P" and fl: "task_free_lists P th = []" and a: "allocate_task th P = ((pid, i), P')"
  shows "task_owner P (pid, i) = None \<and> task_owner P' (pid, i) = Some th \<and> i < TASK_MEMPOOL_SIZE - 1 \<and> pool_inv P'"
proof -
  define P1 where "P1 = (case taskpool P th of
                    [] \<Rightarrow> new_taskpool th P
                  | (pid, pos) # _ \<Rightarrow> if pos = TASK_MEMPOOL_SIZE - 1 then new_taskpool th P else P)"
  obtain pid0 pos0 rest where h: "taskpool P1 th = (pid0, pos0) # rest" and p0: "pos0 < TASK_MEMPOOL_SIZE - 1"
    and i1: "pool_inv P1"
    using pool_select [OF inv, of th] unfolding P1_def by blast
  have eq: "allocate_task th P = ((pid0, pos0), P1\<lparr>taskpool := (taskpool P1)(th := (pid0, Suc pos0) # rest),
                                          task_owner := (task_owner P1)((pid0, pos0) := Some th)\<rparr>)"
    using fl h unfolding allocate_task_def P1_def [symmetric] by simp
  have o: "task_owner P1 = task_owner P"
    by (simp add: P1_def split: list.splits prod.splits)
  show ?thesis
    using a eq pool_take_inv [OF i1 h p0] p0 o by auto
qed

lemma allocate_task_inv: "pool_inv P \<Longrightarrow> pool_inv (snd (allocate_task th P))"
proof (cases "task_free_lists P th")
  case Nil
  assume "pool_inv P"
  then show ?thesis
    using allocate_task_pool [OF _ Nil] by (metis prod.collapse)
next
  case (Cons t ts)
  assume inv: "pool_inv P"
  then show ?thesis
    using Cons unfolding pool_inv_def allocate_task_def by (auto simp: split: if_splits) (metis list.set_intros(2))
qed


section \<open>What submission leaves in the task\<close>

text \<open>
  \<open>dart__tasking__enqueue_runnable\<close> only changes task states, so priority and flags
  are those \<open>dart__tasking__create_task\<close> gave; in particular it never sees
  \<open>IS_COMMTASK\<close>, which no part of submission sets.
\<close>

lemma enqueue_admit_fields:
  "enqueue_admit E t s = (b, s1) \<Longrightarrow> tprio (tasks s1 x) = tprio (tasks s x) \<and> tflags (tasks s1 x) = tflags (tasks s x)"
  using enqueue_admit_cases [of E t s b s1] by (auto split: if_splits)

lemma enqueue_defer_fields:
  "enqueue_defer E t s = Inr (b, s1) \<Longrightarrow> tprio (tasks s1 x) = tprio (tasks s x) \<and> tflags (tasks s1 x) = tflags (tasks s x)"
  by (auto simp: enqueue_defer_def split: if_splits sum.splits prod.splits)

lemma enqueue_place_fields:
  "enqueue_place th t s = Inr (out, s1) \<Longrightarrow> tasks s1 = tasks s"
  by (auto simp: enqueue_place_def Let_def split: if_splits option.splits sum.splits prod.splits)

lemma enqueue_runnable_fields:
  assumes "dart__tasking__enqueue_runnable E th t s = Inr (out, s')"
  shows "tprio (tasks s' x) = tprio (tasks s x) \<and> tflags (tasks s' x) = tflags (tasks s x) \<and>
         (out = Enq_comm \<longrightarrow> DART_TASK_IS_COMMTASK \<in> tflags (tasks s t))"
proof -
  obtain b s1 where adm: "enqueue_admit E t s = (b, s1)" by fastforce
  note f1 = enqueue_admit_fields [OF adm]
  show ?thesis
  proof (cases "cancel_requested s \<or> tstate (tasks s t) = DART_TASK_DEFERRED \<or> \<not> b")
    case True
    then show ?thesis using assms adm f1 by (auto simp: dart__tasking__enqueue_runnable_def split: if_splits)
  next
    case False
    then obtain b2 s2 where def: "enqueue_defer E t s1 = Inr (b2, s2)"
      using assms adm by (cases "enqueue_defer E t s1") (auto simp: dart__tasking__enqueue_runnable_def)
    note f2 = enqueue_defer_fields [OF def]
    have r: "(if b2 then Inr (Enq_deferred, s2)
              else if DART_TASK_IS_COMMTASK \<in> tflags (tasks s2 t) \<and> comm_task_enqueued E t then Inr (Enq_comm, s2)
              else if DART_TASK_IMMEDIATE \<in> tflags (tasks s2 t) then Inr (Enq_inline, s2)
              else enqueue_place th t s2) = Inr (out, s')"
      using assms adm def False by (simp add: dart__tasking__enqueue_runnable_def)
    have "tasks s' = tasks s2 \<and> out \<noteq> Enq_comm \<or> s' = s2 \<and> (out = Enq_comm \<longrightarrow> DART_TASK_IS_COMMTASK \<in> tflags (tasks s2 t))"
    proof (cases "b2 \<or> DART_TASK_IS_COMMTASK \<in> tflags (tasks s2 t) \<and> comm_task_enqueued E t \<or> DART_TASK_IMMEDIATE \<in> tflags (tasks s2 t)")
      case True
      then show ?thesis using r by (auto split: if_splits)
    next
      case False
      then have p: "enqueue_place th t s2 = Inr (out, s')" using r by (auto split: if_splits)
      then have "out \<noteq> Enq_comm"
        by (auto simp: enqueue_place_def Let_def split: if_splits option.splits sum.splits prod.splits)
      moreover have "tasks s' = tasks s2" by (rule enqueue_place_fields [OF p])
      ultimately show ?thesis by blast
    qed
    then show ?thesis using f1 [of x] f2 [of x] f1 [of t] f2 [of t] by auto
  qed
qed

lemma create_task_fields:
  "tprio (tasks (create_task E th t sz prio s) t) =
     (if prio = DART_PRIO_PARENT then tprio (tasks s (current_task s th))
      else if prio = DART_PRIO_INLINE then DART_PRIO_HIGH else prio) \<and>
   tflags (tasks (create_task E th t sz prio s) t) \<subseteq> {DART_TASK_DATA_ALLOCATED, DART_TASK_INLINE, DART_TASK_IMMEDIATE}"
  by (auto simp: create_task_def Let_def)

lemma dart__tasking__create_task_submitted:
  assumes "dart__tasking__create_task E th sz prio noyield want_ref (P, s) = Inr (ret, ref, Some out, P', s')"
  shows "ret = DART_OK \<and> out \<noteq> Enq_comm \<and> ref = (if want_ref then Some (fst (allocate_task th P)) else None) \<and>
         tprio (tasks s' (fst (allocate_task th P))) =
           (if prio = DART_PRIO_PARENT then tprio (tasks s (current_task s th))
            else if prio = DART_PRIO_INLINE then DART_PRIO_HIGH else prio)"
proof -
  obtain t P1 where a: "allocate_task th P = (t, P1)" by fastforce
  note cf = create_task_fields [of E th t sz prio "s\<lparr>threads_running := True\<rparr>"]
  define s4 where "s4 = set_task (set_task (set_task (create_task E th t sz prio (s\<lparr>threads_running := True\<rparr>)) t
                          (\<lambda>ti. ti\<lparr>tflags := tflags ti \<union> (if want_ref then {DART_TASK_HAS_REF} else {})
                                                     \<union> (if noyield then {DART_TASK_INLINE} else {})\<rparr>))
                          (current_task s th) (\<lambda>pi. pi\<lparr>num_children := num_children pi + 1\<rparr>))
                        t (tstate_update (\<lambda>_. DART_TASK_CREATED))"
  have c: "dart__tasking__create_task E th sz prio noyield want_ref (P, s) =
           (if cancel_requested s then Inr (DART_OK, None, None, P, s)
            else if datadeps_runnable E t
            then sbind (dart__tasking__enqueue_runnable E th t s4)
                   (\<lambda>(out, s5). Inr (DART_OK, if want_ref then Some t else None, Some out, P1, s5))
            else Inr (DART_OK, if want_ref then Some t else None, None, P1, s4))"
    by (simp add: dart__tasking__create_task_def a s4_def Let_def)
  have e: "dart__tasking__enqueue_runnable E th t s4 = Inr (out, s')"
    and r: "ret = DART_OK" "ref = (if want_ref then Some t else None)"
    using assms unfolding c by (auto split: if_splits sum.splits)
  have s4: "DART_TASK_IS_COMMTASK \<notin> tflags (tasks s4 t)"
      "tprio (tasks s4 t) = tprio (tasks (create_task E th t sz prio (s\<lparr>threads_running := True\<rparr>)) t)"
    using cf by (auto simp: s4_def)
  show ?thesis
    using enqueue_runnable_fields [OF e, of t] cf s4 r a by auto
qed

section \<open>Properties of the scheduler\<close>

text \<open>C31: The stealing loop of next_task, started at (thread_id + 1) mod num_threads by a thread with thread_id < num_threads, always terminates and returns the first task found along the reference order: every other thread exactly once, those after the thief first, then those before it.\<close>

theorem steal_loop_visits_all:
  "self < n \<Longrightarrow>
   steal_loop ok n self (Suc self mod n) Q = Some (steal_first ok Q (steal_order n self)) \<and>
   distinct (steal_order n self) \<and> set (steal_order n self) = {..<n} - {self}"
  using steal_loop_order steal_order_distinct steal_order_set by blast

theorem steal_loop_visits_all_witness:
  "(1::nat) < 3 \<and>
   steal_loop (\<lambda>_. True) 3 1 (Suc 1 mod 3) (\<lambda>k. if k = 0 then [Some (7::nat), None] else [None]) = Some (Some (0, 7, [None, None])) \<and>
   distinct (steal_order 3 1) \<and> set (steal_order 3 1) = {..<3} - {1}"
  using steal_loop_visits_all [of 1 3 "\<lambda>_. True" "\<lambda>k. if k = 0 then [Some (7::nat), None] else [None]"]
  by (simp add: steal_order_def next_task_thread_back_def scan_back_def upt_rec)

text \<open>C32: next_task returns for every thread with thread_id < num_threads: neither stealing loop runs forever, whatever the slots, queues and NUMA layout.\<close>

theorem next_task_terminates: "th < num_threads s \<Longrightarrow> next_task th s \<noteq> None"
  unfolding next_task_def
  by (auto simp: Let_def steal_loop_order dest!: numa_pop_loop_frame split: option.splits prod.splits sum.splits)

theorem next_task_terminates_witness:
  "let s = \<lparr>tasks = \<lambda>_. \<lparr>tstate = DART_TASK_CREATED, tflags = {}, tprio = DART_PRIO_DEFAULT, tparent = None, tphase = 0,
                  num_children = 0, numa_node = None, tinstance = 0, has_wait_handle = False\<rparr>,
        links = \<lparr>tnext = Map.empty, tprev = Map.empty\<rparr>, task_queue = \<lambda>_. dart_tasking_taskqueue_init,
        deferred = dart_tasking_taskqueue_init, thread_pool = [0 \<mapsto> \<lparr>tqueue = [Some (9::nat)], next_task_slot = None, last_steal = 0, numa_id = 0, is_utility = False,
                          tdelay = 0, last_progress_ts = 0\<rparr>],
        num_threads = 1, num_numa_nodes = 1, current_task = \<lambda>_. 0, root_task = 0, cancel_requested = False,
        threads_running = True, respect_numa = False, num_units = 2, phase_cur = 0, phase_ntasks = \<lambda>_. 0\<rparr> in 0 < num_threads s \<and> next_task 0 s \<noteq> None"
  unfolding Let_def by (rule conjI, simp, rule next_task_terminates, simp)

text \<open>C33: dart__tasking__enqueue_runnable keeps every NUMA queue and the deferred queue well formed and places a task that is in no queue in at most one of them: at the head of queue k (by its priority) when it reports Enq_queued k, at the tail of local_deferred_tasks when it reports Enq_deferred, and in no queue otherwise (a thread slot, inline execution, the comm-task handler, refusal or cancellation).\<close>

theorem dart__tasking__enqueue_runnable_queues:
  assumes inv: "queues_inv s Q D" and t: "t \<notin> queued s Q D"
    and r: "dart__tasking__enqueue_runnable E th t s = Inr (out, s')"
  shows "case out of
           Enq_queued k \<Rightarrow> queues_inv s' (Q(k := tq_push_spec (prio_of s) t (Q k))) D
         | Enq_deferred \<Rightarrow> queues_inv s' Q (tq_pushback_spec (prio_of s) t D)
         | _ \<Rightarrow> queues_inv s' Q D"
proof (cases "cancel_requested s \<or> tstate (tasks s t) = DART_TASK_DEFERRED")
  case True
  then show ?thesis using r inv by (auto simp: dart__tasking__enqueue_runnable_def split: if_splits)
next
  case False
  obtain b s1 where adm: "enqueue_admit E t s = (b, s1)" by fastforce
  note f = enqueue_admit_frame [OF adm, of Q D]
  have inv1: "queues_inv s1 Q D" "t \<notin> queued s1 Q D" using inv t f by simp_all
  show ?thesis
  proof (cases b)
    case False
    then show ?thesis
      using r adm inv1 \<open>\<not> (cancel_requested s \<or> _)\<close> by (simp add: dart__tasking__enqueue_runnable_def)
  next
    case True
    obtain b2 s2 where def: "enqueue_defer E t s1 = Inr (b2, s2)"
      using r adm True \<open>\<not> (cancel_requested s \<or> _)\<close>
      by (cases "enqueue_defer E t s1") (auto simp: dart__tasking__enqueue_runnable_def)
    note d = enqueue_defer_queues [OF inv1 def]
    have r2: "(if b2 then Inr (Enq_deferred, s2)
               else if DART_TASK_IS_COMMTASK \<in> tflags (tasks s2 t) \<and> comm_task_enqueued E t then Inr (Enq_comm, s2)
               else if DART_TASK_IMMEDIATE \<in> tflags (tasks s2 t) then Inr (Enq_inline, s2)
               else enqueue_place th t s2) = Inr (out, s')"
      using r adm True def \<open>\<not> (cancel_requested s \<or> _)\<close> by (simp add: dart__tasking__enqueue_runnable_def)
    show ?thesis
    proof (cases b2)
      case True
      then show ?thesis using r2 d f by simp
    next
      case False
      then have "s2 = s1" using d by simp
      then consider (place) "enqueue_place th t s1 = Inr (out, s')" | (other) "s' = s1" "out = Enq_comm \<or> out = Enq_inline"
        using r2 False by (auto split: if_splits)
      then show ?thesis
      proof cases
        case place
        moreover have "out \<noteq> Enq_deferred"
          using place by (auto simp: enqueue_place_def split: if_splits option.splits sum.splits)
        ultimately show ?thesis using enqueue_place_queues [OF inv1 place] f by (cases out) simp_all
      next
        case other
        then show ?thesis using inv1 by auto
      qed
    qed
  qed
qed

theorem dart__tasking__enqueue_runnable_queues_witness:
  "let s = \<lparr>tasks = \<lambda>_. \<lparr>tstate = DART_TASK_CREATED, tflags = {}, tprio = DART_PRIO_DEFAULT, tparent = None, tphase = 0,
                  num_children = 0, numa_node = None, tinstance = 0, has_wait_handle = False\<rparr>,
        links = \<lparr>tnext = Map.empty, tprev = Map.empty\<rparr>, task_queue = \<lambda>_. dart_tasking_taskqueue_init,
        deferred = dart_tasking_taskqueue_init, thread_pool = [0 \<mapsto> \<lparr>tqueue = [Some (9::nat)], next_task_slot = None, last_steal = 0, numa_id = 0, is_utility = False,
                          tdelay = 0, last_progress_ts = 0\<rparr>],
        num_threads = 1, num_numa_nodes = 1, current_task = \<lambda>_. 0, root_task = 0, cancel_requested = False,
        threads_running = True, respect_numa = False, num_units = 2, phase_cur = 0, phase_ntasks = \<lambda>_. 0\<rparr> in
   queues_inv s (\<lambda>_. ([], [])) ([], []) \<and> (5::nat) \<notin> queued s (\<lambda>_. ([], [])) ([], []) \<and>
   (\<exists>s'. dart__tasking__enqueue_runnable \<lparr>datadeps_runnable = \<lambda>_. True, phase_is_runnable = \<lambda>_. True, comm_task_enqueued = \<lambda>_. False,
        var_space_size = 0, DART_PHASE_ANY = 0\<rparr> 0 5 s = Inr (Enq_queued 0, s') \<and>
         queues_inv s' ((\<lambda>_. ([], []))(0 := ([], [5]))) ([], []))"
  unfolding Let_def
proof (intro conjI)
  let ?s = "\<lparr>tasks = \<lambda>_. \<lparr>tstate = DART_TASK_CREATED, tflags = {}, tprio = DART_PRIO_DEFAULT, tparent = None, tphase = 0,
                  num_children = 0, numa_node = None, tinstance = 0, has_wait_handle = False\<rparr>,
        links = \<lparr>tnext = Map.empty, tprev = Map.empty\<rparr>, task_queue = \<lambda>_. dart_tasking_taskqueue_init,
        deferred = dart_tasking_taskqueue_init, thread_pool = [0 \<mapsto> \<lparr>tqueue = [Some (9::nat)], next_task_slot = None, last_steal = 0, numa_id = 0, is_utility = False,
                          tdelay = 0, last_progress_ts = 0\<rparr>],
        num_threads = 1, num_numa_nodes = 1, current_task = \<lambda>_. 0, root_task = 0, cancel_requested = False,
        threads_running = True, respect_numa = False, num_units = 2, phase_cur = 0, phase_ntasks = \<lambda>_. 0\<rparr>"
  let ?E = "\<lparr>datadeps_runnable = \<lambda>_. True, phase_is_runnable = \<lambda>_. True, comm_task_enqueued = \<lambda>_. False,
        var_space_size = 0, DART_PHASE_ANY = 0\<rparr>"
  show i: "queues_inv ?s (\<lambda>_. ([], [])) ([], [])"
    by (simp add: queues_inv_def tq_inv_def dart_tasking_taskqueue_init_def qset_def)
  show n: "(5::nat) \<notin> queued ?s (\<lambda>_. ([], [])) ([], [])"
    by (simp add: queued_def qset_def)
  obtain s' where e: "dart__tasking__enqueue_runnable ?E 0 5 ?s = Inr (Enq_queued 0, s')"
    by (simp add: dart__tasking__enqueue_runnable_def enqueue_admit_def enqueue_defer_def enqueue_place_def
                  dart_tasking_taskqueue_push_def task_deque_push_def dart_tasking_taskqueue_init_def prio_of_def prio_defs)
  then show "\<exists>s'. dart__tasking__enqueue_runnable ?E 0 5 ?s = Inr (Enq_queued 0, s') \<and>
              queues_inv s' ((\<lambda>_. ([], []))(0 := ([], [5]))) ([], [])"
    using dart__tasking__enqueue_runnable_queues [OF i n e]
    by (auto simp: tq_push_spec_def prio_of_def prio_defs)
qed

text \<open>C34: allocate_task keeps the task pool well formed; a task taken from a thread-private pool was never handed out before (it has no owner) and becomes the thread's, and its index is below TASK_MEMPOOL_SIZE - 1: the test pos == TASK_MEMPOOL_SIZE-1 opens a new pool one slot early, so the last task of every pool is never used. A non-empty free list gives its top task.\<close>

theorem allocate_task_fresh:
  assumes "pool_inv P" "allocate_task th P = (t, P')"
  shows "pool_inv P' \<and>
         (task_free_lists P th = [] \<longrightarrow> task_owner P t = None \<and> task_owner P' t = Some th \<and> snd t < TASK_MEMPOOL_SIZE - 1) \<and>
         (task_free_lists P th \<noteq> [] \<longrightarrow> t = hd (task_free_lists P th))"
proof -
  have "pool_inv P'" using allocate_task_inv [OF assms(1), of th] assms(2) by simp
  moreover have "task_free_lists P th = [] \<Longrightarrow>
                 task_owner P t = None \<and> task_owner P' t = Some th \<and> snd t < TASK_MEMPOOL_SIZE - 1"
    using allocate_task_pool [OF assms(1), of th "fst t" "snd t" P'] assms(2) by simp
  moreover have "task_free_lists P th \<noteq> [] \<Longrightarrow> t = hd (task_free_lists P th)"
    using assms(2) by (auto simp: allocate_task_def split: list.splits)
  ultimately show ?thesis by blast
qed

theorem allocate_task_fresh_witness:
  "pool_inv \<lparr>task_free_lists = \<lambda>_. [], taskpool = \<lambda>_. [], next_pool = 0, task_owner = Map.empty\<rparr> \<and> allocate_task 0 \<lparr>task_free_lists = \<lambda>_. [], taskpool = \<lambda>_. [], next_pool = 0, task_owner = Map.empty\<rparr> = ((0, 0), snd (allocate_task 0 \<lparr>task_free_lists = \<lambda>_. [], taskpool = \<lambda>_. [], next_pool = 0, task_owner = Map.empty\<rparr>)) \<and>
   task_owner \<lparr>task_free_lists = \<lambda>_. [], taskpool = \<lambda>_. [], next_pool = 0, task_owner = Map.empty\<rparr> (0, 0) = None \<and> task_owner (snd (allocate_task 0 \<lparr>task_free_lists = \<lambda>_. [], taskpool = \<lambda>_. [], next_pool = 0, task_owner = Map.empty\<rparr>)) (0, 0) = Some 0 \<and> 0 < TASK_MEMPOOL_SIZE - 1"
proof -
  have i: "pool_inv \<lparr>task_free_lists = \<lambda>_. [], taskpool = \<lambda>_. [], next_pool = 0, task_owner = Map.empty\<rparr>" by (simp add: pool_inv_def)
  have a: "allocate_task 0 \<lparr>task_free_lists = \<lambda>_. [], taskpool = \<lambda>_. [], next_pool = 0, task_owner = Map.empty\<rparr> = ((0, 0), snd (allocate_task 0 \<lparr>task_free_lists = \<lambda>_. [], taskpool = \<lambda>_. [], next_pool = 0, task_owner = Map.empty\<rparr>))"
    by (simp add: allocate_task_def new_taskpool_def TASK_MEMPOOL_SIZE_def)
  show ?thesis
    using allocate_task_fresh [OF i a] i a by simp
qed

text \<open>determine_num_threads never yields -1: when DART_NUMTHREADS is unset it returns a positive count even if num_cores * max_threads overflows int, but a value the environment gives, such as 0 or a negative number, is returned unchecked.\<close>

theorem determine_num_threads_result:
  "(env_val = -1 \<longrightarrow> 0 < sint (determine_num_threads env_val cores maxthr)) \<and>
   (env_val \<noteq> -1 \<longrightarrow> determine_num_threads env_val cores maxthr = env_val)"
  unfolding determine_num_threads_def Let_def by auto

theorem determine_num_threads_result_witness:
  "0 < sint (determine_num_threads (-1) 65536 65536) \<and> determine_num_threads 0 8 2 = 0"
  using determine_num_threads_result [of "-1" 65536 65536] determine_num_threads_result [of 0 8 2] by simp

text \<open>C36: remote_progress, when not forced and with more than one unit, calls the transport's progress exactly when no more than REMOTE_PROGRESS_INTERVAL_USEC have passed since the last call: two calls at the same instant both progress, and a call after a longer quiet period does not. The comparison is the inverse of "at most once per interval".\<close>

theorem remote_progress_unforced:
  assumes "num_units s \<noteq> 1" "thread_pool s th = Some thr"
  shows "(now \<le> last_progress_ts thr + REMOTE_PROGRESS_INTERVAL_USEC \<longrightarrow>
            (\<exists>s1 s2. remote_progress th False now s = Inr (True, s1) \<and> remote_progress th False now s1 = Inr (True, s2)))
       \<and> (last_progress_ts thr + REMOTE_PROGRESS_INTERVAL_USEC < now \<longrightarrow> remote_progress th False now s = Inr (False, s))"
  using assms by (auto simp: remote_progress_def REMOTE_PROGRESS_INTERVAL_USEC_def)

theorem remote_progress_unforced_witness:
  "let s = \<lparr>tasks = \<lambda>_. \<lparr>tstate = DART_TASK_CREATED, tflags = {}, tprio = DART_PRIO_DEFAULT, tparent = None, tphase = 0,
                  num_children = 0, numa_node = None, tinstance = 0, has_wait_handle = False\<rparr>,
        links = \<lparr>tnext = Map.empty, tprev = Map.empty\<rparr>, task_queue = \<lambda>_. dart_tasking_taskqueue_init,
        deferred = dart_tasking_taskqueue_init, thread_pool = [0 \<mapsto> \<lparr>tqueue = [Some (9::nat)], next_task_slot = None, last_steal = 0, numa_id = 0, is_utility = False,
                          tdelay = 0, last_progress_ts = 0\<rparr>],
        num_threads = 1, num_numa_nodes = 1, current_task = \<lambda>_. 0, root_task = 0, cancel_requested = False,
        threads_running = True, respect_numa = False, num_units = 2, phase_cur = 0, phase_ntasks = \<lambda>_. 0\<rparr> in
   num_units s \<noteq> 1 \<and> thread_pool s 0 = Some \<lparr>tqueue = [Some (9::nat)], next_task_slot = None, last_steal = 0, numa_id = 0, is_utility = False,
                          tdelay = 0, last_progress_ts = 0\<rparr> \<and>
   remote_progress 0 False 20000 s = Inr (False, s)"
  unfolding Let_def
  using remote_progress_unforced [where s = "\<lparr>tasks = \<lambda>_. \<lparr>tstate = DART_TASK_CREATED, tflags = {}, tprio = DART_PRIO_DEFAULT, tparent = None, tphase = 0,
                  num_children = 0, numa_node = None, tinstance = 0, has_wait_handle = False\<rparr>,
        links = \<lparr>tnext = Map.empty, tprev = Map.empty\<rparr>, task_queue = \<lambda>_. dart_tasking_taskqueue_init,
        deferred = dart_tasking_taskqueue_init, thread_pool = [0 \<mapsto> \<lparr>tqueue = [Some (9::nat)], next_task_slot = None, last_steal = 0, numa_id = 0, is_utility = False,
                          tdelay = 0, last_progress_ts = 0\<rparr>],
        num_threads = 1, num_numa_nodes = 1, current_task = \<lambda>_. 0, root_task = 0, cancel_requested = False,
        threads_running = True, respect_numa = False, num_units = 2, phase_cur = 0, phase_ntasks = \<lambda>_. 0\<rparr>" and th = 0 and thr = "\<lparr>tqueue = [Some (9::nat)], next_task_slot = None, last_steal = 0, numa_id = 0, is_utility = False,
                          tdelay = 0, last_progress_ts = 0\<rparr>" and now = 20000]
  by (simp add: REMOTE_PROGRESS_INTERVAL_USEC_def)

text \<open>During cancellation dart__tasking__create_task returns DART_OK without creating the task and without writing the reference it was given; the pool and the scheduler are unchanged.\<close>

theorem dart__tasking__create_task_cancelled:
  "cancel_requested s \<Longrightarrow>
   dart__tasking__create_task E th data_size prio noyield want_ref (P, s) = Inr (DART_OK, None, None, P, s)"
  by (simp add: dart__tasking__create_task_def)

theorem dart__tasking__create_task_cancelled_witness:
  "let s = \<lparr>tasks = \<lambda>_. \<lparr>tstate = DART_TASK_CREATED, tflags = {}, tprio = DART_PRIO_DEFAULT, tparent = None, tphase = 0,
                  num_children = 0, numa_node = None, tinstance = 0, has_wait_handle = False\<rparr>,
        links = \<lparr>tnext = Map.empty, tprev = Map.empty\<rparr>, task_queue = \<lambda>_. dart_tasking_taskqueue_init,
        deferred = dart_tasking_taskqueue_init, thread_pool = [0 \<mapsto> \<lparr>tqueue = [Some ((0::nat), (9::nat))], next_task_slot = None, last_steal = 0, numa_id = 0, is_utility = False,
                          tdelay = 0, last_progress_ts = 0\<rparr>],
        num_threads = 1, num_numa_nodes = 1, current_task = \<lambda>_. (0, 0), root_task = (0, 0), cancel_requested = True,
        threads_running = True, respect_numa = False, num_units = 2, phase_cur = 0, phase_ntasks = \<lambda>_. 0\<rparr> in
   cancel_requested s \<and>
   dart__tasking__create_task \<lparr>datadeps_runnable = \<lambda>_. True, phase_is_runnable = \<lambda>_. True, comm_task_enqueued = \<lambda>_. False,
        var_space_size = 0, DART_PHASE_ANY = 0\<rparr> 0 16 DART_PRIO_DEFAULT False True
     (\<lparr>task_free_lists = \<lambda>_. [], taskpool = \<lambda>_. [], next_pool = 0, task_owner = Map.empty\<rparr>, s)
   = Inr (DART_OK, None, None, \<lparr>task_free_lists = \<lambda>_. [], taskpool = \<lambda>_. [], next_pool = 0, task_owner = Map.empty\<rparr>, s)"
  unfolding Let_def by (rule conjI, simp, rule dart__tasking__create_task_cancelled, simp)

end
