(* ===== verification/Lifecycle.thy ===== *)
theory Lifecycle
  imports Scheduler
begin

text \<open>
  The end of a task's life as two threads see it (\<open>dart_tasking_instrumentation.c\<close>):
  the worker that finishes the task in \<open>handle_task\<close> and the thread that holds the
  task's reference and calls \<open>dart__tasking__taskref_free\<close>, \<open>dart__tasking__task_wait\<close>
  or \<open>dart__tasking__task_test\<close> on it. Each critical section under \<open>LOCK_TASK\<close> is one
  atomic step; the accesses to the task after the finisher unlocks it are steps of their
  own, so every interleaving of the two threads is a path of the step relation
  \<open>lc_step\<close>. \<open>destroyed\<close> counts the calls of \<open>dart__tasking__destroy_task\<close>, and
  \<open>uaf\<close> records a read of the task's fields after it was destroyed (its memory is then
  on a free list and may be handed out again by \<open>allocate_task\<close>).
\<close>

section \<open>State and steps\<close>

text \<open>
  The finisher's position after \<open>invoke_task\<close> returned with the task \<open>RUNNING\<close>:
  before the locked update to \<open>FINISHED\<close>, before \<open>dart__tasking__context_release(task->taskctx)\<close>,
  before \<open>parent = task->parent\<close>, before the conditional \<open>dart__tasking__destroy_task\<close>,
  before the decrement of the parent's \<open>num_children\<close>, done.
\<close>

datatype fin_pc = F_lock | F_ctx | F_parent | F_destroy | F_dec | F_done

datatype ref_pc = R_start | R_done

datatype ref_op = Op_free | Op_wait | Op_test

record lc_state =
  lc_tstate :: dart_task_state
  lc_has_ref :: bool
  fin_pc :: fin_pc
  fin_has_ref :: bool
  ref_pc :: ref_pc
  destroyed :: nat
  uaf :: bool

text \<open>\<open>dart__tasking__destroy_task\<close> as seen here: the state becomes \<open>DESTROYED\<close> and the task goes to its owner's free list.\<close>

definition destroy_task :: "lc_state \<Rightarrow> lc_state" where
  "destroy_task s = s\<lparr>lc_tstate := DART_TASK_DESTROYED, destroyed := Suc (destroyed s)\<rparr>"

text \<open>A read of a field of the task (\<open>task->taskctx\<close>, \<open>task->parent\<close>).\<close>

definition read_task :: "lc_state \<Rightarrow> lc_state" where
  "read_task s = s\<lparr>uaf := (uaf s \<or> 0 < destroyed s)\<rparr>"

text \<open>
  The reference holder's call, one locked step each:
  \<open>taskref_free\<close> clears \<open>HAS_REF\<close> and destroys a \<open>FINISHED\<close> task;
  \<open>task_wait\<close> proceeds once the task is \<open>FINISHED\<close> (its loop runs other tasks until then),
  clears \<open>HAS_REF\<close> and destroys it; \<open>task_test\<close> destroys a \<open>FINISHED\<close> task (a test
  that finds it unfinished changes nothing and is not a step).
\<close>

definition ref_call :: "ref_op \<Rightarrow> lc_state \<Rightarrow> lc_state option" where
  "ref_call op s =
     (case op of
        Op_free \<Rightarrow> Some (if lc_tstate s = DART_TASK_FINISHED
                         then (destroy_task (s\<lparr>lc_has_ref := False\<rparr>))\<lparr>ref_pc := R_done\<rparr>
                         else s\<lparr>lc_has_ref := False, ref_pc := R_done\<rparr>)
      | Op_wait \<Rightarrow> (if lc_tstate s = DART_TASK_FINISHED
                   then Some ((destroy_task (s\<lparr>lc_has_ref := False\<rparr>))\<lparr>ref_pc := R_done\<rparr>) else None)
      | Op_test \<Rightarrow> (if lc_tstate s = DART_TASK_FINISHED
                   then Some ((destroy_task s)\<lparr>ref_pc := R_done\<rparr>) else None))"

inductive lc_step :: "ref_op \<Rightarrow> lc_state \<Rightarrow> lc_state \<Rightarrow> bool" for op where
  fin_lock: "fin_pc s = F_lock \<Longrightarrow>
    lc_step op s (s\<lparr>lc_tstate := DART_TASK_FINISHED, fin_has_ref := lc_has_ref s, fin_pc := F_ctx\<rparr>)"
| fin_ctx: "fin_pc s = F_ctx \<Longrightarrow> lc_step op s ((read_task s)\<lparr>fin_pc := F_parent\<rparr>)"
| fin_parent: "fin_pc s = F_parent \<Longrightarrow> lc_step op s ((read_task s)\<lparr>fin_pc := F_destroy\<rparr>)"
| fin_destroy: "fin_pc s = F_destroy \<Longrightarrow>
    lc_step op s ((if fin_has_ref s then s else destroy_task s)\<lparr>fin_pc := F_dec\<rparr>)"
| fin_dec: "fin_pc s = F_dec \<Longrightarrow> lc_step op s (s\<lparr>fin_pc := F_done\<rparr>)"
| ref_step: "ref_pc s = R_start \<Longrightarrow> ref_call op s = Some s' \<Longrightarrow> lc_step op s s'"

text \<open>The task is running, referenced (\<open>HAS_REF\<close> set by \<open>dart__tasking__create_task\<close> with a \<open>ref\<close>), and neither thread has acted.\<close>

definition lc_init :: lc_state where
  "lc_init = \<lparr>lc_tstate = DART_TASK_RUNNING, lc_has_ref = True, fin_pc = F_lock, fin_has_ref = False,
              ref_pc = R_start, destroyed = 0, uaf = False\<rparr>"

definition lc_final :: "lc_state \<Rightarrow> bool" where
  "lc_final s \<longleftrightarrow> fin_pc s = F_done \<and> ref_pc s = R_done"

text \<open>
  The invariant: before the finisher's locked step the task runs, is not destroyed and
  carries \<open>HAS_REF\<close> exactly while the reference is held; afterwards, if the finisher saw
  \<open>HAS_REF\<close> the reference holder destroys the task, and otherwise the reference was
  already released and the finisher destroys it.
\<close>

definition lc_inv :: "lc_state \<Rightarrow> bool" where
  "lc_inv s \<longleftrightarrow>
     (fin_pc s = F_lock \<longrightarrow>
        lc_tstate s = DART_TASK_RUNNING \<and> destroyed s = 0 \<and> (lc_has_ref s \<longleftrightarrow> ref_pc s = R_start)) \<and>
     (fin_pc s \<noteq> F_lock \<longrightarrow>
        (fin_has_ref s \<longrightarrow>
           destroyed s = (if ref_pc s = R_done then 1 else 0) \<and>
           lc_tstate s = (if ref_pc s = R_done then DART_TASK_DESTROYED else DART_TASK_FINISHED)) \<and>
        (\<not> fin_has_ref s \<longrightarrow>
           ref_pc s = R_done \<and>
           destroyed s = (if fin_pc s = F_dec \<or> fin_pc s = F_done then 1 else 0) \<and>
           lc_tstate s = (if fin_pc s = F_dec \<or> fin_pc s = F_done then DART_TASK_DESTROYED else DART_TASK_FINISHED)))"

text \<open>Each step moves one thread forward: the remaining program of both threads.\<close>

definition lc_measure :: "lc_state \<Rightarrow> nat" where
  "lc_measure s = (case fin_pc s of F_lock \<Rightarrow> 5 | F_ctx \<Rightarrow> 4 | F_parent \<Rightarrow> 3 | F_destroy \<Rightarrow> 2 | F_dec \<Rightarrow> 1 | F_done \<Rightarrow> 0)
                  + (case ref_pc s of R_start \<Rightarrow> 1 | R_done \<Rightarrow> 0)"

section \<open>Invariant, progress and the unsafe interleaving\<close>

inductive_cases lc_stepE: "lc_step op s s'"

lemma ref_pc_neq [simp]: "x \<noteq> R_start \<longleftrightarrow> x = R_done"
  by (cases x) simp_all

lemma lc_inv_init: "lc_inv lc_init"
  by (simp add: lc_inv_def lc_init_def)

lemma lc_step_inv: "lc_step op s s' \<Longrightarrow> lc_inv s \<Longrightarrow> lc_inv s'"
proof (induction rule: lc_step.induct)
  case (ref_step s s')
  then show ?case
    by (cases op) (auto simp: ref_call_def lc_inv_def destroy_task_def split: if_splits)
qed (auto simp: lc_inv_def read_task_def destroy_task_def)

lemma lc_reach_inv: "(lc_step op)\<^sup>*\<^sup>* lc_init s \<Longrightarrow> lc_inv s"
  by (induction rule: rtranclp_induct) (auto intro: lc_inv_init lc_step_inv)

lemma lc_step_measure: "lc_step op s s' \<Longrightarrow> lc_measure s' < lc_measure s"
proof (induction rule: lc_step.induct)
  case (ref_step s s')
  then show ?case
    by (cases op) (auto simp: ref_call_def lc_measure_def destroy_task_def split: if_splits fin_pc.splits)
qed (auto simp: lc_measure_def read_task_def destroy_task_def)

lemma lc_progress: "lc_inv s \<Longrightarrow> \<not> lc_final s \<Longrightarrow> \<exists>s'. lc_step op s s'"
proof (cases "fin_pc s")
  case F_done
  assume "lc_inv s" "\<not> lc_final s"
  then have "ref_pc s = R_start" "fin_has_ref s" "lc_tstate s = DART_TASK_FINISHED"
    using F_done by (auto simp: lc_final_def lc_inv_def) (metis ref_pc.exhaust)+
  moreover have "ref_call op s \<noteq> None"
    using \<open>lc_tstate s = DART_TASK_FINISHED\<close> by (cases op) (simp_all add: ref_call_def)
  ultimately show ?thesis
    using lc_step.ref_step by blast
qed (auto intro: lc_step.intros)

lemma lc_final_stuck: "lc_final s \<Longrightarrow> \<not> lc_step op s s'"
  by (auto simp: lc_final_def elim: lc_stepE)

text \<open>C39: In every interleaving of the finishing worker (handle_task) with the reference holder's taskref_free, task_wait or task_test, the task is destroyed at most once; no run is infinite, a run stops exactly in the state where both threads are done, and there the task has been destroyed exactly once.\<close>

theorem lc_destroy_once:
  assumes "(lc_step op)\<^sup>*\<^sup>* lc_init s"
  shows "destroyed s \<le> 1 \<and> (lc_final s \<longleftrightarrow> (\<nexists>s'. lc_step op s s')) \<and> (lc_final s \<longrightarrow> destroyed s = 1) \<and>
         wf {(s', s). lc_step op s s'}"
proof -
  have wf: "wf {(s', s). lc_step op s s'}"
    by (rule wf_subset [OF wf_measure [of lc_measure]]) (auto dest: lc_step_measure)
  have i: "lc_inv s" by (rule lc_reach_inv [OF assms])
  have "destroyed s \<le> 1" using i by (auto simp: lc_inv_def split: if_splits)
  moreover have "lc_final s \<longleftrightarrow> (\<nexists>s'. lc_step op s s')"
    using lc_progress [OF i] lc_final_stuck by blast
  moreover have "lc_final s \<longrightarrow> destroyed s = 1" using i by (auto simp: lc_inv_def lc_final_def)
  ultimately show ?thesis using wf by blast
qed

theorem lc_destroy_once_witness:
  "destroyed lc_init \<le> 1 \<and> \<not> lc_final lc_init \<and> (\<exists>s'. lc_step Op_free lc_init s') \<and> wf {(s', s). lc_step Op_free s s'}"
proof -
  have "\<not> lc_final lc_init" by (simp add: lc_final_def lc_init_def)
  with lc_destroy_once [OF rtranclp.rtrancl_refl, of Op_free] show ?thesis by blast
qed

text \<open>C40: For each of taskref_free, task_wait and task_test there is an interleaving in which handle_task reads task->taskctx after the reference holder has destroyed the task: the finisher unlocks the FINISHED task before its last accesses, so the task may already be on a free list (and reused) when it is read.\<close>

theorem lc_use_after_free: "\<exists>s. (lc_step op)\<^sup>*\<^sup>* lc_init s \<and> uaf s"
proof -
  let ?s1 = "lc_init\<lparr>lc_tstate := DART_TASK_FINISHED, fin_has_ref := True, fin_pc := F_ctx\<rparr>"
  obtain s2 where s2: "ref_call op ?s1 = Some s2" "0 < destroyed s2" "fin_pc s2 = F_ctx"
    by (cases op) (auto simp: ref_call_def lc_init_def destroy_task_def)
  have "lc_step op lc_init ?s1" using lc_step.fin_lock [of lc_init op] by (simp add: lc_init_def)
  moreover have "lc_step op ?s1 s2" by (rule lc_step.ref_step [OF _ s2(1)]) (simp add: lc_init_def)
  moreover have "lc_step op s2 ((read_task s2)\<lparr>fin_pc := F_parent\<rparr>)" by (rule lc_step.fin_ctx) (simp add: s2)
  ultimately have "(lc_step op)\<^sup>*\<^sup>* lc_init ((read_task s2)\<lparr>fin_pc := F_parent\<rparr>)" by auto
  then show ?thesis using s2 by (auto simp: read_task_def)
qed

end
