(* ===== verification/AMsgQ.thy ===== *)
theory AMsgQ
  imports Prelude
begin

text \<open>
  The active-message queue over MPI point-to-point messages (\<open>dart_amsgq_sendrecv.c\<close>,
  concatenated into \<open>src/dash/dash-lib/Zhou/GlobIter.h\<close>, lines 177--713). A queue
  (\<open>struct dart_amsgq_impl_data\<close>) owns \<open>msg_count\<close> send slots, each a request and a
  buffer; the first \<open>send_tailpos\<close> slots hold the sends in flight. MPI is the
  environment: what \<open>MPI_Testsome\<close> reports (the indices of completed requests, the
  received messages) and whether a send call succeeds are inputs of the definitions,
  and a request is \<open>MPI_REQUEST_NULL\<close> or the send it stands for. The mutexes only
  serialise the operations; a failed \<open>trylock\<close> is the input \<open>busy\<close>.
\<close>

section \<open>Queue state\<close>

datatype mpi_req = MPI_REQUEST_NULL | Isend nat nat

text \<open>
  The fields of \<open>struct dart_amsgq_impl_data\<close> the operations use. The four counter
  arrays exist only without synchronous sends (\<open>calloc\<close> in \<open>openq\<close>), so they are
  options; \<open>recv_active\<close> says which persistent receive requests are started.
\<close>

record amsgq_impl =
  send_reqs :: "mpi_req list"
  send_bufs :: "nat list"
  send_tailpos :: nat
  msg_count :: nat
  comm_size :: nat
  amsg_tag :: int
  direct_send :: bool
  sync_send :: bool
  send_count :: "(nat \<Rightarrow> int) option"
  recv_count :: "(nat \<Rightarrow> int) option"
  send_round_count :: "(nat \<Rightarrow> int) option"
  recv_round_count :: "(nat \<Rightarrow> int) option"
  recv_active :: "bool list"

text \<open>
  \<open>dart_amsg_sendrecv_openq\<close>: \<open>sync_env\<close> and \<open>direct_env\<close> are the values of
  \<open>DART_AMSGQ_SENDRECV_SYNC\<close> and \<open>DART_AMSGQ_SENDRECV_DIRECT\<close> if set; the tag is the
  static counter \<open>amsgq_mpi_tag\<close>, returned incremented. Send buffers are named
  \<open>0..msg_count-1\<close>. An unknown team gives \<open>DART_ERR_INVAL\<close> and no queue.
\<close>

definition dart_amsg_sendrecv_openq ::
  "nat \<Rightarrow> bool option \<Rightarrow> bool option \<Rightarrow> bool \<Rightarrow> nat \<Rightarrow> int \<Rightarrow> dart_ret_t \<times> amsgq_impl option \<times> int" where
  "dart_amsg_sendrecv_openq msg_cnt sync_env direct_env team_known csize tag =
     (let sync = (case sync_env of None \<Rightarrow> True | Some b \<Rightarrow> b);
          direct = (case direct_env of None \<Rightarrow> \<not> sync | Some b \<Rightarrow> b);
          counters = (if sync then None else Some (\<lambda>_. 0))
      in if \<not> team_known then (DART_ERR_INVAL, None, tag)
         else (DART_OK,
               Some \<lparr>send_reqs = (if direct then [] else replicate msg_cnt MPI_REQUEST_NULL),
                     send_bufs = (if direct then [] else [0..<msg_cnt]),
                     send_tailpos = 0, msg_count = msg_cnt, comm_size = csize, amsg_tag = tag,
                     direct_send = direct, sync_send = sync,
                     send_count = counters, recv_count = counters,
                     send_round_count = counters, recv_round_count = counters,
                     recv_active = replicate msg_cnt True\<rparr>,
               tag + 1))"

section \<open>Reclaiming send slots\<close>

text \<open>\<open>MPI_Testsome\<close> sets each completed request to \<open>MPI_REQUEST_NULL\<close> and reports its index.\<close>

definition mpi_complete :: "nat list \<Rightarrow> mpi_req list \<Rightarrow> mpi_req list" where
  "mpi_complete outidx reqs = foldr (\<lambda>i r. r[i := MPI_REQUEST_NULL]) outidx reqs"

text \<open>The inner loop: \<open>while (back_pos > done_idx && send_reqs[back_pos] == MPI_REQUEST_NULL) back_pos--\<close>.\<close>

function skip_null :: "mpi_req list \<Rightarrow> nat \<Rightarrow> nat \<Rightarrow> nat" where
  "skip_null reqs d b = (if d < b \<and> reqs ! b = MPI_REQUEST_NULL then skip_null reqs d (b - 1) else b)"
  by pat_completeness auto
termination
  by (relation "measure (\<lambda>(_, _, b). b)") auto

declare skip_null.simps [simp del]

text \<open>
  The outer loop over the reported indices: stop when the back pointer met the free
  slot, otherwise move the request of the back slot into the free one, swap the
  buffers, and step the back pointer down.
\<close>

fun compact_loop :: "nat list \<Rightarrow> nat \<Rightarrow> mpi_req list \<Rightarrow> nat list \<Rightarrow> mpi_req list \<times> nat list" where
  "compact_loop [] b reqs bufs = (reqs, bufs)"
| "compact_loop (d # ds) b reqs bufs =
     (let b' = skip_null reqs d b
      in if b' \<le> d then (reqs, bufs)
         else compact_loop ds (b' - 1) (reqs[d := reqs ! b', b' := MPI_REQUEST_NULL])
                (bufs[d := bufs ! b', b' := bufs ! d]))"

text \<open>
  \<open>amsgq_test_sendreqs_unsafe\<close>: \<open>outidx\<close> is the index array \<open>send_outidx\<close> that
  \<open>MPI_Testsome\<close> filled for the first \<open>send_tailpos\<close> requests.
\<close>

definition amsgq_test_sendreqs_unsafe :: "nat list \<Rightarrow> amsgq_impl \<Rightarrow> dart_ret_t \<times> amsgq_impl" where
  "amsgq_test_sendreqs_unsafe outidx q =
     (let reqs = mpi_complete outidx (send_reqs q); outcount = length outidx
      in if 0 < outcount
         then (if outcount = send_tailpos q
               then (DART_OK, q\<lparr>send_reqs := reqs, send_tailpos := 0\<rparr>)
               else (case compact_loop outidx (msg_count q - 1) reqs (send_bufs q) of
                       (reqs', bufs') \<Rightarrow>
                         (DART_OK, q\<lparr>send_reqs := reqs', send_bufs := bufs',
                                     send_tailpos := send_tailpos q - outcount\<rparr>)))
         else (DART_ERR_AGAIN, q))"

section \<open>Sending\<close>

definition count_send :: "nat \<Rightarrow> amsgq_impl \<Rightarrow> amsgq_impl res" where
  "count_send target q =
     (case send_count q of
        None \<Rightarrow> Inl Null_dereference
      | Some c \<Rightarrow> Inr (q\<lparr>send_count := Some (c(target := c target + 1))\<rparr>))"

text \<open>
  \<open>dart_amsg_sendrecv_trysend\<close> of message \<open>msg\<close> to \<open>target\<close>: with all slots in flight
  it first reclaims slots (\<open>outidx\<close> is what \<open>MPI_Testsome\<close> reports) and passes on
  \<open>DART_ERR_AGAIN\<close> if none completed; otherwise it takes slot \<open>send_tailpos\<close>.
  \<open>mpi_ok\<close> is the result of \<open>MPI_Issend\<close>/\<open>MPI_Isend\<close> (or of the direct send); a
  failed send leaves a null request in the slot and returns \<open>DART_ERR_AGAIN\<close>.
  Without synchronous sends the per-target counter is incremented.
\<close>

definition dart_amsg_sendrecv_trysend ::
  "nat \<Rightarrow> nat \<Rightarrow> nat list \<Rightarrow> bool \<Rightarrow> amsgq_impl \<Rightarrow> (dart_ret_t \<times> amsgq_impl) res" where
  "dart_amsg_sendrecv_trysend target msg outidx mpi_ok q =
     sbind (dart_assert (send_tailpos q \<le> msg_count q))
       (\<lambda>_. let ret = (if mpi_ok then DART_OK else DART_ERR_AGAIN);
                count = (\<lambda>q'. if sync_send q' then Inr q' else count_send target q')
            in if \<not> direct_send q
               then (case (if send_tailpos q = msg_count q then amsgq_test_sendreqs_unsafe outidx q else (DART_OK, q)) of
                       (r, q1) \<Rightarrow>
                         if r \<noteq> DART_OK then Inr (r, q1)
                         else (let idx = send_tailpos q1;
                                   q2 = q1\<lparr>send_tailpos := Suc idx,
                                           send_reqs := (send_reqs q1)[idx := if mpi_ok then Isend target msg else MPI_REQUEST_NULL]\<rparr>
                               in sbind (count q2) (\<lambda>q3. Inr (ret, q3))))
               else sbind (count q) (\<lambda>q3. Inr (ret, q3)))"

section \<open>Receiving\<close>

text \<open>
  A received message as \<open>MPI_Testsome\<close> and \<open>MPI_Get_elements\<close> report it: the index of
  its receive request, the source rank and the byte count (\<open>tailpos\<close>).
\<close>

type_synonym recv_msg = "nat \<times> nat \<times> int"

definition count_recv :: "nat \<Rightarrow> amsgq_impl \<Rightarrow> amsgq_impl res" where
  "count_recv source q =
     (case recv_count q of
        None \<Rightarrow> Inl Null_dereference
      | Some c \<Rightarrow> Inr (q\<lparr>recv_count := Some (c(source := c source + 1))\<rparr>))"

text \<open>
  The body of the loop over one \<open>MPI_Testsome\<close> result: assert a non-empty message,
  count it by source (without synchronous sends), hand the buffer to
  \<open>dart__amsgq__process_buffer\<close> (the output lists the buffers processed with their
  sizes, in order) and restart the receive request.
\<close>

fun process_batch :: "recv_msg list \<Rightarrow> amsgq_impl \<Rightarrow> ((nat \<times> int) list \<times> amsgq_impl) res" where
  "process_batch [] q = Inr ([], q)"
| "process_batch ((idx, source, sz) # ms) q =
     sbind (dart_assert (0 < sz))
       (\<lambda>_. sbind (if sync_send q then Inr q else count_recv source q)
              (\<lambda>q1. sbind (process_batch ms (q1\<lparr>recv_active := (recv_active q1)[idx := True]\<rparr>))
                       (\<lambda>(evs, q2). Inr ((idx, sz) # evs, q2))))"

text \<open>
  \<open>amsg_sendrecv_process_internal\<close>: the successive \<open>MPI_Testsome\<close> results are the
  input (an empty result ends the list); the blocking variant repeats while a round found
  messages, the non-blocking one runs once.
\<close>

fun amsg_sendrecv_process_internal ::
  "bool \<Rightarrow> recv_msg list list \<Rightarrow> amsgq_impl \<Rightarrow> ((nat \<times> int) list \<times> amsgq_impl) res" where
  "amsg_sendrecv_process_internal blocking [] q = Inr ([], q)"
| "amsg_sendrecv_process_internal blocking (b # bs) q =
     sbind (process_batch b q)
       (\<lambda>(evs, q1). if blocking \<and> b \<noteq> []
                    then sbind (amsg_sendrecv_process_internal blocking bs q1) (\<lambda>(evs', q2). Inr (evs @ evs', q2))
                    else Inr (evs, q1))"

text \<open>\<open>dart_amsg_sendrecv_process\<close>: give up with \<open>DART_ERR_AGAIN\<close> if another thread holds the processing mutex (\<open>busy\<close>).\<close>

definition dart_amsg_sendrecv_process ::
  "bool \<Rightarrow> recv_msg list list \<Rightarrow> amsgq_impl \<Rightarrow> (dart_ret_t \<times> (nat \<times> int) list \<times> amsgq_impl) res" where
  "dart_amsg_sendrecv_process busy arrivals q =
     (if busy then Inr (DART_ERR_AGAIN, [], q)
      else sbind (amsg_sendrecv_process_internal False arrivals q) (\<lambda>(evs, q'). Inr (DART_OK, evs, q')))"

section \<open>Rounds of blocking processing\<close>

text \<open>\<open>dart_amsgq_sendrecv_check_round_completion\<close>: every peer's announced count for this round has been received.\<close>

definition dart_amsgq_sendrecv_check_round_completion :: "amsgq_impl \<Rightarrow> bool res" where
  "dart_amsgq_sendrecv_check_round_completion q =
     (if comm_size q = 0 then Inr True
      else case (recv_round_count q, recv_count q) of
             (Some rr, Some rc) \<Rightarrow> Inr (list_all (\<lambda>i. rr i - rc i \<le> 0) [0..<comm_size q])
           | _ \<Rightarrow> Inl Null_dereference)"

text \<open>
  The bookkeeping of \<open>dart_amsg_sendrevc_process_blocking\<close> without synchronous sends:
  at the start the send counters become this round's counts and restart from zero; at
  the end the messages of the round are subtracted from the receive counters.
\<close>

definition amsgq_round_start :: "amsgq_impl \<Rightarrow> amsgq_impl res" where
  "amsgq_round_start q =
     (if sync_send q then Inr q
      else case send_count q of
             None \<Rightarrow> Inl Null_dereference
           | Some sc \<Rightarrow> Inr (q\<lparr>send_round_count := Some sc, send_count := Some (\<lambda>_. 0)\<rparr>))"

definition amsgq_round_end :: "amsgq_impl \<Rightarrow> amsgq_impl res" where
  "amsgq_round_end q =
     (if sync_send q then Inr q
      else case (recv_count q, recv_round_count q) of
             (Some rc, Some rr) \<Rightarrow> Inr (q\<lparr>recv_count := Some (\<lambda>i. if i < comm_size q then rc i - rr i else rc i)\<rparr>)
           | _ \<Rightarrow> Inl Null_dereference)"

section \<open>Closing\<close>

text \<open>
  The consistency check at the end of \<open>dart_amsg_sendrecv_closeq\<close>: for every peer the
  receive and the send counter must be zero. It reads both arrays whatever the send mode.
\<close>

fun check_counters :: "nat list \<Rightarrow> amsgq_impl \<Rightarrow> unit res" where
  "check_counters [] q = Inr ()"
| "check_counters (i # is) q =
     (case (recv_count q, send_count q) of
        (Some rc, Some sc) \<Rightarrow> sbind (dart_assert (rc i = 0)) (\<lambda>_. sbind (dart_assert (sc i = 0)) (\<lambda>_. check_counters is q))
      | (Some rc, None) \<Rightarrow> sbind (dart_assert (rc i = 0)) (\<lambda>_. Inl Null_dereference)
      | (None, _) \<Rightarrow> Inl Null_dereference)"

text \<open>
  \<open>dart_amsg_sendrecv_closeq\<close>: wait for the sends in flight, count (and drop) the
  messages still pending (\<open>pending\<close>, what \<open>MPI_Testsome\<close> reports), free the buffers,
  then run the check. The result is the number of dropped messages and whether the
  receive buffers were freed (only without direct sends).
\<close>

definition dart_amsg_sendrecv_closeq :: "recv_msg list \<Rightarrow> amsgq_impl \<Rightarrow> (dart_ret_t \<times> nat \<times> bool) res" where
  "dart_amsg_sendrecv_closeq pending q =
     (let q1 = (if 0 < send_tailpos q then q\<lparr>send_reqs := map (\<lambda>_. MPI_REQUEST_NULL) (send_reqs q)\<rparr> else q)
      in sbind (check_counters [0..<comm_size q1] q1) (\<lambda>_. Inr (DART_OK, length pending, \<not> direct_send q1)))"

section \<open>Invariants\<close>

text \<open>The send slots: exactly the first \<open>send_tailpos\<close> hold a request in flight.\<close>

definition sendq_inv :: "amsgq_impl \<Rightarrow> bool" where
  "sendq_inv q \<longleftrightarrow>
     length (send_reqs q) = msg_count q \<and> length (send_bufs q) = msg_count q \<and> send_tailpos q \<le> msg_count q \<and>
     (\<forall>i<msg_count q. send_reqs q ! i \<noteq> MPI_REQUEST_NULL \<longleftrightarrow> i < send_tailpos q)"

text \<open>
  The loop invariant of the compaction, for the back pointer \<open>b\<close> and the old tail \<open>T\<close>:
  behind \<open>b\<close> all slots are free, and up to \<open>b\<close> a slot is free iff it is still to be
  filled (an index left in the list) or lies beyond the old tail.
\<close>

definition compact_inv :: "mpi_req list \<Rightarrow> nat list \<Rightarrow> nat \<Rightarrow> nat \<Rightarrow> bool" where
  "compact_inv A ds b T \<longleftrightarrow>
     b < length A \<and> sorted ds \<and> distinct ds \<and> (\<forall>d\<in>set ds. d < T) \<and>
     (\<forall>i<length A. b < i \<longrightarrow> A ! i = MPI_REQUEST_NULL) \<and>
     (\<forall>i\<le>b. A ! i = MPI_REQUEST_NULL \<longleftrightarrow> i \<in> set ds \<or> T \<le> i)"

section \<open>The compaction of the send slots\<close>

lemma skip_null_props:
  "skip_null A d b = b' \<Longrightarrow>
   b' \<le> b \<and> (\<forall>i. b' < i \<and> i \<le> b \<longrightarrow> A ! i = MPI_REQUEST_NULL) \<and> (d < b' \<longrightarrow> A ! b' \<noteq> MPI_REQUEST_NULL)"
proof (induction A d b arbitrary: b' rule: skip_null.induct)
  case (1 A d b)
  show ?case
  proof (cases "d < b \<and> A ! b = MPI_REQUEST_NULL")
    case True
    then have "skip_null A d (b - 1) = b'" using "1.prems" by (simp add: skip_null.simps)
    note ih = "1.IH" [OF True this]
    have "A ! i = MPI_REQUEST_NULL" if "b' < i" "i \<le> b" for i
    proof (cases "i = b")
      case True
      then show ?thesis using \<open>d < b \<and> A ! b = MPI_REQUEST_NULL\<close> by simp
    next
      case False
      then show ?thesis using ih that by auto
    qed
    then show ?thesis using ih by auto
  next
    case False
    then show ?thesis using "1.prems" by (auto simp: skip_null.simps)
  qed
qed


lemma sorted_Cons_less: "sorted (d # ds) \<Longrightarrow> i < d \<Longrightarrow> i \<notin> set (d # ds)"
  by auto

lemma compact_loop_shape:
  assumes "compact_inv A ds b T" "length bufs = length A"
  shows "\<exists>K\<le>length A. (\<forall>i<length A. fst (compact_loop ds b A bufs) ! i \<noteq> MPI_REQUEST_NULL \<longleftrightarrow> i < K) \<and>
           mset (fst (compact_loop ds b A bufs)) = mset A \<and> length (fst (compact_loop ds b A bufs)) = length A \<and>
           mset (snd (compact_loop ds b A bufs)) = mset bufs \<and> length (snd (compact_loop ds b A bufs)) = length bufs"
  using assms
proof (induction ds arbitrary: b A bufs)
  case Nil
  then have "A ! i \<noteq> MPI_REQUEST_NULL \<longleftrightarrow> i < min (Suc b) T" if "i < length A" for i
    using that by (cases "i \<le> b") (auto simp: compact_inv_def)
  moreover have "min (Suc b) T \<le> length A" using Nil.prems by (auto simp: compact_inv_def min_def)
  ultimately show ?case by auto
next
  case (Cons d ds)
  define b' where "b' = skip_null A d b"
  note sk = skip_null_props [OF b'_def [symmetric]]
  note I = Cons.prems(1) [unfolded compact_inv_def]
  have dT: "d < T" using I by simp
  show ?case
  proof (cases "b' \<le> d")
    case True
    define K where "K = (if A ! b' = MPI_REQUEST_NULL then b' else Suc b')"
    have "A ! i \<noteq> MPI_REQUEST_NULL \<longleftrightarrow> i < K" if "i < length A" for i
    proof -
      consider "i < b'" | "i = b'" | "b' < i \<and> i \<le> b" | "b < i" by linarith
      then show ?thesis
      proof cases
        case 1
        then have "i \<notin> set (d # ds)" "i < T" "i \<le> b" using True sorted_Cons_less [of d ds i] I dT sk by auto
        then show ?thesis using I 1 by (auto simp: K_def)
      qed (use sk I that in \<open>auto simp: K_def\<close>)
    qed
    moreover have "K \<le> length A" using sk I by (auto simp: K_def)
    ultimately show ?thesis using True by (auto simp: b'_def [symmetric] Let_def)
  next
    case False
    then have nn: "A ! b' \<noteq> MPI_REQUEST_NULL" and bb: "b' \<le> b" "b < length A" using sk I by auto
    have dnull: "A ! d = MPI_REQUEST_NULL" using I False bb by auto
    define A' where "A' = A[d := A ! b', b' := MPI_REQUEST_NULL]"
    define bufs' where "bufs' = bufs[d := bufs ! b', b' := bufs ! d]"
    have A'swap: "A' = A[d := A ! b', b' := A ! d]" by (simp add: A'_def dnull)
    have inv': "compact_inv A' ds (b' - 1) T"
      unfolding compact_inv_def
    proof (intro conjI allI impI ballI)
      show "b' - 1 < length A'" using bb by (simp add: A'_def)
      show "sorted ds" "distinct ds" using I by auto
      show "x < T" if "x \<in> set ds" for x using I that by auto
      show "A' ! i = MPI_REQUEST_NULL" if "i < length A'" "b' - 1 < i" for i
        using that sk False bb I by (auto simp: A'_def nth_list_update)
      show "A' ! i = MPI_REQUEST_NULL \<longleftrightarrow> i \<in> set ds \<or> T \<le> i" if "i \<le> b' - 1" for i
        using that False bb I nn by (auto simp: A'_def nth_list_update)
    qed
    have r: "compact_loop (d # ds) b A bufs = compact_loop ds (b' - 1) A' bufs'"
      using False by (simp add: b'_def [symmetric] A'_def bufs'_def Let_def)
    have "mset A' = mset A" using bb False by (simp add: A'swap mset_swap)
    moreover have "mset bufs' = mset bufs" using bb False Cons.prems(2) by (simp add: bufs'_def mset_swap)
    moreover have "length A' = length A" "length bufs' = length bufs" by (simp_all add: A'_def bufs'_def)
    moreover have "length bufs' = length A'" using Cons.prems(2) by (simp add: A'_def bufs'_def)
    ultimately show ?thesis using Cons.IH [where b = "b' - 1" and A = A' and bufs = bufs', OF inv'] r by auto
  qed
qed


lemma mpi_complete_simps [simp]:
  "mpi_complete [] A = A" "mpi_complete (d # ds) A = (mpi_complete ds A)[d := MPI_REQUEST_NULL]"
  by (simp_all add: mpi_complete_def)

lemma mpi_complete_length [simp]: "length (mpi_complete outidx A) = length A"
  by (induction outidx) simp_all

lemma nth_update_any: "i < length xs \<Longrightarrow> xs[a := x] ! i = (if a = i then x else xs ! i)"
  by (cases "a = i") simp_all

lemma mpi_complete_nth:
  "i < length A \<Longrightarrow> mpi_complete outidx A ! i = (if i \<in> set outidx then MPI_REQUEST_NULL else A ! i)"
  by (induction outidx) (auto simp: nth_update_any)

lemma active_count_prefix:
  assumes "K \<le> length A" "\<forall>i<length A. A ! i \<noteq> MPI_REQUEST_NULL \<longleftrightarrow> i < K"
  shows "length (filter (\<lambda>r. r \<noteq> MPI_REQUEST_NULL) A) = K"
proof -
  have "{i. i < length A \<and> A ! i \<noteq> MPI_REQUEST_NULL} = {..<K}"
  proof (rule set_eqI)
    show "i \<in> {i. i < length A \<and> A ! i \<noteq> MPI_REQUEST_NULL} \<longleftrightarrow> i \<in> {..<K}" for i
      using assms by (cases "i < length A") auto
  qed
  then show ?thesis by (simp add: length_filter_conv_card)
qed

lemma active_count_completed:
  assumes inv: "sendq_inv q" and d: "distinct outidx" "set outidx \<subseteq> {..<send_tailpos q}"
  shows "length (filter (\<lambda>r. r \<noteq> MPI_REQUEST_NULL) (mpi_complete outidx (send_reqs q))) = send_tailpos q - length outidx"
proof -
  let ?A = "mpi_complete outidx (send_reqs q)"
  have "{i. i < length ?A \<and> ?A ! i \<noteq> MPI_REQUEST_NULL} = {..<send_tailpos q} - set outidx"
  proof (rule set_eqI)
    show "i \<in> {i. i < length ?A \<and> ?A ! i \<noteq> MPI_REQUEST_NULL} \<longleftrightarrow> i \<in> {..<send_tailpos q} - set outidx" for i
      using inv d by (cases "i < msg_count q") (auto simp: sendq_inv_def mpi_complete_nth)
  qed
  moreover have "card ({..<send_tailpos q} - set outidx) = send_tailpos q - length outidx"
    using d by (simp add: card_Diff_subset distinct_card)
  ultimately show ?thesis by (simp add: length_filter_conv_card)
qed

text \<open>C30: When MPI_Testsome reports the completed send requests in ascending order (distinct indices below send_tailpos), amsgq_test_sendreqs_unsafe returns DART_OK and packs the sends still in flight into the first send_tailpos - outcount slots: the slot invariant holds again, no pending send is lost or duplicated, and the send buffers are only permuted.\<close>

theorem amsgq_test_sendreqs_compacts:
  assumes inv: "sendq_inv q" and d: "distinct outidx" "sorted outidx" "set outidx \<subseteq> {..<send_tailpos q}" "outidx \<noteq> []"
    and r: "amsgq_test_sendreqs_unsafe outidx q = (ret, q')"
  shows "ret = DART_OK \<and> sendq_inv q' \<and> send_tailpos q' = send_tailpos q - length outidx \<and>
         mset (filter (\<lambda>r. r \<noteq> MPI_REQUEST_NULL) (send_reqs q')) =
           mset (filter (\<lambda>r. r \<noteq> MPI_REQUEST_NULL) (mpi_complete outidx (send_reqs q))) \<and>
         mset (send_bufs q') = mset (send_bufs q)"
proof -
  let ?A = "mpi_complete outidx (send_reqs q)"
  let ?T = "send_tailpos q"
  have I: "length (send_reqs q) = msg_count q" "length (send_bufs q) = msg_count q" "?T \<le> msg_count q"
    "\<forall>i<msg_count q. send_reqs q ! i \<noteq> MPI_REQUEST_NULL \<longleftrightarrow> i < ?T" using inv by (auto simp: sendq_inv_def)
  have Anull: "?A ! i = MPI_REQUEST_NULL \<longleftrightarrow> i \<in> set outidx \<or> ?T \<le> i" if "i < msg_count q" for i
    using I that d(3) by (auto simp: mpi_complete_nth)
  have cnt: "length (filter (\<lambda>r. r \<noteq> MPI_REQUEST_NULL) ?A) = ?T - length outidx"
    by (rule active_count_completed [OF inv d(1) d(3)])
  have le: "length outidx \<le> ?T" using d(1,3) by (metis card_lessThan card_mono distinct_card finite_lessThan)
  have pos: "0 < length outidx" using d(4) by simp
  show ?thesis
  proof (cases "length outidx = ?T")
    case True
    then have "set outidx = {..<?T}" using d(1,3) by (metis card_lessThan card_subset_eq distinct_card finite_lessThan)
    then have "\<forall>i<msg_count q. ?A ! i = MPI_REQUEST_NULL" using Anull by auto
    then show ?thesis using r True pos I by (auto simp: amsgq_test_sendreqs_unsafe_def sendq_inv_def)
  next
    case False
    have ci: "compact_inv ?A outidx (msg_count q - 1) ?T"
      using I d le False pos Anull unfolding compact_inv_def by (auto simp: subset_iff)
    obtain K where K: "K \<le> length ?A" "\<forall>i<length ?A. fst (compact_loop outidx (msg_count q - 1) ?A (send_bufs q)) ! i \<noteq> MPI_REQUEST_NULL \<longleftrightarrow> i < K"
      and m: "mset (fst (compact_loop outidx (msg_count q - 1) ?A (send_bufs q))) = mset ?A"
      and l: "length (fst (compact_loop outidx (msg_count q - 1) ?A (send_bufs q))) = length ?A"
      and mb: "mset (snd (compact_loop outidx (msg_count q - 1) ?A (send_bufs q))) = mset (send_bufs q)"
      and lb: "length (snd (compact_loop outidx (msg_count q - 1) ?A (send_bufs q))) = length (send_bufs q)"
      using compact_loop_shape [OF ci, of "send_bufs q"] I by auto
    have mf: "mset (filter (\<lambda>r. r \<noteq> MPI_REQUEST_NULL) (fst (compact_loop outidx (msg_count q - 1) ?A (send_bufs q)))) =
              mset (filter (\<lambda>r. r \<noteq> MPI_REQUEST_NULL) ?A)"
      using m by (simp add: mset_filter)
    then have K': "K = ?T - length outidx"
      using active_count_prefix [of K "fst (compact_loop outidx (msg_count q - 1) ?A (send_bufs q))"] K l cnt
      by (metis size_mset)
    obtain reqs' bufs' where R: "compact_loop outidx (msg_count q - 1) ?A (send_bufs q) = (reqs', bufs')"
      by fastforce
    have q': "ret = DART_OK" "q' = q\<lparr>send_reqs := reqs', send_bufs := bufs', send_tailpos := ?T - length outidx\<rparr>"
      using r False pos R by (auto simp: amsgq_test_sendreqs_unsafe_def)
    have "reqs' ! i \<noteq> MPI_REQUEST_NULL \<longleftrightarrow> i < ?T - length outidx" if "i < msg_count q" for i
      using K(2) K' R I(1) that by auto
    then have "sendq_inv q'" using q' l lb R I by (auto simp: sendq_inv_def)
    then show ?thesis using q' mf mb R by simp
  qed
qed


theorem amsgq_test_sendreqs_compacts_witness:
  "sendq_inv \<lparr>send_reqs = [Isend 1 0, Isend 1 1, Isend 1 2], send_bufs = [0, 1, 2], send_tailpos = 3,
        msg_count = 3, comm_size = 2, amsg_tag = 10001, direct_send = False, sync_send = True,
        send_count = None, recv_count = None, send_round_count = None, recv_round_count = None,
        recv_active = [True, True, True]\<rparr> \<and> distinct [0, 2::nat] \<and> sorted [0, 2::nat] \<and> set [0, 2] \<subseteq> {..<send_tailpos \<lparr>send_reqs = [Isend 1 0, Isend 1 1, Isend 1 2], send_bufs = [0, 1, 2], send_tailpos = 3,
        msg_count = 3, comm_size = 2, amsg_tag = 10001, direct_send = False, sync_send = True,
        send_count = None, recv_count = None, send_round_count = None, recv_round_count = None,
        recv_active = [True, True, True]\<rparr>} \<and>
   amsgq_test_sendreqs_unsafe [0, 2] \<lparr>send_reqs = [Isend 1 0, Isend 1 1, Isend 1 2], send_bufs = [0, 1, 2], send_tailpos = 3,
        msg_count = 3, comm_size = 2, amsg_tag = 10001, direct_send = False, sync_send = True,
        send_count = None, recv_count = None, send_round_count = None, recv_round_count = None,
        recv_active = [True, True, True]\<rparr> =
     (DART_OK, \<lparr>send_reqs = [Isend 1 0, Isend 1 1, Isend 1 2], send_bufs = [0, 1, 2], send_tailpos = 3,
        msg_count = 3, comm_size = 2, amsg_tag = 10001, direct_send = False, sync_send = True,
        send_count = None, recv_count = None, send_round_count = None, recv_round_count = None,
        recv_active = [True, True, True]\<rparr>\<lparr>send_reqs := [Isend 1 1, MPI_REQUEST_NULL, MPI_REQUEST_NULL], send_bufs := [1, 0, 2], send_tailpos := 1\<rparr>) \<and>
   sendq_inv (\<lparr>send_reqs = [Isend 1 0, Isend 1 1, Isend 1 2], send_bufs = [0, 1, 2], send_tailpos = 3,
        msg_count = 3, comm_size = 2, amsg_tag = 10001, direct_send = False, sync_send = True,
        send_count = None, recv_count = None, send_round_count = None, recv_round_count = None,
        recv_active = [True, True, True]\<rparr>\<lparr>send_reqs := [Isend 1 1, MPI_REQUEST_NULL, MPI_REQUEST_NULL], send_bufs := [1, 0, 2], send_tailpos := 1\<rparr>)"
proof -
  have i: "sendq_inv \<lparr>send_reqs = [Isend 1 0, Isend 1 1, Isend 1 2], send_bufs = [0, 1, 2], send_tailpos = 3,
        msg_count = 3, comm_size = 2, amsg_tag = 10001, direct_send = False, sync_send = True,
        send_count = None, recv_count = None, send_round_count = None, recv_round_count = None,
        recv_active = [True, True, True]\<rparr>" by (simp add: sendq_inv_def numeral_3_eq_3 All_less_Suc Ex_less_Suc)
  have e: "amsgq_test_sendreqs_unsafe [0, 2] \<lparr>send_reqs = [Isend 1 0, Isend 1 1, Isend 1 2], send_bufs = [0, 1, 2], send_tailpos = 3,
        msg_count = 3, comm_size = 2, amsg_tag = 10001, direct_send = False, sync_send = True,
        send_count = None, recv_count = None, send_round_count = None, recv_round_count = None,
        recv_active = [True, True, True]\<rparr> =
     (DART_OK, \<lparr>send_reqs = [Isend 1 0, Isend 1 1, Isend 1 2], send_bufs = [0, 1, 2], send_tailpos = 3,
        msg_count = 3, comm_size = 2, amsg_tag = 10001, direct_send = False, sync_send = True,
        send_count = None, recv_count = None, send_round_count = None, recv_round_count = None,
        recv_active = [True, True, True]\<rparr>\<lparr>send_reqs := [Isend 1 1, MPI_REQUEST_NULL, MPI_REQUEST_NULL], send_bufs := [1, 0, 2], send_tailpos := 1\<rparr>)"
    by (simp add: amsgq_test_sendreqs_unsafe_def skip_null.simps)
  show ?thesis
    using amsgq_test_sendreqs_compacts [OF i _ _ _ _ e] i e by simp
qed

text \<open>
  The compaction relies on the order: \<open>MPI_Testsome\<close> does not promise ascending
  indices, and with the same two completions reported as \<open>[2, 0]\<close> the loop stops at
  once, so the send still in flight in slot 1 ends up beyond the new tail.
\<close>

lemma amsgq_test_sendreqs_unsorted:
  "sendq_inv \<lparr>send_reqs = [Isend 1 0, Isend 1 1, Isend 1 2], send_bufs = [0, 1, 2], send_tailpos = 3,
        msg_count = 3, comm_size = 2, amsg_tag = 10001, direct_send = False, sync_send = True,
        send_count = None, recv_count = None, send_round_count = None, recv_round_count = None,
        recv_active = [True, True, True]\<rparr> \<and> distinct [2, 0::nat] \<and> set [2, 0] \<subseteq> {..<send_tailpos \<lparr>send_reqs = [Isend 1 0, Isend 1 1, Isend 1 2], send_bufs = [0, 1, 2], send_tailpos = 3,
        msg_count = 3, comm_size = 2, amsg_tag = 10001, direct_send = False, sync_send = True,
        send_count = None, recv_count = None, send_round_count = None, recv_round_count = None,
        recv_active = [True, True, True]\<rparr>} \<and>
   amsgq_test_sendreqs_unsafe [2, 0] \<lparr>send_reqs = [Isend 1 0, Isend 1 1, Isend 1 2], send_bufs = [0, 1, 2], send_tailpos = 3,
        msg_count = 3, comm_size = 2, amsg_tag = 10001, direct_send = False, sync_send = True,
        send_count = None, recv_count = None, send_round_count = None, recv_round_count = None,
        recv_active = [True, True, True]\<rparr> =
     (DART_OK, \<lparr>send_reqs = [Isend 1 0, Isend 1 1, Isend 1 2], send_bufs = [0, 1, 2], send_tailpos = 3,
        msg_count = 3, comm_size = 2, amsg_tag = 10001, direct_send = False, sync_send = True,
        send_count = None, recv_count = None, send_round_count = None, recv_round_count = None,
        recv_active = [True, True, True]\<rparr>\<lparr>send_reqs := [MPI_REQUEST_NULL, Isend 1 1, MPI_REQUEST_NULL], send_tailpos := 1\<rparr>) \<and>
   \<not> sendq_inv (\<lparr>send_reqs = [Isend 1 0, Isend 1 1, Isend 1 2], send_bufs = [0, 1, 2], send_tailpos = 3,
        msg_count = 3, comm_size = 2, amsg_tag = 10001, direct_send = False, sync_send = True,
        send_count = None, recv_count = None, send_round_count = None, recv_round_count = None,
        recv_active = [True, True, True]\<rparr>\<lparr>send_reqs := [MPI_REQUEST_NULL, Isend 1 1, MPI_REQUEST_NULL], send_tailpos := 1\<rparr>)"
  by (simp add: sendq_inv_def numeral_3_eq_3 All_less_Suc Ex_less_Suc amsgq_test_sendreqs_unsafe_def skip_null.simps)

text \<open>
  With synchronous sends, the default, the counter arrays are never allocated, but the
  check in \<open>closeq\<close> reads them: closing a queue of a team with at least one unit
  dereferences NULL (when assertions are compiled in).
\<close>

lemma amsgq_closeq_default_crash:
  assumes "dart_amsg_sendrecv_openq n None None True csize tag = (DART_OK, Some q, tag')" "0 < csize"
  shows "dart_amsg_sendrecv_closeq pending q = Inl Null_dereference"
proof -
  have "recv_count q = None" "comm_size q = csize" "send_tailpos q = 0"
    using assms(1) by (auto simp: dart_amsg_sendrecv_openq_def)
  then show ?thesis
    using assms(2) by (cases csize) (simp_all add: dart_amsg_sendrecv_closeq_def upt_conv_Cons del: upt_Suc)
qed

end
