(* ===== verification/Copy.thy ===== *)
theory Copy
  imports Prelude "HOL-Library.Code_Target_Numeral"
begin

text \<open>
  The blocking and asynchronous \<open>dash::copy\<close> algorithms of \<open>Copy.h\<close>
  (\<open>src/unnamed/part_001\<close>): \<open>internal::copy_impl\<close> global-to-local, which splits
  a global index range into one-sided gets, one per unit and at most \<open>INT_MAX\<close>
  bytes each; \<open>copy_async\<close>, which copies the calling unit's own part with
  \<open>std::copy\<close> and the parts before and after it with \<open>copy_impl\<close>; and the
  local-to-global \<open>copy\<close> with its \<open>copy_impl\<close>.

  The data distribution (\<open>Pattern\<close>, \<open>LocalRange.h\<close>) is not part of the sources; the
  algorithms only call it, so it is an interface: the record \<open>pattern\<close> holds the
  pattern operations the code calls, and \<open>pattern_blocked\<close> is the contract of a
  blocked distribution (every unit owns one contiguous run of at most
  \<open>local_capacity\<close> indices). Global iterators are represented by their global
  position, global memory by a function from unit and local offset to the value
  stored there, and the local output array by a function from offset to value.
\<close>

section \<open>The pattern interface\<close>

record pattern =
  pat_size :: nat
  pat_local_capacity :: nat
  pat_unit_at :: "nat \<Rightarrow> nat"
  pat_local :: "nat \<Rightarrow> nat \<times> nat"
  pat_global :: "nat \<Rightarrow> nat"
  pat_myid :: nat
  pat_local_index_range :: "nat \<Rightarrow> nat \<Rightarrow> nat \<times> nat"

type_synonym 'v gmem = "nat \<Rightarrow> nat \<Rightarrow> 'v"
type_synonym 'v lbuf = "nat \<Rightarrow> 'v"

text \<open>
  A get request: the global pointer (unit and local offset) read, the offset in
  the output array written, and the number of elements.
\<close>

type_synonym get_req = "(nat \<times> nat) \<times> nat \<times> int"

text \<open>An operation whose completion \<open>copy_async\<close>'s future waits for.\<close>

datatype copy_step = Get_req get_req | Std_copy nat nat int

section \<open>Integer conversions\<close>

definition INT_MAX :: int where
  "INT_MAX = 2 ^ 31 - 1"

text \<open>Assigning a 64-bit integer to an \<open>int\<close> keeps its low 32 bits, read signed.\<close>

definition to_int32 :: "int \<Rightarrow> int" where
  "to_int32 x = sint (word_of_int x :: 32 word)"

section \<open>Transport and \<open>std::copy\<close>\<close>

definition dart_get_handle :: "'v gmem \<Rightarrow> get_req \<Rightarrow> 'v lbuf \<Rightarrow> 'v lbuf" where
  "dart_get_handle mem r buf = (case r of ((u, l), d, n) \<Rightarrow>
     (\<lambda>i. if d \<le> i \<and> int i < int d + n then mem u (l + (i - d)) else buf i))"

definition dart_waitall :: "'v gmem \<Rightarrow> get_req list \<Rightarrow> 'v lbuf \<Rightarrow> 'v lbuf" where
  "dart_waitall mem rs buf = fold (dart_get_handle mem) rs buf"

definition std_copy_from :: "(nat \<Rightarrow> 'v) \<Rightarrow> nat \<Rightarrow> nat \<Rightarrow> int \<Rightarrow> 'v lbuf \<Rightarrow> 'v lbuf" where
  "std_copy_from src s d n buf = (\<lambda>i. if d \<le> i \<and> int i < int d + n then src (s + (i - d)) else buf i)"

definition dart_put_blocking :: "'v gmem \<Rightarrow> nat \<times> nat \<Rightarrow> 'v lbuf \<Rightarrow> nat \<Rightarrow> int \<Rightarrow> 'v gmem" where
  "dart_put_blocking mem gp src s n = (case gp of (u, l) \<Rightarrow>
     mem(u := std_copy_from src s l n (mem u)))"

definition copy_step_effect :: "'v gmem \<Rightarrow> nat \<Rightarrow> copy_step \<Rightarrow> 'v lbuf \<Rightarrow> 'v lbuf" where
  "copy_step_effect mem myid st buf = (case st of
     Get_req r \<Rightarrow> dart_get_handle mem r buf
   | Std_copy s d n \<Rightarrow> std_copy_from (mem myid) s d n buf)"

section \<open>Global to local: \<open>copy_impl\<close>\<close>

text \<open>
  The \<open>while (num_elem_copied < num_elem_total)\<close> loop of \<open>copy_impl\<close> for an
  input range spread over several units. \<open>num_elem_copied\<close> is the pattern's
  \<open>size_type\<close> (64 bit unsigned), \<open>total_elem_left\<close> and \<open>num_copy_elem\<close> are \<open>int\<close>.
  The loop ends only if every round copies something, so it is a partial function.
\<close>

partial_function (option) copy_impl_loop ::
  "pattern \<Rightarrow> int \<Rightarrow> nat \<Rightarrow> nat \<Rightarrow> int \<Rightarrow> 64 word \<Rightarrow> get_req list \<Rightarrow> (get_req list \<times> 64 word) option"
where
  "copy_impl_loop P max_copy_elem g_in_first out_first num_elem_total num_elem_copied flush_glob_ptrs =
    (if num_elem_copied < word_of_int num_elem_total then
       (let cur_in_first = g_in_first + unat num_elem_copied;
            local_pos = pat_local P cur_in_first;
            num_unit_elem = (of_nat (pat_local_capacity P) - of_nat (snd local_pos) :: 64 word);
            total_elem_left = to_int32 (num_elem_total - uint num_elem_copied);
            num_copy_elem0 = (if num_unit_elem < word_of_int max_copy_elem
                              then to_int32 (uint num_unit_elem) else max_copy_elem);
            num_copy_elem = (if num_copy_elem0 > total_elem_left then total_elem_left else num_copy_elem0);
            get_handle = (local_pos, out_first + unat num_elem_copied, num_copy_elem)
        in copy_impl_loop P max_copy_elem g_in_first out_first num_elem_total
             (num_elem_copied + word_of_int num_copy_elem) (flush_glob_ptrs @ [get_handle]))
     else Some (flush_glob_ptrs, num_elem_copied))"

text \<open>
  \<open>internal::copy_impl\<close> global to local: returns the get requests the future waits
  for and the end of the output range (\<open>None\<close>: the loop does not return).
\<close>

definition copy_impl_g2l :: "pattern \<Rightarrow> nat \<Rightarrow> nat \<Rightarrow> nat \<Rightarrow> nat \<Rightarrow> (get_req list \<times> nat) option" where
  "copy_impl_g2l P sizeof_v in_first in_last out_first =
    (let num_elem_total = int in_last - int in_first in
     if num_elem_total \<le> 0 then Some ([], out_first)
     else
       (let g_in_first = in_first;
            g_in_last = g_in_first + nat num_elem_total;
            unit_first = pat_unit_at P g_in_first;
            unit_last = pat_unit_at P (g_in_last - 1)
        in if unit_first = unit_last
           then Some ([(pat_local P in_first, out_first, num_elem_total)], out_first + nat num_elem_total)
           else
             (let max_copy_elem = INT_MAX div int sizeof_v in
              map_option (\<lambda>(flush, copied). (flush, out_first + unat copied))
                (copy_impl_loop P max_copy_elem g_in_first out_first num_elem_total 0 []))))"

section \<open>Global to local: \<open>copy_async\<close> and the blocking \<open>copy\<close>\<close>

text \<open>
  \<open>copy_async\<close>: if part of the input range is local, the remote part before it is
  fetched by \<open>copy_impl\<close>, the local part is copied with \<open>std::copy\<close> from the
  pointer \<open>g_l_in_first.local()\<close> (asserted not to be NULL), and the remote part
  after it is fetched by \<open>copy_impl\<close>. Iterator arithmetic is on signed indices:
  \<open>g_in_first + (b - g_in_first)\<close> is \<open>b\<close>.
\<close>

definition copy_async :: "pattern \<Rightarrow> nat \<Rightarrow> nat \<Rightarrow> nat \<Rightarrow> nat \<Rightarrow> (copy_step list \<times> nat) res option" where
  "copy_async P sizeof_v in_first in_last out_first =
    (if in_first = in_last then Some (Inr ([], out_first))
     else
      (case pat_local_index_range P in_first in_last of (li_begin, li_end) \<Rightarrow>
       let num_local_elem = int li_end - int li_begin;
           total_copy_elem = int in_last - int in_first
       in if num_local_elem > 0 then
          (let g_in_first = in_first;
               g_in_last = nat (int g_in_first + total_copy_elem);
               g_l_offset_begin = pat_global P li_begin;
               g_l_offset_end = pat_global P (li_end - 1) + 1;
               g_offset_begin = g_in_first;
               g_l_in_first = nat (int g_in_first + (int g_l_offset_begin - int g_offset_begin));
               g_l_in_last = nat (int g_in_first + (int g_l_offset_end - int g_offset_begin));
               num_prelocal_elem = int g_l_in_first - int g_in_first;
               fut_prelocal = (if num_prelocal_elem > 0
                               then copy_impl_g2l P sizeof_v g_in_first g_l_in_first out_first
                               else Some ([], out_first));
               dest_first = (if num_prelocal_elem > 0 then out_first + nat num_prelocal_elem else out_first)
           in case fut_prelocal of None \<Rightarrow> None | Some (pre, _) \<Rightarrow>
              (if fst (pat_local P g_l_in_first) \<noteq> pat_myid P then Some (Inl Assertion_failure)
               else
                (let l_in_first = snd (pat_local P g_l_in_first);
                     out_last = dest_first + nat num_local_elem;
                     dest_first' = out_last;
                     num_postlocal_elem = int in_last - int g_l_offset_end
                 in if num_postlocal_elem > 0 then
                      (case copy_impl_g2l P sizeof_v g_l_in_last g_in_last dest_first' of
                         None \<Rightarrow> None
                       | Some (post, _) \<Rightarrow>
                           Some (Inr (map Get_req pre @ [Std_copy l_in_first dest_first num_local_elem]
                                        @ map Get_req post, dest_first' + nat num_postlocal_elem)))
                    else Some (Inr (map Get_req pre @ [Std_copy l_in_first dest_first num_local_elem], out_last)))))
          else
            (case copy_impl_g2l P sizeof_v in_first in_last out_first of
               None \<Rightarrow> None
             | Some (fut_all, _) \<Rightarrow> Some (Inr (map Get_req fut_all, nat (int out_first + total_copy_elem))))))"

text \<open>The future of \<open>copy_async\<close> waits for every step; \<open>copy\<close> calls \<open>future.get()\<close>.\<close>

definition copy_async_wait :: "'v gmem \<Rightarrow> nat \<Rightarrow> copy_step list \<Rightarrow> 'v lbuf \<Rightarrow> 'v lbuf" where
  "copy_async_wait mem myid steps buf = fold (copy_step_effect mem myid) steps buf"

definition dash_copy_g2l :: "pattern \<Rightarrow> nat \<Rightarrow> 'v gmem \<Rightarrow> nat \<Rightarrow> nat \<Rightarrow> nat \<Rightarrow> 'v lbuf \<Rightarrow> ('v lbuf \<times> nat) res option" where
  "dash_copy_g2l P sizeof_v mem in_first in_last out_first buf =
     map_option (map_sum id (\<lambda>(steps, out_last). (copy_async_wait mem (pat_myid P) steps buf, out_last)))
       (copy_async P sizeof_v in_first in_last out_first)"

section \<open>Local to global\<close>

text \<open>
  \<open>internal::copy_impl\<close> local to global: one blocking put of the whole input
  range to the global pointer of \<open>out_first\<close>.
\<close>

definition copy_impl_l2g :: "pattern \<Rightarrow> 'v lbuf \<Rightarrow> nat \<Rightarrow> nat \<Rightarrow> nat \<Rightarrow> 'v gmem \<Rightarrow> 'v gmem \<times> nat" where
  "copy_impl_l2g P src in_first in_last out_first mem =
    (let num_elements = int in_last - int in_first
     in (dart_put_blocking mem (pat_local P out_first) src in_first num_elements,
         nat (int out_first + num_elements)))"

text \<open>
  The blocking local-to-global \<open>copy\<close>. The local part is written by the
  \<open>std::copy\<close> inside \<open>DASH_ASSERT\<close>; a NULL \<open>l_out_first\<close> is a crash. The
  remote part after the local one is written from \<open>out_first + num_local_elem\<close>,
  as in the source.
\<close>

definition dash_copy_l2g :: "pattern \<Rightarrow> 'v lbuf \<Rightarrow> nat \<Rightarrow> nat \<Rightarrow> nat \<Rightarrow> 'v gmem \<Rightarrow> ('v gmem \<times> nat) res" where
  "dash_copy_l2g P src in_first in_last out_first mem =
    (let num_elements = int in_last - int in_first;
         out_h_last = nat (int out_first + num_elements)
     in case pat_local_index_range P out_first out_h_last of (li_begin, li_end) \<Rightarrow>
       let num_local_elem = int li_end - int li_begin
       in if num_local_elem > 0 then
            (let g_l_offset_begin = pat_global P li_begin;
                 g_l_offset_end = pat_global P (li_end - 1) + 1;
                 l_elem_offset = int g_l_offset_begin - int out_first;
                 l_out_pos = nat (int out_first + l_elem_offset)
             in if fst (pat_local P l_out_pos) \<noteq> pat_myid P then Inl Null_dereference
                else
                 (let l_out_first = snd (pat_local P l_out_pos);
                      out_last = nat (int out_first + num_local_elem);
                      mem1 = dart_put_blocking mem (pat_myid P, l_out_first) src
                               (nat (int in_first + l_elem_offset)) num_local_elem;
                      (mem2, out_last2) =
                        (if g_l_offset_begin > out_first
                         then copy_impl_l2g P src in_first (nat (int in_first + l_elem_offset)) out_first mem1
                         else (mem1, out_last));
                      (mem3, out_last3) =
                        (if g_l_offset_end < out_h_last
                         then copy_impl_l2g P src (nat (int in_first + l_elem_offset + num_local_elem)) in_last
                                (nat (int out_first + num_local_elem)) mem2
                         else (mem2, out_last2))
                  in Inr (mem3, out_last3)))
          else Inr (copy_impl_l2g P src in_first in_last out_first mem))"

section \<open>Contract and specification\<close>

text \<open>
  A blocked pattern: indices below 2^63 (the pattern's \<open>index_type\<close> is signed 64
  bit); \<open>unit_at\<close> is the unit of \<open>local\<close>; from any index on, the following indices
  stay at the same unit exactly as long as the local offset stays below the
  capacity, and then have consecutive local offsets; \<open>global\<close> inverts \<open>local\<close>
  on the calling unit; \<open>local_index_range\<close> returns the local offsets of the first
  and one past the last local index of the range, or an empty range.
\<close>

definition local_run :: "pattern \<Rightarrow> nat \<Rightarrow> nat \<Rightarrow> nat list" where
  "local_run P f l = filter (\<lambda>g. fst (pat_local P g) = pat_myid P) [f..<l]"

definition pattern_blocked :: "pattern \<Rightarrow> bool" where
  "pattern_blocked P \<longleftrightarrow>
     pat_size P < 2 ^ 63 \<and> pat_local_capacity P \<le> pat_size P \<and>
     list_all (\<lambda>g. pat_unit_at P g = fst (pat_local P g)) [0..<pat_size P] \<and>
     list_all (\<lambda>g. list_all (\<lambda>g'.
        fst (pat_local P g') = fst (pat_local P g) \<longleftrightarrow> snd (pat_local P g) + (g' - g) < pat_local_capacity P)
        [g..<pat_size P]) [0..<pat_size P] \<and>
     list_all (\<lambda>g. list_all (\<lambda>g'. fst (pat_local P g') = fst (pat_local P g) \<longrightarrow>
        snd (pat_local P g') = snd (pat_local P g) + (g' - g)) [g..<pat_size P]) [0..<pat_size P] \<and>
     list_all (\<lambda>g. fst (pat_local P g) = pat_myid P \<longrightarrow> pat_global P (snd (pat_local P g)) = g) [0..<pat_size P] \<and>
     list_all (\<lambda>f. list_all (\<lambda>l.
        (let gs = local_run P f l; r = pat_local_index_range P f l in
         if gs = [] then snd r \<le> fst r
         else r = (snd (pat_local P (hd gs)), Suc (snd (pat_local P (last gs))))))
        [f..<Suc (pat_size P)]) [0..<Suc (pat_size P)]"

text \<open>What a copy of \<open>n\<close> elements from global index \<open>g\<close> to local offset \<open>d\<close> produces.\<close>

definition copy_spec :: "pattern \<Rightarrow> 'v gmem \<Rightarrow> nat \<Rightarrow> nat \<Rightarrow> nat \<Rightarrow> 'v lbuf \<Rightarrow> 'v lbuf" where
  "copy_spec P mem g d n buf =
     (\<lambda>i. if d \<le> i \<and> i < d + n then (case pat_local P (g + (i - d)) of (u, l) \<Rightarrow> mem u l) else buf i)"

text \<open>What a copy of \<open>n\<close> local elements from offset \<open>s\<close> to global index \<open>g\<close> produces.\<close>

definition copy_spec_l2g :: "pattern \<Rightarrow> 'v lbuf \<Rightarrow> nat \<Rightarrow> nat \<Rightarrow> nat \<Rightarrow> 'v gmem \<Rightarrow> 'v gmem" where
  "copy_spec_l2g P src s g n mem =
     (\<lambda>u l. case find (\<lambda>g'. pat_local P g' = (u, l)) [g..<g + n] of
              Some g' \<Rightarrow> src (s + (g' - g))
            | None \<Rightarrow> mem u l)"

text \<open>The get requests tile \<open>n\<close> elements from global index \<open>g\<close> to offset \<open>d\<close>, each inside one unit.\<close>

fun reqs_tile :: "pattern \<Rightarrow> nat \<Rightarrow> nat \<Rightarrow> nat \<Rightarrow> get_req list \<Rightarrow> bool" where
  "reqs_tile P g d n [] \<longleftrightarrow> n = 0"
| "reqs_tile P g d n (((u, l), d', k) # rs) \<longleftrightarrow>
     0 < k \<and> nat k \<le> n \<and> d' = d \<and> pat_local P g = (u, l) \<and> l + nat k \<le> pat_local_capacity P \<and>
     reqs_tile P (g + nat k) (d + nat k) (n - nat k) rs"

definition blocked_pattern :: "nat \<Rightarrow> nat \<Rightarrow> nat \<Rightarrow> nat \<Rightarrow> pattern" where
  "blocked_pattern nunits bsize nsize myid =
     \<lparr>pat_size = nsize, pat_local_capacity = bsize,
      pat_unit_at = (\<lambda>g. g div bsize), pat_local = (\<lambda>g. (g div bsize, g mod bsize)),
      pat_global = (\<lambda>l. myid * bsize + l), pat_myid = myid,
      pat_local_index_range = (\<lambda>f l. let lo = max f (myid * bsize); hi = min l (Suc myid * bsize) in
                                   if lo < hi then (lo - myid * bsize, hi - myid * bsize) else (0, 0))\<rparr>"

section \<open>Properties\<close>

declare copy_impl_loop.simps [code]

lemma ball_upto: "(\<forall>g\<in>{0..<n::nat}. Q g) \<longleftrightarrow> (\<forall>g<n. Q g)"
  by auto

lemma ball_upto2: "(\<forall>g\<in>{0..<n::nat}. \<forall>g'\<in>{g..<n}. Q g g') \<longleftrightarrow> (\<forall>g<n. \<forall>g'<n. g \<le> g' \<longrightarrow> Q g g')"
  by auto

lemma ball_upto2_le: "(\<forall>f\<in>{0..<Suc (n::nat)}. \<forall>l\<in>{f..<Suc n}. Q f l) \<longleftrightarrow> (\<forall>f\<le>n. \<forall>l\<le>n. f \<le> l \<longrightarrow> Q f l)"
  by (auto simp: less_Suc_eq_le)

lemma pattern_blocked_alt:
  "pattern_blocked P \<longleftrightarrow>
     pat_size P < 2 ^ 63 \<and> pat_local_capacity P \<le> pat_size P \<and>
     (\<forall>g<pat_size P. pat_unit_at P g = fst (pat_local P g)) \<and>
     (\<forall>g<pat_size P. \<forall>g'<pat_size P. g \<le> g' \<longrightarrow>
        (fst (pat_local P g') = fst (pat_local P g) \<longleftrightarrow> snd (pat_local P g) + (g' - g) < pat_local_capacity P)) \<and>
     (\<forall>g<pat_size P. \<forall>g'<pat_size P. g \<le> g' \<longrightarrow> fst (pat_local P g') = fst (pat_local P g) \<longrightarrow>
        snd (pat_local P g') = snd (pat_local P g) + (g' - g)) \<and>
     (\<forall>g<pat_size P. fst (pat_local P g) = pat_myid P \<longrightarrow> pat_global P (snd (pat_local P g)) = g) \<and>
     (\<forall>f\<le>pat_size P. \<forall>l\<le>pat_size P. f \<le> l \<longrightarrow>
        (let gs = local_run P f l; r = pat_local_index_range P f l in
         if gs = [] then snd r \<le> fst r
         else r = (snd (pat_local P (hd gs)), Suc (snd (pat_local P (last gs))))))"
  unfolding pattern_blocked_def list_all_iff set_upt ball_upto2_le unfolding ball_upto2 unfolding ball_upto ..

lemma to_int32_id: "- (2 ^ 31) \<le> x \<Longrightarrow> x < 2 ^ 31 \<Longrightarrow> to_int32 x = x"
  unfolding to_int32_def by (simp add: int_word_sint)

lemma to_int32_2p32: "to_int32 (2 ^ 32) = 0"
  unfolding to_int32_def by simp

lemma pb_cap:
  "pattern_blocked P \<Longrightarrow> g < pat_size P \<Longrightarrow> snd (pat_local P g) < pat_local_capacity P"
  unfolding pattern_blocked_alt by (metis diff_self_eq_0 le_refl add_0_right)

lemma pb_unit_at:
  "pattern_blocked P \<Longrightarrow> g < pat_size P \<Longrightarrow> pat_unit_at P g = fst (pat_local P g)"
  unfolding pattern_blocked_alt by blast

lemma pb_run:
  assumes "pattern_blocked P" "g \<le> g'" "g' < pat_size P" "snd (pat_local P g) + (g' - g) < pat_local_capacity P"
  shows "pat_local P g' = (fst (pat_local P g), snd (pat_local P g) + (g' - g))"
proof -
  have "g < pat_size P" using assms(2,3) by simp
  then have u: "fst (pat_local P g') = fst (pat_local P g)"
    using assms unfolding pattern_blocked_alt by blast
  then have "snd (pat_local P g') = snd (pat_local P g) + (g' - g)"
    using assms \<open>g < pat_size P\<close> unfolding pattern_blocked_alt by blast
  with u show ?thesis by (simp add: prod_eq_iff)
qed

lemma pb_same_unit:
  assumes "pattern_blocked P" "g \<le> g'" "g' < pat_size P" "fst (pat_local P g') = fst (pat_local P g)"
  shows "snd (pat_local P g) + (g' - g) < pat_local_capacity P"
  using assms unfolding pattern_blocked_alt by (meson le_less_trans)

lemma pb_global:
  "pattern_blocked P \<Longrightarrow> g < pat_size P \<Longrightarrow> fst (pat_local P g) = pat_myid P
   \<Longrightarrow> pat_global P (snd (pat_local P g)) = g"
  unfolding pattern_blocked_alt by blast

lemma pb_bounds: "pattern_blocked P \<Longrightarrow> pat_size P < 2 ^ 63 \<and> pat_local_capacity P \<le> pat_size P"
  unfolding pattern_blocked_alt by blast

lemma pb_local_index_range:
  assumes "pattern_blocked P" "f \<le> l" "l \<le> pat_size P"
  shows "(local_run P f l = [] \<longrightarrow> snd (pat_local_index_range P f l) \<le> fst (pat_local_index_range P f l)) \<and>
         (local_run P f l \<noteq> [] \<longrightarrow> pat_local_index_range P f l =
            (snd (pat_local P (hd (local_run P f l))), Suc (snd (pat_local P (last (local_run P f l))))))"
  using assms unfolding pattern_blocked_alt Let_def by (metis (no_types, lifting) order_trans)

lemma copy_spec_append:
  "copy_spec P mem (g + k) (d + k) m (copy_spec P mem g d k buf) = copy_spec P mem g d (k + m) buf"
  by (auto simp: copy_spec_def fun_eq_iff)

lemma copy_spec_0 [simp]: "copy_spec P mem g d 0 buf = buf"
  by (rule ext) (auto simp: copy_spec_def)

lemma dart_get_handle_run:
  assumes "pattern_blocked P" "pat_local P g = (u, l)" "l + k \<le> pat_local_capacity P" "g + k \<le> pat_size P"
  shows "dart_get_handle mem ((u, l), d, int k) buf = copy_spec P mem g d k buf"
proof -
  have "\<And>j. j < k \<Longrightarrow> pat_local P (g + j) = (u, l + j)"
    using pb_run [OF assms(1), of g] assms(2-4) by force
  then have "\<And>i. d \<le> i \<Longrightarrow> i < d + k \<Longrightarrow> pat_local P (g + (i - d)) = (u, l + (i - d))"
    by (metis add_less_imp_less_left le_add_diff_inverse)
  then show ?thesis
    by (auto simp: dart_get_handle_def copy_spec_def fun_eq_iff)
qed

lemma w64_of_nat_less:
  "a < 2 ^ 63 \<Longrightarrow> b < 2 ^ 63 \<Longrightarrow> ((word_of_nat a :: 64 word) < word_of_nat b) = (a < b)"
  by (simp add: word_less_nat_alt unat_of_nat)

lemma unat_w64_of_nat: "a < 2 ^ 63 \<Longrightarrow> unat (word_of_nat a :: 64 word) = a"
  by (simp add: unat_of_nat)

lemma uint_w64_of_nat: "a < 2 ^ 63 \<Longrightarrow> uint (word_of_nat a :: 64 word) = int a"
  by (metis of_nat_less_iff unat_w64_of_nat uint_nat)

lemma copy_impl_loop_step:
  assumes pb: "pattern_blocked P" and bnd: "g + N \<le> pat_size P" "N < 2 ^ 31"
    and mce: "1 \<le> mce" "mce \<le> INT_MAX" and c: "c < N"
  defines "k \<equiv> min (min (pat_local_capacity P - snd (pat_local P (g + c))) (nat mce)) (N - c)"
  shows "copy_impl_loop P mce g d (int N) (word_of_nat c) fl =
           copy_impl_loop P mce g d (int N) (word_of_nat (c + k)) (fl @ [(pat_local P (g + c), d + c, int k)])"
proof -
  let ?cap = "pat_local_capacity P" and ?l = "snd (pat_local P (g + c))"
  have sz: "pat_size P < 2 ^ 63" "?cap \<le> pat_size P" using pb_bounds [OF pb] by auto
  have lc: "?l < ?cap" using pb_cap [OF pb] bnd c by simp
  have cN: "c < 2 ^ 63" "N < 2 ^ 63" using c bnd by simp_all
  have lt: "(word_of_nat c :: 64 word) < word_of_int (int N)"
    using w64_of_nat_less [OF cN] c by simp
  have nue: "(of_nat ?cap - of_nat ?l :: 64 word) = word_of_nat (?cap - ?l)"
    using lc by (simp add: of_nat_diff)
  have cl: "?cap - ?l < 2 ^ 63" using sz by simp
  have mce63: "nat mce < 2 ^ 63" using mce by (simp add: INT_MAX_def)
  have wm: "(word_of_int mce :: 64 word) = word_of_nat (nat mce)"
    using mce by (metis nat_0_le of_int_of_nat_eq zero_le_one order_trans)
  have cmp: "(word_of_nat (?cap - ?l) < (word_of_int mce :: 64 word)) = (?cap - ?l < nat mce)"
    unfolding wm by (rule w64_of_nat_less [OF cl mce63])
  have k0: "to_int32 (uint (word_of_nat (?cap - ?l) :: 64 word)) = int (?cap - ?l)" if "?cap - ?l < nat mce"
    unfolding uint_w64_of_nat [OF cl] using that mce by (intro to_int32_id) (simp_all add: INT_MAX_def)
  have tl: "to_int32 (int N - uint (word_of_nat c :: 64 word)) = int N - int c"
    unfolding uint_w64_of_nat [OF cN(1)] using c bnd by (intro to_int32_id) simp_all
  have nce: "(if (if word_of_nat (?cap - ?l) < (word_of_int mce :: 64 word)
                  then to_int32 (uint (word_of_nat (?cap - ?l) :: 64 word)) else mce) > to_int32 (int N - uint (word_of_nat c :: 64 word))
              then to_int32 (int N - uint (word_of_nat c :: 64 word))
              else (if word_of_nat (?cap - ?l) < (word_of_int mce :: 64 word)
                  then to_int32 (uint (word_of_nat (?cap - ?l) :: 64 word)) else mce)) = int k"
    unfolding tl using cmp k0 mce c unfolding k_def by auto
  have adv: "word_of_nat c + word_of_int (int k) = (word_of_nat (c + k) :: 64 word)"
    by simp
  show ?thesis
    apply (subst copy_impl_loop.simps)
    apply (simp only: Let_def lt if_True nue unat_w64_of_nat [OF cN(1)] snd_conv)
    apply (simp only: nce adv)
    done
qed

lemma copy_impl_loop_done:
  "N < 2 ^ 63 \<Longrightarrow> copy_impl_loop P mce g d (int N) (word_of_nat N) fl = Some (fl, word_of_nat N)"
  by (subst copy_impl_loop.simps) simp

lemma copy_impl_loop_tiles:
  assumes pb: "pattern_blocked P" and bnd: "g + N \<le> pat_size P" "N < 2 ^ 31"
    and mce: "1 \<le> mce" "mce \<le> INT_MAX"
  shows "c \<le> N \<Longrightarrow> \<exists>R. copy_impl_loop P mce g d (int N) (word_of_nat c) fl = Some (fl @ R, word_of_nat N)
                 \<and> reqs_tile P (g + c) (d + c) (N - c) R"
proof (induction "N - c" arbitrary: c fl rule: less_induct)
  case less
  show ?case
  proof (cases "c < N")
    case False
    with less.prems have "c = N" by simp
    then show ?thesis using copy_impl_loop_done [of N] bnd by simp
  next
    case True
    define k where "k = min (min (pat_local_capacity P - snd (pat_local P (g + c))) (nat mce)) (N - c)"
    have lc: "snd (pat_local P (g + c)) < pat_local_capacity P" using pb_cap [OF pb] bnd True by simp
    have k: "0 < k" "k \<le> N - c" "snd (pat_local P (g + c)) + k \<le> pat_local_capacity P"
      using lc mce True unfolding k_def by auto
    let ?r = "(pat_local P (g + c), d + c, int k)"
    have dec: "N - (c + k) < N - c" "c + k \<le> N" using k True by auto
    obtain R where R: "copy_impl_loop P mce g d (int N) (word_of_nat (c + k)) (fl @ [?r]) = Some ((fl @ [?r]) @ R, word_of_nat N)"
      and t: "reqs_tile P (g + (c + k)) (d + (c + k)) (N - (c + k)) R"
      using less.hyps [OF dec, of "fl @ [?r]"] by blast
    have "reqs_tile P (g + c) (d + c) (N - c) (?r # R)"
      using k t by (cases "pat_local P (g + c)") (simp add: add.assoc)
    moreover have "copy_impl_loop P mce g d (int N) (word_of_nat c) fl = Some (fl @ (?r # R), word_of_nat N)"
      using copy_impl_loop_step [OF pb bnd mce True, of d fl] R unfolding k_def [symmetric] by simp
    ultimately show ?thesis by blast
  qed
qed

lemma reqs_tile_waitall:
  "pattern_blocked P \<Longrightarrow> reqs_tile P g d n R \<Longrightarrow> g + n \<le> pat_size P \<Longrightarrow>
   dart_waitall mem R buf = copy_spec P mem g d n buf"
proof (induction R arbitrary: g d n buf)
  case Nil
  then show ?case by (simp add: dart_waitall_def)
next
  case (Cons r R)
  obtain u l d' k where r: "r = ((u, l), d', k)" by (cases r) auto
  from Cons.prems(2) r have k: "0 < k" "nat k \<le> n" "d' = d" "pat_local P g = (u, l)"
      "l + nat k \<le> pat_local_capacity P"
    and t: "reqs_tile P (g + nat k) (d + nat k) (n - nat k) R" by auto
  have "dart_get_handle mem r buf = copy_spec P mem g d (nat k) buf"
    using dart_get_handle_run [OF Cons.prems(1) k(4) k(5), where d=d and mem=mem and buf=buf] Cons.prems(3) k r by simp
  moreover have "dart_waitall mem R (copy_spec P mem g d (nat k) buf)
      = copy_spec P mem (g + nat k) (d + nat k) (n - nat k) (copy_spec P mem g d (nat k) buf)"
    using Cons.IH [OF Cons.prems(1) t] Cons.prems(3) k by simp
  ultimately show ?case
    using copy_spec_append [of P mem g "nat k" d "n - nat k" buf] k by (simp add: dart_waitall_def)
qed

lemma copy_impl_g2l_single:
  "f < l \<Longrightarrow> pat_unit_at P f = pat_unit_at P (l - 1) \<Longrightarrow>
   copy_impl_g2l P sizeof_v f l d = Some ([(pat_local P f, d, int l - int f)], d + (l - f))"
  unfolding copy_impl_g2l_def Let_def by (simp add: nat_diff_distrib')

lemma copy_impl_g2l_multi:
  "f < l \<Longrightarrow> pat_unit_at P f \<noteq> pat_unit_at P (l - 1) \<Longrightarrow>
   copy_impl_g2l P sizeof_v f l d =
     map_option (\<lambda>(flush, copied). (flush, d + unat copied))
       (copy_impl_loop P (INT_MAX div int sizeof_v) f d (int l - int f) 0 [])"
  unfolding copy_impl_g2l_def Let_def by (simp add: nat_diff_distrib')


lemma copy_impl_g2l_reqs:
  assumes pb: "pattern_blocked P" and r: "in_first \<le> in_last" "in_last \<le> pat_size P" "in_last - in_first < 2 ^ 31"
    and sz: "0 < sizeof_v" "int sizeof_v \<le> INT_MAX"
  shows "\<exists>R. copy_impl_g2l P sizeof_v in_first in_last out_first = Some (R, out_first + (in_last - in_first))
             \<and> reqs_tile P in_first out_first (in_last - in_first) R"
proof (cases "in_first = in_last")
  case True
  then show ?thesis by (simp add: copy_impl_g2l_def)
next
  case False
  let ?N = "in_last - in_first"
  have lt: "in_first < in_last" and N: "int in_last - int in_first = int ?N" using False r by auto
  show ?thesis
  proof (cases "pat_unit_at P in_first = pat_unit_at P (in_last - 1)")
    case True
    have "fst (pat_local P (in_last - 1)) = fst (pat_local P in_first)"
      using True pb_unit_at [OF pb] r lt by auto
    then have "snd (pat_local P in_first) + (in_last - 1 - in_first) < pat_local_capacity P"
      using pb_same_unit [OF pb, of in_first "in_last - 1"] r lt by simp
    then have cap: "snd (pat_local P in_first) + ?N \<le> pat_local_capacity P" using lt by simp
    have "reqs_tile P in_first out_first ?N [(pat_local P in_first, out_first, int ?N)]"
      using cap lt by (cases "pat_local P in_first") (simp add: nat_diff_distrib')
    then show ?thesis using copy_impl_g2l_single [OF lt True, of sizeof_v out_first] unfolding N by blast
  next
    case False
    define mce where "mce = INT_MAX div int sizeof_v"
    have mce: "1 \<le> mce" "mce \<le> INT_MAX"
    proof -
      have "0 < INT_MAX div int sizeof_v" using sz by (subst pos_imp_zdiv_pos_iff) simp_all
      then show "1 \<le> mce" unfolding mce_def by simp
      have "INT_MAX div int sizeof_v \<le> INT_MAX div 1"
        using sz by (intro zdiv_mono2) (simp_all add: INT_MAX_def)
      then show "mce \<le> INT_MAX" unfolding mce_def by simp
    qed
    obtain R where R: "copy_impl_loop P mce in_first out_first (int ?N) (word_of_nat 0) [] = Some ([] @ R, word_of_nat ?N)"
      and t: "reqs_tile P (in_first + 0) (out_first + 0) (?N - 0) R"
    proof -
      have gN: "in_first + ?N \<le> pat_size P" using r by simp
      show ?thesis using copy_impl_loop_tiles [OF pb gN r(3) mce, where c=0 and d=out_first and fl="[]"] that
        by blast
    qed
    have "unat (word_of_nat ?N :: 64 word) = ?N" using r(3) by (intro unat_w64_of_nat) simp
    then have "copy_impl_g2l P sizeof_v in_first in_last out_first = Some (R, out_first + ?N)"
      using copy_impl_g2l_multi [OF lt False, of sizeof_v out_first] R unfolding mce_def [symmetric] N by simp
    then show ?thesis using t by auto
  qed
qed

text \<open>The blocked distribution of six elements over three units satisfies the contract.\<close>

lemma blocked_pattern_ok: "pattern_blocked (blocked_pattern 3 2 6 1)"
  by code_simp

text \<open>
  The comment of \<open>copy_impl\<close> says not to copy more than \<open>INT_MAX\<close> bytes at once,
  but only the loop for several units bounds a request: a range at one unit is
  fetched by a single request of all its bytes.
\<close>

lemma copy_impl_g2l_single_unbounded:
  "copy_impl_g2l (blocked_pattern 1 (2 ^ 31) (2 ^ 31) 0) 2 0 (2 ^ 30 + 1) 0
     = Some ([((0, 0), 0, 2 ^ 30 + 1)], 2 ^ 30 + 1) \<and> 2 * (2 ^ 30 + 1) > INT_MAX"
  by (simp add: copy_impl_g2l_single blocked_pattern_def INT_MAX_def)

text \<open>
  \<open>copy_impl\<close> relies on the blocked contract: for a cyclic distribution (two units,
  element \<open>g\<close> at unit \<open>g mod 2\<close>, offset \<open>g div 2\<close>) its first request reads two
  elements of unit 0, i.e. global elements 0 and 2, into the first two output slots;
  and a range whose first and last element lie at the same unit is fetched as one
  request of three elements from a unit that holds two.
\<close>

lemma copy_impl_g2l_cyclic:
  "copy_impl_g2l \<lparr>pat_size = 4, pat_local_capacity = 2, pat_unit_at = (\<lambda>g. g mod 2),
      pat_local = (\<lambda>g. (g mod 2, g div 2)), pat_global = (\<lambda>l. 2 * l), pat_myid = 0,
      pat_local_index_range = (\<lambda>f l. (0, 0))\<rparr> 1 0 4 0
     = Some ([((0, 0), 0, 2), ((0, 1), 2, 1), ((1, 1), 3, 1)], 4)
   \<and> copy_impl_g2l \<lparr>pat_size = 4, pat_local_capacity = 2, pat_unit_at = (\<lambda>g. g mod 2),
      pat_local = (\<lambda>g. (g mod 2, g div 2)), pat_global = (\<lambda>l. 2 * l), pat_myid = 0,
      pat_local_index_range = (\<lambda>f l. (0, 0))\<rparr> 1 0 3 0
     = Some ([((0, 0), 0, 3)], 3)"
  by (simp add: copy_impl_g2l_def copy_impl_loop.simps INT_MAX_def to_int32_def)

text \<open>
  C17: For a blocked pattern and a range of fewer than 2^31 elements, \<open>copy_impl\<close>
  global to local returns, and its get requests tile the input range in order: each
  request reads a positive number of elements from one unit, starting at the unit
  and local offset of its first element and ending inside that unit's local
  capacity, and writes them to the matching offsets of the output range.
\<close>

theorem copy_impl_g2l_tiles:
  assumes "pattern_blocked P" "in_first \<le> in_last" "in_last \<le> pat_size P" "in_last - in_first < 2 ^ 31"
    "0 < sizeof_v" "int sizeof_v \<le> INT_MAX"
  shows "\<exists>R. copy_impl_g2l P sizeof_v in_first in_last out_first = Some (R, out_first + (in_last - in_first))
             \<and> reqs_tile P in_first out_first (in_last - in_first) R"
  using copy_impl_g2l_reqs [OF assms] .

theorem copy_impl_g2l_tiles_witness:
  "pattern_blocked (blocked_pattern 3 2 6 1) \<and>
   (\<exists>R. copy_impl_g2l (blocked_pattern 3 2 6 1) 4 1 6 0 = Some (R, 5) \<and> reqs_tile (blocked_pattern 3 2 6 1) 1 0 5 R)"
proof -
  note pb = blocked_pattern_ok
  have "pat_size (blocked_pattern 3 2 6 1) = 6" by (simp add: blocked_pattern_def)
  then show ?thesis using copy_impl_g2l_tiles [OF pb, of 1 6 4 0] pb by (simp add: INT_MAX_def)
qed

lemma copy_impl_g2l_waitall:
  assumes "pattern_blocked P" "in_first \<le> in_last" "in_last \<le> pat_size P" "in_last - in_first < 2 ^ 31"
    "0 < sizeof_v" "int sizeof_v \<le> INT_MAX"
  shows "\<exists>R. copy_impl_g2l P sizeof_v in_first in_last out_first = Some (R, out_first + (in_last - in_first))
             \<and> dart_waitall mem R buf = copy_spec P mem in_first out_first (in_last - in_first) buf"
  using copy_impl_g2l_reqs [OF assms, of out_first] reqs_tile_waitall [OF assms(1)] assms(2,3)
  by fastforce

lemma copy_impl_g2l_empty: "l \<le> f \<Longrightarrow> copy_impl_g2l P sizeof_v f l d = Some ([], d)"
  by (simp add: copy_impl_g2l_def)

lemma local_run_props:
  assumes "local_run P f l \<noteq> []"
  shows "f \<le> hd (local_run P f l)" "hd (local_run P f l) \<le> last (local_run P f l)" "last (local_run P f l) < l"
    "fst (pat_local P (hd (local_run P f l))) = pat_myid P" "fst (pat_local P (last (local_run P f l))) = pat_myid P"
proof -
  let ?gs = "local_run P f l"
  have s: "sorted ?gs" unfolding local_run_def by (rule sorted_wrt_filter) simp
  have h: "hd ?gs \<in> set ?gs" and t: "last ?gs \<in> set ?gs" using assms by simp_all
  then show "f \<le> hd ?gs" "last ?gs < l" "fst (pat_local P (hd ?gs)) = pat_myid P"
    "fst (pat_local P (last ?gs)) = pat_myid P" unfolding local_run_def by auto
  show "hd ?gs \<le> last ?gs" using s t assms by (cases ?gs) auto
qed

lemma copy_async_local:
  assumes ne: "f \<noteq> l" and lir: "pat_local_index_range P f l = (lb, le)" and nl: "lb < le"
    and gb: "pat_global P lb = b" and ge: "pat_global P (le - 1) = e"
    and ord: "f \<le> b" "b \<le> e" "e < l" and myb: "fst (pat_local P b) = pat_myid P"
    and pre: "copy_impl_g2l P sizeof_v f b d = Some (R1, x)"
    and post: "copy_impl_g2l P sizeof_v (Suc e) l (d + (b - f) + (le - lb)) = Some (R2, y)"
  shows "copy_async P sizeof_v f l d = Some (Inr (map Get_req R1 @ [Std_copy (snd (pat_local P b)) (d + (b - f)) (int (le - lb))]
           @ map Get_req R2, d + (b - f) + (le - lb) + (l - Suc e)))"
proof -
  have R1: "b = f \<Longrightarrow> R1 = []" using pre copy_impl_g2l_empty [of f f P sizeof_v d] by simp
  have R2: "l = Suc e \<Longrightarrow> R2 = []"
    using post copy_impl_g2l_empty [of l "Suc e" P sizeof_v "d + (b - f) + (le - lb)"] by simp
  have n: "int le - int lb = int (le - lb)" "nat (int b - int f) = b - f" "nat (int f + (int b - int f)) = b"
    "nat (int f + (int (Suc e) - int f)) = Suc e" "nat (int f + (int l - int f)) = l" "int b - int f > 0 \<longleftrightarrow> b \<noteq> f"
    "int l - int (Suc e) > 0 \<longleftrightarrow> l \<noteq> Suc e" "nat (int l - int (Suc e)) = l - Suc e" "0 < int (le - lb)" "nat (int (le - lb)) = le - lb"
    using nl ord by auto
  have a: "pat_global P (le - 1) + 1 = Suc e" using ge by simp
  have c: "copy_async P sizeof_v f l d =
     (case (if b \<noteq> f then copy_impl_g2l P sizeof_v f b d else Some ([], d)) of None \<Rightarrow> None
      | Some (pre, _) \<Rightarrow>
        (if fst (pat_local P b) \<noteq> pat_myid P then Some (Inl Assertion_failure)
         else if l \<noteq> Suc e then
           (case copy_impl_g2l P sizeof_v (Suc e) l (d + (b - f) + (le - lb)) of None \<Rightarrow> None
            | Some (post, _) \<Rightarrow> Some (Inr (map Get_req pre @ [Std_copy (snd (pat_local P b)) (d + (b - f)) (int (le - lb))]
                  @ map Get_req post, d + (b - f) + (le - lb) + (l - Suc e))))
         else Some (Inr (map Get_req pre @ [Std_copy (snd (pat_local P b)) (d + (b - f)) (int (le - lb))],
                  d + (b - f) + (le - lb)))))"
    unfolding copy_async_def Let_def lir prod.case gb a n using ne
    apply (simp only: if_False if_True refl n simp_thms)
    apply (cases "b = f")
     apply (simp_all cong: option.case_cong)
    done
  show ?thesis
    unfolding c using pre post R1 R2 myb
    by (cases "b = f"; cases "l = Suc e") simp_all
qed

lemma std_copy_from_run:
  assumes "pattern_blocked P" "pat_local P g = (u, l)" "l + k \<le> pat_local_capacity P" "g + k \<le> pat_size P"
  shows "std_copy_from (mem u) l d (int k) buf = copy_spec P mem g d k buf"
  using dart_get_handle_run [OF assms] by (simp add: dart_get_handle_def std_copy_from_def)

lemma copy_async_wait_append [simp]:
  "copy_async_wait mem m (xs @ ys) buf = copy_async_wait mem m ys (copy_async_wait mem m xs buf)"
  by (simp add: copy_async_wait_def)

lemma copy_async_wait_gets [simp]:
  "copy_async_wait mem m (map Get_req R) buf = dart_waitall mem R buf"
proof -
  have "(\<lambda>x. copy_step_effect mem m (Get_req x)) = dart_get_handle mem"
    by (rule ext)+ (simp add: copy_step_effect_def)
  then show ?thesis by (simp add: copy_async_wait_def dart_waitall_def fold_map comp_def)
qed

lemma copy_async_wait_Cons [simp]:
  "copy_async_wait mem m (st # xs) buf = copy_async_wait mem m xs (copy_step_effect mem m st buf)"
  by (simp add: copy_async_wait_def)

lemma copy_step_effect_std_copy [simp]:
  "copy_step_effect mem m (Std_copy s d n) buf = std_copy_from (mem m) s d n buf"
  by (simp add: copy_step_effect_def)

lemma copy_async_nolocal:
  assumes "f \<noteq> l" "pat_local_index_range P f l = (lb, le)" "le \<le> lb"
    "copy_impl_g2l P sizeof_v f l d = Some (R, x)" "f \<le> l"
  shows "copy_async P sizeof_v f l d = Some (Inr (map Get_req R, d + (l - f)))"
proof -
  have "\<not> 0 < int le - int lb" "nat (int d + (int l - int f)) = d + (l - f)" using assms by auto
  then show ?thesis using assms unfolding copy_async_def Let_def by simp
qed

lemma copy_async_correct:
  assumes pb: "pattern_blocked P" and r: "f \<le> l" "l \<le> pat_size P" "l - f < 2 ^ 31"
    and sz: "0 < sizeof_v" "int sizeof_v \<le> INT_MAX"
  shows "\<exists>steps. copy_async P sizeof_v f l d = Some (Inr (steps, d + (l - f)))
            \<and> copy_async_wait mem (pat_myid P) steps buf = copy_spec P mem f d (l - f) buf"
proof (cases "f = l")
  case True
  then show ?thesis by (simp add: copy_async_def copy_async_wait_def)
next
  case ne: False
  obtain lb le where lir: "pat_local_index_range P f l = (lb, le)" by (cases "pat_local_index_range P f l") auto
  note li = pb_local_index_range [OF pb r(1,2)]
  show ?thesis
  proof (cases "local_run P f l = []")
    case True
    then have "le \<le> lb" using li lir by simp
    moreover obtain R where R: "copy_impl_g2l P sizeof_v f l d = Some (R, d + (l - f))"
      "dart_waitall mem R buf = copy_spec P mem f d (l - f) buf"
      using copy_impl_g2l_waitall [OF pb r sz] by blast
    ultimately show ?thesis using copy_async_nolocal [OF ne lir] r by auto
  next
    case False
    define b e where "b = hd (local_run P f l)" and "e = last (local_run P f l)"
    note lr = local_run_props [OF False, folded b_def e_def]
    have bnd: "b < pat_size P" "e < pat_size P" using lr r by simp_all
    have ble: "lb = snd (pat_local P b)" "le = Suc (snd (pat_local P e))"
      using li lir False unfolding b_def e_def by simp_all
    have run: "snd (pat_local P b) + (e - b) < pat_local_capacity P"
      using pb_same_unit [OF pb lr(2) bnd(2)] lr by simp
    have le: "le = lb + (e - b) + 1"
      using pb_run [OF pb lr(2) bnd(2) run] ble by simp
    have gb: "pat_global P lb = b" using pb_global [OF pb bnd(1) lr(4)] ble by simp
    have ge: "pat_global P (le - 1) = e" using pb_global [OF pb bnd(2) lr(5)] ble by simp
    obtain R1 where R1: "copy_impl_g2l P sizeof_v f b d = Some (R1, d + (b - f))"
      "dart_waitall mem R1 buf = copy_spec P mem f d (b - f) buf"
    proof -
      have "b \<le> pat_size P" "b - f < 2 ^ 31" using bnd r lr by simp_all
      then show ?thesis using copy_impl_g2l_waitall [OF pb lr(1) _ _ sz, where mem = mem and buf = buf] that by blast
    qed
    let ?d2 = "d + (b - f) + (le - lb)"
    let ?buf1 = "std_copy_from (mem (pat_myid P)) lb (d + (b - f)) (int (le - lb)) (copy_spec P mem f d (b - f) buf)"
    obtain R2 where R2: "copy_impl_g2l P sizeof_v (Suc e) l ?d2 = Some (R2, ?d2 + (l - Suc e))"
      "dart_waitall mem R2 ?buf1 = copy_spec P mem (Suc e) ?d2 (l - Suc e) ?buf1"
    proof -
      have "Suc e \<le> l" "l - Suc e < 2 ^ 31" using r lr by simp_all
      then show ?thesis using copy_impl_g2l_waitall [OF pb _ r(2) _ sz, where mem = mem and buf = ?buf1] that by blast
    qed
    have step: "copy_async P sizeof_v f l d = Some (Inr (map Get_req R1 @ [Std_copy (snd (pat_local P b)) (d + (b - f)) (int (le - lb))]
           @ map Get_req R2, ?d2 + (l - Suc e)))"
      using copy_async_local [OF ne lir _ gb ge lr(1,2,3) lr(4) R1(1) R2(1)] le by simp
    have sc: "?buf1 = copy_spec P mem b (d + (b - f)) (le - lb) (copy_spec P mem f d (b - f) buf)"
    proof -
      have h1: "pat_local P b = (pat_myid P, lb)" using lr(4) ble by (simp add: prod_eq_iff)
      have h2: "lb + (le - lb) \<le> pat_local_capacity P" using run le ble by simp
      have h3: "b + (le - lb) \<le> pat_size P" using le lr r by simp
      show ?thesis by (rule std_copy_from_run [OF pb h1 h2 h3, where mem = mem])
    qed
    have "copy_spec P mem (Suc e) ?d2 (l - Suc e) (copy_spec P mem b (d + (b - f)) (le - lb) (copy_spec P mem f d (b - f) buf))
          = copy_spec P mem f d (l - f) buf"
      using copy_spec_append [of P mem f "b - f" d "le - lb" buf]
        copy_spec_append [of P mem f "b - f + (le - lb)" d "l - Suc e" buf] lr le
      by (simp add: add.assoc)
    moreover have "?d2 + (l - Suc e) = d + (l - f)" using lr le by simp
    ultimately show ?thesis using step R1(2) R2(2) sc ble(1) by simp
  qed
qed

text \<open>
  C12: For a blocked pattern, an input range of fewer than 2^31 elements and an element
  size of at most \<open>INT_MAX\<close> bytes, the blocking global-to-local \<open>dash::copy\<close>
  (\<open>copy_async\<close> followed by \<open>future.get()\<close>) returns the end of the output range
  and leaves in the output array exactly the global elements of the input range, in
  order, and every other element unchanged.
\<close>

theorem dash_copy_g2l_correct:
  assumes "pattern_blocked P" "in_first \<le> in_last" "in_last \<le> pat_size P" "in_last - in_first < 2 ^ 31"
    "0 < sizeof_v" "int sizeof_v \<le> INT_MAX"
  shows "dash_copy_g2l P sizeof_v mem in_first in_last out_first buf
           = Some (Inr (copy_spec P mem in_first out_first (in_last - in_first) buf, out_first + (in_last - in_first)))"
  using copy_async_correct [OF assms, where d = out_first and mem = mem and buf = buf]
  by (auto simp: dash_copy_g2l_def)

theorem dash_copy_g2l_correct_witness:
  "pattern_blocked (blocked_pattern 3 2 6 1) \<and>
   dash_copy_g2l (blocked_pattern 3 2 6 1) 8 (\<lambda>u l. u * 10 + l) 0 6 3 (\<lambda>_. 0 :: nat)
     = Some (Inr (copy_spec (blocked_pattern 3 2 6 1) (\<lambda>u l. u * 10 + l) 0 3 6 (\<lambda>_. 0), 9))"
proof -
  note pb = blocked_pattern_ok
  have "pat_size (blocked_pattern 3 2 6 1) = 6" by (simp add: blocked_pattern_def)
  then show ?thesis using dash_copy_g2l_correct [OF pb, of 0 6 8 "\<lambda>u l. u * 10 + l" 3 "\<lambda>_. 0 :: nat"] pb
    by (simp add: INT_MAX_def)
qed

lemma copy_impl_loop_no_progress:
  assumes "0 \<le> mce" "mce \<le> INT_MAX"
  shows "(if (if w < (word_of_int mce :: 64 word) then to_int32 (uint w) else mce) > to_int32 (2 ^ 32 - uint (0 :: 64 word))
          then to_int32 (2 ^ 32 - uint (0 :: 64 word))
          else (if w < word_of_int mce then to_int32 (uint w) else mce)) = 0"
proof -
  have um: "uint (word_of_int mce :: 64 word) = mce"
    using assms by (simp add: uint_word_of_int INT_MAX_def)
  have "0 \<le> to_int32 (uint w)" if "w < word_of_int mce"
  proof -
    have "uint w < mce" using that um by (simp add: word_less_def)
    have h0: "0 \<le> uint w" by simp
    have "- (2 ^ 31) \<le> uint w" by (rule order_trans [OF _ h0]) simp
    moreover have "uint w < 2 ^ 31" using \<open>uint w < mce\<close> assms(2) unfolding INT_MAX_def by linarith
    ultimately have "to_int32 (uint w) = uint w" by (rule to_int32_id)
    then show ?thesis using h0 by simp
  qed
  then show ?thesis using assms to_int32_2p32 by auto
qed

lemma copy_impl_loop_stuck:
  assumes "0 \<le> mce" "mce \<le> INT_MAX"
  shows "copy_impl_loop P mce g d (2 ^ 32) 0 fl = None"
proof (rule ccontr)
  assume "copy_impl_loop P mce g d (2 ^ 32) 0 fl \<noteq> None"
  then obtain y where r: "copy_impl_loop P mce g d (2 ^ 32) 0 fl = Some y" by auto
  define Q :: "((((((pattern \<times> int) \<times> nat) \<times> nat) \<times> int) \<times> 64 word) \<times> get_req list) \<Rightarrow> get_req list \<times> 64 word \<Rightarrow> bool"
    where "Q = (\<lambda>x y. case x of ((((((_, mce), _), _), tot), c), _) \<Rightarrow>
                  0 \<le> mce \<longrightarrow> mce \<le> INT_MAX \<longrightarrow> tot = 2 ^ 32 \<longrightarrow> c = 0 \<longrightarrow> False)"
  have "Q ((((((P, mce), g), d), 2 ^ 32), 0), fl) y"
  proof (rule copy_impl_loop.raw_induct [where Pa = Q, OF _ r])
    fix f P mce g d tot c fl y
    assume IH: "\<And>a1 a2 a3 a4 a5 a6 a7 y. f a1 a2 a3 a4 a5 a6 a7 = Some y \<Longrightarrow> Q ((((((a1, a2), a3), a4), a5), a6), a7) y"
      and eq: "(if c < word_of_int tot then
       (let cur_in_first = g + unat c;
            local_pos = pat_local P cur_in_first;
            num_unit_elem = (of_nat (pat_local_capacity P) - of_nat (snd local_pos) :: 64 word);
            total_elem_left = to_int32 (tot - uint c);
            num_copy_elem0 = (if num_unit_elem < word_of_int mce
                              then to_int32 (uint num_unit_elem) else mce);
            num_copy_elem = (if num_copy_elem0 > total_elem_left then total_elem_left else num_copy_elem0);
            get_handle = (local_pos, d + unat c, num_copy_elem)
        in f P mce g d tot (c + word_of_int num_copy_elem) (fl @ [get_handle]))
       else Some (fl, c)) = Some y"
    show "Q ((((((P, mce), g), d), tot), c), fl) y"
      unfolding Q_def prod.case
    proof (intro impI)
      assume m: "0 \<le> mce" "mce \<le> INT_MAX" and t: "tot = 2 ^ 32" and c: "c = 0"
      have lt: "(0 :: 64 word) < word_of_int (2 ^ 32)" by simp
      from eq obtain fl' where "f P mce g d tot 0 fl' = Some y"
        unfolding t c Let_def if_P [OF lt] copy_impl_loop_no_progress [OF m] by simp
      from IH [OF this] show False using m t unfolding Q_def by simp
    qed
  qed
  then show False using assms unfolding Q_def by simp
qed

text \<open>
  C28: \<open>copy_impl\<close> global to local never returns for an input range of exactly 2^32
  elements spread over more than one unit: \<open>total_elem_left\<close> is an \<open>int\<close>, so the
  2^32 elements left truncate to 0, every round copies 0 elements and
  \<open>num_elem_copied\<close> stays 0.
\<close>

theorem copy_impl_g2l_diverges:
  assumes "int in_last - int in_first = 2 ^ 32" "pat_unit_at P in_first \<noteq> pat_unit_at P (in_last - 1)"
  shows "copy_impl_g2l P sizeof_v in_first in_last out_first = None"
proof -
  have lt: "in_first < in_last" using assms(1) by simp
  have "0 \<le> INT_MAX div int sizeof_v" by (simp add: INT_MAX_def div_int_pos_iff)
  moreover have "INT_MAX div int sizeof_v \<le> INT_MAX"
    by (cases "sizeof_v = 0") (simp_all add: INT_MAX_def int_div_le_self)
  ultimately show ?thesis
    using copy_impl_g2l_multi [OF lt assms(2)] copy_impl_loop_stuck assms(1) by simp
qed

theorem copy_impl_g2l_diverges_witness:
  "int (2 ^ 32) - int 0 = 2 ^ 32 \<and>
   pat_unit_at (blocked_pattern 3 2 6 1) 0 \<noteq> pat_unit_at (blocked_pattern 3 2 6 1) (2 ^ 32 - 1) \<and>
   copy_impl_g2l (blocked_pattern 3 2 6 1) 8 0 (2 ^ 32) 0 = None"
proof -
  have u: "pat_unit_at (blocked_pattern 3 2 6 1) 0 \<noteq> pat_unit_at (blocked_pattern 3 2 6 1) (2 ^ 32 - 1)"
    by (simp add: blocked_pattern_def)
  have "int (2 ^ 32) - int 0 = (2 ^ 32 :: int)" by simp
  with u show ?thesis using copy_impl_g2l_diverges [of "2 ^ 32" 0 "blocked_pattern 3 2 6 1" 8 0] by simp
qed

text \<open>
  C35: The local-to-global \<open>dash::copy\<close> is wrong when the calling unit's block lies
  inside the output range with remote elements on both sides: copying six elements
  to a blocked array of three units of two elements from unit 1, the elements after
  the local block are put from \<open>out_first + num_local_elem\<close> instead of
  \<open>out_first + l_elem_offset + num_local_elem\<close>, so unit 1 receives input
  elements 4 and 5 in place of 2 and 3, unit 2 is not written, and the returned end
  is \<open>out_first + 4\<close> instead of \<open>out_first + 6\<close>.
\<close>

theorem dash_copy_l2g_misplaces_postlocal:
  "pattern_blocked (blocked_pattern 3 2 6 1) \<and>
   (\<exists>mem'. dash_copy_l2g (blocked_pattern 3 2 6 1) (\<lambda>i. i) 0 6 0 (\<lambda>u l. 0 :: nat) = Inr (mem', 4)
      \<and> mem' 1 0 = 4 \<and> mem' 2 0 = 0)
   \<and> copy_spec_l2g (blocked_pattern 3 2 6 1) (\<lambda>i. i) 0 0 6 (\<lambda>u l. 0 :: nat) 1 0 = 2
   \<and> copy_spec_l2g (blocked_pattern 3 2 6 1) (\<lambda>i. i) 0 0 6 (\<lambda>u l. 0 :: nat) 2 0 = 4"
proof -
  note blocked_pattern_ok
  moreover have "\<exists>mem'. dash_copy_l2g (blocked_pattern 3 2 6 1) (\<lambda>i. i) 0 6 0 (\<lambda>u l. 0 :: nat) = Inr (mem', 4)
      \<and> mem' 1 0 = 4 \<and> mem' 2 0 = 0"
    by (simp add: dash_copy_l2g_def blocked_pattern_def copy_impl_l2g_def dart_put_blocking_def std_copy_from_def Let_def)
  moreover have "copy_spec_l2g (blocked_pattern 3 2 6 1) (\<lambda>i. i) 0 0 6 (\<lambda>u l. 0 :: nat) 1 0 = 2"
    "copy_spec_l2g (blocked_pattern 3 2 6 1) (\<lambda>i. i) 0 0 6 (\<lambda>u l. 0 :: nat) 2 0 = 4"
    by (simp_all add: copy_spec_l2g_def blocked_pattern_def upt_rec)
  ultimately show ?thesis by blast
qed

theorem dash_copy_l2g_misplaces_postlocal_witness:
  "\<exists>mem'. dash_copy_l2g (blocked_pattern 3 2 6 1) (\<lambda>i. i) 0 6 0 (\<lambda>u l. 0 :: nat) = Inr (mem', 4) \<and> mem' 1 0 = 4"
  using dash_copy_l2g_misplaces_postlocal by blast

end
