(* ===== verification/GlobIter.thy ===== *)
theory GlobIter
  imports Prelude
begin

text \<open>
  The global iterator \<open>dash::GlobIter<T, DIM>\<close> at the top of
  \<open>src/dash/dash-lib/Zhou/GlobIter.h\<close> (lines 1--176): a pattern, a memory accessor
  and a \<open>long long\<close> index. The pattern and \<open>MemAccess\<close> are not in the sources, so
  they are type parameters, and \<open>MemAccess::equals\<close> is a parameter \<open>acc_eq\<close> of the
  comparisons that call it. The index is a 64-bit word read signed (\<open>sint\<close>); the
  model wraps where the C++ signed overflow is undefined.
\<close>

record ('p, 'a) glob_iter =
  m_pat :: 'p
  m_acc :: 'a
  m_idx :: "64 word"

type_synonym gptrdiff_t = "64 word"

text \<open>\<open>GlobRef<T>\<close> of \<open>get(unit, elem)\<close>: the accessor with a unit and an element.\<close>

record 'a glob_ref =
  ref_acc :: 'a
  ref_unit :: nat
  ref_elem :: nat

section \<open>Construction and access\<close>

definition GlobIter_new :: "'p \<Rightarrow> 'a \<Rightarrow> 64 word \<Rightarrow> ('p, 'a) glob_iter" where
  "GlobIter_new pattern accessor idx = \<lparr>m_pat = pattern, m_acc = accessor, m_idx = idx\<rparr>"

definition glob_iter_get :: "('p, 'a) glob_iter \<Rightarrow> nat \<Rightarrow> nat \<Rightarrow> 'a glob_ref" where
  "glob_iter_get it unit elem = \<lparr>ref_acc = m_acc it, ref_unit = unit, ref_elem = elem\<rparr>"

section \<open>Increment and decrement\<close>

definition glob_iter_pre_incr :: "('p, 'a, 'z) glob_iter_scheme \<Rightarrow> ('p, 'a, 'z) glob_iter_scheme" where
  "glob_iter_pre_incr it = it\<lparr>m_idx := m_idx it + 1\<rparr>"

text \<open>Postfix operators return the old iterator and the updated one.\<close>

definition glob_iter_post_incr ::
  "('p, 'a, 'z) glob_iter_scheme \<Rightarrow> ('p, 'a, 'z) glob_iter_scheme \<times> ('p, 'a, 'z) glob_iter_scheme" where
  "glob_iter_post_incr it = (let result = it in (result, it\<lparr>m_idx := m_idx it + 1\<rparr>))"

definition glob_iter_pre_decr :: "('p, 'a, 'z) glob_iter_scheme \<Rightarrow> ('p, 'a, 'z) glob_iter_scheme" where
  "glob_iter_pre_decr it = it\<lparr>m_idx := m_idx it - 1\<rparr>"

definition glob_iter_post_decr ::
  "('p, 'a, 'z) glob_iter_scheme \<Rightarrow> ('p, 'a, 'z) glob_iter_scheme \<times> ('p, 'a, 'z) glob_iter_scheme" where
  "glob_iter_post_decr it = (let result = it in (result, it\<lparr>m_idx := m_idx it - 1\<rparr>))"

definition glob_iter_add_assign :: "('p, 'a, 'z) glob_iter_scheme \<Rightarrow> gptrdiff_t \<Rightarrow> ('p, 'a, 'z) glob_iter_scheme" where
  "glob_iter_add_assign it n = it\<lparr>m_idx := m_idx it + n\<rparr>"

definition glob_iter_sub_assign :: "('p, 'a, 'z) glob_iter_scheme \<Rightarrow> gptrdiff_t \<Rightarrow> ('p, 'a, 'z) glob_iter_scheme" where
  "glob_iter_sub_assign it n = it\<lparr>m_idx := m_idx it - n\<rparr>"

section \<open>Arithmetic\<close>

definition glob_iter_plus :: "('p, 'a) glob_iter \<Rightarrow> gptrdiff_t \<Rightarrow> ('p, 'a) glob_iter" where
  "glob_iter_plus it n = GlobIter_new (m_pat it) (m_acc it) (m_idx it + n)"

definition glob_iter_minus :: "('p, 'a) glob_iter \<Rightarrow> gptrdiff_t \<Rightarrow> ('p, 'a) glob_iter" where
  "glob_iter_minus it n = GlobIter_new (m_pat it) (m_acc it) (m_idx it - n)"

definition glob_iter_diff :: "('p, 'a, 'z) glob_iter_scheme \<Rightarrow> ('p, 'a, 'y) glob_iter_scheme \<Rightarrow> gptrdiff_t" where
  "glob_iter_diff it other = m_idx it - m_idx other"

section \<open>Comparisons\<close>

definition glob_iter_neq :: "('a \<Rightarrow> 'a \<Rightarrow> bool) \<Rightarrow> ('p, 'a, 'z) glob_iter_scheme \<Rightarrow> ('p, 'a, 'z) glob_iter_scheme \<Rightarrow> bool" where
  "glob_iter_neq acc_eq it other \<longleftrightarrow> m_idx it \<noteq> m_idx other \<or> \<not> acc_eq (m_acc it) (m_acc other)"

definition glob_iter_eq :: "('a \<Rightarrow> 'a \<Rightarrow> bool) \<Rightarrow> ('p, 'a, 'z) glob_iter_scheme \<Rightarrow> ('p, 'a, 'z) glob_iter_scheme \<Rightarrow> bool" where
  "glob_iter_eq acc_eq it other \<longleftrightarrow> m_idx it = m_idx other \<and> acc_eq (m_acc it) (m_acc other)"

definition glob_iter_lt :: "('p, 'a, 'z) glob_iter_scheme \<Rightarrow> ('p, 'a, 'z) glob_iter_scheme \<Rightarrow> bool" where
  "glob_iter_lt it other \<longleftrightarrow> sint (m_idx it) < sint (m_idx other)"

definition glob_iter_gt :: "('p, 'a, 'z) glob_iter_scheme \<Rightarrow> ('p, 'a, 'z) glob_iter_scheme \<Rightarrow> bool" where
  "glob_iter_gt it other \<longleftrightarrow> sint (m_idx it) > sint (m_idx other)"

definition glob_iter_le :: "('p, 'a, 'z) glob_iter_scheme \<Rightarrow> ('p, 'a, 'z) glob_iter_scheme \<Rightarrow> bool" where
  "glob_iter_le it other \<longleftrightarrow> sint (m_idx it) \<le> sint (m_idx other)"

definition glob_iter_ge :: "('p, 'a, 'z) glob_iter_scheme \<Rightarrow> ('p, 'a, 'z) glob_iter_scheme \<Rightarrow> bool" where
  "glob_iter_ge it other \<longleftrightarrow> sint (m_idx it) \<ge> sint (m_idx other)"

text \<open>
  The four ordering operators make the iterator type an instance of \<open>preorder\<close>:
  they compare only the index, so two iterators over different containers at the
  same index are each \<open>\<le>\<close> the other without being \<open>==\<close>.
\<close>

instantiation glob_iter_ext :: (type, type, type) preorder
begin

definition less_eq_glob_iter_ext where
  "less_eq_glob_iter_ext (it :: ('a, 'b, 'c) glob_iter_scheme) other = glob_iter_le it other"

definition less_glob_iter_ext where
  "less_glob_iter_ext (it :: ('a, 'b, 'c) glob_iter_scheme) other = glob_iter_lt it other"

instance
  apply standard
     apply (unfold less_eq_glob_iter_ext_def less_glob_iter_ext_def glob_iter_le_def glob_iter_lt_def)
     apply auto
  done

end

section \<open>Properties\<close>

lemmas glob_iter_defs = GlobIter_new_def glob_iter_plus_def glob_iter_minus_def glob_iter_diff_def
  glob_iter_pre_incr_def glob_iter_pre_decr_def glob_iter_add_assign_def glob_iter_sub_assign_def

text \<open>\<open>it + n - n\<close> is \<open>it\<close> and \<open>(it + n) - it\<close> is \<open>n\<close>, also when the index wraps.\<close>

lemma glob_iter_plus_minus: "glob_iter_minus (glob_iter_plus it n) n = it"
  by (simp add: glob_iter_defs)

lemma glob_iter_diff_plus: "glob_iter_diff (glob_iter_plus it n) it = n"
  by (simp add: glob_iter_defs)

lemma glob_iter_add_sub_assign: "glob_iter_sub_assign (glob_iter_add_assign it n) n = it"
  by (simp add: glob_iter_defs)

lemma glob_iter_incr_decr: "glob_iter_pre_decr (glob_iter_pre_incr it) = it"
  by (simp add: glob_iter_defs)

lemma glob_iter_post_incr_pre: "glob_iter_post_incr it = (it, glob_iter_pre_incr it)"
  by (simp add: glob_iter_post_incr_def glob_iter_pre_incr_def)

lemma glob_iter_post_decr_pre: "glob_iter_post_decr it = (it, glob_iter_pre_decr it)"
  by (simp add: glob_iter_post_decr_def glob_iter_pre_decr_def)

lemma glob_iter_add_assign_plus: "glob_iter_add_assign it n = glob_iter_plus it n"
  by (simp add: glob_iter_defs)

text \<open>\<open>!=\<close> is the negation of \<open>==\<close>; \<open>>\<close> and \<open>>=\<close> are \<open><\<close> and \<open><=\<close> swapped.\<close>

lemma glob_iter_neq_eq: "glob_iter_neq acc_eq it other \<longleftrightarrow> \<not> glob_iter_eq acc_eq it other"
  by (simp add: glob_iter_neq_def glob_iter_eq_def)

lemma glob_iter_gt_ge: "glob_iter_gt it other = (other < it)" "glob_iter_ge it other = (other \<le> it)"
  by (simp_all add: glob_iter_gt_def glob_iter_ge_def less_glob_iter_ext_def less_eq_glob_iter_ext_def
      glob_iter_lt_def glob_iter_le_def)

text \<open>
  The ordering ignores the accessor (the \<open>TODO\<close> of the source): two iterators at the same
  index of different containers are each \<open><=\<close> the other, neither is \<open><\<close> the other, and
  they are not \<open>==\<close>.
\<close>

lemma glob_iter_order_ignores_accessor:
  "GlobIter_new () (0 :: nat) 5 \<le> GlobIter_new () 1 5 \<and> GlobIter_new () (1 :: nat) 5 \<le> GlobIter_new () 0 5
   \<and> \<not> GlobIter_new () (0 :: nat) 5 < GlobIter_new () 1 5
   \<and> \<not> glob_iter_eq (=) (GlobIter_new () (0 :: nat) 5) (GlobIter_new () 1 5)"
  by (simp add: GlobIter_new_def less_eq_glob_iter_ext_def less_glob_iter_ext_def glob_iter_le_def
      glob_iter_lt_def glob_iter_eq_def)

text \<open>
  Incrementing an iterator at the largest \<open>long long\<close> index (undefined in C++) wraps to
  the smallest one, so the result compares below the iterator it came from.
\<close>

lemma glob_iter_incr_wraps:
  assumes "m_idx it = 2 ^ 63 - 1"
  shows "glob_iter_pre_incr it < it"
proof -
  have "sint (2 ^ 63 :: 64 word) = - (2 ^ 63)" by simp
  moreover have "sint (2 ^ 63 - 1 :: 64 word) = 2 ^ 63 - 1" by simp
  ultimately show ?thesis
    using assms by (simp add: glob_iter_pre_incr_def less_glob_iter_ext_def glob_iter_lt_def)
qed

end
