(* ===== verification/IndexSet.thy ===== *)
theory IndexSet
  imports Prelude "HOL-Library.Signed_Division"
begin

text \<open>
  The index sets of DASH views (\<open>IndexSet.h\<close>, \<open>src/unnamed/part_002\<close> lines
  1--1180). An index set maps the positions of a view to indices of its domain;
  the code reaches the domain, the pattern and the view only through a few calls,
  so an index set is modelled by what it answers: its \<open>size()\<close> and its
  \<open>operator[]\<close> (record \<open>index_set\<close>). The one-dimensional pattern is an interface
  record (\<open>pattern1\<close>) with the calls the index sets make. \<open>index_type\<close> is a
  signed integer; the sizes involved are far from its bounds, so it is \<open>int\<close>,
  and C++ integer division (truncating) is \<open>sdiv\<close>/\<open>smod\<close>.
\<close>

section \<open>Index sets and iterators\<close>

record index_set =
  is_size :: int
  is_at :: "int \<Rightarrow> int"

text \<open>\<open>IndexSetIdentity\<close> of a container of \<open>n\<close> elements: \<open>size()\<close> is the view's size, \<open>operator[]\<close> the identity.\<close>

definition IndexSetIdentity :: "int \<Rightarrow> index_set" where
  "IndexSetIdentity n = \<lparr>is_size = n, is_at = (\<lambda>image_index. image_index)\<rparr>"

definition iset_first :: "index_set \<Rightarrow> int" where
  "iset_first s = is_at s 0"

definition iset_last :: "index_set \<Rightarrow> int" where
  "iset_last s = is_at s (is_size s - 1)"

text \<open>
  \<open>detail::IndexSetIterator<IndexSetType, BaseStride>\<close>: the index set, the position
  (held by \<open>IndexIteratorBase\<close>) and the stride. The three-argument constructor takes
  a \<open>stride\<close> argument but does not store it: \<open>_stride\<close> keeps its default member
  initialiser \<open>BaseStride\<close>.
\<close>

record iset_iter =
  it_set :: index_set
  it_pos :: int
  it_stride :: int

definition IndexSetIterator :: "int \<Rightarrow> index_set \<Rightarrow> int \<Rightarrow> int \<Rightarrow> iset_iter" where
  "IndexSetIterator BaseStride index_set position stride =
     \<lparr>it_set = index_set, it_pos = position, it_stride = BaseStride\<rparr>"

definition IndexSetIterator_at :: "iset_iter \<Rightarrow> int \<Rightarrow> iset_iter" where
  "IndexSetIterator_at other position = other\<lparr>it_pos := position\<rparr>"

text \<open>Positions past the end are extrapolated from the last index with step 1.\<close>

definition iset_dereference :: "iset_iter \<Rightarrow> int \<Rightarrow> int" where
  "iset_dereference it idx =
     (let s = it_set it in
      if idx * it_stride it < is_size s then is_at s (idx * it_stride it)
      else is_at s (is_size s - 1) + (idx * it_stride it - (is_size s - 1)))"

text \<open>
  \<open>IndexIteratorBase::operator[]\<close> (\<open>dash/util/internal/IteratorBase.h\<close>, not in the
  sources) dereferences the position advanced by \<open>n\<close>.
\<close>

definition iset_iter_subscript :: "iset_iter \<Rightarrow> int \<Rightarrow> int" where
  "iset_iter_subscript it n = iset_dereference it (it_pos it + n)"

definition iset_begin :: "index_set \<Rightarrow> iset_iter" where
  "iset_begin s = IndexSetIterator 1 s 0 1"

definition iset_end :: "index_set \<Rightarrow> iset_iter" where
  "iset_end s = IndexSetIterator 1 s (is_size s) 1"

text \<open>\<open>IndexSetBase::step\<close>: documented as \<open>index(r(10..100)).step(2)[8] = 26\<close>.\<close>

definition iset_step :: "index_set \<Rightarrow> int \<Rightarrow> iset_iter" where
  "iset_step s stride =
     (if stride > 0 then IndexSetIterator 1 s 0 stride
      else IndexSetIterator 1 s (is_size s) stride)"

section \<open>Index ranges\<close>

record index_range_t =
  ir_begin :: int
  ir_end :: int

definition index_range_intersect :: "index_range_t \<Rightarrow> index_range_t \<Rightarrow> index_range_t" where
  "index_range_intersect a b =
     \<lparr>ir_begin = max (ir_begin a) (ir_begin b), ir_end = min (ir_end a) (ir_end b)\<rparr>"

definition index_range_size :: "index_range_t \<Rightarrow> int" where
  "index_range_size irng = ir_end irng - ir_begin irng"

text \<open>
  The one-dimensional pattern as the index sets call it: \<open>global\<close> (local offset of the
  calling unit to global index), \<open>local(g).index\<close> and \<open>local_coords({g})[0]\<close> (global
  index to local offset at its unit), \<open>local_size\<close>, \<open>size\<close>, \<open>block_at\<close> and
  \<open>local_block_at(...).index\<close> (global index to global or local block index).
\<close>

record pattern1 =
  pt_global :: "int \<Rightarrow> int"
  pt_local_index :: "int \<Rightarrow> int"
  pt_local_size :: int
  pt_size :: int
  pt_block_at :: "int \<Rightarrow> int"
  pt_local_block_at :: "int \<Rightarrow> int"

definition index_range_g2l :: "pattern1 \<Rightarrow> index_range_t \<Rightarrow> index_range_t" where
  "index_range_g2l pat grng =
     \<lparr>ir_begin = pt_local_index pat (ir_begin grng), ir_end = pt_local_index pat (ir_end grng)\<rparr>"

definition index_range_l2g :: "pattern1 \<Rightarrow> index_range_t \<Rightarrow> index_range_t" where
  "index_range_l2g pat lrng =
     \<lparr>ir_begin = pt_global pat (ir_begin lrng), ir_end = pt_global pat (ir_end lrng)\<rparr>"

section \<open>Sub-ranges\<close>

text \<open>
  \<open>IndexSetSub\<close> of a one-dimensional domain: \<open>size() = extent(0) = end - begin\<close>,
  \<open>rel(i) = begin + i\<close>, and \<open>operator[]\<close> (of \<open>IndexSetBase\<close>) is \<open>domain()[rel(i)]\<close>.
\<close>

definition IndexSetSub :: "index_set \<Rightarrow> int \<Rightarrow> int \<Rightarrow> index_set" where
  "IndexSetSub domain begin_idx end_idx =
     \<lparr>is_size = end_idx - begin_idx, is_at = (\<lambda>image_index. is_at domain (begin_idx + image_index))\<rparr>"

text \<open>
  \<open>IndexSetSub<ViewType, SubDim>::rel\<close> for \<open>NDim\<close> 1 or 2 over a domain whose row
  length is \<open>domain_extent1\<close>: a range of rows (\<open>SubDim = 0\<close>) or of columns
  (\<open>SubDim = 1\<close>) \<open>[begin_idx, end_idx)\<close>.
\<close>

definition IndexSetSub_rel :: "nat \<Rightarrow> nat \<Rightarrow> int \<Rightarrow> int \<Rightarrow> int \<Rightarrow> int \<Rightarrow> int" where
  "IndexSetSub_rel NDim SubDim domain_extent1 begin_idx end_idx image_index =
     (if NDim = 1 then begin_idx + image_index
      else if SubDim = 0 then begin_idx * domain_extent1 + image_index
      else begin_idx + (image_index sdiv (end_idx - begin_idx)) * domain_extent1
             + image_index smod (end_idx - begin_idx))"

text \<open>\<open>extent(d)\<close> and the recursive \<open>size(sub_dim)\<close> of \<open>IndexSetSub\<close>.\<close>

definition IndexSetSub_extent :: "nat \<Rightarrow> (nat \<Rightarrow> int) \<Rightarrow> int \<Rightarrow> int \<Rightarrow> nat \<Rightarrow> int" where
  "IndexSetSub_extent SubDim domain_extent begin_idx end_idx shape_dim =
     (if shape_dim = SubDim then end_idx - begin_idx else domain_extent shape_dim)"

function IndexSetSub_size :: "nat \<Rightarrow> nat \<Rightarrow> (nat \<Rightarrow> int) \<Rightarrow> int \<Rightarrow> int \<Rightarrow> nat \<Rightarrow> int" where
  "IndexSetSub_size NDim SubDim domain_extent begin_idx end_idx sub_dim =
     IndexSetSub_extent SubDim domain_extent begin_idx end_idx sub_dim *
       (if sub_dim + 1 < NDim \<and> NDim > 0
        then IndexSetSub_size NDim SubDim domain_extent begin_idx end_idx (sub_dim + 1) else 1)"
  by pat_completeness auto
termination
  by (relation "measure (\<lambda>(NDim, _, _, _, _, sub_dim). NDim - sub_dim)") auto

text \<open>
  \<open>IndexSetSub::pre()\<close>: the sub-range of the origin that shifts back by the first
  index, \<open>IndexSetSub(origin, -this[0], -this[0] + origin.size())\<close>.
\<close>

definition IndexSetSub_pre :: "index_set \<Rightarrow> index_set \<Rightarrow> index_set" where
  "IndexSetSub_pre origin sub =
     IndexSetSub origin (- is_at sub 0) (- is_at sub 0 + is_size origin)"

section \<open>Local and global index sets\<close>

text \<open>
  \<open>IndexSetLocal::calc_size\<close>: the first branch is disabled by \<open>&& false\<close>; the second
  intersects the calling unit's global range \<open>[global(0), global(local_size - 1)]\<close>
  with the domain's \<open>[first, last]\<close>, maps it to local offsets and counts it.
\<close>

definition IndexSetLocal_calc_size :: "bool \<Rightarrow> pattern1 \<Rightarrow> index_set \<Rightarrow> int" where
  "IndexSetLocal_calc_size blockspec_fits pat domain =
     (if blockspec_fits \<and> False
      then min (pt_local_size pat) (is_size domain)
      else index_range_size
             (index_range_g2l pat
               (index_range_intersect
                 \<lparr>ir_begin = pt_global pat 0, ir_end = pt_global pat (pt_local_size pat - 1)\<rparr>
                 \<lparr>ir_begin = iset_first domain, ir_end = iset_last domain\<rparr>)) + 1)"

definition IndexSetLocal_rel :: "pattern1 \<Rightarrow> index_set \<Rightarrow> int \<Rightarrow> int" where
  "IndexSetLocal_rel pat domain local_index =
     local_index +
       (if is_at domain 0 = 0 then 0
        else pt_local_index pat (max (pt_global pat 0) (is_at domain 0)))"

definition IndexSetLocal :: "bool \<Rightarrow> pattern1 \<Rightarrow> index_set \<Rightarrow> index_set" where
  "IndexSetLocal blockspec_fits pat domain =
     \<lparr>is_size = IndexSetLocal_calc_size blockspec_fits pat domain, is_at = IndexSetLocal_rel pat domain\<rparr>"

text \<open>\<open>IndexSetGlobal\<close>: \<open>rel(g) = pattern.local(g).index\<close>, \<open>operator[]\<close> of the base.\<close>

definition IndexSetGlobal_rel :: "pattern1 \<Rightarrow> int \<Rightarrow> int" where
  "IndexSetGlobal_rel pat global_index = pt_local_index pat global_index"

definition IndexSetGlobal_calc_size :: "pattern1 \<Rightarrow> index_set \<Rightarrow> int" where
  "IndexSetGlobal_calc_size pat domain = max (pt_size pat) (is_size domain)"

definition IndexSetGlobal :: "pattern1 \<Rightarrow> index_set \<Rightarrow> index_set" where
  "IndexSetGlobal pat domain =
     \<lparr>is_size = IndexSetGlobal_calc_size pat domain,
      is_at = (\<lambda>image_index. is_at domain (IndexSetGlobal_rel pat image_index))\<rparr>"

section \<open>Blocks\<close>

text \<open>
  \<open>IndexSetBlocks\<close>: the blocks a view touches, numbered from the block of its
  first index; for a local view the local block index of the global index of its
  first and last offset.
\<close>

definition IndexSetBlocks_first_block :: "bool \<Rightarrow> pattern1 \<Rightarrow> index_set \<Rightarrow> int" where
  "IndexSetBlocks_first_block view_is_local pat domain =
     (if view_is_local then pt_local_block_at pat (pt_global pat (iset_first domain))
      else pt_block_at pat (iset_first domain))"

definition IndexSetBlocks_calc_size :: "bool \<Rightarrow> pattern1 \<Rightarrow> index_set \<Rightarrow> int" where
  "IndexSetBlocks_calc_size view_is_local pat domain =
     (if view_is_local
      then pt_local_block_at pat (pt_global pat (iset_last domain))
             - pt_local_block_at pat (pt_global pat (iset_first domain)) + 1
      else pt_block_at pat (iset_last domain) - pt_block_at pat (iset_first domain) + 1)"

definition IndexSetBlocks :: "bool \<Rightarrow> pattern1 \<Rightarrow> index_set \<Rightarrow> index_set" where
  "IndexSetBlocks view_is_local pat domain =
     \<lparr>is_size = IndexSetBlocks_calc_size view_is_local pat domain,
      is_at = (\<lambda>block_index. block_index + IndexSetBlocks_first_block view_is_local pat domain)\<rparr>"

text \<open>
  \<open>IndexSetBlock(view, block_idx)\<close>: \<open>operator[]\<close> and \<open>calc_size\<close> never read
  \<open>_block_idx\<close>. For a local view \<open>operator[]\<close> maps the first domain index to global
  before asking for its local block, while \<open>calc_size\<close> passes the domain indices
  unmapped.
\<close>

definition IndexSetBlock :: "bool \<Rightarrow> pattern1 \<Rightarrow> index_set \<Rightarrow> int \<Rightarrow> index_set" where
  "IndexSetBlock view_is_local pat domain block_idx =
     \<lparr>is_size =
        (if view_is_local
         then pt_local_block_at pat (is_at domain (is_size domain - 1)) - pt_local_block_at pat (is_at domain 0) + 1
         else pt_block_at pat (is_at domain (is_size domain - 1)) - pt_block_at pat (is_at domain 0) + 1),
      is_at = (\<lambda>image_index. image_index +
        (if view_is_local then pt_local_block_at pat (pt_global pat (is_at domain 0))
         else pt_block_at pat (is_at domain 0)))\<rparr>"

text \<open>A blocked one-dimensional pattern of \<open>nunits\<close> blocks of \<open>bsize\<close>, seen from unit \<open>myid\<close>.\<close>

definition blocked_pattern1 :: "int \<Rightarrow> int \<Rightarrow> int \<Rightarrow> pattern1" where
  "blocked_pattern1 nunits bsize myid =
     \<lparr>pt_global = (\<lambda>l. myid * bsize + l), pt_local_index = (\<lambda>g. g mod bsize),
      pt_local_size = bsize, pt_size = nunits * bsize,
      pt_block_at = (\<lambda>g. g div bsize), pt_local_block_at = (\<lambda>g. 0)\<rparr>"

section \<open>Properties\<close>

lemma sdiv_nonneg: "0 \<le> a \<Longrightarrow> 0 < b \<Longrightarrow> a sdiv (b :: int) = a div b"
  by (cases "a = 0") (simp_all add: signed_divide_int_def sgn_if)

lemma smod_nonneg: "0 \<le> a \<Longrightarrow> 0 < b \<Longrightarrow> a smod (b :: int) = a mod b"
  by (simp add: smod_mod_positive)

text \<open>The iterators of \<open>step\<close> always have stride 1, whatever stride is asked for.\<close>

lemma iset_step_stride: "it_stride (iset_step s stride) = 1"
  by (simp add: iset_step_def IndexSetIterator_def)

lemma iset_step_doc_example:
  "iset_iter_subscript (iset_step (IndexSetSub (IndexSetIdentity 200) 10 100) 2) 8 = 18
   \<and> iset_iter_subscript (iset_step (IndexSetSub (IndexSetIdentity 200) 10 100) (-5)) 4 = 104"
  by (simp add: iset_iter_subscript_def iset_dereference_def iset_step_def IndexSetIterator_def
      IndexSetSub_def IndexSetIdentity_def)

text \<open>On a contiguous index set the extrapolation past the end continues the sequence.\<close>

lemma iset_dereference_contiguous:
  assumes "\<And>i. is_at (it_set it) i = f + i"
  shows "iset_dereference it idx = f + idx * it_stride it"
  using assms by (simp add: iset_dereference_def Let_def)

text \<open>A sub-range of a sub-range is a sub-range of the domain.\<close>

lemma IndexSetSub_IndexSetSub:
  "IndexSetSub (IndexSetSub d b1 e1) b2 e2 = IndexSetSub d (b1 + b2) (b1 + e2)"
  by (simp add: IndexSetSub_def add.assoc)

lemma IndexSetSub_pre_roundtrip:
  "is_at (IndexSetSub_pre (IndexSetIdentity n) (IndexSetSub (IndexSetIdentity n) b e))
     (is_at (IndexSetSub (IndexSetIdentity n) b e) i) = i
   \<and> is_size (IndexSetSub_pre (IndexSetIdentity n) (IndexSetSub (IndexSetIdentity n) b e)) = n"
  by (simp add: IndexSetSub_pre_def IndexSetSub_def IndexSetIdentity_def)

text \<open>
  A range of columns \<open>[b, e)\<close> of a two-dimensional domain with rows of \<open>W\<close>
  elements: \<open>rel\<close> maps the \<open>H * (e - b)\<close> positions one-to-one to the domain
  indices in those columns.
\<close>

lemma IndexSetSub_rel_cols:
  assumes "0 \<le> b" "b < e" "e \<le> W" "0 \<le> i"
  shows "IndexSetSub_rel 2 1 W b e i = (i div (e - b)) * W + (b + i mod (e - b))
         \<and> b \<le> IndexSetSub_rel 2 1 W b e i mod W \<and> IndexSetSub_rel 2 1 W b e i mod W < e
         \<and> IndexSetSub_rel 2 1 W b e i div W = i div (e - b)"
proof -
  let ?w = "e - b"
  have w: "0 < ?w" using assms by simp
  have r: "IndexSetSub_rel 2 1 W b e i = (i div ?w) * W + (b + i mod ?w)"
    using assms w by (simp add: IndexSetSub_rel_def sdiv_nonneg smod_nonneg)
  have m: "0 \<le> i mod ?w" "i mod ?w < ?w" using w by simp_all
  have c: "0 \<le> b + i mod ?w" "b + i mod ?w < W" using assms m by linarith+
  have me: "(b + i mod ?w) mod W = b + i mod ?w" using c by (simp add: mod_pos_pos_trivial)
  have de: "(b + i mod ?w) div W = 0" using c by (simp add: div_pos_pos_trivial)
  have Wp: "W \<noteq> 0" using assms by simp
  have dd: "(i div ?w * W + (b + i mod ?w)) div W = i div ?w"
    using div_mult_self1 [OF Wp, of "b + i mod ?w" "i div ?w"] de by (simp add: add.commute)
  show ?thesis using r m me dd by simp
qed

lemma IndexSetSub_rel_cols_inj:
  assumes "0 \<le> b" "b < e" "e \<le> W" "0 \<le> i" "0 \<le> j" "IndexSetSub_rel 2 1 W b e i = IndexSetSub_rel 2 1 W b e j"
  shows "i = j"
proof -
  let ?w = "e - b"
  have "i div ?w = j div ?w" using IndexSetSub_rel_cols [OF assms(1-4)] IndexSetSub_rel_cols [OF assms(1-3,5)] assms(6)
    by metis
  moreover have "i mod ?w = j mod ?w" using IndexSetSub_rel_cols [OF assms(1-4)] IndexSetSub_rel_cols [OF assms(1-3,5)] assms(6)
    by (metis add_left_cancel \<open>i div (e - b) = j div (e - b)\<close>)
  ultimately show ?thesis by (metis div_mult_mod_eq)
qed

lemma mod_in_block: "0 < B \<Longrightarrow> m * B \<le> g \<Longrightarrow> g < m * B + B \<Longrightarrow> g mod B = g - m * (B :: int)"
proof -
  assume B: "0 < B" and l: "m * B \<le> g" and u: "g < m * B + B"
  have "g = (g - m * B) + m * B" by simp
  then have "g mod B = (g - m * B) mod B" by (metis mod_mult_self3 add.commute)
  also have "\<dots> = g - m * B" using l u B by (simp add: mod_pos_pos_trivial)
  finally show ?thesis .
qed

text \<open>
  C21: for a blocked pattern and a domain range that meets the calling unit's block,
  \<open>IndexSetLocal::calc_size\<close> is the number of domain indices in that block.
\<close>

lemma IndexSetLocal_calc_size_blocked:
  assumes B: "0 < B" and lo: "lo = max (m * B) a" and hi: "hi = min (m * B + (B - 1)) (z - 1)" and ne: "lo \<le> hi"
  shows "IndexSetLocal_calc_size bf (blocked_pattern1 N B m) (IndexSetSub (IndexSetIdentity n) a z) = hi - lo + 1"
proof -
  have "lo mod B = lo - m * B" "hi mod B = hi - m * B"
    using mod_in_block [OF B] lo hi ne by auto
  then show ?thesis
    using lo hi by (simp add: IndexSetLocal_calc_size_def index_range_size_def index_range_g2l_def
        index_range_intersect_def blocked_pattern1_def iset_first_def iset_last_def IndexSetSub_def
        IndexSetIdentity_def)
qed

theorem IndexSetLocal_calc_size_blocked_witness:
  "IndexSetLocal_calc_size False (blocked_pattern1 2 10 1) (IndexSetSub (IndexSetIdentity 20) 5 15) = 5"
  using IndexSetLocal_calc_size_blocked [where B = 10 and m = 1 and a = 5 and z = 15 and lo = 10 and hi = 14
      and bf = False and N = 2 and n = 20]
  by simp

text \<open>
  \<open>IndexSetLocal::calc_size\<close> does not check that the intersection is empty: the local
  index set of the global range \<open>[0, 5)\<close> of a 20-element array blocked over two units
  has 5 elements at unit 1, which holds none of them.
\<close>

lemma IndexSetLocal_calc_size_disjoint:
  "IndexSetLocal_calc_size bf (blocked_pattern1 2 10 1) (IndexSetSub (IndexSetIdentity 20) 0 5) = 5"
  by (simp add: IndexSetLocal_calc_size_def index_range_size_def index_range_g2l_def
      index_range_intersect_def blocked_pattern1_def iset_first_def iset_last_def IndexSetSub_def
      IndexSetIdentity_def)

lemma IndexSetBlocks_blocked:
  "IndexSetBlocks False (blocked_pattern1 N B m) (IndexSetSub (IndexSetIdentity n) a z)
     = \<lparr>is_size = (z - 1) div B - a div B + 1, is_at = (\<lambda>i. i + a div B)\<rparr>"
  by (simp add: IndexSetBlocks_def IndexSetBlocks_calc_size_def IndexSetBlocks_first_block_def
      blocked_pattern1_def iset_first_def iset_last_def IndexSetSub_def IndexSetIdentity_def)

lemma IndexSetBlock_ignores_index:
  "IndexSetBlock v pat domain b1 = IndexSetBlock v pat domain b2"
  by (simp add: IndexSetBlock_def)

end
