(* ===== verification/Types.thy ===== *)
theory Types
  imports Prelude
begin

text \<open>
  The DASH type definitions of \<open>Types.h\<close> (\<open>src/unnamed/part_000\<close>): the enumerations
  \<open>MemArrange\<close> and \<open>DistributionType\<close>, the index and size types of the default
  configuration (\<open>ssize_t\<close> and \<open>size_t\<close> on a 64-bit target), \<open>Point\<close> and
  \<open>Extent\<close>, the trait \<open>dart_datatype\<close> that maps a C++ element type to a DART type,
  \<open>dart_storage\<close> that describes \<open>nvalues\<close> values of a type for the transport, and the
  undefined unit ids. The DART declarations these use (\<open>dart_datatype_t\<close>,
  \<open>dart_storage_t\<close>, \<open>DART_UNDEFINED_UNIT_ID\<close>) are in \<open>dart_types.h\<close>, and the values of the
  specialised traits in \<open>Types.cc\<close>; neither is in the sources, so they are modelled from
  the DART interface.
\<close>

section \<open>Enumerations and index types\<close>

datatype MemArrange = MEM_ARRANGE_UNDEFINED | ROW_MAJOR | COL_MAJOR

datatype DistributionType = DIST_UNDEFINED | DIST_NONE | DIST_BLOCKED | DIST_CYCLIC
  | DIST_BLOCKCYCLIC | DIST_TILE

text \<open>The enumerators' values: C numbers them from 0 in declaration order.\<close>

fun MemArrange_val :: "MemArrange \<Rightarrow> int" where
  "MemArrange_val MEM_ARRANGE_UNDEFINED = 0"
| "MemArrange_val ROW_MAJOR = 1"
| "MemArrange_val COL_MAJOR = 2"

fun DistributionType_val :: "DistributionType \<Rightarrow> int" where
  "DistributionType_val DIST_UNDEFINED = 0"
| "DistributionType_val DIST_NONE = 1"
| "DistributionType_val DIST_BLOCKED = 2"
| "DistributionType_val DIST_CYCLIC = 3"
| "DistributionType_val DIST_BLOCKCYCLIC = 4"
| "DistributionType_val DIST_TILE = 5"

text \<open>
  \<open>dim_t\<close> is \<open>int\<close>; without \<open>DASH_ENABLE_DEFAULT_INDEX_TYPE_LONG/INT\<close> the default
  signed index is \<open>ssize_t\<close> and the unsigned one \<open>size_t\<close>, both 64 bits wide (the signed
  one read by \<open>sint\<close>). \<open>dash::gptrdiff_t\<close> is named \<open>dash_gptrdiff_t\<close> here, apart from the
  global \<open>gptrdiff_t\<close> of \<open>GlobIter.h\<close>.
\<close>

type_synonym dim_t = "32 word"
type_synonym default_index_t = "64 word"
type_synonym default_extent_t = "64 word"
type_synonym default_size_t = "64 word"
type_synonym dash_gptrdiff_t = "64 word"

text \<open>\<open>Point\<close> and \<open>Extent\<close>: a \<open>std::array\<close> of \<open>NumDimensions\<close> coordinates or sizes.\<close>

record 'i Point =
  coords :: "'i list"

record 's Extent =
  sizes :: "'s list"

definition Point_wf :: "nat \<Rightarrow> 'i Point \<Rightarrow> bool" where
  "Point_wf NumDimensions p \<longleftrightarrow> length (coords p) = NumDimensions"

definition Extent_wf :: "nat \<Rightarrow> 's Extent \<Rightarrow> bool" where
  "Extent_wf NumDimensions e \<longleftrightarrow> length (sizes e) = NumDimensions"

section \<open>DART data types and storage descriptors\<close>

text \<open>\<open>dart_datatype_t\<close> and \<open>dart_storage_t\<close> of \<open>dart_types.h\<close>.\<close>

datatype dart_datatype_t = DART_TYPE_UNDEFINED | DART_TYPE_BYTE | DART_TYPE_SHORT | DART_TYPE_INT
  | DART_TYPE_UINT | DART_TYPE_LONG | DART_TYPE_ULONG | DART_TYPE_LONGLONG | DART_TYPE_ULONGLONG
  | DART_TYPE_FLOAT | DART_TYPE_DOUBLE | DART_TYPE_LONG_DOUBLE

record dart_storage_t =
  dtype :: dart_datatype_t
  nelem :: size_t

text \<open>The size in bytes of one element of a DART type on the 64-bit targets.\<close>

fun dart_datatype_size :: "dart_datatype_t \<Rightarrow> nat" where
  "dart_datatype_size DART_TYPE_UNDEFINED = 0"
| "dart_datatype_size DART_TYPE_BYTE = 1"
| "dart_datatype_size DART_TYPE_SHORT = 2"
| "dart_datatype_size DART_TYPE_INT = 4"
| "dart_datatype_size DART_TYPE_UINT = 4"
| "dart_datatype_size DART_TYPE_LONG = 8"
| "dart_datatype_size DART_TYPE_ULONG = 8"
| "dart_datatype_size DART_TYPE_LONGLONG = 8"
| "dart_datatype_size DART_TYPE_ULONGLONG = 8"
| "dart_datatype_size DART_TYPE_FLOAT = 4"
| "dart_datatype_size DART_TYPE_DOUBLE = 8"
| "dart_datatype_size DART_TYPE_LONG_DOUBLE = 16"

text \<open>
  The C++ element types the trait is specialised for, and any other type with its
  \<open>sizeof\<close>.
\<close>

datatype ctype = C_char | C_int | C_uint | C_float | C_long | C_ulong | C_double | C_other nat

fun sizeof :: "ctype \<Rightarrow> nat" where
  "sizeof C_char = 1"
| "sizeof C_int = 4"
| "sizeof C_uint = 4"
| "sizeof C_float = 4"
| "sizeof C_long = 8"
| "sizeof C_ulong = 8"
| "sizeof C_double = 8"
| "sizeof (C_other n) = n"

text \<open>
  The values \<open>Types.cc\<close> gives the seven specialisations of \<open>dart_datatype<T>::value\<close>.
  \<open>Types.h\<close> only declares them; \<open>dart_datatype\<close> takes the table as a parameter.
\<close>

fun dart_datatype_values :: "ctype \<Rightarrow> dart_datatype_t" where
  "dart_datatype_values C_char = DART_TYPE_BYTE"
| "dart_datatype_values C_int = DART_TYPE_INT"
| "dart_datatype_values C_uint = DART_TYPE_UINT"
| "dart_datatype_values C_float = DART_TYPE_FLOAT"
| "dart_datatype_values C_long = DART_TYPE_LONG"
| "dart_datatype_values C_ulong = DART_TYPE_ULONG"
| "dart_datatype_values C_double = DART_TYPE_DOUBLE"
| "dart_datatype_values (C_other n) = DART_TYPE_UNDEFINED"

text \<open>
  \<open>dart_datatype<T>::value\<close>: \<open>DART_TYPE_UNDEFINED\<close> from the primary template, the
  specialisation's value for the seven specialised types.
\<close>

definition dart_datatype :: "(ctype \<Rightarrow> dart_datatype_t) \<Rightarrow> ctype \<Rightarrow> dart_datatype_t" where
  "dart_datatype values T = (case T of C_other _ \<Rightarrow> DART_TYPE_UNDEFINED | _ \<Rightarrow> values T)"

text \<open>
  \<open>dart_storage<T>(nvalues)\<close>: \<open>ds.nelem = nvalues\<close> converts the \<open>int\<close> to \<open>size_t\<close>
  (sign extension, \<open>scast\<close>); for an undefined type the storage is \<open>nvalues * sizeof(T)\<close>
  bytes, where the \<open>int\<close> is converted to \<open>size_t\<close> before the product, which wraps
  modulo \<open>2^64\<close>.
\<close>

definition dart_storage :: "(ctype \<Rightarrow> dart_datatype_t) \<Rightarrow> ctype \<Rightarrow> 32 word \<Rightarrow> dart_storage_t" where
  "dart_storage values T nvalues =
     (let ds = \<lparr>dtype = dart_datatype values T, nelem = scast nvalues\<rparr>
      in if DART_TYPE_UNDEFINED = dtype ds
         then ds\<lparr>dtype := DART_TYPE_BYTE, nelem := scast nvalues * of_nat (sizeof T)\<rparr>
         else ds)"

section \<open>Unit ids\<close>

text \<open>
  \<open>local_unit_t\<close> and \<open>global_unit_t\<close> are \<open>dash::unit_id\<close> of the scopes
  \<open>local_unit\<close> and \<open>global_unit\<close> (\<open>dash/internal/Unit.h\<close>): a \<open>dart_unit_t\<close>
  (\<open>int32_t\<close>) tagged with its scope. \<open>DART_UNDEFINED_UNIT_ID\<close> is \<open>-1\<close>.
\<close>

datatype unit_scope = local_unit | global_unit

record unit_id =
  uscope :: unit_scope
  uid :: "32 word"

definition DART_UNDEFINED_UNIT_ID :: "32 word" where
  "DART_UNDEFINED_UNIT_ID = -1"

definition UNDEFINED_LOCAL_UNIT_ID :: unit_id where
  "UNDEFINED_LOCAL_UNIT_ID = \<lparr>uscope = local_unit, uid = DART_UNDEFINED_UNIT_ID\<rparr>"

definition UNDEFINED_GLOBAL_UNIT_ID :: unit_id where
  "UNDEFINED_GLOBAL_UNIT_ID = \<lparr>uscope = global_unit, uid = DART_UNDEFINED_UNIT_ID\<rparr>"

section \<open>Properties\<close>

text \<open>Sign extension of an \<open>int\<close> to \<open>size_t\<close>.\<close>

lemma unat_scast_nonneg: "0 \<le> sint (n :: 32 word) \<Longrightarrow> unat (scast n :: 64 word) = nat (sint n)"
proof -
  assume h: "0 \<le> sint n"
  have "uint (scast n :: 64 word) = sint n mod 2 ^ 64" unfolding scast_32_64 uint_word_of_int by (simp add: take_bit_eq_mod)
  moreover have "sint n < 2 ^ 64" using sint_less [of n] by simp
  ultimately show ?thesis using h by (simp add: unat_eq_nat_uint mod_pos_pos_trivial)
qed

lemma unat_scast_neg: "sint (n :: 32 word) < 0 \<Longrightarrow> unat (scast n :: 64 word) = nat (2 ^ 64 + sint n)"
proof -
  assume h: "sint n < 0"
  have "uint (scast n :: 64 word) = sint n mod 2 ^ 64" unfolding scast_32_64 uint_word_of_int by (simp add: take_bit_eq_mod)
  moreover have "- (2 ^ 64) \<le> sint n" using sint_ge [of n] by simp
  ultimately show ?thesis using h mod_neg_shift [of "2 ^ 64" "sint n"] by (simp add: unat_eq_nat_uint add.commute)
qed

text \<open>\<open>dart_storage\<close> with the values of \<open>Types.cc\<close>, per type.\<close>

lemma dart_storage_cases:
  "dart_storage dart_datatype_values T n =
     (case T of C_other k \<Rightarrow> \<lparr>dtype = DART_TYPE_BYTE, nelem = scast n * of_nat k\<rparr>
      | _ \<Rightarrow> \<lparr>dtype = dart_datatype_values T, nelem = scast n\<rparr>)"
  by (cases T) (simp_all add: dart_storage_def dart_datatype_def)

text \<open>
  C23: for a non-negative count and an element type smaller than 4 GiB, \<open>dart_storage\<close> describes a defined DART type, and its elements cover exactly the bytes of the values.
\<close>

theorem dart_storage_bytes:
  assumes n: "0 \<le> sint n" and sz: "sizeof T < 2 ^ 32"
  shows "dtype (dart_storage dart_datatype_values T n) \<noteq> DART_TYPE_UNDEFINED
         \<and> unat (nelem (dart_storage dart_datatype_values T n)) * dart_datatype_size (dtype (dart_storage dart_datatype_values T n))
           = nat (sint n) * sizeof T"
proof (cases T)
  case (C_other k)
  have nb: "nat (sint n) < 2 ^ 31" using sint_less [of n] by simp
  have kb: "k < 2 ^ 32" using sz C_other by simp
  have "nat (sint n) * k < 2 ^ 31 * 2 ^ 32" by (rule mult_strict_mono [OF nb kb]) simp_all
  then have lt: "unat (scast n :: 64 word) * unat (of_nat k :: 64 word) < 2 ^ 64"
    using unat_scast_nonneg [OF n] kb by (simp add: unat_of_nat mod_less)
  have "unat (scast n * (of_nat k :: 64 word)) = unat (scast n :: 64 word) * unat (of_nat k :: 64 word)"
    by (rule unat_mult_lem [THEN iffD1]) (use lt in simp)
  then have "unat (scast n * (of_nat k :: 64 word)) = nat (sint n) * k"
    using unat_scast_nonneg [OF n] kb by (simp add: unat_of_nat mod_less)
  then show ?thesis using C_other by (simp add: dart_storage_cases)
qed (simp_all add: dart_storage_cases unat_scast_nonneg [OF n])

theorem dart_storage_bytes_witness:
  "dtype (dart_storage dart_datatype_values C_double 3) = DART_TYPE_DOUBLE
   \<and> unat (nelem (dart_storage dart_datatype_values C_double 3)) * 8 = 24"
  using dart_storage_bytes [of 3 C_double] by (simp add: dart_storage_cases)

text \<open>
  A negative count is not rejected: for a specialised type it is sign-extended into a
  \<open>size_t\<close> element count close to \<open>2^64\<close>.
\<close>

theorem dart_storage_negative:
  assumes "sint n < 0" "dart_datatype_values T \<noteq> DART_TYPE_UNDEFINED"
  shows "unat (nelem (dart_storage dart_datatype_values T n)) = nat (2 ^ 64 + sint n)"
  using assms by (cases T) (simp_all add: dart_storage_cases unat_scast_neg)

theorem dart_storage_negative_witness:
  "unat (nelem (dart_storage dart_datatype_values C_int (-1))) = 2 ^ 64 - 1"
  using dart_storage_negative [of "-1" C_int] by simp

end
