(* ===== verification/Fixture.thy ===== *)
theory Fixture
  imports Types
begin

text \<open>
  The test fixture \<open>DARTActiveMessagesTest\<close> (\<open>src/unnamed/part_003\<close>): two
  \<open>size_t\<close> fields, zeroed by the constructor and set by \<open>SetUp()\<close> from
  \<open>dash::myid()\<close> (a \<open>global_unit_t\<close>, converted through its \<open>dart_unit_t\<close>) and
  \<open>dash::size()\<close>. \<open>TestBase::SetUp\<close> and the log messages are outside the sources and
  leave these fields alone; the team is the environment record \<open>dash_team\<close>.
\<close>

record DARTActiveMessagesTest =
  m_dash_id :: size_t
  m_dash_size :: size_t

record dash_team =
  dash_myid :: unit_id
  dash_size :: size_t

definition DARTActiveMessagesTest_new :: DARTActiveMessagesTest where
  "DARTActiveMessagesTest_new = \<lparr>m_dash_id = 0, m_dash_size = 0\<rparr>"

definition SetUp :: "dash_team \<Rightarrow> DARTActiveMessagesTest \<Rightarrow> DARTActiveMessagesTest" where
  "SetUp team f = f\<lparr>m_dash_id := scast (uid (dash_myid team)), m_dash_size := dash_size team\<rparr>"

section \<open>Properties\<close>

text \<open>
  After \<open>SetUp\<close> the fixture holds the unit's id and the team size; an undefined unit id
  would be stored as \<open>2^64 - 1\<close>, which no test compares against.
\<close>

lemma SetUp_fields:
  assumes "0 \<le> sint (uid (dash_myid team))"
  shows "unat (m_dash_id (SetUp team DARTActiveMessagesTest_new)) = nat (sint (uid (dash_myid team)))
         \<and> m_dash_size (SetUp team DARTActiveMessagesTest_new) = dash_size team"
  using assms by (simp add: SetUp_def DARTActiveMessagesTest_new_def unat_scast_nonneg)

lemma SetUp_undefined_unit:
  "m_dash_id (SetUp \<lparr>dash_myid = UNDEFINED_GLOBAL_UNIT_ID, dash_size = 4\<rparr> DARTActiveMessagesTest_new) = - 1"
  by (simp add: SetUp_def UNDEFINED_GLOBAL_UNIT_ID_def DART_UNDEFINED_UNIT_ID_def)

end
