(* ===== verification/Runtime.thy ===== *)
theory Runtime
  imports Scheduler
begin

text \<open>
  Start-up and tear-down of the tasking runtime (\<open>dart_tasking.c\<close>, lines 345--2245 of
  \<open>dart_tasking_instrumentation.c\<close>): \<open>dart__tasking__init\<close> with the thread-idle
  configuration and \<open>init_threadpool\<close>, \<open>start_threads\<close> and the start-up of a worker in
  \<open>thread_main\<close>, the idle logic of the worker loop, \<open>stop_threads\<close>,
  \<open>destroy_threadpool\<close> and \<open>dart__tasking__fini\<close>, and the utility threads. The
  scheduler state is the \<open>sched\<close> record of the \<open>Scheduler\<close> theory; the static
  variables it does not hold are the fields of \<open>rt\<close>. Calls into modules outside the
  sources (contexts, affinity, data dependencies, waiting, copy-in, cancellation, the
  signal handler, pthreads) are recorded in program order in \<open>rt_trace\<close>. What the
  environment and the hardware answer is the record \<open>rt_env\<close>.
\<close>

section \<open>Configuration\<close>

datatype dart_thread_idle_t = DART_THREAD_IDLE_POLL | DART_THREAD_IDLE_USLEEP | DART_THREAD_IDLE_WAIT

definition thread_idle_env :: "(string \<times> dart_thread_idle_t) list" where
  "thread_idle_env =
     [(''POLL'', DART_THREAD_IDLE_POLL), (''USLEEP'', DART_THREAD_IDLE_USLEEP), (''WAIT'', DART_THREAD_IDLE_WAIT)]"

text \<open>
  \<open>dart__base__env__str2int\<close> (\<open>base/env.c\<close>, not in the sources): the value of the
  table entry whose string is the variable's value, the default when the variable is
  unset or matches no entry.
\<close>

definition dart__base__env__str2int :: "string option \<Rightarrow> (string \<times> 'a) list \<Rightarrow> 'a \<Rightarrow> 'a" where
  "dart__base__env__str2int v tbl dflt =
     (case v of None \<Rightarrow> dflt | Some s \<Rightarrow> (case map_of tbl s of Some a \<Rightarrow> a | None \<Rightarrow> dflt))"

definition IDLE_THREAD_GRACE_USEC :: int where
  "IDLE_THREAD_GRACE_USEC = 1000"

definition IDLE_THREAD_DEFAULT_USLEEP :: "64 word" where
  "IDLE_THREAD_DEFAULT_USLEEP = 1000"

text \<open>
  What the environment variables, \<open>dart_hwinfo\<close>, the affinity module, the team and
  \<open>pthread_create\<close> answer. \<open>affinity_set k\<close> is the core a thread is bound to when
  asked for slot \<open>k\<close>; \<open>env_idle_sleep_us\<close> is already defaulted to
  \<open>IDLE_THREAD_DEFAULT_USLEEP\<close> by \<open>dart__base__env__us\<close>.
\<close>

record rt_env =
  env_thread_idle :: "string option"
  env_place_numa :: bool
  env_numthreads :: "32 word"
  hw_num_cores :: "32 word"
  hw_max_threads :: "32 word"
  env_affinity :: bool
  env_idle_sleep_us :: "64 word"
  affinity_num_numa_nodes :: nat
  affinity_num_cores :: int
  affinity_set :: "nat \<Rightarrow> nat"
  core_numa_node :: "nat \<Rightarrow> nat"
  dart_team_size_all :: nat
  THREAD_QUEUE_SIZE :: nat
  create_ok :: "nat \<Rightarrow> bool"

text \<open>Calls into modules outside the sources, in the order the runtime makes them.\<close>

datatype rt_event = Ev_context_init | Ev_affinity_init | Ev_datadeps_init | Ev_wait_init
  | Ev_copyin_init | Ev_cancellation_init | Ev_install_signalhandler
  | Ev_affinity_bind nat nat | Ev_pthread_create nat | Ev_pthread_create_failed nat
  | Ev_wakeup_all | Ev_pthread_join nat | Ev_print_stats | Ev_datadeps_reset_root
  | Ev_datadeps_fini | Ev_context_cleanup | Ev_affinity_fini | Ev_taskqueue_finalize nat
  | Ev_wait_fini | Ev_copyin_fini | Ev_tasklist_fini | Ev_cancellation_fini
  | Ev_affinity_bind_utility int | Ev_pthread_create_utility | Ev_pthread_create_utility_failed

text \<open>
  The static variables of \<open>dart_tasking.c\<close> the \<open>sched\<close> record does not hold:
  \<open>initialized\<close>, \<open>parallel\<close>, the idle method and sleep time (\<open>tv_sec\<close>,
  \<open>tv_nsec\<close>), \<open>bind_threads\<close>, \<open>worker_poll_remote\<close>, \<open>num_utility_threads\<close>, and
  the number of entries of \<open>rt_task_free_lists\<close> and \<open>rt_thread_task_mempool\<close> (\<open>None\<close>: NULL).
\<close>

record 't rt =
  rs :: "'t sched"
  initialized :: bool
  parallel :: bool
  thread_idle_method :: dart_thread_idle_t
  thread_idle_sleeptime :: "64 word \<times> 64 word"
  bind_threads :: bool
  worker_poll_remote :: bool
  num_utility_threads :: "32 word"
  rt_task_free_lists :: "nat option"
  rt_thread_task_mempool :: "nat option"
  rt_trace :: "rt_event list"

definition rt_log :: "'t rt \<Rightarrow> rt_event list \<Rightarrow> 't rt" where
  "rt_log x evs = x\<lparr>rt_trace := rt_trace x @ evs\<rparr>"

definition set_rs :: "'t rt \<Rightarrow> ('t sched \<Rightarrow> 't sched) \<Rightarrow> 't rt" where
  "set_rs x f = x\<lparr>rs := f (rs x)\<rparr>"

section \<open>Threads\<close>

text \<open>
  \<open>dart_thread_init\<close> on a zeroed \<open>dart_thread_t\<close>: empty slots, no handed-over task,
  \<open>last_steal_thread_id = 0\<close>, NUMA node 0, not a utility thread. The thread id is the
  index in the thread pool; \<open>current_task = &root_task\<close> is set by the callers, which
  repeat it with \<open>set_current_task\<close>.
\<close>

definition dart_thread_init :: "rt_env \<Rightarrow> 't thread_info" where
  "dart_thread_init E =
     \<lparr>tqueue = replicate (THREAD_QUEUE_SIZE E) None, next_task_slot = None, last_steal = 0, numa_id = 0,
      is_utility = False, tdelay = 0, last_progress_ts = 0\<rparr>"

text \<open>
  \<open>init_threadpool(n)\<close>: bind the master thread to the core \<open>affinity_set\<close> gives for slot 0,
  allocate \<open>n\<close> NULL entries and publish the master thread in entry 0, on the NUMA node of its
  core when \<open>respect_numa\<close>. Writing entry 0 of a zero-length array is undefined.
\<close>

definition init_threadpool :: "rt_env \<Rightarrow> nat \<Rightarrow> 't rt \<Rightarrow> 't rt res" where
  "init_threadpool E n x =
     (let core_id = (if bind_threads x then affinity_set E 0 else 0);
          s = rs x;
          master = (dart_thread_init E)\<lparr>numa_id := (if respect_numa s then core_numa_node E core_id else 0)\<rparr>
      in if n = 0 then Inl Invalid_pointer
         else Inr ((if bind_threads x then rt_log x [Ev_affinity_bind 0 0] else x)\<lparr>rs := s\<lparr>thread_pool := (\<lambda>_. None)(0 := Some master),
                             current_task := (current_task s)(0 := root_task s)\<rparr>\<rparr>))"

text \<open>
  The start-up of worker \<open>i\<close> in \<open>thread_main\<close>: bind it (to slot
  \<open>i + num_utility_threads\<close> when there are more cores than utility and worker threads,
  else to slot \<open>i\<close>), initialise its data with \<open>core_id = 0\<close> (the core it was bound to is
  not read back), take the NUMA node of that core when \<open>respect_numa\<close>, publish it in the
  thread pool and make the root task current.
\<close>

definition thread_main_start :: "rt_env \<Rightarrow> nat \<Rightarrow> 't rt \<Rightarrow> 't rt" where
  "thread_main_start E i x =
     (let s = rs x;
          x1 = (if bind_threads x
                then rt_log x [Ev_affinity_bind i
                       (if int (num_threads s) + sint (num_utility_threads x) < affinity_num_cores E
                        then nat (int i + sint (num_utility_threads x)) else i)]
                else x);
          core_id = 0;
          thr = (dart_thread_init E)\<lparr>numa_id := (if respect_numa s then core_numa_node E core_id else 0)\<rparr>
      in x1\<lparr>rs := s\<lparr>thread_pool := (thread_pool s)(i := Some thr), current_task := (current_task s)(i := root_task s)\<rparr>\<rparr>)"

text \<open>
  \<open>start_threads(n)\<close>: assert that no threads run, compute the idle sleep time
  (\<open>tv_sec = us / 1000000\<close>, \<open>tv_nsec = (us - tv_sec * 1000000) * 1000\<close> on
  \<open>uint64_t\<close>), create the workers \<open>1 .. n-1\<close> (a failed \<open>pthread_create\<close> is only
  logged) and set \<open>threads_running\<close>. The workers run \<open>thread_main_start\<close> on their own.
\<close>

definition idle_sleeptime :: "64 word \<Rightarrow> 64 word \<times> 64 word" where
  "idle_sleeptime us = (let sec = us div (1000 * 1000) in (sec, (us - sec * 1000 * 1000) * 1000))"

definition start_threads :: "rt_env \<Rightarrow> nat \<Rightarrow> 't rt \<Rightarrow> 't rt res" where
  "start_threads E n x =
     sbind (dart_assert (\<not> threads_running (rs x)))
       (\<lambda>_. let x1 = (if thread_idle_method x = DART_THREAD_IDLE_USLEEP
                      then x\<lparr>thread_idle_sleeptime := idle_sleeptime (env_idle_sleep_us E)\<rparr> else x);
                x2 = rt_log x1 (map (\<lambda>i. if create_ok E i then Ev_pthread_create i else Ev_pthread_create_failed i) [1..<n])
            in Inr (set_rs x2 (\<lambda>s. s\<lparr>threads_running := True\<rparr>)))"

section \<open>The state at load time\<close>

text \<open>
  The static initialisers of \<open>dart_tasking.c\<close>: the root task (state \<open>ROOT\<close>, default
  priority, no parent, flags and children), no thread pool, \<open>num_numa_nodes = 1\<close>, every
  flag false and every count 0; \<open>local_deferred_tasks\<close> is a zeroed static of the
  data-dependency module. \<open>other\<close> is the content of task memory not yet handed out.
\<close>

definition root_task_info :: "'t task_info" where
  "root_task_info = \<lparr>tstate = DART_TASK_ROOT, tflags = {}, tprio = DART_PRIO_DEFAULT, tparent = None, tphase = 0,
                      num_children = 0, numa_node = None, tinstance = 0, has_wait_handle = False\<rparr>"

definition rt_load :: "'t \<Rightarrow> ('t \<Rightarrow> 't task_info) \<Rightarrow> 't rt" where
  "rt_load root other =
     \<lparr>rs = \<lparr>tasks = other(root := root_task_info), links = \<lparr>tnext = Map.empty, tprev = Map.empty\<rparr>,
            task_queue = \<lambda>_. dart_tasking_taskqueue_init, deferred = dart_tasking_taskqueue_init,
            thread_pool = \<lambda>_. None, num_threads = 0, num_numa_nodes = 1, current_task = \<lambda>_. root,
            root_task = root, cancel_requested = False, threads_running = False, respect_numa = False,
            num_units = 0, phase_cur = 0, phase_ntasks = \<lambda>_. 0\<rparr>,
      initialized = False, parallel = False, thread_idle_method = DART_THREAD_IDLE_POLL,
      thread_idle_sleeptime = (0, 0), bind_threads = False, worker_poll_remote = False,
      num_utility_threads = 0, rt_task_free_lists = None, rt_thread_task_mempool = None, rt_trace = []\<rparr>"

text \<open>The thread count \<open>dart__tasking__init\<close> takes from \<open>determine_num_threads\<close>.\<close>

abbreviation init_nthreads :: "rt_env \<Rightarrow> 32 word" where
  "init_nthreads E \<equiv> determine_num_threads (env_numthreads E) (hw_num_cores E) (hw_max_threads E)"

text \<open>Every published thread has empty slots, no handed-over task and has stolen from thread 0.\<close>

definition idle_threads :: "'t sched \<Rightarrow> bool" where
  "idle_threads s \<longleftrightarrow> (\<forall>k thr. thread_pool s k = Some thr \<longrightarrow>
     set (tqueue thr) \<subseteq> {None} \<and> next_task_slot thr = None \<and> last_steal thr = 0)"

section \<open>Initialisation\<close>

text \<open>
  \<open>dart__tasking__init\<close>: refuse a second initialisation; read the idle method
  (default \<open>USLEEP\<close>), \<open>respect_numa\<close> and the thread count; allocate the free lists and
  the pool table; take the NUMA node count from the affinity module when
  \<open>respect_numa\<close> (otherwise keep the current value, 1 at load time); initialise the NUMA
  queues; set \<open>parallel\<close>; initialise the data-dependency module, which empties
  \<open>local_deferred_tasks\<close>; read \<open>bind_threads\<close>; set up the thread pool and the master
  thread; read the team size; initialise the remaining modules.
\<close>

definition dart__tasking__init :: "rt_env \<Rightarrow> 't rt \<Rightarrow> (dart_ret_t \<times> 't rt) res" where
  "dart__tasking__init E x =
     (if initialized x then Inr (DART_ERR_INVAL, x)
      else
        (let method = dart__base__env__str2int (env_thread_idle E) thread_idle_env DART_THREAD_IDLE_USLEEP;
             numa = env_place_numa E;
             n = determine_num_threads (env_numthreads E) (hw_num_cores E) (hw_max_threads E);
             nt = nat (sint n);
             s0 = rs x;
             nnodes = (if numa then affinity_num_numa_nodes E else num_numa_nodes s0);
             x1 = x\<lparr>rs := s0\<lparr>respect_numa := numa, num_threads := nt, num_numa_nodes := nnodes,
                             task_queue := (\<lambda>_. dart_tasking_taskqueue_init),
                             deferred := dart_tasking_taskqueue_init\<rparr>,
                    thread_idle_method := method, rt_task_free_lists := Some nt, rt_thread_task_mempool := Some nt,
                    parallel := True, bind_threads := env_affinity E,
                    rt_trace := rt_trace x @ [Ev_context_init, Ev_affinity_init, Ev_datadeps_init]\<rparr>
         in sbind (init_threadpool E nt x1)
              (\<lambda>x2. Inr (DART_OK,
                 rt_log ((set_rs x2 (\<lambda>s. s\<lparr>current_task := (current_task s)(0 := root_task s),
                                            num_units := dart_team_size_all E\<rparr>))\<lparr>initialized := True\<rparr>)
                   [Ev_wait_init, Ev_copyin_init, Ev_cancellation_init, Ev_install_signalhandler]))))"

section \<open>Tear-down\<close>

text \<open>
  \<open>stop_threads\<close>: clear \<open>parallel\<close> and wake all threads; then, for each worker
  \<open>1 .. n-1\<close>, wake all threads, spin until the worker has published itself in the
  thread pool and join it; clear \<open>threads_running\<close>. The spin is a wait for another
  thread: \<open>None\<close> is the state in which it waits for a worker that has not published
  itself.
\<close>

definition stop_threads :: "'t rt \<Rightarrow> 't rt option" where
  "stop_threads x =
     (let n = num_threads (rs x) in
      if list_all (\<lambda>i. thread_pool (rs x) i \<noteq> None) [1..<n]
      then Some (set_rs (rt_log (x\<lparr>parallel := False\<rparr>)
                         (Ev_wakeup_all # concat (map (\<lambda>i. [Ev_wakeup_all, Ev_pthread_join i]) [1..<n])))
                        (\<lambda>s. s\<lparr>threads_running := False\<rparr>))
      else None)"

text \<open>
  \<open>destroy_threadpool\<close>: finalise and free every thread, free the task memory pools and
  the two tables, and finalise the affinity module.
\<close>

definition destroy_threadpool :: "'t rt \<Rightarrow> 't rt" where
  "destroy_threadpool x =
     rt_log ((set_rs x (\<lambda>s. s\<lparr>thread_pool := (\<lambda>_. None)\<rparr>))\<lparr>rt_thread_task_mempool := None\<rparr>) [Ev_affinity_fini]"

text \<open>
  \<open>dart__tasking__fini\<close>: refuse when not initialised; stop the threads if they run;
  print the statistics; free the free lists; reset and finalise the data dependencies;
  clean up the contexts; destroy the thread pool; finalise the NUMA queues and the other
  modules; clear \<open>initialized\<close>.
\<close>

definition dart__tasking__fini :: "'t rt \<Rightarrow> (dart_ret_t \<times> 't rt) option" where
  "dart__tasking__fini x =
     (if \<not> initialized x then Some (DART_ERR_INVAL, x)
      else Option.bind (if threads_running (rs x) then stop_threads x else Some x)
             (\<lambda>x1. let x2 = rt_log x1 [Ev_print_stats];
                       x3 = rt_log (x2\<lparr>rt_task_free_lists := None\<rparr>)
                              [Ev_datadeps_reset_root, Ev_datadeps_fini, Ev_context_cleanup];
                       x4 = destroy_threadpool x3;
                       x5 = rt_log x4 (map Ev_taskqueue_finalize [0..<num_numa_nodes (rs x4)]
                                       @ [Ev_wait_fini, Ev_copyin_fini, Ev_tasklist_fini, Ev_cancellation_fini])
                   in Some (DART_OK, x5\<lparr>initialized := False\<rparr>)))"

section \<open>Thread numbers\<close>

text \<open>
  \<open>dart__tasking__thread_num\<close>: the calling thread's id, 0 for a thread without
  thread data (\<open>__tpd\<close> NULL); \<open>num_threads\<close>; \<open>num_tasks\<close> reads the root task's
  child counter.
\<close>

definition dart__tasking__thread_num :: "int option \<Rightarrow> int" where
  "dart__tasking__thread_num tpd = (case tpd of Some tid \<Rightarrow> tid | None \<Rightarrow> 0)"

definition dart__tasking__num_threads :: "'t rt \<Rightarrow> nat" where
  "dart__tasking__num_threads x = num_threads (rs x)"

definition dart__tasking__num_tasks :: "'t rt \<Rightarrow> int" where
  "dart__tasking__num_tasks x = num_children (tasks (rs x) (root_task (rs x)))"

text \<open>\<open>dart__tasking__root_task\<close> and \<open>dart__tasking__current_task\<close> of thread \<open>th\<close>.\<close>

definition dart__tasking__root_task :: "'t rt \<Rightarrow> 't" where
  "dart__tasking__root_task x = root_task (rs x)"

definition dart__tasking__current_task :: "nat \<Rightarrow> 't rt \<Rightarrow> 't" where
  "dart__tasking__current_task th x = current_task (rs x) th"

section \<open>The idle logic of the worker loop\<close>

text \<open>
  What a worker does after handling (or not finding) a task in one iteration of the loop
  of \<open>thread_main\<close>: thread 1 polls for remote messages when it found no task or
  when \<open>worker_poll_remote\<close> is set (forced when it found none); another worker without
  a task starts its idle period, or, once idle for more than
  \<open>IDLE_THREAD_GRACE_USEC\<close>, calls \<open>wait_for_work\<close> and leaves the idle period, and in
  both cases sleeps \<open>100us\<close>; a worker that found a task leaves the idle period. Times
  are microseconds of \<open>CLOCK_MONOTONIC\<close> (\<open>CLOCK_DIFF_USEC\<close> computes the difference).
\<close>

datatype idle_action = Idle_remote_progress bool | Idle_wait_for_work | Idle_cond_wait
  | Idle_usleep "64 word \<times> 64 word" | Idle_nanosleep_grace

record idle_state =
  in_idle :: bool
  begin_idle_ts :: int

text \<open>
  \<open>wait_for_work(method)\<close>: wait on \<open>task_avail_cond\<close> while \<open>parallel\<close> holds (the
  \<open>WAIT\<close> method), sleep for \<open>thread_idle_sleeptime\<close> (\<open>USLEEP\<close>), or return (\<open>POLL\<close>).
\<close>

definition wait_for_work :: "'t rt \<Rightarrow> dart_thread_idle_t \<Rightarrow> idle_action list" where
  "wait_for_work x method =
     (if method = DART_THREAD_IDLE_WAIT then (if parallel x then [Idle_cond_wait] else [])
      else if method = DART_THREAD_IDLE_USLEEP then [Idle_usleep (thread_idle_sleeptime x)]
      else [])"

definition thread_main_idle ::
  "'t rt \<Rightarrow> dart_thread_idle_t \<Rightarrow> nat \<Rightarrow> bool \<Rightarrow> int \<Rightarrow> idle_state \<Rightarrow> idle_action list \<times> idle_state" where
  "thread_main_idle x method threadid got_task now st =
     (if (\<not> got_task \<or> worker_poll_remote x) \<and> threadid = 1 then ([Idle_remote_progress (\<not> got_task)], st)
      else if \<not> got_task then
        (if \<not> in_idle st then ([Idle_nanosleep_grace], st\<lparr>in_idle := True, begin_idle_ts := now\<rparr>)
         else if IDLE_THREAD_GRACE_USEC < now - begin_idle_ts st
         then (Idle_wait_for_work # wait_for_work x method @ [Idle_nanosleep_grace], st\<lparr>in_idle := False\<rparr>)
         else ([Idle_nanosleep_grace], st))
      else ([], st\<lparr>in_idle := False\<rparr>))"

text \<open>
  Successive iterations: whether each found a task and the clock when it reached the idle
  logic, oldest first; the result lists each iteration's actions.
\<close>

fun idle_run ::
  "'t rt \<Rightarrow> dart_thread_idle_t \<Rightarrow> nat \<Rightarrow> (bool \<times> int) list \<Rightarrow> idle_state \<Rightarrow> idle_action list list \<times> idle_state" where
  "idle_run x method threadid [] st = ([], st)"
| "idle_run x method threadid ((g, t) # rest) st =
     (let (a, st1) = thread_main_idle x method threadid g t st;
          (as, st2) = idle_run x method threadid rest st1
      in (a # as, st2))"

section \<open>Utility threads\<close>

text \<open>
  \<open>utility_thread_main\<close>: take the id \<open>++num_utility_threads\<close>, assert that it is at most
  \<open>DART_TASKING_MAX_UTILITY_THREADS\<close> (a build constant, here \<open>max_ut\<close>), bind the
  thread like a worker when there are enough cores and to the utility slot \<open>-thread_id\<close>
  otherwise, and initialise its thread data with id \<open>-thread_id\<close> as a utility thread. The
  result is the thread id, the thread data and the runtime; the utility function then runs
  and the thread data is freed.
\<close>

definition utility_thread_main ::
  "rt_env \<Rightarrow> int \<Rightarrow> 't rt \<Rightarrow> (int \<times> 't thread_info \<times> 't rt) res" where
  "utility_thread_main E max_ut x =
     (let thread_id = num_utility_threads x + 1;
          x1 = x\<lparr>num_utility_threads := thread_id\<rparr>;
          tid = sint thread_id
      in sbind (dart_assert (tid \<le> max_ut))
           (\<lambda>_. let x2 = (if bind_threads x1
                           then (if int (num_threads (rs x1)) + tid < affinity_num_cores E
                                 then rt_log x1 [Ev_affinity_bind (nat tid) (nat tid)]
                                 else rt_log x1 [Ev_affinity_bind_utility (- tid)])
                           else x1)
                in Inr (- tid, (dart_thread_init E)\<lparr>is_utility := True\<rparr>, x2)))"

text \<open>
  \<open>dart__tasking__utility_thread\<close>: create a thread running \<open>utility_thread_main\<close>; a
  failed \<open>pthread_create\<close> is only logged.
\<close>

definition dart__tasking__utility_thread :: "bool \<Rightarrow> 't rt \<Rightarrow> 't rt" where
  "dart__tasking__utility_thread ok x =
     rt_log x [if ok then Ev_pthread_create_utility else Ev_pthread_create_utility_failed]"

text \<open>
  \<open>++num_utility_threads\<close> on a plain \<open>static int\<close> is a load and a store. Two utility
  threads started one after the other run \<open>utility_thread_main\<close> concurrently: the step
  relation interleaves their loads and stores of the counter. \<open>UT_done v\<close>: the thread took
  id \<open>v\<close>.
\<close>

datatype ut_pc = UT_load | UT_store "32 word" | UT_done "32 word"

inductive ut_step :: "32 word \<times> (nat \<Rightarrow> ut_pc) \<Rightarrow> 32 word \<times> (nat \<Rightarrow> ut_pc) \<Rightarrow> bool" where
  ut_load: "pcs k = UT_load \<Longrightarrow> ut_step (c, pcs) (c, pcs(k := UT_store c))"
| ut_store: "pcs k = UT_store v \<Longrightarrow> ut_step (c, pcs) (v + 1, pcs(k := UT_done (v + 1)))"

section \<open>Start-up of the workers\<close>

text \<open>
  After \<open>start_threads(n)\<close> the workers \<open>1 .. n-1\<close> whose \<open>pthread_create\<close> succeeded
  run their start-up in any order; \<open>rt_start_step\<close> is one of them publishing itself.
\<close>

definition pending_workers :: "rt_env \<Rightarrow> nat \<Rightarrow> nat set" where
  "pending_workers E n = {i. 0 < i \<and> i < n \<and> create_ok E i}"

inductive rt_start_step :: "rt_env \<Rightarrow> 't rt \<times> nat set \<Rightarrow> 't rt \<times> nat set \<Rightarrow> bool" for E where
  worker_start: "i \<in> P \<Longrightarrow> rt_start_step E (x, P) (thread_main_start E i x, P - {i})"

section \<open>An example host\<close>

text \<open>
  \<open>DART_NUMTHREADS=2\<close> on four cores with one hardware thread each, no NUMA placement
  and no binding, a single unit, two slots per thread, and \<open>pthread_create\<close>
  succeeding for the threads \<open>ok\<close> admits.
\<close>

definition example_env :: "(nat \<Rightarrow> bool) \<Rightarrow> rt_env" where
  "example_env ok =
     \<lparr>env_thread_idle = None, env_place_numa = False, env_numthreads = 2, hw_num_cores = 4, hw_max_threads = 1,
      env_affinity = False, env_idle_sleep_us = 1000, affinity_num_numa_nodes = 1, affinity_num_cores = 4,
      affinity_set = \<lambda>k. k, core_numa_node = \<lambda>k. k div 2, dart_team_size_all = 1, THREAD_QUEUE_SIZE = 2,
      create_ok = ok\<rparr>"

section \<open>Properties\<close>

text \<open>
  The idle sleep time \<open>start_threads\<close> computes is exact: \<open>tv_nsec\<close> is below a second and \<open>tv_sec\<close> seconds plus \<open>tv_nsec\<close> nanoseconds are the configured microseconds, for every 64-bit value.
\<close>

lemma idle_sleeptime_exact:
  "unat (snd (idle_sleeptime us)) < 1000000000
   \<and> unat (fst (idle_sleeptime us)) * 1000000 + unat (snd (idle_sleeptime us)) div 1000 = unat us"
proof -
  have d: "us div 1000000 * 1000000 + us mod 1000000 = us" by (rule div_mult_mod_eq)
  have r: "us - us div 1000000 * 1000000 = us mod 1000000" using d by (simp add: algebra_simps)
  have m: "unat (us mod 1000000) < 1000000" by (simp add: unat_mod)
  have p: "unat (us mod 1000000 * 1000) = unat (us mod 1000000) * 1000"
    using m by (simp add: unat_mult_lem [THEN iffD1])
  have q: "unat (us div 1000000) = unat us div 1000000" by (simp add: unat_div)
  have e1: "fst (idle_sleeptime us) = us div 1000000" by (simp add: idle_sleeptime_def Let_def)
  have "snd (idle_sleeptime us) = (us - us div (1000 * 1000) * 1000 * 1000) * 1000"
    unfolding idle_sleeptime_def Let_def by (simp only: snd_conv)
  also have "us div (1000 * 1000) * 1000 * 1000 = us div 1000000 * (1000000 :: 64 word)" by simp
  finally have e2: "snd (idle_sleeptime us) = us mod 1000000 * 1000" by (simp only: r)
  have u: "unat us div 1000000 * 1000000 + unat us mod 1000000 = unat us" by (rule div_mult_mod_eq)
  show ?thesis
    unfolding e1 e2 p q using m u by (simp add: unat_mod)
qed


lemma dart__tasking__init_refused: "initialized x \<Longrightarrow> dart__tasking__init E x = Inr (DART_ERR_INVAL, x)"
  by (simp add: dart__tasking__init_def)

lemma dart__tasking__fini_refused: "\<not> initialized x \<Longrightarrow> dart__tasking__fini x = Some (DART_ERR_INVAL, x)"
  by (simp add: dart__tasking__fini_def)


lemma dart__tasking__init_no_threads:
  "\<not> initialized x \<Longrightarrow> sint (init_nthreads E) \<le> 0 \<Longrightarrow> dart__tasking__init E x = Inl Invalid_pointer"
  by (simp add: dart__tasking__init_def init_threadpool_def Let_def)

lemma tq_inv_init [simp]: "tq_inv L dart_tasking_taskqueue_init ([], [])"
  by (simp add: tq_inv_def dart_tasking_taskqueue_init_def empty_deque_def)

lemma queues_inv_init:
  "task_queue s = (\<lambda>_. dart_tasking_taskqueue_init) \<Longrightarrow> deferred s = dart_tasking_taskqueue_init \<Longrightarrow>
   queues_inv s (\<lambda>_. ([], [])) ([], [])"
  by (simp add: queues_inv_def qset_def)

text \<open>
  A first \<open>dart__tasking__init\<close> with a positive thread count succeeds; the fields it sets.
\<close>

lemma dart__tasking__init_ok:
  assumes "\<not> initialized x" "0 < sint (init_nthreads E)"
  obtains x' where "dart__tasking__init E x = Inr (DART_OK, x')"
    "initialized x'" "parallel x'" "num_threads (rs x') = nat (sint (init_nthreads E))"
    "task_queue (rs x') = (\<lambda>_. dart_tasking_taskqueue_init)" "deferred (rs x') = dart_tasking_taskqueue_init"
    "thread_pool (rs x') = (\<lambda>_. None)(0 := Some ((dart_thread_init E)\<lparr>numa_id :=
        (if env_place_numa E then core_numa_node E (if env_affinity E then affinity_set E 0 else 0) else 0)\<rparr>))"
    "current_task (rs x') 0 = root_task (rs x')" "root_task (rs x') = root_task (rs x)"
    "threads_running (rs x') = threads_running (rs x)"
    "num_numa_nodes (rs x') = (if env_place_numa E then affinity_num_numa_nodes E else num_numa_nodes (rs x))"
    "respect_numa (rs x') = env_place_numa E" "bind_threads x' = env_affinity E"
    "num_utility_threads x' = num_utility_threads x"
  using assms by (simp add: dart__tasking__init_def init_threadpool_def Let_def set_rs_def rt_log_def)


lemma dart__tasking__fini_stopped:
  assumes "initialized x" "\<not> threads_running (rs x)"
  shows "dart__tasking__fini x = Some (DART_OK,
           rt_log ((set_rs x (\<lambda>s. s\<lparr>thread_pool := (\<lambda>_. None)\<rparr>))\<lparr>rt_task_free_lists := None, rt_thread_task_mempool := None, initialized := False\<rparr>)
             ([Ev_print_stats, Ev_datadeps_reset_root, Ev_datadeps_fini, Ev_context_cleanup, Ev_affinity_fini]
              @ map Ev_taskqueue_finalize [0..<num_numa_nodes (rs x)]
              @ [Ev_wait_fini, Ev_copyin_fini, Ev_tasklist_fini, Ev_cancellation_fini]))"
  using assms by (simp add: dart__tasking__fini_def destroy_threadpool_def rt_log_def set_rs_def)

text \<open>
  C27: \<open>dart__tasking__init\<close> followed by \<open>dart__tasking__fini\<close> (no threads started) returns \<open>DART_OK\<close> twice and leaves an uninitialised runtime without a thread pool, which a second \<open>dart__tasking__init\<close> initialises again; the NUMA node count of the first initialisation survives unless the second one sets it.
\<close>

theorem init_fini_roundtrip:
  assumes "\<not> initialized x" "\<not> threads_running (rs x)" "0 < sint (init_nthreads E)" "0 < sint (init_nthreads E')"
  shows "\<exists>x1 x2 x3. dart__tasking__init E x = Inr (DART_OK, x1) \<and> dart__tasking__fini x1 = Some (DART_OK, x2)
           \<and> \<not> initialized x2 \<and> thread_pool (rs x2) = (\<lambda>_. None) \<and> dart__tasking__init E' x2 = Inr (DART_OK, x3)
           \<and> num_numa_nodes (rs x3) = (if env_place_numa E' then affinity_num_numa_nodes E' else num_numa_nodes (rs x1))"
proof -
  obtain x1 where i1: "dart__tasking__init E x = Inr (DART_OK, x1)" "initialized x1"
      "threads_running (rs x1) = threads_running (rs x)"
    using dart__tasking__init_ok [OF assms(1,3)] by metis
  define x2 where "x2 = rt_log ((set_rs x1 (\<lambda>s. s\<lparr>thread_pool := (\<lambda>_. None)\<rparr>))\<lparr>rt_task_free_lists := None, rt_thread_task_mempool := None, initialized := False\<rparr>)
             ([Ev_print_stats, Ev_datadeps_reset_root, Ev_datadeps_fini, Ev_context_cleanup, Ev_affinity_fini]
              @ map Ev_taskqueue_finalize [0..<num_numa_nodes (rs x1)]
              @ [Ev_wait_fini, Ev_copyin_fini, Ev_tasklist_fini, Ev_cancellation_fini])"
  have f: "dart__tasking__fini x1 = Some (DART_OK, x2)"
    using dart__tasking__fini_stopped [of x1] i1 assms(2) by (simp add: x2_def)
  have x2: "\<not> initialized x2" "thread_pool (rs x2) = (\<lambda>_. None)" "num_numa_nodes (rs x2) = num_numa_nodes (rs x1)"
    by (simp_all add: x2_def rt_log_def set_rs_def)
  obtain x3 where i3: "dart__tasking__init E' x2 = Inr (DART_OK, x3)"
      "num_numa_nodes (rs x3) = (if env_place_numa E' then affinity_num_numa_nodes E' else num_numa_nodes (rs x2))"
    using dart__tasking__init_ok [OF x2(1) assms(4)] by metis
  show ?thesis using i1 f x2 i3 by auto
qed

lemma thread_main_start_fields [simp]:
  "thread_pool (rs (thread_main_start E i x)) = (thread_pool (rs x))(i := Some ((dart_thread_init E)\<lparr>numa_id :=
      (if respect_numa (rs x) then core_numa_node E 0 else 0)\<rparr>))"
  "num_threads (rs (thread_main_start E i x)) = num_threads (rs x)"
  "threads_running (rs (thread_main_start E i x)) = threads_running (rs x)"
  "initialized (thread_main_start E i x) = initialized x"
  "respect_numa (rs (thread_main_start E i x)) = respect_numa (rs x)"
  "task_queue (rs (thread_main_start E i x)) = task_queue (rs x)"
  by (simp_all add: thread_main_start_def Let_def rt_log_def)

text \<open>
  A worker started by \<open>thread_main\<close> takes the NUMA node of core 0 whenever \<open>respect_numa\<close> is set, whichever core it was bound to: \<open>core_id\<close> stays 0 (the master thread in \<open>init_threadpool\<close> reads back its core).
\<close>

theorem thread_main_start_numa:
  "map_option numa_id (thread_pool (rs (thread_main_start E i x)) i)
     = Some (if respect_numa (rs x) then core_numa_node E 0 else 0)"
  by (simp add: dart_thread_init_def)

lemma rt_start_step_frame:
  assumes "(rt_start_step E)\<^sup>*\<^sup>* (x, P) (y, Q)"
  shows "Q \<subseteq> P \<and> (\<forall>i. i \<notin> P \<longrightarrow> thread_pool (rs y) i = thread_pool (rs x) i)
         \<and> (\<forall>i. i \<in> P - Q \<longrightarrow> thread_pool (rs y) i \<noteq> None)
         \<and> num_threads (rs y) = num_threads (rs x) \<and> threads_running (rs y) = threads_running (rs x)
         \<and> initialized y = initialized x"
  using assms
proof (induction "(y, Q)" arbitrary: y Q rule: rtranclp_induct)
  case base
  then show ?case by simp
next
  case (step z)
  obtain y' Q' where z: "z = (y', Q')" by (cases z)
  from step.hyps(2) z show ?case
    using step.hyps(3) [OF z] by (cases rule: rt_start_step.cases) auto
qed

lemma start_threads_fields:
  assumes "start_threads E n x = Inr x1"
  shows "thread_pool (rs x1) = thread_pool (rs x) \<and> num_threads (rs x1) = num_threads (rs x)
         \<and> threads_running (rs x1) \<and> initialized x1 = initialized x \<and> task_queue (rs x1) = task_queue (rs x)"
  using assms by (auto simp: start_threads_def Let_def rt_log_def set_rs_def split: if_splits)

text \<open>
  C37: when \<open>pthread_create\<close> fails for a worker, \<open>dart__tasking__fini\<close> never returns: in every state the other workers' start-up can reach, \<open>stop_threads\<close> still waits for the missing worker to publish itself.
\<close>

theorem fini_hangs_after_failed_create:
  assumes "initialized x" "start_threads E (num_threads (rs x)) x = Inr x1"
    and "\<not> create_ok E i" "0 < i" "i < num_threads (rs x)" "thread_pool (rs x) i = None"
    and "(rt_start_step E)\<^sup>*\<^sup>* (x1, pending_workers E (num_threads (rs x))) (y, Q)"
  shows "dart__tasking__fini y = None"
proof -
  have i: "i \<notin> pending_workers E (num_threads (rs x))" using assms(3) by (simp add: pending_workers_def)
  have s: "thread_pool (rs x1) = thread_pool (rs x)" "num_threads (rs x1) = num_threads (rs x)"
    "threads_running (rs x1)" "initialized x1"
    using start_threads_fields [OF assms(2)] assms(1) by simp_all
  have y: "thread_pool (rs y) i = None" "num_threads (rs y) = num_threads (rs x)" "threads_running (rs y)" "initialized y"
    using rt_start_step_frame [OF assms(7)] i s assms(6) by simp_all
  have "\<not> list_all (\<lambda>j. thread_pool (rs y) j \<noteq> None) [1..<num_threads (rs y)]"
    using y(1,2) assms(4,5) by (auto simp: list_all_iff)
  then show ?thesis using y(3,4) by (simp add: dart__tasking__fini_def stop_threads_def)
qed

text \<open>
  When every worker was created and has started, \<open>dart__tasking__fini\<close> returns.
\<close>

lemma fini_after_startup:
  assumes "initialized x" "start_threads E (num_threads (rs x)) x = Inr x1"
    and "\<forall>i. 0 < i \<and> i < num_threads (rs x) \<longrightarrow> create_ok E i"
    and "(rt_start_step E)\<^sup>*\<^sup>* (x1, pending_workers E (num_threads (rs x))) (y, {})"
  shows "dart__tasking__fini y \<noteq> None"
proof -
  have s: "num_threads (rs x1) = num_threads (rs x)" "threads_running (rs x1)" "initialized x1"
    using start_threads_fields [OF assms(2)] assms(1) by simp_all
  have f: "\<forall>i\<in>pending_workers E (num_threads (rs x)). thread_pool (rs y) i \<noteq> None"
    "num_threads (rs y) = num_threads (rs x)" "threads_running (rs y)" "initialized y"
    using rt_start_step_frame [OF assms(4)] s by auto
  have "list_all (\<lambda>j. thread_pool (rs y) j \<noteq> None) [1..<num_threads (rs y)]"
    using f(1,2) assms(3) by (auto simp: list_all_iff pending_workers_def)
  then show ?thesis using f(3,4) by (simp add: dart__tasking__fini_def stop_threads_def Let_def)
qed

text \<open>
  C11: \<open>++num_utility_threads\<close> in \<open>utility_thread_main\<close> is not atomic: two utility threads started together can both load the counter before either stores it, and both take the id 1.
\<close>

theorem utility_thread_ids_collide:
  "\<exists>c pcs. ut_step\<^sup>*\<^sup>* (0, \<lambda>_. UT_load) (c, pcs) \<and> pcs 0 = UT_done 1 \<and> pcs 1 = UT_done 1"
proof -
  let ?p0 = "\<lambda>_ :: nat. UT_load"
  let ?p1 = "?p0(0 := UT_store 0)"
  let ?p2 = "?p1(1 := UT_store 0)"
  let ?p3 = "?p2(0 := UT_done 1)"
  let ?p4 = "?p3(1 := UT_done 1)"
  have "ut_step (0, ?p0) (0, ?p1)" by (rule ut_load) simp
  moreover have "ut_step (0, ?p1) (0, ?p2)" by (rule ut_load) simp
  moreover have "ut_step (0, ?p2) (1, ?p3)" using ut_store [of ?p2 0 0 0] by simp
  moreover have "ut_step (1, ?p3) (1, ?p4)" using ut_store [of ?p3 1 0 1] by simp
  ultimately have "ut_step\<^sup>*\<^sup>* (0, ?p0) (1, ?p4)" by (meson rtranclp.rtrancl_into_rtrancl rtranclp.rtrancl_refl)
  then show ?thesis by force
qed


lemma taskqueue_pop_init [simp]:
  "dart_tasking_taskqueue_pop L dart_tasking_taskqueue_init = Inr (L, dart_tasking_taskqueue_init, None)"
  by (simp add: dart_tasking_taskqueue_pop_def dart_tasking_taskqueue_init_def task_deque_pop_def
      empty_deque_def deque_assert_def)

lemma numa_pop_loop_idle:
  "\<forall>k. task_queue s k = dart_tasking_taskqueue_init \<Longrightarrow> numa_pop_loop numa i s = Inr (None, s)"
proof (induction "num_numa_nodes s - i" arbitrary: i)
  case 0
  then show ?case by (subst numa_pop_loop.simps) (simp add: fun_upd_idem)
next
  case (Suc d)
  then show ?case
    using Suc.hyps(1) [of "Suc i"] by (subst numa_pop_loop.simps) (simp add: fun_upd_idem Let_def)
qed


lemma scan_front_None: "set q \<subseteq> {None} \<Longrightarrow> scan_front i q = None"
  by (induction q arbitrary: i) auto

lemma idle_slots: "idle_threads s \<Longrightarrow> next_task_thread_back (slots s k) = None"
  by (cases "thread_pool s k")
     (auto simp: idle_threads_def slots_def next_task_thread_back_def scan_back_def scan_front_None)

lemma steal_first_idle: "idle_threads s \<Longrightarrow> steal_first ok (slots s) ks = None"
  by (induction ks) (simp_all add: idle_slots)

lemma next_task_idle:
  assumes "idle_threads s" "thread_pool s th = Some thr" "thread_pool s 0 \<noteq> None" "th < num_threads s"
    "\<forall>k. task_queue s k = dart_tasking_taskqueue_init"
  shows "next_task th s = Some (Inr (None, s))"
proof -
  have t: "set (tqueue thr) \<subseteq> {None}" "next_task_slot thr = None" "last_steal thr = 0"
    using assms(1,2) by (auto simp: idle_threads_def)
  have l: "next_task_local thr = (None, thr)"
    using t by (simp add: next_task_local_def next_task_thread_def scan_front_None)
  have tp: "(thread_pool s)(th := Some thr) = thread_pool s" using assms(2) by (simp add: fun_upd_idem)
  obtain m where m: "thread_pool s 0 = Some m" using assms(3) by blast
  have v: "next_task_thread_back (tqueue m) = None" using idle_slots [OF assms(1), of 0] m by (simp add: slots_def)
  have v': "next_task_thread_back (tqueue thr) = None" using idle_slots [OF assms(1), of th] assms(2) by (simp add: slots_def)
  have sl: "\<And>ok. steal_loop ok (num_threads s) th (Suc th mod num_threads s) (slots s) = Some None"
    by (simp only: steal_loop_order [OF assms(4)] steal_first_idle [OF assms(1)])
  show ?thesis
    using assms(2) l tp m v v' t(3) sl numa_pop_loop_idle [OF assms(5)] by (cases "th = 0") (simp_all add: next_task_def)
qed


lemma idle_threads_start: "idle_threads (rs x) \<Longrightarrow> idle_threads (rs (thread_main_start E i x))"
  by (auto simp: idle_threads_def dart_thread_init_def)

lemma rt_start_step_idle:
  assumes "(rt_start_step E)\<^sup>*\<^sup>* (x, P) (y, Q)" "idle_threads (rs x)"
  shows "idle_threads (rs y) \<and> task_queue (rs y) = task_queue (rs x)"
  using assms
proof (induction "(y, Q)" arbitrary: y Q rule: rtranclp_induct)
  case base
  then show ?case by simp
next
  case (step z)
  obtain y' Q' where z: "z = (y', Q')" by (cases z)
  from step.hyps(2) z show ?case
    using step.hyps(3) [OF z] step.prems by (cases rule: rt_start_step.cases) (auto intro: idle_threads_start)
qed

text \<open>
  C15: after \<open>dart__tasking__init\<close>, \<open>start_threads\<close> and the start-up of every worker (all thread creations succeeding, in any order), \<open>next_task\<close> on any thread returns without a task and without aborting: every thread is published, all slots and queues are empty.
\<close>

theorem startup_next_task_idle:
  assumes init: "dart__tasking__init E x = Inr (DART_OK, x1)" and "\<not> initialized x"
    and st: "start_threads E (num_threads (rs x1)) x1 = Inr x2"
    and ok: "\<forall>i. 0 < i \<and> i < num_threads (rs x1) \<longrightarrow> create_ok E i"
    and run: "(rt_start_step E)\<^sup>*\<^sup>* (x2, pending_workers E (num_threads (rs x1))) (y, {})"
    and th: "th < num_threads (rs y)"
  shows "next_task th (rs y) = Some (Inr (None, rs y))"
proof -
  have n: "0 < sint (init_nthreads E)"
    using init dart__tasking__init_no_threads [OF assms(2)] by (metis Inl_Inr_False not_less)
  obtain x' where x': "dart__tasking__init E x = Inr (DART_OK, x')"
      "task_queue (rs x') = (\<lambda>_. dart_tasking_taskqueue_init)"
      "thread_pool (rs x') = (\<lambda>_. None)(0 := Some ((dart_thread_init E)\<lparr>numa_id :=
        (if env_place_numa E then core_numa_node E (if env_affinity E then affinity_set E 0 else 0) else 0)\<rparr>))"
    using dart__tasking__init_ok [OF assms(2) n] by metis
  have x1: "x1 = x'" using x'(1) init by simp
  have i1: "idle_threads (rs x1)" using x'(3) x1 by (auto simp: idle_threads_def dart_thread_init_def)
  have s2: "thread_pool (rs x2) = thread_pool (rs x1)" "num_threads (rs x2) = num_threads (rs x1)"
      "task_queue (rs x2) = task_queue (rs x1)"
    using start_threads_fields [OF st] by simp_all
  have i2: "idle_threads (rs x2)" using i1 s2(1) by (simp add: idle_threads_def)
  have fr: "\<forall>i. i \<notin> pending_workers E (num_threads (rs x1)) \<longrightarrow> thread_pool (rs y) i = thread_pool (rs x2) i"
      "\<forall>i\<in>pending_workers E (num_threads (rs x1)). thread_pool (rs y) i \<noteq> None"
      "num_threads (rs y) = num_threads (rs x1)"
    using rt_start_step_frame [OF run] s2 by auto
  have iy: "idle_threads (rs y)" "task_queue (rs y) = task_queue (rs x2)"
    using rt_start_step_idle [OF run i2] by simp_all
  have p0: "thread_pool (rs y) 0 \<noteq> None"
    using fr(1) s2(1) x'(3) x1 by (simp add: pending_workers_def)
  have pth: "thread_pool (rs y) th \<noteq> None"
    using p0 fr(2,3) ok th by (cases "th = 0") (auto simp: pending_workers_def)
  then obtain thr where "thread_pool (rs y) th = Some thr" by blast
  moreover have "\<forall>k. task_queue (rs y) k = dart_tasking_taskqueue_init" using iy(2) s2(3) x'(2) x1 by simp
  ultimately show ?thesis using next_task_idle iy(1) p0 th by blast
qed


theorem startup_next_task_idle_witness:
  "let E = (example_env (\<lambda>_. True)); x1 = snd (projr (dart__tasking__init E (rt_load (0::nat) (\<lambda>_. root_task_info))));
       x2 = projr (start_threads E (num_threads (rs x1)) x1); y = thread_main_start E 1 x2
   in next_task 1 (rs y) = Some (Inr (None, rs y))"
proof -
  let ?x = "rt_load (0::nat) (\<lambda>_. root_task_info)"
  let ?x1 = "snd (projr (dart__tasking__init (example_env (\<lambda>_. True)) ?x))"
  let ?x2 = "projr (start_threads (example_env (\<lambda>_. True)) (num_threads (rs ?x1)) ?x1)"
  have i: "dart__tasking__init (example_env (\<lambda>_. True)) ?x = Inr (DART_OK, ?x1)"
    by (simp add: dart__tasking__init_def init_threadpool_def example_env_def rt_load_def Let_def determine_num_threads_def)
  have n: "num_threads (rs ?x1) = 2"
    by (simp add: dart__tasking__init_def init_threadpool_def example_env_def rt_load_def Let_def determine_num_threads_def
        set_rs_def rt_log_def)
  have st: "start_threads (example_env (\<lambda>_. True)) (num_threads (rs ?x1)) ?x1 = Inr ?x2"
    by (simp add: start_threads_def dart__tasking__init_def init_threadpool_def example_env_def rt_load_def Let_def
        determine_num_threads_def set_rs_def rt_log_def)
  have pw: "pending_workers (example_env (\<lambda>_. True)) (num_threads (rs ?x1)) = {1}" unfolding n by (auto simp: pending_workers_def example_env_def)
  have r: "(rt_start_step (example_env (\<lambda>_. True)))\<^sup>*\<^sup>* (?x2, pending_workers (example_env (\<lambda>_. True)) (num_threads (rs ?x1))) (thread_main_start (example_env (\<lambda>_. True)) 1 ?x2, {})"
    unfolding pw using worker_start [of 1 "{1}" "example_env (\<lambda>_. True)" ?x2] by simp
  have "next_task 1 (rs (thread_main_start (example_env (\<lambda>_. True)) 1 ?x2)) = Some (Inr (None, rs (thread_main_start (example_env (\<lambda>_. True)) 1 ?x2)))"
  proof (rule startup_next_task_idle [OF i _ st _ r])
    show "\<not> initialized ?x" by (simp add: rt_load_def)
    show "\<forall>i. 0 < i \<and> i < num_threads (rs ?x1) \<longrightarrow> create_ok (example_env (\<lambda>_. True)) i" by (simp add: example_env_def)
    have "num_threads (rs ?x2) = 2" using start_threads_fields [OF st] n by simp
    then show "1 < num_threads (rs (thread_main_start (example_env (\<lambda>_. True)) 1 ?x2))" by simp
  qed
  then show ?thesis by (simp only: Let_def)
qed


lemma idle_run_snoc:
  "idle_run x m tid (hist @ [(g, t)]) st =
     (let (as, st1) = idle_run x m tid hist st; (a, st2) = thread_main_idle x m tid g t st1 in (as @ [a], st2))"
  by (induction hist arbitrary: st) (auto simp: Let_def split: prod.splits)

lemma thread_main_idle_thread1: "set (fst (thread_main_idle x m 1 g t st)) \<subseteq> range Idle_remote_progress"
  by (simp add: thread_main_idle_def)

text \<open>
  Worker 1 never sleeps in the idle logic: all it does there is poll for remote messages.
\<close>

theorem thread1_never_sleeps: "set (concat (fst (idle_run x m 1 hist st))) \<subseteq> range Idle_remote_progress"
proof (induction hist arbitrary: st)
  case Nil
  then show ?case by simp
next
  case (Cons e hist)
  obtain g t where e: "e = (g, t)" by (cases e)
  obtain a st1 where a: "thread_main_idle x m 1 g t st = (a, st1)" by (cases "thread_main_idle x m 1 g t st")
  obtain as st2 where b: "idle_run x m 1 hist st1 = (as, st2)" by (cases "idle_run x m 1 hist st1")
  have "fst (idle_run x m 1 (e # hist) st) = a # as" by (simp only: e idle_run.simps a b Let_def prod.case fst_conv)
  then show ?case using Cons.IH [of st1] thread_main_idle_thread1 [of x m g t st] a b by simp
qed

lemma idle_run_inv:
  assumes "tid \<noteq> 1" "\<not> in_idle st0" "idle_run x m tid hist st0 = (as, st)" "in_idle st"
  shows "\<exists>pre suf. hist = pre @ suf \<and> suf \<noteq> [] \<and> (\<forall>e\<in>set suf. \<not> fst e) \<and> snd (hd suf) = begin_idle_ts st"
  using assms(3,4)
proof (induction hist arbitrary: as st rule: rev_induct)
  case Nil
  then show ?case using assms(2) by simp
next
  case (snoc e hist)
  obtain g t where e: "e = (g, t)" by (cases e)
  obtain as1 st1 where r: "idle_run x m tid hist st0 = (as1, st1)" by (cases "idle_run x m tid hist st0")
  have st: "st = snd (thread_main_idle x m tid g t st1)"
    using snoc.prems(1) by (simp add: e idle_run_snoc r split: prod.splits)
  show ?case
  proof (cases "in_idle st1 \<and> \<not> g \<and> \<not> IDLE_THREAD_GRACE_USEC < t - begin_idle_ts st1")
    case True
    then obtain pre suf where "hist = pre @ suf" "suf \<noteq> []" "\<forall>e\<in>set suf. \<not> fst e" "snd (hd suf) = begin_idle_ts st1"
      using snoc.IH [OF r] by blast
    moreover have "st = st1" using True assms(1) st by (simp add: thread_main_idle_def)
    ultimately show ?thesis using True e by (intro exI [of _ pre] exI [of _ "suf @ [e]"]) auto
  next
    case False
    have "\<not> g \<and> \<not> in_idle st1 \<and> begin_idle_ts st = t"
      using False snoc.prems(2) assms(1) st by (auto simp: thread_main_idle_def split: if_splits)
    then show ?thesis using e by (intro exI [of _ hist] exI [of _ "[e]"]) auto
  qed
qed

text \<open>
  Another worker calls \<open>wait_for_work\<close> only at the end of a run of iterations that found no task and that began more than \<open>IDLE_THREAD_GRACE_USEC\<close> earlier.
\<close>

theorem worker_sleeps_after_grace:
  assumes "threadid \<noteq> 1" "\<not> in_idle st0" "idle_run x m threadid hist st0 = (as, st)"
    and "Idle_wait_for_work \<in> set (fst (thread_main_idle x m threadid g t st))"
  shows "\<exists>pre suf. hist @ [(g, t)] = pre @ suf \<and> suf \<noteq> [] \<and> (\<forall>e\<in>set suf. \<not> fst e)
           \<and> IDLE_THREAD_GRACE_USEC < t - snd (hd suf)"
proof -
  have w: "in_idle st" "\<not> g" "IDLE_THREAD_GRACE_USEC < t - begin_idle_ts st"
    using assms(1,4) by (auto simp: thread_main_idle_def split: if_splits)
  obtain pre suf where "hist = pre @ suf" "suf \<noteq> []" "\<forall>e\<in>set suf. \<not> fst e" "snd (hd suf) = begin_idle_ts st"
    using idle_run_inv [OF assms(1-3) w(1)] by blast
  then show ?thesis using w by (intro exI [of _ pre] exI [of _ "suf @ [(g, t)]"]) auto
qed

text \<open>
  The error paths of initialisation and tear-down: a second \<open>dart__tasking__init\<close> and a \<open>dart__tasking__fini\<close> without initialisation return \<open>DART_ERR_INVAL\<close> and change nothing; a thread count that is not positive (the environment's value is used unchecked) makes \<open>init_threadpool\<close> write past a zero-length thread pool.
\<close>

theorem dart__tasking__init_fini_errors:
  "(initialized x \<longrightarrow> dart__tasking__init E x = Inr (DART_ERR_INVAL, x))
   \<and> (\<not> initialized x \<and> sint (init_nthreads E) \<le> 0 \<longrightarrow> dart__tasking__init E x = Inl Invalid_pointer)
   \<and> (\<not> initialized x \<longrightarrow> dart__tasking__fini x = Some (DART_ERR_INVAL, x))"
  by (simp add: dart__tasking__init_refused dart__tasking__init_no_threads dart__tasking__fini_refused)

theorem dart__tasking__init_fini_errors_witness:
  "dart__tasking__init (example_env (\<lambda>_. True)) ((rt_load (0::nat) (\<lambda>_. root_task_info))\<lparr>initialized := True\<rparr>)
     = Inr (DART_ERR_INVAL, (rt_load 0 (\<lambda>_. root_task_info))\<lparr>initialized := True\<rparr>)
   \<and> dart__tasking__init ((example_env (\<lambda>_. True))\<lparr>env_numthreads := 0\<rparr>) (rt_load (0::nat) (\<lambda>_. root_task_info))
     = Inl Invalid_pointer
   \<and> dart__tasking__fini (rt_load (0::nat) (\<lambda>_. root_task_info)) = Some (DART_ERR_INVAL, rt_load 0 (\<lambda>_. root_task_info))"
  using dart__tasking__init_fini_errors [of "(rt_load (0::nat) (\<lambda>_. root_task_info))\<lparr>initialized := True\<rparr>" "example_env (\<lambda>_. True)"]
    dart__tasking__init_fini_errors [of "rt_load (0::nat) (\<lambda>_. root_task_info)" "(example_env (\<lambda>_. True))\<lparr>env_numthreads := 0\<rparr>"]
  by (simp_all add: rt_load_def example_env_def determine_num_threads_def)

theorem init_fini_roundtrip_witness:
  "\<exists>x1 x2 x3. dart__tasking__init (example_env (\<lambda>_. True)) (rt_load (0::nat) (\<lambda>_. root_task_info)) = Inr (DART_OK, x1)
     \<and> dart__tasking__fini x1 = Some (DART_OK, x2) \<and> \<not> initialized x2 \<and> thread_pool (rs x2) = (\<lambda>_. None)
     \<and> dart__tasking__init (example_env (\<lambda>_. True)) x2 = Inr (DART_OK, x3)
     \<and> num_numa_nodes (rs x3) = num_numa_nodes (rs x1)"
  using init_fini_roundtrip [of "rt_load (0::nat) (\<lambda>_. root_task_info)" "example_env (\<lambda>_. True)" "example_env (\<lambda>_. True)"]
  by (simp add: rt_load_def example_env_def determine_num_threads_def)

theorem fini_hangs_after_failed_create_witness:
  "let E = example_env (\<lambda>i. i \<noteq> 1); x = snd (projr (dart__tasking__init E (rt_load (0::nat) (\<lambda>_. root_task_info))));
       x1 = projr (start_threads E (num_threads (rs x)) x)
   in dart__tasking__fini x1 = None"
proof -
  let ?E = "example_env (\<lambda>i. i \<noteq> 1)"
  let ?x = "snd (projr (dart__tasking__init ?E (rt_load (0::nat) (\<lambda>_. root_task_info))))"
  let ?x1 = "projr (start_threads ?E (num_threads (rs ?x)) ?x)"
  have x: "initialized ?x" "num_threads (rs ?x) = 2" "thread_pool (rs ?x) 1 = None"
    by (simp_all add: dart__tasking__init_def init_threadpool_def example_env_def rt_load_def Let_def
        determine_num_threads_def set_rs_def rt_log_def)
  have st: "start_threads ?E (num_threads (rs ?x)) ?x = Inr ?x1"
    by (simp add: start_threads_def dart__tasking__init_def init_threadpool_def example_env_def rt_load_def Let_def
        determine_num_threads_def set_rs_def rt_log_def)
  have n: "(1::nat) < num_threads (rs ?x)" by (simp only: x(2))
  have c: "\<not> create_ok ?E 1" by (simp add: example_env_def)
  have "dart__tasking__fini ?x1 = None"
    by (rule fini_hangs_after_failed_create [OF x(1) st c _ n x(3) rtranclp.rtrancl_refl]) simp
  then show ?thesis by (simp only: Let_def)
qed

theorem worker_sleeps_after_grace_witness:
  "\<exists>pre suf. [(False, 0), (False, 2000)] = pre @ suf \<and> suf \<noteq> [] \<and> (\<forall>e\<in>set suf. \<not> fst e)
      \<and> IDLE_THREAD_GRACE_USEC < 2000 - snd (hd suf)"
proof -
  let ?x = "rt_load (0::nat) (\<lambda>_. root_task_info)"
  let ?st0 = "\<lparr>in_idle = False, begin_idle_ts = 0\<rparr>"
  let ?r = "idle_run ?x DART_THREAD_IDLE_POLL 2 [(False, 0)] ?st0"
  have "Idle_wait_for_work \<in> set (fst (thread_main_idle ?x DART_THREAD_IDLE_POLL 2 False 2000 (snd ?r)))"
    by (simp add: thread_main_idle_def rt_load_def IDLE_THREAD_GRACE_USEC_def)
  then show ?thesis
    using worker_sleeps_after_grace [of 2 ?st0 ?x DART_THREAD_IDLE_POLL "[(False, 0)]" "fst ?r" "snd ?r" False 2000]
    by simp
qed

end
