(* ===== verification/TaskExec.thy ===== *)
theory TaskExec
  imports Runtime
begin

text \<open>
  Running tasks (\<open>dart_tasking.c\<close>, lines 345--2245 of
  \<open>dart_tasking_instrumentation.c\<close>): \<open>dart__tasking__destroy_task\<close>, detached tasks
  (\<open>mark_detached\<close>, \<open>release_detached\<close>), \<open>invoke_task\<close> (the \<open>USE_UCONTEXT\<close> variant),
  \<open>handle_task\<close> with its four ways back from a task, \<open>handle_inline_task\<close>,
  \<open>dart__tasking__handle_task_internal\<close>, dummy tasks, \<open>perform_matching\<close>, the body of
  \<open>dart__tasking__task_complete\<close> around its processing loop, and the entry functions of a
  task's context. The state is the runtime of the \<open>Runtime\<close> theory with the fields of
  \<open>dart_task_t\<close> and \<open>dart_thread_t\<close> the scheduler does not hold (whether a task owns a
  context, the per-thread task counter), and the calls into modules outside the sources, in
  program order. A task's own code is the parameter \<open>task_run\<close>: what switching into the
  task does before control comes back to the thread (the task finishes, yields, blocks or
  detaches, and may create tasks). The mutual recursion between \<open>handle_task\<close> and
  \<open>task_complete\<close> is split: here the nested \<open>task_complete(true)\<close> is a parameter in
  which every operation is monotone, and the theory \<open>TaskComplete\<close> defines the loop as a
  partial function that passes itself.
\<close>

section \<open>State\<close>

datatype 't exec_event = Ev_free_data 't | Ev_datadeps_reset 't | Ev_free_list_push 't
  | Ev_datadeps_release_local 't | Ev_context_create 't | Ev_context_swap_in 't | Ev_context_release 't
  | Ev_wait_enqueue 't | Ev_remote_progress_blocking
  | Ev_handle_defered_remote int | Ev_phase_set_runnable int | Ev_handle_defered_local
  | Ev_cond_broadcast | Ev_phase_reset | Ev_check_cancellation | Ev_start_threads | Ev_cond_signal
  | Ev_context_invoke_retctx

record 't xstate =
  xrt :: "'t rt"
  taskctx :: "'t \<Rightarrow> bool"
  taskcntr :: "nat \<Rightarrow> nat"
  xtrace :: "'t exec_event list"

text \<open>
  What the tasks and the modules outside the sources answer: the states
  \<open>IS_ACTIVE_TASK\<close> accepts (\<open>dart_tasking_priv.h\<close>), the unresolved local and
  remote dependencies of a task, \<open>DART_PHASE_FIRST\<close>, the runtime environment (for
  \<open>start_threads\<close>), the clock and the tasks' code.
\<close>

record 't exec_env =
  IS_ACTIVE_TASK :: "dart_task_state \<Rightarrow> bool"
  unresolved_deps :: "'t \<Rightarrow> int"
  unresolved_remote_deps :: "'t \<Rightarrow> int"
  DART_PHASE_FIRST :: int
  xenv :: rt_env
  clock :: int
  task_run :: "'t \<Rightarrow> 't xstate \<Rightarrow> 't xstate"

definition xsched :: "'t xstate \<Rightarrow> 't sched" where
  "xsched x = rs (xrt x)"

definition xupd :: "'t xstate \<Rightarrow> ('t sched \<Rightarrow> 't sched) \<Rightarrow> 't xstate" where
  "xupd x f = x\<lparr>xrt := set_rs (xrt x) f\<rparr>"

definition xlog :: "'t xstate \<Rightarrow> 't exec_event list \<Rightarrow> 't xstate" where
  "xlog x evs = x\<lparr>xtrace := xtrace x @ evs\<rparr>"

definition set_tstate :: "'t \<Rightarrow> dart_task_state \<Rightarrow> 't xstate \<Rightarrow> 't xstate" where
  "set_tstate t st x = xupd x (\<lambda>s. set_task s t (tstate_update (\<lambda>_. st)))"

definition set_current_task :: "nat \<Rightarrow> 't \<Rightarrow> 't xstate \<Rightarrow> 't xstate" where
  "set_current_task th t x = xupd x (\<lambda>s. s\<lparr>current_task := (current_task s)(th := t)\<rparr>)"

text \<open>
  Code that may wait for other threads or run other tasks returns \<open>'a res option\<close>:
  \<open>None\<close> when it does not return, \<open>Some (Inl e)\<close> when it aborts. \<open>obind\<close> sequences
  such code.
\<close>

definition obind :: "'a res option \<Rightarrow> ('a \<Rightarrow> 'b res option) \<Rightarrow> 'b res option" where
  "obind m f = Option.bind m (\<lambda>r. case r of Inl e \<Rightarrow> Some (Inl e) | Inr a \<Rightarrow> f a)"

section \<open>Destroying and finishing tasks\<close>

text \<open>
  \<open>dart__tasking__destroy_task\<close>: free the task's data if it owns it, take a child of
  the root task out of its phase, reset its dependencies, mark it \<open>DESTROYED\<close> and push
  it onto its owner's free list (the \<open>TRACK_CHILDREN\<close> and \<open>NOMEMPOOL\<close> variants are
  not modelled).
\<close>

definition dart__tasking__destroy_task :: "'t \<Rightarrow> 't xstate \<Rightarrow> 't xstate" where
  "dart__tasking__destroy_task t x =
     (let s = xsched x; ti = tasks s t;
          x1 = xlog x (if DART_TASK_DATA_ALLOCATED \<in> tflags ti then [Ev_free_data t] else []);
          x2 = (if tparent ti = Some (root_task s)
                then xupd x1 (\<lambda>s. s\<lparr>phase_ntasks := (phase_ntasks s)(tphase ti := phase_ntasks s (tphase ti) - 1)\<rparr>)
                else x1)
      in xlog (set_tstate t DART_TASK_DESTROYED (xlog x2 [Ev_datadeps_reset t])) [Ev_free_list_push t])"

text \<open>
  The end of a task shared by \<open>handle_task\<close>, \<open>handle_inline_task\<close> and
  \<open>release_detached\<close>, after its dependencies are released: under the task's lock set it
  \<open>FINISHED\<close> and read \<open>HAS_REF\<close>. The result is the flag.
\<close>

definition task_set_finished :: "'t \<Rightarrow> 't xstate \<Rightarrow> bool \<times> 't xstate" where
  "task_set_finished t x =
     (let x1 = set_tstate t DART_TASK_FINISHED x in (DART_TASK_HAS_REF \<in> tflags (tasks (xsched x1) t), x1))"

text \<open>
  Then destroy the task unless a reference to it is held, and decrement the parent's
  \<open>num_children\<close> (a NULL parent is dereferenced).
\<close>

definition task_release_parent :: "'t \<Rightarrow> 't option \<Rightarrow> bool \<Rightarrow> 't xstate \<Rightarrow> 't xstate res" where
  "task_release_parent t parent has_ref x =
     (let x1 = (if \<not> has_ref then dart__tasking__destroy_task t x else x) in
      case parent of
        None \<Rightarrow> Inl Null_dereference
      | Some p \<Rightarrow> Inr (xupd x1 (\<lambda>s. set_task s p (num_children_update (\<lambda>n. n - 1)))))"

section \<open>Detached tasks\<close>

definition dart__tasking__mark_detached :: "'t \<Rightarrow> 't xstate \<Rightarrow> 't xstate" where
  "dart__tasking__mark_detached t x = set_tstate t DART_TASK_DETACHED x"

text \<open>
  \<open>dart__tasking__release_detached\<close>: assert that the task is detached, release its local
  dependencies, finish it, read its parent, destroy it unless referenced, and decrement
  the parent's child count.
\<close>

definition dart__tasking__release_detached :: "'t \<Rightarrow> 't xstate \<Rightarrow> 't xstate res" where
  "dart__tasking__release_detached t x =
     sbind (dart_assert (tstate (tasks (xsched x) t) = DART_TASK_DETACHED))
       (\<lambda>_. let x1 = xlog x [Ev_datadeps_release_local t];
                (has_ref, x2) = task_set_finished t x1;
                parent = tparent (tasks (xsched x2) t)
            in task_release_parent t parent has_ref x2)"

section \<open>Running a task\<close>

text \<open>
  \<open>invoke_task\<close>: unless cancellation was requested, create a context for a task that
  has none, make it the thread's current task and switch into it (\<open>task_run\<close>); under
  cancellation only make it current.
\<close>

definition invoke_task :: "'t exec_env \<Rightarrow> nat \<Rightarrow> 't \<Rightarrow> 't xstate \<Rightarrow> 't xstate" where
  "invoke_task E th t x =
     (if \<not> cancel_requested (xsched x) then
        (let x1 = (if \<not> taskctx x t then (xlog x [Ev_context_create t])\<lparr>taskctx := (taskctx x)(t := True)\<rparr> else x);
             x2 = set_current_task th t x1
         in task_run E t (xlog x2 [Ev_context_swap_in t]))
      else set_current_task th t x)"

text \<open>
  \<open>handle_task\<close>, \<open>handle_inline_task\<close> and \<open>dart__tasking__handle_task_internal\<close> call
  \<open>dart__tasking__task_complete(true)\<close> to wait for the children of a task that returns
  with children outstanding, and that call runs other tasks through
  \<open>dart__tasking__handle_task_internal\<close> again. The nested call is the parameter \<open>tc\<close>
  here (its \<open>DART_OK\<close> is dropped, as the code drops it); the theory \<open>TaskComplete\<close>
  closes the recursion.

  \<open>handle_task\<close> on a task \<open>t\<close>: assert that it is active and has no unresolved
  dependencies, set it \<open>RUNNING\<close>, invoke it, and look at the thread's current task
  \<open>prev\<close> when control comes back: a detached task loses its context (the context of
  \<open>t\<close> is released) and goes to the wait queue, a blocked one goes to the wait queue, a
  suspended one is requeued; otherwise it must be running or cancelled, waits for its
  children through \<open>tc\<close> if it has any (and no cancellation is requested), releases its
  dependencies, is finished, loses its context, is destroyed unless referenced, decrements
  its parent's child count and is counted. Finally the previous current task is restored.
\<close>

definition handle_task_return ::
  "'t exec_env \<Rightarrow> ('t xstate \<Rightarrow> 't xstate res option) \<Rightarrow> nat \<Rightarrow> 't \<Rightarrow> 't xstate \<Rightarrow> 't xstate res option" where
  "handle_task_return E tc th t x =
     (let s = xsched x; prev = current_task s th; st = tstate (tasks s prev) in
      if st = DART_TASK_DETACHED
      then Some (Inr (xlog ((xlog x [Ev_context_release t])\<lparr>taskctx := (taskctx x)(t := False)\<rparr>) [Ev_wait_enqueue prev]))
      else if st = DART_TASK_BLOCKED then Some (Inr (xlog x [Ev_wait_enqueue prev]))
      else if st = DART_TASK_SUSPENDED
      then Some (sbind (requeue_task th prev s) (\<lambda>s'. Inr (xupd x (\<lambda>_. s'))))
      else obind (Some (dart_assert (st = DART_TASK_RUNNING \<or> st = DART_TASK_CANCELLED)))
             (\<lambda>_. obind (if num_children (tasks s prev) \<noteq> 0 \<and> \<not> cancel_requested s then tc x else Some (Inr x))
             (\<lambda>x1. let task = current_task (xsched x1) th in
                   Some (sbind (dart_assert (task \<noteq> root_task (xsched x1)))
                     (\<lambda>_. let x2 = xlog x1 [Ev_datadeps_release_local task];
                              (has_ref, x3) = task_set_finished task x2;
                              x4 = (xlog x3 [Ev_context_release task])\<lparr>taskctx := (taskctx x3)(task := False)\<rparr>;
                              parent = tparent (tasks (xsched x4) task)
                          in sbind (task_release_parent task parent has_ref x4)
                               (\<lambda>x5. Inr (x5\<lparr>taskcntr := (taskcntr x5)(th := Suc (taskcntr x5 th))\<rparr>)))))))"

definition handle_task ::
  "'t exec_env \<Rightarrow> ('t xstate \<Rightarrow> 't xstate res option) \<Rightarrow> nat \<Rightarrow> 't \<Rightarrow> 't xstate \<Rightarrow> 't xstate res option" where
  "handle_task E tc th t x =
     (let s = xsched x; cur = current_task s th in
      obind (Some (sbind (dart_assert (IS_ACTIVE_TASK E (tstate (tasks s t))))
                    (\<lambda>_. sbind (dart_assert (unresolved_deps E t = 0))
                    (\<lambda>_. dart_assert (unresolved_remote_deps E t = 0)))))
        (\<lambda>_. let x1 = invoke_task E th t (set_tstate t DART_TASK_RUNNING x)
             in obind (handle_task_return E tc th t x1) (\<lambda>x2. Some (Inr (set_current_task th cur x2)))))"

text \<open>
  \<open>handle_inline_task\<close>: set the task \<open>RUNNING\<close> and current, call its function
  directly, read its parent, wait for its children through \<open>tc\<close> if it has any (and no
  cancellation is requested), and then queue it for waiting if it detached or else
  release its dependencies, finish it, destroy it unless referenced and decrement the
  parent's child count; restore the current task and count the task.
\<close>

definition handle_inline_task ::
  "'t exec_env \<Rightarrow> ('t xstate \<Rightarrow> 't xstate res option) \<Rightarrow> nat \<Rightarrow> 't \<Rightarrow> 't xstate \<Rightarrow> 't xstate res option" where
  "handle_inline_task E tc th t x =
     (let cur = current_task (xsched x) th;
          x1 = task_run E t (set_current_task th t (set_tstate t DART_TASK_RUNNING x));
          parent = tparent (tasks (xsched x1) t)
      in obind (if num_children (tasks (xsched x1) t) \<noteq> 0 \<and> \<not> cancel_requested (xsched x1) then tc x1 else Some (Inr x1))
           (\<lambda>x2. obind (Some (if tstate (tasks (xsched x2) t) = DART_TASK_DETACHED then Inr (xlog x2 [Ev_wait_enqueue t])
                               else (let x3 = xlog x2 [Ev_datadeps_release_local t];
                                         (has_ref, x4) = task_set_finished t x3
                                     in task_release_parent t parent has_ref x4)))
           (\<lambda>x5. let x6 = set_current_task th cur x5 in
                 Some (Inr (x6\<lparr>taskcntr := (taskcntr x6)(th := Suc (taskcntr x6 th))\<rparr>)))))"

definition dart__tasking__handle_task_internal ::
  "'t exec_env \<Rightarrow> ('t xstate \<Rightarrow> 't xstate res option) \<Rightarrow> nat \<Rightarrow> 't option \<Rightarrow> 't xstate \<Rightarrow> 't xstate res option" where
  "dart__tasking__handle_task_internal E tc th t x =
     (case t of
        None \<Rightarrow> Some (Inr x)
      | Some task \<Rightarrow> if DART_TASK_INLINE \<in> tflags (tasks (xsched x) task) then handle_inline_task E tc th task x
                     else handle_task E tc th task x)"

section \<open>Dummy tasks\<close>

text \<open>
  \<open>dart__tasking__allocate_dummytask\<close> on the task \<open>t\<close> \<open>allocate_task\<close> handed out:
  zero it, mark it \<open>DUMMY\<close> with the current task as parent, and put it into the current
  phase (counted) when the parent is in state \<open>ROOT\<close>, into \<open>DART_PHASE_ANY\<close> otherwise.
\<close>

definition dart__tasking__allocate_dummytask :: "'t sched_env \<Rightarrow> nat \<Rightarrow> 't \<Rightarrow> 't xstate \<Rightarrow> 't xstate" where
  "dart__tasking__allocate_dummytask SE th t x =
     (let s = xsched x; parent = current_task s th; root_parent = (tstate (tasks s parent) = DART_TASK_ROOT)
      in xupd x (\<lambda>s. s\<lparr>tasks := (tasks s)(t := \<lparr>tstate = DART_TASK_DUMMY, tflags = {}, tprio = 0,
                                                tparent = Some parent,
                                                tphase = (if root_parent then phase_cur s else DART_PHASE_ANY SE),
                                                num_children = 0, numa_node = None, tinstance = 0,
                                                has_wait_handle = False\<rparr>),
                          phase_ntasks := (if root_parent
                                           then (phase_ntasks s)(phase_cur s := Suc (phase_ntasks s (phase_cur s)))
                                           else phase_ntasks s)\<rparr>))"

section \<open>Waiting for children\<close>

text \<open>
  \<open>wakeup_thread_all\<close>: broadcast \<open>task_avail_cond\<close> under the \<open>WAIT\<close> idle method.
  \<open>dart__tasking__perform_matching(phase)\<close>, with more than one unit: serve all
  requests, release the deferred remote dependencies of the phase, make the phase
  runnable, release the deferred local tasks and wake all threads.
\<close>

definition wakeup_thread_all :: "'t xstate \<Rightarrow> 't xstate" where
  "wakeup_thread_all x =
     (if thread_idle_method (xrt x) = DART_THREAD_IDLE_WAIT then xlog x [Ev_cond_broadcast] else x)"

definition dart__tasking__perform_matching :: "int \<Rightarrow> 't xstate \<Rightarrow> 't xstate" where
  "dart__tasking__perform_matching phase x =
     (if num_units (xsched x) = 1 then x
      else wakeup_thread_all (xlog x [Ev_remote_progress_blocking, Ev_handle_defered_remote phase,
                                      Ev_phase_set_runnable phase, Ev_handle_defered_local]))"

text \<open>
  One round of the processing loop of \<open>dart__tasking__task_complete\<close>: take the next
  task, and if there is none make remote progress (forced on the master thread) and try
  again.
\<close>

definition next_task_or_progress :: "'t exec_env \<Rightarrow> nat \<Rightarrow> 't xstate \<Rightarrow> ('t option \<times> 't xstate) res option" where
  "next_task_or_progress E th x =
     Option.bind (next_task th (xsched x))
       (\<lambda>r. case r of
              Inl e \<Rightarrow> Some (Inl e)
            | Inr (Some t, s1) \<Rightarrow> Some (Inr (Some t, xupd x (\<lambda>_. s1)))
            | Inr (None, s1) \<Rightarrow>
                (case remote_progress th (th = 0) (clock E) s1 of
                   Inl e \<Rightarrow> Some (Inl e)
                 | Inr (_, s2) \<Rightarrow>
                     Option.bind (next_task th s2)
                       (\<lambda>r2. case r2 of
                               Inl e \<Rightarrow> Some (Inl e)
                             | Inr (nt, s3) \<Rightarrow> Some (Inr (nt, xupd x (\<lambda>_. s3))))))"

text \<open>
  \<open>dart__tasking__task_complete(local_only)\<close> around its processing loop, which is the
  parameter \<open>loop\<close> (the loop for a task: while the task has children, run the next
  task); the theory \<open>TaskComplete\<close> supplies it. Without running threads return at once
  for a local wait, else start the threads; assert that only the master thread waits in
  the root task; in the root task and for a global wait perform the matching of the
  current phase and let the workers poll; wake all threads under the \<open>WAIT\<close> method; run
  the loop for the current task; in the root task reset the runnable phase, stop the
  workers' polling, reset the phases and, for a global wait, wait for all units.
\<close>

definition task_complete_body ::
  "('t \<Rightarrow> 't xstate \<Rightarrow> 't xstate res option) \<Rightarrow> 't exec_env \<Rightarrow> nat \<Rightarrow> bool \<Rightarrow> 't xstate
     \<Rightarrow> (dart_ret_t \<times> 't xstate) res option" where
  "task_complete_body loop E th local_only x =
     (if \<not> threads_running (xsched x) \<and> local_only then Some (Inr (DART_OK, x))
      else
        (let x0 = (if \<not> threads_running (xsched x)
                   then map_sum id (\<lambda>r. (xlog x [Ev_start_threads])\<lparr>xrt := r\<rparr>)
                          (start_threads (xenv E) (num_threads (xsched x)) (xrt x))
                   else Inr x)
         in obind (Some x0)
              (\<lambda>x1. let s = xsched x1; is_root = (current_task s th = root_task s) in
                 obind (Some (dart_assert (\<not> (is_root \<and> th \<noteq> 0))))
                   (\<lambda>_. let x2 = (if is_root \<and> \<not> local_only
                                  then (dart__tasking__perform_matching (phase_cur s) x1)\<lparr>xrt :=
                                         (xrt (dart__tasking__perform_matching (phase_cur s) x1))\<lparr>worker_poll_remote := True\<rparr>\<rparr>
                                  else x1);
                            x3 = (if thread_idle_method (xrt x2) = DART_THREAD_IDLE_WAIT then xlog x2 [Ev_cond_broadcast] else x2);
                            task = current_task (xsched x3) th
                        in obind (loop task x3)
                             (\<lambda>x4. Some (Inr (DART_OK,
                                if is_root
                                then xlog ((xlog x4 [Ev_phase_set_runnable (DART_PHASE_FIRST E)])\<lparr>xrt :=
                                             (xrt x4)\<lparr>worker_poll_remote := False\<rparr>\<rparr>)
                                       (Ev_phase_reset # (if local_only then [] else [Ev_remote_progress_blocking]))
                                else x4)))))))"

section \<open>Entry points and the worker loop\<close>

text \<open>\<open>dart__tasking__get_taskqueue\<close>: the queue of the calling thread's NUMA node.\<close>

definition dart__tasking__get_taskqueue :: "nat \<Rightarrow> 't sched \<Rightarrow> 't dart_taskqueue res" where
  "dart__tasking__get_taskqueue th s =
     (case thread_pool s th of None \<Rightarrow> Inl Null_dereference | Some thr \<Rightarrow> Inr (task_queue s (numa_id thr)))"

text \<open>
  \<open>invoke_taskfn\<close>, run in the task's own context: call the task function (its effect
  \<open>fn\<close>); when it leaves through the \<open>longjmp\<close> of a cancellation (\<open>jumped\<close>) the task
  becomes \<open>CANCELLED\<close>. \<open>wrap_task\<close>, the entry function of a task's context: assert that
  it is not the root task, invoke the function and return into the thread's context.
\<close>

definition invoke_taskfn :: "('t xstate \<Rightarrow> 't xstate) \<Rightarrow> bool \<Rightarrow> 't \<Rightarrow> 't xstate \<Rightarrow> 't xstate" where
  "invoke_taskfn fn jumped t x = (let x1 = fn x in if jumped then set_tstate t DART_TASK_CANCELLED x1 else x1)"

definition wrap_task :: "('t xstate \<Rightarrow> 't xstate) \<Rightarrow> bool \<Rightarrow> 't \<Rightarrow> 't xstate \<Rightarrow> 't xstate res" where
  "wrap_task fn jumped t x =
     sbind (dart_assert (t \<noteq> root_task (xsched x)))
       (\<lambda>_. Inr (xlog (invoke_taskfn fn jumped t x) [Ev_context_invoke_retctx]))"

text \<open>\<open>wakeup_thread_single\<close>: signal \<open>task_avail_cond\<close> under the \<open>WAIT\<close> idle method.\<close>

definition wakeup_thread_single :: "'t xstate \<Rightarrow> 't xstate" where
  "wakeup_thread_single x =
     (if thread_idle_method (xrt x) = DART_THREAD_IDLE_WAIT then xlog x [Ev_cond_signal] else x)"

section \<open>Tasks that run to completion\<close>

text \<open>
  Two conditions on a task's code: \<open>body_frame\<close>, it leaves the task table, the
  current tasks, the root task, the cancellation flag and the thread's counters as it
  found them (it computes and returns); \<open>body_pure\<close>, it leaves the whole scheduler
  state as it found it.
\<close>

definition body_frame :: "'t exec_env \<Rightarrow> 't \<Rightarrow> bool" where
  "body_frame E t \<longleftrightarrow> (\<forall>y. tasks (xsched (task_run E t y)) = tasks (xsched y) \<and> current_task (xsched (task_run E t y)) = current_task (xsched y)
       \<and> root_task (xsched (task_run E t y)) = root_task (xsched y) \<and> cancel_requested (xsched (task_run E t y)) = cancel_requested (xsched y)
       \<and> taskctx (task_run E t y) = taskctx y \<and> taskcntr (task_run E t y) = taskcntr y)"

definition body_pure :: "'t exec_env \<Rightarrow> 't \<Rightarrow> bool" where
  "body_pure E t \<longleftrightarrow> (\<forall>y. xsched (task_run E t y) = xsched y)"

section \<open>An example\<close>

text \<open>
  One thread whose root task (0) waits for two children, 1 and 2, queued in the
  high-priority deque of NUMA queue 0; tasks run to completion at once and are active
  while queued.
\<close>

definition example_child :: "nat task_info" where
  "example_child = \<lparr>tstate = DART_TASK_QUEUED, tflags = {}, tprio = DART_PRIO_HIGH, tparent = Some 0, tphase = 0,
                    num_children = 0, numa_node = None, tinstance = 1, has_wait_handle = False\<rparr>"

definition example_xstate :: "nat xstate" where
  "example_xstate =
     (let r = rt_load 0 ((\<lambda>_. root_task_info)(1 := example_child, 2 := example_child))
      in \<lparr>xrt = r\<lparr>rs := (rs r)\<lparr>tasks := (tasks (rs r))(0 := root_task_info\<lparr>num_children := 2\<rparr>),
                  links := \<lparr>tnext = [1 \<mapsto> 2], tprev = [2 \<mapsto> 1]\<rparr>,
                  task_queue := (task_queue (rs r))(0 := \<lparr>lowprio = empty_deque, highprio = \<lparr>head = Some 1, tail = Some 2\<rparr>\<rparr>),
                  thread_pool := [0 \<mapsto> dart_thread_init (example_env (\<lambda>_. True))], num_threads := 1\<rparr>\<rparr>,
          taskctx = \<lambda>_. False, taskcntr = \<lambda>_. 0, xtrace = []\<rparr>)"

definition example_exec_env :: "nat exec_env" where
  "example_exec_env =
     \<lparr>IS_ACTIVE_TASK = \<lambda>st. st = DART_TASK_QUEUED, unresolved_deps = \<lambda>_. 0, unresolved_remote_deps = \<lambda>_. 0,
      DART_PHASE_FIRST = 0, xenv = example_env (\<lambda>_. True), clock = 0, task_run = \<lambda>_ y. y\<rparr>"

section \<open>Properties\<close>

lemma obind_simps [simp]:
  "obind None f = None" "obind (Some (Inl e)) f = Some (Inl e)" "obind (Some (Inr a)) f = f a"
  by (simp_all add: obind_def)

lemma obind_eq_Some_Inr:
  "obind m f = Some (Inr y) \<longleftrightarrow> (\<exists>a. m = Some (Inr a) \<and> f a = Some (Inr y))"
  by (cases m) (auto simp: obind_def split: sum.splits)

lemma xstate_simps [simp]:
  "xsched (xupd x f) = f (xsched x)" "xsched (xlog x evs) = xsched x" "xsched (x\<lparr>taskctx := c\<rparr>) = xsched x"
  "xsched (x\<lparr>taskcntr := n\<rparr>) = xsched x"
  "taskctx (xupd x f) = taskctx x" "taskctx (xlog x evs) = taskctx x"
  "taskcntr (xupd x f) = taskcntr x" "taskcntr (xlog x evs) = taskcntr x"
  by (simp_all add: xsched_def xupd_def xlog_def set_rs_def)

lemma set_tstate_simps [simp]:
  "xsched (set_tstate t st x) = set_task (xsched x) t (tstate_update (\<lambda>_. st))"
  "taskctx (set_tstate t st x) = taskctx x" "taskcntr (set_tstate t st x) = taskcntr x"
  by (simp_all add: set_tstate_def)

lemma set_current_task_simps [simp]:
  "xsched (set_current_task th t x) = (xsched x)\<lparr>current_task := (current_task (xsched x))(th := t)\<rparr>"
  "taskctx (set_current_task th t x) = taskctx x" "taskcntr (set_current_task th t x) = taskcntr x"
  by (simp_all add: set_current_task_def)

lemma destroy_task_simps [simp]:
  "tasks (xsched (dart__tasking__destroy_task t x)) = (tasks (xsched x))(t := (tasks (xsched x) t)\<lparr>tstate := DART_TASK_DESTROYED\<rparr>)"
  "current_task (xsched (dart__tasking__destroy_task t x)) = current_task (xsched x)"
  "root_task (xsched (dart__tasking__destroy_task t x)) = root_task (xsched x)"
  "cancel_requested (xsched (dart__tasking__destroy_task t x)) = cancel_requested (xsched x)"
  "threads_running (xsched (dart__tasking__destroy_task t x)) = threads_running (xsched x)"
  "taskctx (dart__tasking__destroy_task t x) = taskctx x"
  "taskcntr (dart__tasking__destroy_task t x) = taskcntr x"
  by (simp_all add: dart__tasking__destroy_task_def Let_def set_task_def)

lemma destroy_task_phase:
  "phase_ntasks (xsched (dart__tasking__destroy_task t x)) =
     (if tparent (tasks (xsched x) t) = Some (root_task (xsched x))
      then (phase_ntasks (xsched x))(tphase (tasks (xsched x) t) := phase_ntasks (xsched x) (tphase (tasks (xsched x) t)) - 1)
      else phase_ntasks (xsched x))"
  by (simp add: dart__tasking__destroy_task_def Let_def set_task_def)

subsection \<open>Monotonicity\<close>

text \<open>
  The operations that take the nested \<open>task_complete\<close> as a parameter are monotone in
  it, so that the processing loop of the theory \<open>TaskComplete\<close> can pass itself to them.
\<close>

lemma obind_mono [partial_function_mono]:
  assumes mf: "mono_option B" and mg: "\<And>y. mono_option (\<lambda>f. C y f)"
  shows "mono_option (\<lambda>f. obind (B f) (\<lambda>y. C y f))"
proof -
  have "mono_option (\<lambda>f. case r of Inl e \<Rightarrow> Some (Inl e) | Inr a \<Rightarrow> C a f)" for r
    using mg by (cases r) (simp_all add: option.const_mono)
  then show ?thesis unfolding obind_def by (rule bind_mono [OF mf])
qed

lemma handle_task_return_mono [partial_function_mono]:
  "(\<And>y. mono_option (\<lambda>f. C y f)) \<Longrightarrow> mono_option (\<lambda>f. handle_task_return E (\<lambda>y. C y f) th t x)"
  unfolding handle_task_return_def Let_def by (intro partial_function_mono) simp_all

lemma handle_task_mono [partial_function_mono]:
  "(\<And>y. mono_option (\<lambda>f. C y f)) \<Longrightarrow> mono_option (\<lambda>f. handle_task E (\<lambda>y. C y f) th t x)"
  unfolding handle_task_def Let_def by (intro partial_function_mono) simp_all

lemma handle_inline_task_mono [partial_function_mono]:
  "(\<And>y. mono_option (\<lambda>f. C y f)) \<Longrightarrow> mono_option (\<lambda>f. handle_inline_task E (\<lambda>y. C y f) th t x)"
  unfolding handle_inline_task_def Let_def by (intro partial_function_mono) simp_all

lemma handle_task_internal_mono [partial_function_mono]:
  "(\<And>y. mono_option (\<lambda>f. C y f)) \<Longrightarrow> mono_option (\<lambda>f. dart__tasking__handle_task_internal E (\<lambda>y. C y f) th t x)"
  unfolding dart__tasking__handle_task_internal_def
  by (cases t) (auto intro!: partial_function_mono)

lemma task_complete_body_mono [partial_function_mono]:
  "(\<And>a y. mono_option (\<lambda>f. L a y f)) \<Longrightarrow> mono_option (\<lambda>f. task_complete_body (\<lambda>a y. L a y f) E th l x)"
  unfolding task_complete_body_def Let_def by (intro partial_function_mono) simp_all

text \<open>
  A dummy task allocated and destroyed again leaves the phase counts as they were, provided the root task is the only task in state \<open>ROOT\<close> (allocation tests the parent's state, destruction the parent's identity).
\<close>

theorem dummytask_phase_roundtrip:
  assumes root: "tstate (tasks (xsched x) (current_task (xsched x) th)) = DART_TASK_ROOT \<longleftrightarrow> current_task (xsched x) th = root_task (xsched x)"
  shows "phase_ntasks (xsched (dart__tasking__destroy_task t (dart__tasking__allocate_dummytask SE th t x))) = phase_ntasks (xsched x)"
  using root by (simp add: destroy_task_phase dart__tasking__allocate_dummytask_def Let_def fun_upd_idem)


lemma task_set_finished_eq [simp]:
  "task_set_finished t x = (DART_TASK_HAS_REF \<in> tflags (tasks (xsched x) t), set_tstate t DART_TASK_FINISHED x)"
  by (simp add: task_set_finished_def Let_def set_task_def)

lemma task_release_parent_Some:
  "task_release_parent t (Some p) has_ref x =
     Inr (xupd (if \<not> has_ref then dart__tasking__destroy_task t x else x) (\<lambda>s. set_task s p (num_children_update (\<lambda>n. n - 1))))"
  by (simp add: task_release_parent_def)

lemma mark_detached_simps [simp]:
  "xsched (dart__tasking__mark_detached t x) = set_task (xsched x) t (tstate_update (\<lambda>_. DART_TASK_DETACHED))"
  "taskctx (dart__tasking__mark_detached t x) = taskctx x" "taskcntr (dart__tasking__mark_detached t x) = taskcntr x"
  by (simp_all add: dart__tasking__mark_detached_def)

text \<open>
  With one thread and one NUMA node, \<open>next_task\<close> pops the head of NUMA queue 0.
\<close>

lemma next_task_single_pop:
  assumes n: "num_threads s = 1" "num_numa_nodes s = 1" and idle: "idle_threads s" and t0: "thread_pool s 0 = Some thr"
    and q: "tq_inv (links s) (task_queue s 0) q" and c: "fst (tq_pop_spec q) = Some c"
  shows "\<exists>L' tq'. next_task 0 s = Some (Inr (Some c, s\<lparr>links := L', task_queue := (task_queue s)(0 := tq')\<rparr>))
           \<and> tq_inv L' tq' (snd (tq_pop_spec q))"
proof -
  obtain L' tq' where p: "dart_tasking_taskqueue_pop (links s) (task_queue s 0) = Inr (L', tq', Some c)"
      "tq_inv L' tq' (snd (tq_pop_spec q))"
    using dart_tasking_taskqueue_pop_refine [OF q] c by auto
  have th: "set (tqueue thr) \<subseteq> {None}" "next_task_slot thr = None" "last_steal thr = 0"
    using idle t0 by (auto simp: idle_threads_def)
  have l: "next_task_local thr = (None, thr)"
    using th by (simp add: next_task_local_def next_task_thread_def scan_front_None)
  have b: "next_task_thread_back (tqueue thr) = None" using idle_slots [OF idle, of 0] t0 by (simp add: slots_def)
  have tp: "(thread_pool s)(0 := Some thr) = thread_pool s" using t0 by (simp add: fun_upd_idem)
  have sl: "\<And>ok Q. steal_loop ok (Suc 0) 0 0 Q = Some None" by (simp add: steal_loop.simps)
  have np: "numa_pop_loop (numa_id thr) 0 s = Inr (Some c, s\<lparr>links := L', task_queue := (task_queue s)(0 := tq')\<rparr>)"
    using p(1) n(2) by (subst numa_pop_loop.simps) simp
  have "next_task 0 s = Some (Inr (Some c, s\<lparr>links := L', task_queue := (task_queue s)(0 := tq')\<rparr>))"
    using t0 l b tp np n th(3) by (simp add: next_task_def sl)
  with p(2) show ?thesis by blast
qed


text \<open>
  \<open>handle_task\<close> on a task without children whose code leaves the scheduler state alone
  changes only the task table and the phase counts; the nested wait is not called.
\<close>

lemma handle_task_pure:
  assumes act: "IS_ACTIVE_TASK E (tstate (tasks (xsched x) t))" "unresolved_deps E t = 0" "unresolved_remote_deps E t = 0"
    and nc: "\<not> cancel_requested (xsched x)" and body: "body_pure E t" and nch: "num_children (tasks (xsched x) t) = 0"
    and par: "tparent (tasks (xsched x) t) = Some p" "p \<noteq> t" and nr: "t \<noteq> root_task (xsched x)"
  shows "\<exists>x'. handle_task E tc th t x = Some (Inr x')
     \<and> links (xsched x') = links (xsched x) \<and> task_queue (xsched x') = task_queue (xsched x) \<and> thread_pool (xsched x') = thread_pool (xsched x)
     \<and> num_threads (xsched x') = num_threads (xsched x) \<and> num_numa_nodes (xsched x') = num_numa_nodes (xsched x)
     \<and> num_units (xsched x') = num_units (xsched x) \<and> cancel_requested (xsched x') = cancel_requested (xsched x)
     \<and> root_task (xsched x') = root_task (xsched x) \<and> current_task (xsched x') = current_task (xsched x)
     \<and> num_children (tasks (xsched x') p) = num_children (tasks (xsched x) p) - 1
     \<and> (\<forall>u. u \<noteq> t \<and> u \<noteq> p \<longrightarrow> tasks (xsched x') u = tasks (xsched x) u)"
proof -
  let ?x0 = "set_tstate t DART_TASK_RUNNING x"
  let ?y0 = "xlog (set_current_task th t (if \<not> taskctx ?x0 t then (xlog ?x0 [Ev_context_create t])\<lparr>taskctx := (taskctx ?x0)(t := True)\<rparr> else ?x0)) [Ev_context_swap_in t]"
  define y where "y = task_run E t ?y0"
  have inv: "invoke_task E th t ?x0 = y" using nc by (simp add: invoke_task_def y_def Let_def)
  have fy: "xsched y = (set_task (xsched x) t (tstate_update (\<lambda>_. DART_TASK_RUNNING)))\<lparr>current_task := (current_task (xsched x))(th := t)\<rparr>"
    using body unfolding body_pure_def y_def by simp
  show ?thesis
    using act par nr nc nch fy
    by (simp add: handle_task_def inv handle_task_return_def Let_def task_release_parent_Some set_task_def
        dart__tasking__destroy_task_def)
qed

lemma tq_inv_distinct: "tq_inv L tq q \<Longrightarrow> distinct (fst q @ snd q)"
  by (simp add: tq_inv_def deque_inv_def)

lemma tq_pop_spec_Cons:
  "fst q @ snd q = c # cs \<Longrightarrow> fst (tq_pop_spec q) = Some c \<and> fst (snd (tq_pop_spec q)) @ snd (snd (tq_pop_spec q)) = cs"
  by (cases "fst q") (auto simp: tq_pop_spec_def split: list.splits)

lemma example_xstate_facts:
  "tasks (xsched example_xstate) 0 = root_task_info\<lparr>num_children := 2\<rparr>" "tasks (xsched example_xstate) (Suc 0) = example_child"
  "tasks (xsched example_xstate) 2 = example_child" "root_task (xsched example_xstate) = 0"
  "current_task (xsched example_xstate) = (\<lambda>_. 0)" "cancel_requested (xsched example_xstate) = False"
  "taskcntr example_xstate = (\<lambda>_. 0)" "taskctx example_xstate = (\<lambda>_. False)"
  by (simp_all add: example_xstate_def xsched_def rt_load_def)

lemma example_exec_env_facts:
  "IS_ACTIVE_TASK example_exec_env = (\<lambda>st. st = DART_TASK_QUEUED)" "unresolved_deps example_exec_env = (\<lambda>_. 0)"
  "unresolved_remote_deps example_exec_env = (\<lambda>_. 0)" "task_run example_exec_env = (\<lambda>_ y. y)"
  by (simp_all add: example_exec_env_def)

theorem dummytask_phase_roundtrip_witness:
  "phase_ntasks (xsched (dart__tasking__destroy_task 3 (dart__tasking__allocate_dummytask
      \<lparr>datadeps_runnable = \<lambda>_. True, phase_is_runnable = \<lambda>_. True, comm_task_enqueued = \<lambda>_. False,
       var_space_size = 0, DART_PHASE_ANY = -1\<rparr> 0 3 example_xstate))) = phase_ntasks (xsched example_xstate)"
  using dummytask_phase_roundtrip [of example_xstate 0]
  by (simp add: example_xstate_def example_child_def xsched_def rt_load_def root_task_info_def)

text \<open>A task function that leaves the scheduler state alone and returns normally gives a task body that does too.\<close>

lemma wrap_task_pure:
  assumes "\<forall>y. xsched (fn y) = xsched y" "t \<noteq> root_task (xsched x)"
  shows "\<exists>x'. wrap_task fn False t x = Inr x' \<and> xsched x' = xsched x"
  using assms by (simp add: wrap_task_def invoke_taskfn_def)

end
