(* ===== verification/TaskComplete.thy ===== *)
theory TaskComplete
  imports TaskExec
begin

text \<open>
  The processing loop of \<open>dart__tasking__task_complete\<close> (lines 1897--1910 of
  \<open>dart_tasking_instrumentation.c\<close>) and everything that reaches it: while the waiting
  task has children, take the next task (or make remote progress and try again), check
  for cancellation and handle the task with \<open>dart__tasking__handle_task_internal\<close>, whose
  nested \<open>dart__tasking__task_complete(true)\<close> is the loop again. The loop is a
  \<open>partial_function (option)\<close> that passes itself to the operations of the theory
  \<open>TaskExec\<close> (they are monotone in it); \<open>None\<close> is a loop that runs forever. The thread is
  the one the loop started on (the code re-reads it after each task; a task that migrates
  the waiting context to another thread is not modelled). On top of it:
  \<open>dart__tasking__task_complete\<close>, \<open>dart__tasking__handle_task\<close> and one iteration of the
  worker loop of \<open>thread_main\<close>.
\<close>

section \<open>The processing loop\<close>

partial_function (option) task_complete_loop :: "'t exec_env \<Rightarrow> nat \<Rightarrow> 't \<Rightarrow> 't xstate \<Rightarrow> 't xstate res option" where
  "task_complete_loop E th task x =
     (if 0 < num_children (tasks (xsched x) task)
      then obind (next_task_or_progress E th x)
             (\<lambda>(nt, x1). obind (dart__tasking__handle_task_internal E
                                   (\<lambda>y. obind (task_complete_body (task_complete_loop E th) E th True y) (\<lambda>(_, y'). Some (Inr y')))
                                   th nt (xlog x1 [Ev_check_cancellation]))
                            (\<lambda>x2. task_complete_loop E th task x2))
      else Some (Inr x))"

declare task_complete_loop.simps [code]

text \<open>\<open>dart__tasking__task_complete(true)\<close> as the nested call sees it: the state it returns.\<close>

definition task_complete_local :: "'t exec_env \<Rightarrow> nat \<Rightarrow> 't xstate \<Rightarrow> 't xstate res option" where
  "task_complete_local E th y = obind (task_complete_body (task_complete_loop E th) E th True y) (\<lambda>(_, y'). Some (Inr y'))"

definition dart__tasking__task_complete :: "'t exec_env \<Rightarrow> nat \<Rightarrow> bool \<Rightarrow> 't xstate \<Rightarrow> (dart_ret_t \<times> 't xstate) res option" where
  "dart__tasking__task_complete E th local_only x = task_complete_body (task_complete_loop E th) E th local_only x"

section \<open>Entry points and the worker loop\<close>

text \<open>\<open>dart__tasking__handle_task\<close>: handle a task on the calling thread.\<close>

definition dart__tasking__handle_task :: "'t exec_env \<Rightarrow> nat \<Rightarrow> 't option \<Rightarrow> 't xstate \<Rightarrow> 't xstate res option" where
  "dart__tasking__handle_task E th t x = dart__tasking__handle_task_internal E (task_complete_local E th) th t x"

text \<open>
  One iteration of the worker loop of \<open>thread_main\<close>: check for cancellation, take the
  next task, handle it, and run the idle logic with the thread's cached idle method; when
  that polls, \<open>remote_progress\<close> runs (forced when no task was found).
\<close>

definition thread_main_iter ::
  "'t exec_env \<Rightarrow> dart_thread_idle_t \<Rightarrow> nat \<Rightarrow> idle_state \<Rightarrow> 't xstate \<Rightarrow> ((idle_action list \<times> idle_state) \<times> 't xstate) res option" where
  "thread_main_iter E method th st x =
     (let x0 = xlog x [Ev_check_cancellation] in
      obind (next_task th (xsched x0))
        (\<lambda>(t, s1). obind (dart__tasking__handle_task_internal E (task_complete_local E th) th t (xupd x0 (\<lambda>_. s1)))
           (\<lambda>x2. let (acts, st') = thread_main_idle (xrt x2) method th (t \<noteq> None) (clock E) st in
                 case acts of
                   [Idle_remote_progress f] \<Rightarrow>
                     (case remote_progress th f (clock E) (xsched x2) of
                        Inl e \<Rightarrow> Some (Inl e)
                      | Inr (_, s3) \<Rightarrow> Some (Inr ((acts, st'), xupd x2 (\<lambda>_. s3))))
                 | _ \<Rightarrow> Some (Inr ((acts, st'), x2)))))"

section \<open>Properties\<close>

lemma task_complete_loop_unfold:
  "task_complete_loop E th task x =
     (if 0 < num_children (tasks (xsched x) task)
      then obind (next_task_or_progress E th x)
             (\<lambda>(nt, x1). obind (dart__tasking__handle_task_internal E (task_complete_local E th) th nt (xlog x1 [Ev_check_cancellation]))
                            (task_complete_loop E th task))
      else Some (Inr x))"
  by (subst task_complete_loop.simps) (unfold task_complete_local_def [abs_def], rule refl)

text \<open>The loop returns normally only when the waiting task has no children left.\<close>

lemma task_complete_loop_exit:
  assumes r: "task_complete_loop E th w x = Some (Inr y)"
  shows "num_children (tasks (xsched y) w) \<le> 0"
  by (rule task_complete_loop.raw_induct
        [where P = "\<lambda>E th w x r. \<forall>y. r = Inr y \<longrightarrow> num_children (tasks (xsched y) w) \<le> 0",
         of "(((E, th), w), x)" "Inr y", simplified, OF _ r])
     (auto simp: obind_eq_Some_Inr split: if_splits prod.splits)

text \<open>
  Without a task anywhere (every thread idle, every NUMA queue empty) and with a single
  unit, a waiting task with children makes the loop spin forever: \<open>next_task\<close> and
  \<open>remote_progress\<close> leave the scheduler as it is.
\<close>

lemma task_complete_loop_spins:
  assumes idle: "idle_threads s" "thread_pool s th \<noteq> None" "thread_pool s 0 \<noteq> None" "th < num_threads s"
    "\<forall>k. task_queue s k = dart_tasking_taskqueue_init" and u: "num_units s = 1" and w: "0 < num_children (tasks s w)"
    and x: "xsched x = s"
  shows "task_complete_loop E th w x = None"
proof (rule ccontr)
  assume "task_complete_loop E th w x \<noteq> None"
  then obtain r where r: "task_complete_loop E th w x = Some r" by blast
  obtain thr where thr: "thread_pool s th = Some thr" using idle(2) by blast
  have nt: "next_task th s = Some (Inr (None, s))" using next_task_idle [OF idle(1) thr idle(3,4,5)] .
  have np: "\<And>E' y. xsched y = s \<Longrightarrow> next_task_or_progress E' th y = Some (Inr (None, xupd y (\<lambda>_. s)))"
    using nt u by (simp add: next_task_or_progress_def remote_progress_def)
  have w': "\<And>y. xsched y = s \<Longrightarrow> 0 < num_children (tasks (xsched y) w)" using w by simp
  have "xsched x \<noteq> s"
    by (rule task_complete_loop.raw_induct
          [where P = "\<lambda>E' th' w' x' r. th' = th \<longrightarrow> w' = w \<longrightarrow> xsched x' \<noteq> s",
           of "(((E, th), w), x)" r, simplified, OF _ r])
       (force simp: np w' dart__tasking__handle_task_internal_def)
  then show False using x by simp
qed

lemma task_complete_local_unstarted:
  "\<not> threads_running (xsched y) \<Longrightarrow> task_complete_local E th y = Some (Inr y)"
  by (simp add: task_complete_local_def task_complete_body_def)

text \<open>
  A task that returns to \<open>handle_task\<close> with children outstanding, while the threads run
  and no cancellation is requested, is not finished before they are: with nothing else to
  run on a single unit, \<open>handle_task\<close> waits in the nested \<open>task_complete(true)\<close> forever.
\<close>

lemma handle_task_waits_for_children:
  assumes act: "IS_ACTIVE_TASK E (tstate (tasks (xsched x) t))" "unresolved_deps E t = 0" "unresolved_remote_deps E t = 0"
    and nc: "\<not> cancel_requested (xsched x)" and body: "body_pure E t" and nr: "t \<noteq> root_task (xsched x)"
    and run: "threads_running (xsched x)" and ch: "0 < num_children (tasks (xsched x) t)"
    and idle: "idle_threads (xsched x)" "thread_pool (xsched x) th \<noteq> None" "thread_pool (xsched x) 0 \<noteq> None"
      "th < num_threads (xsched x)" "\<forall>k. task_queue (xsched x) k = dart_tasking_taskqueue_init" "num_units (xsched x) = 1"
  shows "handle_task E (task_complete_local E th) th t x = None"
proof -
  let ?x0 = "set_tstate t DART_TASK_RUNNING x"
  let ?y0 = "xlog (set_current_task th t (if \<not> taskctx ?x0 t then (xlog ?x0 [Ev_context_create t])\<lparr>taskctx := (taskctx ?x0)(t := True)\<rparr> else ?x0)) [Ev_context_swap_in t]"
  define y where "y = task_run E t ?y0"
  have inv: "invoke_task E th t ?x0 = y" using nc by (simp add: invoke_task_def y_def Let_def)
  define s where "s = (set_task (xsched x) t (tstate_update (\<lambda>_. DART_TASK_RUNNING)))\<lparr>current_task := (current_task (xsched x))(th := t)\<rparr>"
  have fy: "xsched y = s" using body unfolding body_pure_def y_def s_def by simp
  have sp: "task_complete_loop E th t z = None" if "xsched z = s" for z
    by (rule task_complete_loop_spins [OF _ _ _ _ _ _ _ that]) (use idle ch in \<open>simp_all add: s_def idle_threads_def set_task_def\<close>)
  have "task_complete_local E th y = None"
    using run nr fy sp by (simp add: task_complete_local_def task_complete_body_def Let_def s_def set_task_def)
  then show ?thesis
    using act nc fy ch by (simp add: handle_task_def inv handle_task_return_def Let_def s_def set_task_def)
qed

text \<open>
  When the threads are not running, the nested \<open>task_complete(true)\<close> returns at once
  (lines 1844--1847), so \<open>handle_task\<close> finishes and destroys a task whose children are
  still outstanding.
\<close>

lemma handle_task_unstarted_destroys:
  assumes act: "IS_ACTIVE_TASK E (tstate (tasks (xsched x) t))" "unresolved_deps E t = 0" "unresolved_remote_deps E t = 0"
    and nc: "\<not> cancel_requested (xsched x)" and body: "body_pure E t"
    and par: "tparent (tasks (xsched x) t) = Some p" "p \<noteq> t" and nr: "t \<noteq> root_task (xsched x)"
    and nt: "\<not> threads_running (xsched x)" and nref: "DART_TASK_HAS_REF \<notin> tflags (tasks (xsched x) t)"
  shows "\<exists>x'. handle_task E (task_complete_local E th) th t x = Some (Inr x')
           \<and> tstate (tasks (xsched x') t) = DART_TASK_DESTROYED \<and> num_children (tasks (xsched x') t) = num_children (tasks (xsched x) t)"
proof -
  let ?x0 = "set_tstate t DART_TASK_RUNNING x"
  let ?y0 = "xlog (set_current_task th t (if \<not> taskctx ?x0 t then (xlog ?x0 [Ev_context_create t])\<lparr>taskctx := (taskctx ?x0)(t := True)\<rparr> else ?x0)) [Ev_context_swap_in t]"
  define y where "y = task_run E t ?y0"
  have inv: "invoke_task E th t ?x0 = y" using nc by (simp add: invoke_task_def y_def Let_def)
  have fy: "xsched y = (set_task (xsched x) t (tstate_update (\<lambda>_. DART_TASK_RUNNING)))\<lparr>current_task := (current_task (xsched x))(th := t)\<rparr>"
    using body unfolding body_pure_def y_def by simp
  have tc: "task_complete_local E th y = Some (Inr y)" using nt fy by (simp add: task_complete_local_unstarted set_task_def)
  show ?thesis
    using act par nr nc nref fy tc
    by (simp add: handle_task_def inv handle_task_return_def Let_def task_release_parent_Some set_task_def)
qed

text \<open>
  \<open>dart__tasking__release_detached\<close> finishes and, without a reference, destroys a detached
  task whatever its child count: it does not wait for the children.
\<close>

lemma release_detached_with_children:
  assumes "tstate (tasks (xsched x) t) = DART_TASK_DETACHED" "tparent (tasks (xsched x) t) = Some p" "p \<noteq> t"
    and "DART_TASK_HAS_REF \<notin> tflags (tasks (xsched x) t)"
  shows "\<exists>x'. dart__tasking__release_detached t x = Inr x' \<and> tstate (tasks (xsched x') t) = DART_TASK_DESTROYED
           \<and> num_children (tasks (xsched x') t) = num_children (tasks (xsched x) t)"
  using assms by (simp add: dart__tasking__release_detached_def task_release_parent_Some set_task_def)

text \<open>
  C24: \<open>handle_task\<close> (with its nested \<open>task_complete(true)\<close>) on an active task without unresolved dependencies and without children, whose code runs to completion, finishes it: the task is \<open>FINISHED\<close> if a reference is held and \<open>DESTROYED\<close> otherwise, its parent's child count drops by one, no other task changes, the thread's current task is restored, the task is counted and its context is released.
\<close>

theorem handle_task_finished:
  assumes act: "IS_ACTIVE_TASK E (tstate (tasks (xsched x) t))" "unresolved_deps E t = 0" "unresolved_remote_deps E t = 0"
    and nc: "\<not> cancel_requested (xsched x)" and body: "body_frame E t" and nch: "num_children (tasks (xsched x) t) = 0"
    and par: "tparent (tasks (xsched x) t) = Some p" "p \<noteq> t" and nr: "t \<noteq> root_task (xsched x)"
  shows "\<exists>x'. handle_task E (task_complete_local E th) th t x = Some (Inr x')
     \<and> tstate (tasks (xsched x') t) = (if DART_TASK_HAS_REF \<in> tflags (tasks (xsched x) t) then DART_TASK_FINISHED else DART_TASK_DESTROYED)
     \<and> num_children (tasks (xsched x') p) = num_children (tasks (xsched x) p) - 1
     \<and> (\<forall>u. u \<noteq> t \<and> u \<noteq> p \<longrightarrow> tasks (xsched x') u = tasks (xsched x) u)
     \<and> current_task (xsched x') th = current_task (xsched x) th
     \<and> taskcntr x' th = Suc (taskcntr x th) \<and> \<not> taskctx x' t"
proof -
  let ?x0 = "set_tstate t DART_TASK_RUNNING x"
  let ?y0 = "xlog (set_current_task th t (if \<not> taskctx ?x0 t then (xlog ?x0 [Ev_context_create t])\<lparr>taskctx := (taskctx ?x0)(t := True)\<rparr> else ?x0)) [Ev_context_swap_in t]"
  define y where "y = task_run E t ?y0"
  have inv: "invoke_task E th t ?x0 = y" using nc by (simp add: invoke_task_def y_def Let_def)
  have fy: "tasks (xsched y) = (tasks (xsched x))(t := (tasks (xsched x) t)\<lparr>tstate := DART_TASK_RUNNING\<rparr>)"
      "current_task (xsched y) = (current_task (xsched x))(th := t)" "root_task (xsched y) = root_task (xsched x)"
      "cancel_requested (xsched y) = cancel_requested (xsched x)" "taskcntr y = taskcntr x"
    using body unfolding body_frame_def y_def by (simp_all add: set_task_def)
  show ?thesis
    using act par nr nc nch fy
    by (simp add: handle_task_def inv handle_task_return_def Let_def task_release_parent_Some set_task_def)
qed

text \<open>
  C5: a task without children that detaches and is later released by \<open>dart__tasking__release_detached\<close> ends in the same scheduler state as the same task finishing in place in \<open>handle_task\<close>: same task table (finished or destroyed, parent's child count decremented once), same phases and current tasks; both paths release its context, and only the direct path counts it in \<open>taskcntr\<close>. (With children the paths differ: only the direct one waits for them.)
\<close>

theorem detach_release_equiv:
  assumes act: "IS_ACTIVE_TASK E (tstate (tasks (xsched x) t))" "unresolved_deps E t = 0" "unresolved_remote_deps E t = 0"
    and nc: "\<not> cancel_requested (xsched x)" and body: "body_frame E t" and nch: "num_children (tasks (xsched x) t) = 0"
    and par: "tparent (tasks (xsched x) t) = Some p" "p \<noteq> t" and nr: "t \<noteq> root_task (xsched x)"
  shows "\<exists>xa xb xc. handle_task E (task_complete_local E th) th t x = Some (Inr xa)
           \<and> handle_task (E\<lparr>task_run := \<lambda>u y. dart__tasking__mark_detached u (task_run E u y)\<rparr>)
               (task_complete_local (E\<lparr>task_run := \<lambda>u y. dart__tasking__mark_detached u (task_run E u y)\<rparr>) th) th t x = Some (Inr xb)
           \<and> dart__tasking__release_detached t xb = Inr xc
           \<and> xsched xc = xsched xa \<and> \<not> taskctx xa t \<and> \<not> taskctx xc t
           \<and> taskcntr xa th = Suc (taskcntr x th) \<and> taskcntr xc th = taskcntr x th"
proof -
  let ?D = "E\<lparr>task_run := \<lambda>u y. dart__tasking__mark_detached u (task_run E u y)\<rparr>"
  let ?x0 = "set_tstate t DART_TASK_RUNNING x"
  let ?y0 = "xlog (set_current_task th t (if \<not> taskctx ?x0 t then (xlog ?x0 [Ev_context_create t])\<lparr>taskctx := (taskctx ?x0)(t := True)\<rparr> else ?x0)) [Ev_context_swap_in t]"
  define y where "y = task_run E t ?y0"
  have inv: "invoke_task E th t ?x0 = y" using nc by (simp add: invoke_task_def y_def Let_def)
  have invd: "invoke_task ?D th t ?x0 = dart__tasking__mark_detached t y"
    using nc by (simp add: invoke_task_def y_def Let_def)
  have fy: "tasks (xsched y) = (tasks (xsched x))(t := (tasks (xsched x) t)\<lparr>tstate := DART_TASK_RUNNING\<rparr>)"
      "current_task (xsched y) = (current_task (xsched x))(th := t)" "root_task (xsched y) = root_task (xsched x)"
      "cancel_requested (xsched y) = cancel_requested (xsched x)" "taskcntr y = taskcntr x"
    using body unfolding body_frame_def y_def by (simp_all add: set_task_def)
  show ?thesis
    using act par nr nc nch fy
    by (simp add: handle_task_def inv invd handle_task_return_def Let_def task_release_parent_Some set_task_def
        dart__tasking__release_detached_def dart__tasking__destroy_task_def fun_upd_twist)
qed

text \<open>
  C2: on a single thread with one NUMA node and no cancellation, the processing loop of \<open>dart__tasking__task_complete\<close> (whose tasks may call it again) returns when the waiting task's children are queued in its NUMA queue, each active, without unresolved dependencies, not inline, without children of its own, and running to completion without changing the scheduler state; the waiting task then has no children left.
\<close>

theorem task_complete_loop_single:
  assumes n: "num_threads (xsched x) = 1" "num_numa_nodes (xsched x) = 1"
    and idle: "idle_threads (xsched x)" and t0: "thread_pool (xsched x) 0 \<noteq> None" and nc: "\<not> cancel_requested (xsched x)"
    and q: "tq_inv (links (xsched x)) (task_queue (xsched x) 0) q"
    and w: "num_children (tasks (xsched x) w) = int (length (fst q @ snd q))"
    and ch: "\<forall>c\<in>set (fst q @ snd q). tparent (tasks (xsched x) c) = Some w \<and> c \<noteq> w \<and> c \<noteq> root_task (xsched x)
              \<and> IS_ACTIVE_TASK E (tstate (tasks (xsched x) c)) \<and> unresolved_deps E c = 0 \<and> unresolved_remote_deps E c = 0
              \<and> DART_TASK_INLINE \<notin> tflags (tasks (xsched x) c) \<and> num_children (tasks (xsched x) c) = 0 \<and> body_pure E c"
  shows "\<exists>x'. task_complete_loop E 0 w x = Some (Inr x') \<and> num_children (tasks (xsched x') w) = 0"
  using assms
proof (induction "length (fst q @ snd q)" arbitrary: x q)
  case 0
  then show ?case by (subst task_complete_loop_unfold) simp
next
  case (Suc k)
  obtain c cs where cs: "fst q @ snd q = c # cs" using Suc.hyps(2) by (cases "fst q @ snd q") auto
  have pop: "fst (tq_pop_spec q) = Some c" "fst (snd (tq_pop_spec q)) @ snd (snd (tq_pop_spec q)) = cs"
    using tq_pop_spec_Cons [OF cs] by simp_all
  obtain thr where thr: "thread_pool (xsched x) 0 = Some thr" using Suc.prems(4) by blast
  obtain L' tq' where nt: "next_task 0 (xsched x) = Some (Inr (Some c, (xsched x)\<lparr>links := L', task_queue := (task_queue (xsched x))(0 := tq')\<rparr>))"
      and q': "tq_inv L' tq' (snd (tq_pop_spec q))"
    using next_task_single_pop [OF Suc.prems(1,2,3) thr Suc.prems(6) pop(1)] by blast
  define x1 where "x1 = xlog (xupd x (\<lambda>_. (xsched x)\<lparr>links := L', task_queue := (task_queue (xsched x))(0 := tq')\<rparr>)) [Ev_check_cancellation]"
  have ntp: "next_task_or_progress E 0 x = Some (Inr (Some c, xupd x (\<lambda>_. (xsched x)\<lparr>links := L', task_queue := (task_queue (xsched x))(0 := tq')\<rparr>)))"
    using nt by (simp add: next_task_or_progress_def)
  have cc: "tparent (tasks (xsched x) c) = Some w" "c \<noteq> w" "c \<noteq> root_task (xsched x)"
      "IS_ACTIVE_TASK E (tstate (tasks (xsched x) c))" "unresolved_deps E c = 0" "unresolved_remote_deps E c = 0"
      "DART_TASK_INLINE \<notin> tflags (tasks (xsched x) c)" "num_children (tasks (xsched x) c) = 0" "body_pure E c"
    using Suc.prems(8) cs by auto
  have x1: "tasks (xsched x1) = tasks (xsched x)" "root_task (xsched x1) = root_task (xsched x)" "cancel_requested (xsched x1) = cancel_requested (xsched x)"
    by (simp_all add: x1_def)
  obtain x2 where h: "handle_task E (task_complete_local E 0) 0 c x1 = Some (Inr x2)"
      and f: "links (xsched x2) = L'" "task_queue (xsched x2) = (task_queue (xsched x))(0 := tq')" "thread_pool (xsched x2) = thread_pool (xsched x)"
        "num_threads (xsched x2) = num_threads (xsched x)" "num_numa_nodes (xsched x2) = num_numa_nodes (xsched x)"
        "cancel_requested (xsched x2) = cancel_requested (xsched x)" "root_task (xsched x2) = root_task (xsched x)"
        "num_children (tasks (xsched x2) w) = num_children (tasks (xsched x) w) - 1"
        "\<forall>u. u \<noteq> c \<and> u \<noteq> w \<longrightarrow> tasks (xsched x2) u = tasks (xsched x) u"
    using handle_task_pure [of E x1 c w "task_complete_local E 0" 0] cc x1 Suc.prems(5) by (auto simp: x1_def)
  have hi: "dart__tasking__handle_task_internal E (task_complete_local E 0) 0 (Some c) x1 = Some (Inr x2)"
    using h cc(7) x1(1) by (simp add: dart__tasking__handle_task_internal_def)
  have step: "task_complete_loop E 0 w x = task_complete_loop E 0 w x2"
    using Suc.prems(7) Suc.hyps(2) ntp hi by (subst task_complete_loop_unfold) (simp add: x1_def)
  have d: "distinct (c # cs)" using tq_inv_distinct [OF Suc.prems(6)] cs by simp
  have ih: "\<exists>x'. task_complete_loop E 0 w x2 = Some (Inr x') \<and> num_children (tasks (xsched x') w) = 0"
  proof (rule Suc.hyps(1))
    show "k = length (fst (snd (tq_pop_spec q)) @ snd (snd (tq_pop_spec q)))" using pop(2) cs Suc.hyps(2) by simp
    show "num_threads (xsched x2) = 1" "num_numa_nodes (xsched x2) = 1" using f Suc.prems(1,2) by simp_all
    show "idle_threads (xsched x2)" "thread_pool (xsched x2) 0 \<noteq> None" "\<not> cancel_requested (xsched x2)"
      using f Suc.prems(3,4,5) by (simp_all add: idle_threads_def)
    show "tq_inv (links (xsched x2)) (task_queue (xsched x2) 0) (snd (tq_pop_spec q))" using f q' by simp
    show "num_children (tasks (xsched x2) w) = int (length (fst (snd (tq_pop_spec q)) @ snd (snd (tq_pop_spec q))))"
      using f(8) Suc.prems(7) cs pop(2) by simp
    show "\<forall>c'\<in>set (fst (snd (tq_pop_spec q)) @ snd (snd (tq_pop_spec q))). tparent (tasks (xsched x2) c') = Some w \<and> c' \<noteq> w
            \<and> c' \<noteq> root_task (xsched x2) \<and> IS_ACTIVE_TASK E (tstate (tasks (xsched x2) c')) \<and> unresolved_deps E c' = 0
            \<and> unresolved_remote_deps E c' = 0 \<and> DART_TASK_INLINE \<notin> tflags (tasks (xsched x2) c')
            \<and> num_children (tasks (xsched x2) c') = 0 \<and> body_pure E c'"
    proof
      fix c' assume c': "c' \<in> set (fst (snd (tq_pop_spec q)) @ snd (snd (tq_pop_spec q)))"
      then have "c' \<in> set cs" "c' \<noteq> c" using pop(2) d by auto
      moreover have "c' \<noteq> w" using \<open>c' \<in> set cs\<close> Suc.prems(8) cs by auto
      ultimately show "tparent (tasks (xsched x2) c') = Some w \<and> c' \<noteq> w
            \<and> c' \<noteq> root_task (xsched x2) \<and> IS_ACTIVE_TASK E (tstate (tasks (xsched x2) c')) \<and> unresolved_deps E c' = 0
            \<and> unresolved_remote_deps E c' = 0 \<and> DART_TASK_INLINE \<notin> tflags (tasks (xsched x2) c')
            \<and> num_children (tasks (xsched x2) c') = 0 \<and> body_pure E c'"
        using f(7,9) Suc.prems(8) cs by auto
    qed
  qed
  then show ?case using step by simp
qed


theorem task_complete_loop_single_witness:
  "\<exists>x'. task_complete_loop example_exec_env 0 0 example_xstate = Some (Inr x') \<and> num_children (tasks (xsched x') 0) = 0"
  by (rule task_complete_loop_single [where q = "([1, 2], [])"])
     (simp_all add: example_xstate_def example_exec_env_def example_child_def xsched_def rt_load_def idle_threads_def
        dart_thread_init_def example_env_def tq_inv_def deque_inv_def empty_deque_def root_task_info_def body_pure_def)

theorem handle_task_finished_witness:
  "\<exists>x'. handle_task example_exec_env (task_complete_local example_exec_env 0) 0 1 example_xstate = Some (Inr x') \<and> tstate (tasks (xsched x') 1) = DART_TASK_DESTROYED
     \<and> num_children (tasks (xsched x') 0) = 1 \<and> current_task (xsched x') 0 = 0 \<and> taskcntr x' 0 = 1 \<and> \<not> taskctx x' 1"
proof -
  have "\<exists>x'. handle_task example_exec_env (task_complete_local example_exec_env 0) 0 1 example_xstate = Some (Inr x')
     \<and> tstate (tasks (xsched x') 1) = (if DART_TASK_HAS_REF \<in> tflags (tasks (xsched example_xstate) 1) then DART_TASK_FINISHED else DART_TASK_DESTROYED)
     \<and> num_children (tasks (xsched x') 0) = num_children (tasks (xsched example_xstate) 0) - 1
     \<and> (\<forall>u. u \<noteq> 1 \<and> u \<noteq> 0 \<longrightarrow> tasks (xsched x') u = tasks (xsched example_xstate) u)
     \<and> current_task (xsched x') 0 = current_task (xsched example_xstate) 0
     \<and> taskcntr x' 0 = Suc (taskcntr example_xstate 0) \<and> \<not> taskctx x' 1"
    by (rule handle_task_finished) (simp_all add: example_xstate_facts example_exec_env_facts example_child_def body_frame_def)
  then show ?thesis by (simp add: example_xstate_facts example_child_def root_task_info_def) blast
qed

theorem detach_release_equiv_witness:
  "\<exists>xa xb xc. handle_task example_exec_env (task_complete_local example_exec_env 0) 0 1 example_xstate = Some (Inr xa)
     \<and> handle_task (example_exec_env\<lparr>task_run := \<lambda>u y. dart__tasking__mark_detached u (task_run example_exec_env u y)\<rparr>)
         (task_complete_local (example_exec_env\<lparr>task_run := \<lambda>u y. dart__tasking__mark_detached u (task_run example_exec_env u y)\<rparr>) 0) 0 1 example_xstate = Some (Inr xb)
     \<and> dart__tasking__release_detached 1 xb = Inr xc \<and> xsched xc = xsched xa \<and> \<not> taskctx xa 1 \<and> \<not> taskctx xc 1
     \<and> taskcntr xa 0 = 1 \<and> taskcntr xc 0 = 0"
proof -
  have "\<exists>xa xb xc. handle_task example_exec_env (task_complete_local example_exec_env 0) 0 1 example_xstate = Some (Inr xa)
     \<and> handle_task (example_exec_env\<lparr>task_run := \<lambda>u y. dart__tasking__mark_detached u (task_run example_exec_env u y)\<rparr>)
         (task_complete_local (example_exec_env\<lparr>task_run := \<lambda>u y. dart__tasking__mark_detached u (task_run example_exec_env u y)\<rparr>) 0) 0 1 example_xstate = Some (Inr xb)
     \<and> dart__tasking__release_detached 1 xb = Inr xc \<and> xsched xc = xsched xa \<and> \<not> taskctx xa 1 \<and> \<not> taskctx xc 1
     \<and> taskcntr xa 0 = Suc (taskcntr example_xstate 0) \<and> taskcntr xc 0 = taskcntr example_xstate 0"
    by (rule detach_release_equiv [where p = 0]) (simp_all add: example_xstate_facts example_exec_env_facts example_child_def body_frame_def)
  then show ?thesis by (simp add: example_xstate_facts)
qed

text \<open>
  A worker iteration that finds no task hands the idle logic \<open>got_task = False\<close> and,
  except on thread 1, changes nothing but the trace; on the runtime just started
  (C15) every worker is in this case.
\<close>

lemma case_acts_other:
  "(\<forall>f. acts \<noteq> [Idle_remote_progress f]) \<Longrightarrow>
   (case acts of [Idle_remote_progress f] \<Rightarrow> A f | _ \<Rightarrow> B) = B"
  by (auto split: list.split idle_action.split)

lemma thread_main_iter_no_task:
  assumes "next_task th (xsched x) = Some (Inr (None, xsched x))" "th \<noteq> 1"
  shows "thread_main_iter E m th st x = Some (Inr (thread_main_idle (xrt x) m th False (clock E) st, xlog x [Ev_check_cancellation]))"
proof -
  obtain acts st' where a: "thread_main_idle (xrt x) m th False (clock E) st = (acts, st')" by (cases "thread_main_idle (xrt x) m th False (clock E) st")
  have o: "\<forall>f. acts \<noteq> [Idle_remote_progress f]"
    using a assms(2) by (auto simp: thread_main_idle_def split: if_splits)
  have u: "xupd (xlog x [Ev_check_cancellation]) (\<lambda>_. xsched x) = xlog x [Ev_check_cancellation]"
    by (simp add: xupd_def xlog_def xsched_def set_rs_def)
  have r: "xrt (xlog x [Ev_check_cancellation]) = xrt x" "xsched (xlog x [Ev_check_cancellation]) = xsched x"
    by (simp_all add: xlog_def xsched_def)
  show ?thesis
    using assms(1) by (simp add: thread_main_iter_def dart__tasking__handle_task_internal_def Let_def r u a case_acts_other [OF o])
qed

end
