(* ===== verification/Spec2Isabelle.thy ===== *)
theory Spec2Isabelle
  imports TaskQueue Context CopyIn Instrumentation Scheduler Lifecycle AMsgQ Copy GlobIter IndexSet
    Types Fixture Runtime TaskComplete
begin

text \<open>
  \<^bold>\<open>A verification library for the DART tasking runtime of DASH.\<close>

  The runtime (\<open>src/dart-impl/tasking/src/internal\<close>) schedules tasks on a pool of
  worker threads. Runnable tasks wait in task queues (\<open>dart_tasking_taskqueue.c\<close>,
  a pair of doubly linked deques per queue, one per priority); a task that can
  suspend runs on its own execution context, taken from a per-thread pool of
  stacks (\<open>dart_tasking_context.c\<close>); copy-in tasks prefetch remote data
  (\<open>dart_tasking_copyin.c\<close>); the scheduler (\<open>dart_tasking.c\<close>) moves tasks
  between these, and tools observe it through callbacks (\<open>dart_tasking_instrumentation.c\<close>). In the repository these files are concatenated: the task queue
  is lines 550--973 of \<open>dart_tasking_copyin.c\<close>, the scheduler lines 345--2245 of
  \<open>dart_tasking_instrumentation.c\<close>.

  \<^bold>\<open>Conventions (theory \<open>Prelude\<close>).\<close> A C function that can abort (failed
  \<open>DART_ASSERT\<close>, NULL or invalid dereference) returns \<open>'a res = abort + 'a\<close>
  with \<open>Inl\<close> the abort, chained by \<open>sbind\<close>; a nullable pointer is an option;
  \<open>size_t\<close> is \<open>64 word\<close>, so wrap-around is part of the model. The prelude
  also holds list helpers (\<open>hd_opt\<close>, \<open>last_opt\<close>, \<open>insert_at\<close>) and the facts on
  rounding a word up to a power of two.

  \<^bold>\<open>Task queue (theory \<open>TaskQueue\<close>).\<close> The \<open>next\<close>/\<open>prev\<close> fields of all
  tasks form a heap \<open>'t links\<close>; a deque (\<open>task_deque\<close>) is its head and tail, a
  queue (\<open>dart_taskqueue\<close>) a high- and a low-priority deque. Every function of
  the file is a definition of the same name: the deque operations
  \<open>task_deque_push/pushback/pop/popback/insert/move/filter_runnable\<close> and the
  queue operations \<open>dart_tasking_taskqueue_init/push/pushback/insert/pop/
  popback/remove/move\<close>. The locked and \<open>_unsafe\<close> variants are one definition:
  the mutex only serialises the operations, and the model is the sequential
  behaviour. The abstraction \<open>tq_inv L tq (hs, ls)\<close> relates the heap to two
  lists through the segment predicate \<open>dseg\<close>; claims C1, C3, C4, C6 and C7 and the
  lemmas \<open>dart_tasking_taskqueue_pop_refine\<close> and \<open>dart_tasking_taskqueue_popback_refine\<close>
  prove that every queue operation preserves it and refines a list specification
  (\<open>tq_push_spec\<close>, \<open>tq_pop_spec\<close>, \<dots>), never aborting on a well-formed queue.
  The insertion walk is a \<open>function\<close> with a measure; the two loops of
  \<open>task_deque_filter_runnable\<close> are \<open>partial_function (option)\<close>, and C8
  proves that the first one never returns when the head task is not runnable.

  \<^bold>\<open>Context pool (theory \<open>Context\<close>).\<close> \<open>ctx_state\<close> holds the per-thread free
  lists (\<open>thread->ctxlist\<close>), the owner, entry function and canary words of each
  context, and \<open>ctx_to_enter\<close>; contexts are numbered in allocation order. The
  operations are \<open>dart__tasking__context_create/release/invoke/swap/entry/
  cleanup\<close>, \<open>dart__tasking__context_adjust_size\<close> and \<open>dart__tasking__context_init\<close>,
  and \<open>dart__tasking__context_layout\<close> is the size and offset arithmetic of
  \<open>dart__tasking__context_allocate\<close>. \<open>ctx_inv s U\<close> (for the set \<open>U\<close> of contexts
  attached to tasks) says that each free context sits once on its owner's list and
  is not in use. C9 and C10 prove that create and release preserve it and that release
  returns a context to its owner's list, the lemma \<open>dart__tasking__context_cleanup_correct\<close>
  that cleanup frees exactly the thread's list, and \<open>dart__tasking__context_entry_once\<close>
  that the entry function runs once. C13, C14 and the lemma
  \<open>dart__tasking__context_layout_guards\<close> are the page arithmetic: rounding gives the least
  page multiple, wraps to 0 near \<open>2^64\<close>, and places the guard pages; C16 records the canary check and the
  lemma \<open>dart__tasking__context_init_unrounded\<close> the unrounded stack size.

  \<^bold>\<open>Copy-in engine (theory \<open>CopyIn\<close>).\<close> Lines 1--548 of \<open>dart_tasking_copyin.c\<close>.
  The size-keyed buffer pools are a record \<open>mem_pool_state\<close> (pools, their free lists,
  the header of each element) with \<open>find_mem_pool\<close>, \<open>new_mem_pool\<close>,
  \<open>allocate_from_mempool\<close>, \<open>return_to_mempool\<close> and the invariant \<open>mp_inv\<close>. Creating a
  copy-in task (\<open>dart_tasking_copyin_create_task_get/sendrecv\<close>, the deferred send tasks
  of \<open>dart_tasking_copyin_sendrequest\<close> and \<open>dart_tasking_copyin_create_delayed_tasks\<close>)
  returns the list of calls it makes into the scheduler (\<open>copyin_event\<close>), in program
  order; the task bodies and the four wait strategies (\<open>wait_for_handle\<close>) are modelled
  the same way, the test-and-yield loop with the sequence of test outcomes as input.
  C18--C20 are the pool contract (a fresh buffer from the right pool, the magic check,
  the destructor round trip; reuse of the last returned buffer is the lemma
  \<open>mempool_reuse\<close>); C22 matches a
  request with its send task, and the lemmas \<open>dart_tasking_copyin_sendrequest_num_bytes\<close>
  and \<open>dart_tasking_copyin_create_delayed_tasks_lifo\<close> record the 32-bit truncation of its
  size and the LIFO order of deferred sends; C25 proves the lookup loop of \<open>dart__tasking__copyin_info\<close>
  equal to its reference definition; C26 that the YIELD wait returns exactly on success.

  \<^bold>\<open>Tool interface (theory \<open>Instrumentation\<close>).\<close> Lines 1--344 of
  \<open>dart_tasking_instrumentation.c\<close>: the table of callbacks and user data, every
  \<open>dart_tool_register_*\<close> function (\<open>register_cb\<close>) and every
  \<open>dart__tasking__instrument_*\<close> hook, which returns the call it makes. The lemma
  \<open>dart_tool_register_hook_roundtrip\<close>: a registered callback is called with its own
  user data; C29: NULL user data crashes
  registration; the lemma \<open>dart__tasking__instrument_dummy_dep_capture_userdata\<close> shows
  the dummy-capture hook passing another event's user data.

  \<^bold>\<open>Active-message queue (theory \<open>AMsgQ\<close>).\<close> \<open>dart_amsgq_sendrecv.c\<close>, lines
  177--713 of \<open>src/dash/dash-lib/Zhou/GlobIter.h\<close>: the queue record \<open>amsgq_impl\<close>,
  \<open>dart_amsg_sendrecv_openq\<close>, \<open>amsgq_test_sendreqs_unsafe\<close> with its two-pointer
  compaction (\<open>skip_null\<close>, \<open>compact_loop\<close>), \<open>dart_amsg_sendrecv_trysend\<close>, the receive
  loop \<open>amsg_sendrecv_process_internal\<close>, the round check and counter bookkeeping of
  blocking processing, and \<open>dart_amsg_sendrecv_closeq\<close>. MPI's answers (completed
  indices, received messages, send results) are inputs. C30: for completed indices in
  ascending order the compaction restores the slot invariant \<open>sendq_inv\<close> and keeps
  every pending send (loop invariant \<open>compact_inv\<close>); the lemmas
  \<open>amsgq_test_sendreqs_unsorted\<close> and \<open>amsgq_closeq_default_crash\<close> show a send lost
  for another order and the NULL counters read by \<open>closeq\<close>.

  \<^bold>\<open>Scheduler (theory \<open>Scheduler\<close>).\<close> Lines 345--2245 of
  \<open>dart_tasking_instrumentation.c\<close> (the file \<open>dart_tasking.c\<close>). The record \<open>sched\<close> holds
  the task fields the scheduler uses, the link heap shared by all queues, the NUMA queues
  \<open>task_queue\<close>, \<open>local_deferred_tasks\<close>, the thread pool with each thread's slot array and
  counters, and the global flags; \<open>sched_env\<close> collects what the dependency engine, the
  phase table and the remote layer answer (they are not in the sources). Each function is
  a definition of the same name: \<open>next_task_thread(_back)\<close>, \<open>next_task\<close> (its two stealing
  loops are the \<open>partial_function\<close> \<open>steal_loop\<close>, its NUMA loop \<open>numa_pop_loop\<close>),
  \<open>requeue_task\<close>, \<open>remote_progress\<close>, \<open>determine_num_threads\<close> on 32-bit words,
  \<open>allocate_task\<close> over the thread-private pools (\<open>task_mempool\<close>), \<open>create_task\<close>,
  \<open>dart__tasking__enqueue_runnable\<close> (split into its locked test, the phase deferral and
  the placement), \<open>dart__tasking__create_task\<close> and \<open>dart__tasking__yield\<close>. A thread's
  compare-and-swap on a slot is taken to succeed; the model is one thread's step between
  the others'. C31 proves the stealing loop total for a thread id below \<open>num_threads\<close>
  and equal to the reference order \<open>steal_order\<close>; C32 that \<open>next_task\<close> always returns;
  C33 that enqueueing keeps the multi-queue invariant \<open>queues_inv\<close> (all queues share one
  heap, so it rests on the frame lemmas of the TaskQueue theory); C34 the pool invariant
  \<open>pool_inv\<close> and fresh allocation; C36 records the inverted progress interval, the lemma
  \<open>dart__tasking__create_task_cancelled\<close> task creation during cancellation, the lemma \<open>determine_num_threads_result\<close> the
  unchecked thread count.

  \<^bold>\<open>Task lifecycle (theory \<open>Lifecycle\<close>).\<close> The end of a task as two threads see it:
  the completion in \<open>handle_task\<close> against \<open>dart__tasking__taskref_free\<close>, \<open>task_wait\<close>
  or \<open>task_test\<close>. The inductive relation \<open>lc_step\<close> has one step per critical section
  and per access to the task after the unlock; its invariant \<open>lc_inv\<close> is proved by
  rule induction. C39: at most one destruction, every run finite, and exactly one at the
  end; C40: a run that reads the task after it was destroyed.

  \<^bold>\<open>Start-up and tear-down (theory \<open>Runtime\<close>).\<close> The rest of the static state of
  \<open>dart_tasking.c\<close> is the record \<open>'t rt\<close> around \<open>sched\<close> (\<open>initialized\<close>,
  \<open>parallel\<close>, the idle method and sleep time, \<open>bind_threads\<close>, \<open>worker_poll_remote\<close>,
  \<open>num_utility_threads\<close>, the task free lists and pool table, and the calls made into other
  modules as \<open>rt_event\<close>s); \<open>rt_load\<close> is its state at load time and \<open>rt_env\<close>
  what the environment variables, the hardware, the affinity module and \<open>pthread_create\<close>
  answer. The functions are definitions of the same name: \<open>dart_thread_init\<close>,
  \<open>init_threadpool\<close>, \<open>dart__tasking__init\<close>, \<open>start_threads\<close>, the start-up part of
  \<open>thread_main\<close> (\<open>thread_main_start\<close>), its idle logic (\<open>thread_main_idle\<close>,
  \<open>wait_for_work\<close>, iterated by \<open>idle_run\<close>), \<open>utility_thread_main\<close>,
  \<open>dart__tasking__utility_thread\<close>, \<open>stop_threads\<close>, \<open>destroy_threadpool\<close>,
  \<open>dart__tasking__fini\<close> and the accessors. \<open>stop_threads\<close> spins until each worker has
  published itself; the spin is the value \<open>None\<close>. Two interleavings are inductive
  relations: \<open>rt_start_step\<close>, the created workers publishing themselves in any order,
  and \<open>ut_step\<close>, the load and store of \<open>++num_utility_threads\<close> of concurrent
  utility threads. C27: init, fini and init again succeed and restore an uninitialised
  runtime; C15: after start-up in any order every thread finds no task and nothing aborts
  (the invariant \<open>idle_threads\<close> is kept by every start-up step); C37: when a thread
  creation failed, fini never returns from any reachable state (\<open>fini_after_startup\<close>:
  it does return when all were created); C11: two utility threads can take the same id.
  The lemmas \<open>thread_main_start_numa\<close> (every worker on the NUMA node of core 0),
  \<open>thread1_never_sleeps\<close> and \<open>worker_sleeps_after_grace\<close> describe the idle logic.

  \<^bold>\<open>Running tasks (theories \<open>TaskExec\<close>, \<open>TaskComplete\<close>).\<close> The state
  \<open>'t xstate\<close> adds to the runtime whether each task owns a context, each thread's task
  counter and the calls into the context, dependency and wait modules (\<open>exec_event\<close>);
  \<open>exec_env\<close> holds what those modules answer and the task code \<open>task_run\<close>, what a
  switch into a task does before control comes back. Definitions of the same name model
  \<open>dart__tasking__destroy_task\<close>, \<open>dart__tasking__mark_detached\<close>,
  \<open>dart__tasking__release_detached\<close>, \<open>invoke_task\<close>, \<open>handle_task\<close> (with
  \<open>handle_task_return\<close>, its four ways back from a task), \<open>handle_inline_task\<close>,
  \<open>dart__tasking__handle_task(_internal)\<close>, \<open>dart__tasking__allocate_dummytask\<close>,
  \<open>dart__tasking__perform_matching\<close>, \<open>dart__tasking__task_complete\<close>, \<open>invoke_taskfn\<close>,
  \<open>wrap_task\<close>, \<open>dart__tasking__get_taskqueue\<close>, the wake-ups and one iteration of the
  worker loop (\<open>thread_main_iter\<close>). \<open>handle_task\<close> and \<open>handle_inline_task\<close> wait for
  the children of a task with \<open>dart__tasking__task_complete(true)\<close>, whose loop runs other
  tasks through \<open>handle_task\<close> again: code that may not return is \<open>'a res option\<close>
  (sequenced by \<open>obind\<close>), the handlers take the nested call as a parameter and are proved
  monotone in it (\<open>[partial_function_mono]\<close>), and \<open>TaskComplete\<close> defines the loop
  \<open>task_complete_loop\<close> as a \<open>partial_function (option)\<close> that passes itself
  (\<open>task_complete_local\<close> is the nested call). The loop returns only when the waiting task
  has no children left (\<open>task_complete_loop_exit\<close>) and spins forever when nothing can run
  (\<open>task_complete_loop_spins\<close>, \<open>handle_task_waits_for_children\<close>). C24: a task without
  children that runs to completion is \<open>FINISHED\<close> or destroyed and its parent has one
  child fewer; C5: for such a task, detaching and being released later ends in the same
  scheduler state; C2: on one thread the waiting loop returns after running queued children
  that have no children of their own. The lemmas \<open>handle_task_unstarted_destroys\<close> and
  \<open>release_detached_with_children\<close> show the two paths that finish a task with children
  outstanding; \<open>dummytask_phase_roundtrip\<close> and \<open>thread_main_iter_no_task\<close> cover dummy
  tasks and an idle iteration.

  \<^bold>\<open>dash::copy (theory \<open>Copy\<close>).\<close> \<open>Copy.h\<close> (\<open>src/unnamed/part_001\<close>). The
  distribution is an interface, the record \<open>pattern\<close> of the pattern operations the
  code calls (\<open>unit_at\<close>, \<open>local\<close>, \<open>global\<close>, \<open>local_capacity\<close>, \<open>local_index_range\<close>),
  and \<open>pattern_blocked\<close> is the contract of a blocked distribution, checked by
  evaluation for the instance \<open>blocked_pattern\<close>. Global memory maps a unit and a local
  offset to a value, the local array an offset to a value; iterators are global
  positions. \<open>copy_impl_loop\<close> (\<open>partial_function (option)\<close>) is the chunking loop of
  \<open>copy_impl\<close> with \<open>num_elem_copied\<close> a 64-bit word and the \<open>int\<close> conversions of
  \<open>total_elem_left\<close> and \<open>num_copy_elem\<close> written out (\<open>to_int32\<close>);
  \<open>copy_impl_g2l\<close>, \<open>copy_async\<close> and \<open>dash_copy_g2l\<close> fetch a global range into a
  local array as a list of requests (\<open>get_req\<close>, \<open>copy_step\<close>) whose completion
  \<open>dart_waitall\<close> and \<open>copy_async_wait\<close> apply; \<open>copy_impl_l2g\<close> and
  \<open>dash_copy_l2g\<close> write a local array to a global range. C17: the requests of
  \<open>copy_impl\<close> tile the input range, each inside one unit (\<open>reqs_tile\<close>); C12: for a
  blocked pattern the blocking copy returns and produces exactly \<open>copy_spec\<close>; C28: a
  range of exactly \<open>2^32\<close> elements over several units makes the loop run forever;
  C35: the local-to-global copy writes the part after the local block to the wrong
  place. The lemmas \<open>copy_impl_g2l_cyclic\<close> and \<open>copy_impl_g2l_single_unbounded\<close>
  show what the contract excludes (a cyclic distribution) and a single request of more
  than \<open>INT_MAX\<close> bytes.

  \<^bold>\<open>Global iterator (theory \<open>GlobIter\<close>).\<close> Lines 1--176 of \<open>GlobIter.h\<close>: the
  record \<open>glob_iter\<close> (pattern, accessor, \<open>long long\<close> index as a 64-bit word read
  signed), the constructors, \<open>get\<close>, the increment, decrement, compound-assignment and
  arithmetic operators, the difference and the six comparisons (\<open>MemAccess::equals\<close> a
  parameter). The ordering operators instantiate the class \<open>preorder\<close>; the lemmas show
  the arithmetic round trips, that \<open>!=\<close> negates \<open>==\<close>, that the ordering ignores the
  accessor (\<open>glob_iter_order_ignores_accessor\<close>), and that incrementing the largest index
  wraps below it.

  \<^bold>\<open>Index sets (theory \<open>IndexSet\<close>).\<close> \<open>IndexSet.h\<close>
  (\<open>src/unnamed/part_002\<close>). An index set is what every \<open>IndexSetBase\<close> answers:
  its size and \<open>operator[]\<close> (record \<open>index_set\<close>). The view's pattern is the
  record \<open>pattern1\<close> of the calls the index sets make (\<open>global\<close>,
  \<open>local(...).index\<close>, \<open>local_coords\<close>, \<open>local_size\<close>, \<open>size\<close>,
  \<open>block_at\<close>, \<open>local_block_at\<close>), and the view's domain is an \<open>index_set\<close>. The
  theory models \<open>IndexSetIterator\<close> (construction, \<open>dereference\<close>),
  \<open>first\<close>/\<open>last\<close>/\<open>begin\<close>/\<open>end\<close>/\<open>step\<close>, the index-range helpers,
  \<open>IndexSetIdentity\<close>, \<open>IndexSetSub\<close> (\<open>rel\<close> for one and two dimensions,
  \<open>extent\<close>, the recursive \<open>size\<close>, \<open>pre\<close>), \<open>IndexSetLocal\<close>,
  \<open>IndexSetGlobal\<close>, \<open>IndexSetBlocks\<close> and \<open>IndexSetBlock\<close>. The lemmas show
  that \<open>pre\<close> undoes a sub-range, that nested sub-ranges compose, that a column
  sub-range is injective, that \<open>IndexSetLocal\<close> counts a unit's elements of a
  range of a blocked pattern (C21), and three behaviours the code does not mean: \<open>step\<close>
  ignores its stride (the documented \<open>step(2)[8] = 26\<close> gives 18), \<open>IndexSetLocal\<close>
  reports elements of a range that lies at another unit, and \<open>IndexSetBlock\<close> never
  reads its block index.

  \<^bold>\<open>DASH types and the test fixture (theories \<open>Types\<close>, \<open>Fixture\<close>).\<close>
  \<open>Types.h\<close> (\<open>src/unnamed/part_000\<close>): \<open>MemArrange\<close> and \<open>DistributionType\<close>
  with their enumerator values, the index and size types at their LP64 widths, \<open>Point\<close>
  and \<open>Extent\<close>, the \<open>dart_datatype\<close> traits over the table of \<open>Types.cc\<close> (not in
  the sources, the parameter \<open>dart_datatype_values\<close>), \<open>dart_storage\<close> and the undefined
  unit ids. C23: for a non-negative count \<open>dart_storage\<close> describes exactly the bytes of
  the values; the lemma \<open>dart_storage_negative\<close> shows the wrap of a negative count.
  \<open>DARTActiveMessagesTest\<close> (\<open>src/unnamed/part_003\<close>) is a record with its constructor
  and \<open>SetUp\<close>; the lemmas show the fields it sets.

  \<^bold>\<open>Across components (this theory).\<close> C38 composes the copy-in engine with the
  scheduler: a copy-in task is enqueued before it is flagged as a communication task,
  and its priority sends it to the low-priority deque.

  \<^bold>\<open>Bounds and fuel.\<close> No fuel is used: the insertion walk terminates by the
  measure \<open>pos - cnt\<close>, cleanup by the length of the free list, the NUMA-queue loop by
  \<open>num_numa_nodes - i\<close>; the filter loops, the stealing loop and the copy-in lookup are
  partial functions whose divergence or termination is proved (C8, C31, C25), the waiting
  loop of \<open>dart__tasking__task_complete\<close> (with the nested waits of the tasks it runs) a
  partial function proved to return when the children are queued and run to completion
  (C2) and not to return when nothing can run, the copy
  loop of \<open>dash::copy\<close> a partial function proved to return below \<open>2^31\<close> elements (C17)
  and not to return at \<open>2^32\<close> (C28), and the
  lifecycle relation is well-founded by the remaining program of both threads. Page sizes
  are \<open>2^k\<close> with \<open>k < 64\<close>; the arithmetic claims assume the sums stay below \<open>2^64\<close>,
  and C14 shows what happens when they do not.

  \<^bold>\<open>Not modelled.\<close> The register-level effect of \<open>swapcontext\<close>/\<open>setcontext\<close>,
  memory allocation failures (they abort through \<open>DART_ASSERT_RETURNS\<close>), MPI and
  the other libraries the runtime calls, the logging and \<open>dart__tasking__print_stats\<close>,
  the timing counters of the worker loop, \<open>dart_thread_finalize\<close> (it writes into a thread
  record that is freed next), the variants of \<open>invoke_task\<close> and \<open>dart__tasking__yield\<close>
  built without \<open>USE_UCONTEXT\<close> (the latter does not compile), a task that migrates the
  waiting context of \<open>task_complete\<close> to another thread, the dependency engine and the
  wait queue (not in the sources; their calls are recorded as events), the collective loop
  of \<open>dart_amsg_sendrevc_process_blocking\<close> (\<open>MPI_Ibarrier\<close>/\<open>MPI_Ialltoall\<close>
  progress across processes), \<open>GlobIter::to_string\<close> (it prints an accessor whose class is
  not in the sources), the global-to-global \<open>dash::copy\<close> (its body is empty), the values
  moved by the transport beyond the model of \<open>dart_get_handle\<close> and
  \<open>dart_put_blocking\<close>, and of \<open>IndexSet.h\<close> the n-dimensional extent and offset arrays
  (the index sets are modelled over one dimension, and two for \<open>IndexSetSub::rel\<close>), the
  free functions \<open>index\<close>/\<open>local\<close>/\<open>global\<close> (they only call the members modelled) and
  the test at its end.
\<close>


section \<open>Copy-in tasks in the scheduler\<close>

text \<open>
  The copy-in engine submits its tasks through \<open>dart__tasking__create_task\<close> and sets
  \<open>DART_TASK_IS_COMMTASK\<close> on the returned reference only afterwards (the event list of
  \<open>dart_tasking_copyin_create_task_get/sendrecv\<close> is \<open>Create_task\<close>, \<open>Set_commtask\<close>,
  \<open>Taskref_free\<close>).
\<close>

lemma copyin_create_fields:
  "Create_task cr \<in> set (dart_tasking_copyin_create_task_get w garbage myid dep) \<or>
   Create_task cr \<in> set (fst (dart_tasking_copyin_create_task_sendrecv w garbage localize myid unit dep counter)) \<Longrightarrow>
   cr_prio cr = COPYIN_TASK_PRIO \<and> cr_ref cr"
  by (auto simp: dart_tasking_copyin_create_task_get_def dart_tasking_copyin_create_task_sendrecv_def Let_def
           split: if_splits prod.splits)

text \<open>C38: A copy-in task created by dart_tasking_copyin_create_task_get or _sendrecv and made runnable at submission is enqueued before the copy-in code sets DART_TASK_IS_COMMTASK, so dart__tasking__enqueue_runnable never hands it to the communication-task handler; its priority COPYIN_TASK_PRIO (INT_MAX-1) is not DART_PRIO_HIGH, so in a task queue it goes to the low-priority deque, behind no high-priority task.\<close>

theorem copyin_task_submission:
  assumes "Create_task cr \<in> set (dart_tasking_copyin_create_task_get w garbage myid dep) \<or>
           Create_task cr \<in> set (fst (dart_tasking_copyin_create_task_sendrecv w garbage localize myid unit dep counter))"
    and "dart__tasking__create_task E th sz (cr_prio cr) (cr_noyield cr) (cr_ref cr) (P, s) = Inr (ret, ref, Some out, P', s')"
  shows "out \<noteq> Enq_comm \<and> ref = Some (fst (allocate_task th P)) \<and>
         prio_of s' (fst (allocate_task th P)) = COPYIN_TASK_PRIO \<and>
         (\<forall>q. tq_push_spec (prio_of s') (fst (allocate_task th P)) q = (fst q, fst (allocate_task th P) # snd q))"
proof -
  have cr: "cr_prio cr = COPYIN_TASK_PRIO" "cr_ref cr" using copyin_create_fields [OF assms(1)] by simp_all
  have "COPYIN_TASK_PRIO \<noteq> DART_PRIO_PARENT" "COPYIN_TASK_PRIO \<noteq> DART_PRIO_INLINE" "COPYIN_TASK_PRIO \<noteq> DART_PRIO_HIGH"
    by (simp_all add: COPYIN_TASK_PRIO_def prio_defs)
  then show ?thesis
    using dart__tasking__create_task_submitted [OF assms(2)] cr by (simp add: prio_of_def tq_push_spec_def)
qed

theorem copyin_task_submission_witness:
  "\<exists>cr ret ref out P' s'.
     Create_task cr \<in> set (dart_tasking_copyin_create_task_get COPYIN_WAIT_BLOCK (\<lambda>_. \<lparr>dep_type = DART_DEP_COPYIN_OUT, dep_phase = 1,
        dep_gptr = \<lparr>gptr_unitid = 1, gptr_teamid = 0, gptr_segid = 0, gptr_addr = 100\<rparr>,
        copyin_size = 64, copyin_dest = None\<rparr>) 0 \<lparr>dep_type = DART_DEP_COPYIN_OUT, dep_phase = 1,
        dep_gptr = \<lparr>gptr_unitid = 1, gptr_teamid = 0, gptr_segid = 0, gptr_addr = 100\<rparr>,
        copyin_size = 64, copyin_dest = None\<rparr>) \<and>
     dart__tasking__create_task \<lparr>datadeps_runnable = \<lambda>_. True, phase_is_runnable = \<lambda>_. True, comm_task_enqueued = \<lambda>_. True,
        var_space_size = 0, DART_PHASE_ANY = 0\<rparr> 0 64 (cr_prio cr) (cr_noyield cr) (cr_ref cr) (\<lparr>task_free_lists = \<lambda>_. [], taskpool = \<lambda>_. [], next_pool = 1, task_owner = Map.empty\<rparr>, \<lparr>tasks = \<lambda>_. \<lparr>tstate = DART_TASK_CREATED, tflags = {}, tprio = DART_PRIO_DEFAULT, tparent = None, tphase = 0,
                  num_children = 0, numa_node = None, tinstance = 0, has_wait_handle = False\<rparr>,
        links = \<lparr>tnext = Map.empty, tprev = Map.empty\<rparr>, task_queue = \<lambda>_. dart_tasking_taskqueue_init,
        deferred = dart_tasking_taskqueue_init, thread_pool = [0 \<mapsto> \<lparr>tqueue = [Some (0, 9)], next_task_slot = None, last_steal = 0, numa_id = 0, is_utility = False,
                          tdelay = 0, last_progress_ts = 0\<rparr>],
        num_threads = 1, num_numa_nodes = 1, current_task = \<lambda>_. (0, 0), root_task = (0, 0), cancel_requested = False,
        threads_running = True, respect_numa = False, num_units = 2, phase_cur = 0, phase_ntasks = \<lambda>_. 0\<rparr>) = Inr (ret, ref, Some out, P', s') \<and>
     out \<noteq> Enq_comm \<and> ref = Some (1, 0) \<and> prio_of s' (1, 0) = COPYIN_TASK_PRIO"
proof -
  define cr where "cr = hd (dart_tasking_copyin_create_task_get COPYIN_WAIT_BLOCK (\<lambda>_. \<lparr>dep_type = DART_DEP_COPYIN_OUT, dep_phase = 1,
        dep_gptr = \<lparr>gptr_unitid = 1, gptr_teamid = 0, gptr_segid = 0, gptr_addr = 100\<rparr>,
        copyin_size = 64, copyin_dest = None\<rparr>) 0 \<lparr>dep_type = DART_DEP_COPYIN_OUT, dep_phase = 1,
        dep_gptr = \<lparr>gptr_unitid = 1, gptr_teamid = 0, gptr_segid = 0, gptr_addr = 100\<rparr>,
        copyin_size = 64, copyin_dest = None\<rparr>)"
  obtain c where c: "cr = Create_task c"
    by (simp add: cr_def dart_tasking_copyin_create_task_get_def Let_def)
  have m: "Create_task c \<in> set (dart_tasking_copyin_create_task_get COPYIN_WAIT_BLOCK (\<lambda>_. \<lparr>dep_type = DART_DEP_COPYIN_OUT, dep_phase = 1,
        dep_gptr = \<lparr>gptr_unitid = 1, gptr_teamid = 0, gptr_segid = 0, gptr_addr = 100\<rparr>,
        copyin_size = 64, copyin_dest = None\<rparr>) 0 \<lparr>dep_type = DART_DEP_COPYIN_OUT, dep_phase = 1,
        dep_gptr = \<lparr>gptr_unitid = 1, gptr_teamid = 0, gptr_segid = 0, gptr_addr = 100\<rparr>,
        copyin_size = 64, copyin_dest = None\<rparr>)"
    using c by (simp add: cr_def dart_tasking_copyin_create_task_get_def Let_def)
  have a: "fst (allocate_task 0 \<lparr>task_free_lists = \<lambda>_. [], taskpool = \<lambda>_. [], next_pool = 1, task_owner = Map.empty\<rparr>) = (1, 0)"
    by (simp add: allocate_task_def new_taskpool_def TASK_MEMPOOL_SIZE_def)
  obtain ret ref out P' s' where e0:
    "dart__tasking__create_task \<lparr>datadeps_runnable = \<lambda>_. True, phase_is_runnable = \<lambda>_. True, comm_task_enqueued = \<lambda>_. True,
        var_space_size = 0, DART_PHASE_ANY = 0\<rparr> 0 64 COPYIN_TASK_PRIO False True (\<lparr>task_free_lists = \<lambda>_. [], taskpool = \<lambda>_. [], next_pool = 1, task_owner = Map.empty\<rparr>, \<lparr>tasks = \<lambda>_. \<lparr>tstate = DART_TASK_CREATED, tflags = {}, tprio = DART_PRIO_DEFAULT, tparent = None, tphase = 0,
                  num_children = 0, numa_node = None, tinstance = 0, has_wait_handle = False\<rparr>,
        links = \<lparr>tnext = Map.empty, tprev = Map.empty\<rparr>, task_queue = \<lambda>_. dart_tasking_taskqueue_init,
        deferred = dart_tasking_taskqueue_init, thread_pool = [0 \<mapsto> \<lparr>tqueue = [Some (0, 9)], next_task_slot = None, last_steal = 0, numa_id = 0, is_utility = False,
                          tdelay = 0, last_progress_ts = 0\<rparr>],
        num_threads = 1, num_numa_nodes = 1, current_task = \<lambda>_. (0, 0), root_task = (0, 0), cancel_requested = False,
        threads_running = True, respect_numa = False, num_units = 2, phase_cur = 0, phase_ntasks = \<lambda>_. 0\<rparr>) = Inr (ret, ref, Some out, P', s')"
    by (simp add: dart__tasking__create_task_def allocate_task_def
                  new_taskpool_def TASK_MEMPOOL_SIZE_def create_task_def set_task_def dart__tasking__enqueue_runnable_def
                  enqueue_admit_def enqueue_defer_def enqueue_place_def dart_tasking_taskqueue_push_def task_deque_push_def
                  dart_tasking_taskqueue_init_def prio_of_def prio_defs COPYIN_TASK_PRIO_def)
  have f: "cr_prio c = COPYIN_TASK_PRIO" "cr_noyield c = False" "cr_ref c = True"
    using m by (auto simp: dart_tasking_copyin_create_task_get_def Let_def)
  have e: "dart__tasking__create_task \<lparr>datadeps_runnable = \<lambda>_. True, phase_is_runnable = \<lambda>_. True, comm_task_enqueued = \<lambda>_. True,
        var_space_size = 0, DART_PHASE_ANY = 0\<rparr> 0 64 (cr_prio c) (cr_noyield c) (cr_ref c) (\<lparr>task_free_lists = \<lambda>_. [], taskpool = \<lambda>_. [], next_pool = 1, task_owner = Map.empty\<rparr>, \<lparr>tasks = \<lambda>_. \<lparr>tstate = DART_TASK_CREATED, tflags = {}, tprio = DART_PRIO_DEFAULT, tparent = None, tphase = 0,
                  num_children = 0, numa_node = None, tinstance = 0, has_wait_handle = False\<rparr>,
        links = \<lparr>tnext = Map.empty, tprev = Map.empty\<rparr>, task_queue = \<lambda>_. dart_tasking_taskqueue_init,
        deferred = dart_tasking_taskqueue_init, thread_pool = [0 \<mapsto> \<lparr>tqueue = [Some (0, 9)], next_task_slot = None, last_steal = 0, numa_id = 0, is_utility = False,
                          tdelay = 0, last_progress_ts = 0\<rparr>],
        num_threads = 1, num_numa_nodes = 1, current_task = \<lambda>_. (0, 0), root_task = (0, 0), cancel_requested = False,
        threads_running = True, respect_numa = False, num_units = 2, phase_cur = 0, phase_ntasks = \<lambda>_. 0\<rparr>) = Inr (ret, ref, Some out, P', s')"
    using e0 by (simp only: f)
  show ?thesis
    using copyin_task_submission [OF disjI1 [OF m] e] m e a by auto
qed

end
